(* ===== verification/Prelude.thy ===== *)
theory Prelude
  imports Main "HOL-Library.Sublist" "HOL-Library.Product_Lexorder"
begin

text \<open>
  The prelude of the development: the collections of rewrite rules the component proofs
  use, the arithmetic of Go's 64-bit integers, and the small theory of tables (lists of
  rows with key, uniqueness and reference conditions) on which the model of the database
  rests. Nothing here is about one component.
\<close>

named_theorems go_str \<open>rewrite rules for the Go string functions\<close>
named_theorems tbl_simps \<open>uniqueness and reference conditions of tables\<close>
named_theorems db_defs \<open>definitions of the store operations\<close>
named_theorems model_defs \<open>definitions that proofs of a component unfold\<close>

subsection \<open>Errors as values\<close>

text \<open>
  A Go call that returns \<open>(value, error)\<close> is a sum: \<open>Inl\<close> the error. The bind
  is the \<open>if err != nil { return ..., err }\<close> of the source.
\<close>

definition res_bind :: "'e + 'a \<Rightarrow> ('a \<Rightarrow> 'e + 'b) \<Rightarrow> 'e + 'b" where
  "res_bind r f = (case r of Inl e \<Rightarrow> Inl e | Inr x \<Rightarrow> f x)"

definition res_ok :: "'e + 'a \<Rightarrow> bool" where
  "res_ok r = (case r of Inl _ \<Rightarrow> False | Inr _ \<Rightarrow> True)"

definition res_or :: "'e + 'a \<Rightarrow> 'a \<Rightarrow> 'a" where
  "res_or r d = (case r of Inl _ \<Rightarrow> d | Inr x \<Rightarrow> x)"

lemma res_bind_simps [simp]:
  "res_bind (Inl e) f = Inl e"
  "res_bind (Inr x) f = f x"
  by (simp_all add: res_bind_def)

lemma res_bind_Inr_iff: "res_bind r f = Inr y \<longleftrightarrow> (\<exists>x. r = Inr x \<and> f x = Inr y)"
  by (cases r) auto

lemma res_ok_simps [simp]: "\<not> res_ok (Inl e)" "res_ok (Inr x)"
  by (simp_all add: res_ok_def)

lemma res_or_simps [simp]: "res_or (Inl e) d = d" "res_or (Inr x) d = x"
  by (simp_all add: res_or_def)

subsection \<open>64-bit integers and time\<close>

text \<open>
  Go's \<open>int\<close> and \<open>int64\<close> are modelled as \<open>int\<close>, with the wrap-around of
  two's complement written out by \<open>wrap64\<close> where a product or a sum can leave the
  range. An instant is a number of nanoseconds, as a \<open>time.Duration\<close> is.
\<close>

type_synonym time = int

definition wrap64 :: "int \<Rightarrow> int" where
  "wrap64 x = (x + 2 ^ 63) mod 2 ^ 64 - 2 ^ 63"

definition int64_range :: "int \<Rightarrow> bool" where
  "int64_range x = (- (2 ^ 63) \<le> x \<and> x < 2 ^ 63)"

definition Second :: int where "Second = 1000000000"
definition Minute :: int where "Minute = 60 * Second"
definition Hour :: int where "Hour = 60 * Minute"

lemma wrap64_id: "int64_range x \<Longrightarrow> wrap64 x = x"
  by (simp add: wrap64_def int64_range_def)

lemma wrap64_range: "int64_range (wrap64 x)"
proof -
  have "0 \<le> (x + 2 ^ 63) mod 2 ^ 64" and "(x + 2 ^ 63) mod 2 ^ 64 < (2 ^ 64 :: int)"
    by simp_all
  then show ?thesis by (simp add: wrap64_def int64_range_def)
qed

lemma Hour_pos: "0 < Hour"
  by (simp add: Hour_def Minute_def Second_def)

subsection \<open>Tables\<close>

text \<open>
  A table is the list of its rows in insertion order. \<open>uniq f t\<close> is a UNIQUE
  constraint on the columns \<open>f\<close>; \<open>refs f t g u\<close> is a foreign key: the columns
  \<open>f\<close> of every row of \<open>t\<close> occur as the columns \<open>g\<close> of a row of \<open>u\<close>;
  \<open>upd P g t\<close> is \<open>UPDATE t SET g WHERE P\<close>.
\<close>

definition uniq :: "('r \<Rightarrow> 'k) \<Rightarrow> 'r list \<Rightarrow> bool" where
  "uniq f t = distinct (map f t)"

definition refs :: "('r \<Rightarrow> 'k) \<Rightarrow> 'r list \<Rightarrow> ('s \<Rightarrow> 'k) \<Rightarrow> 's list \<Rightarrow> bool" where
  "refs f t g u = list_all (\<lambda>k. k \<in> set (map g u)) (map f t)"

definition orefs :: "('r \<Rightarrow> 'k option) \<Rightarrow> 'r list \<Rightarrow> ('s \<Rightarrow> 'k) \<Rightarrow> 's list \<Rightarrow> bool" where
  "orefs f t g u =
     list_all (\<lambda>c. case c of None \<Rightarrow> True | Some k \<Rightarrow> k \<in> set (map g u)) (map f t)"

definition below :: "('r \<Rightarrow> int) \<Rightarrow> 'r list \<Rightarrow> int \<Rightarrow> bool" where
  "below f t n = list_all (\<lambda>k. k < n) (map f t)"

definition upd :: "('r \<Rightarrow> bool) \<Rightarrow> ('r \<Rightarrow> 'r) \<Rightarrow> 'r list \<Rightarrow> 'r list" where
  "upd P g t = map (\<lambda>r. if P r then g r else r) t"

definition rows_affected :: "('r \<Rightarrow> bool) \<Rightarrow> 'r list \<Rightarrow> nat" where
  "rows_affected P t = length (filter P t)"

definition has_key :: "('r \<Rightarrow> 'k) \<Rightarrow> 'k \<Rightarrow> 'r list \<Rightarrow> bool" where
  "has_key f k t = list_ex (\<lambda>r. f r = k) t"

lemma has_key_iff: "has_key f k t \<longleftrightarrow> k \<in> f ` set t"
  by (auto simp: has_key_def list_ex_iff)

lemma has_key_simps [simp]:
  "has_key f k [] \<longleftrightarrow> False"
  "has_key f k (r # t) \<longleftrightarrow> f r = k \<or> has_key f k t"
  "has_key f k (t @ u) \<longleftrightarrow> has_key f k t \<or> has_key f k u"
  by (auto simp: has_key_def)

lemma uniq_Nil [tbl_simps]: "uniq f []"
  by (simp add: uniq_def)

lemma uniq_snoc [tbl_simps]: "uniq f (t @ [r]) \<longleftrightarrow> uniq f t \<and> \<not> has_key f (f r) t"
  by (auto simp: uniq_def has_key_iff)

lemma uniq_filter [tbl_simps]: "uniq f t \<Longrightarrow> uniq f (filter P t)"
  by (simp add: uniq_def distinct_map_filter)

lemma map_upd_key: "(\<And>r. f (g r) = f r) \<Longrightarrow> map f (upd P g t) = map f t"
  by (simp add: upd_def)

lemma uniq_upd: "(\<And>r. f (g r) = f r) \<Longrightarrow> uniq f (upd P g t) \<longleftrightarrow> uniq f t"
  by (simp add: uniq_def map_upd_key)

lemma image_upd: "(\<And>r. f (g r) = f r) \<Longrightarrow> f ` set (upd P g t) = f ` set t"
  by (metis list.set_map map_upd_key)

lemma refs_iff: "refs f t g u \<longleftrightarrow> (\<forall>r \<in> set t. f r \<in> g ` set u)"
  by (simp add: refs_def list_all_iff)

lemma refs_Nil [tbl_simps]: "refs f [] g u"
  by (simp add: refs_def)

lemma refs_snoc [tbl_simps]: "refs f (t @ [r]) g u \<longleftrightarrow> refs f t g u \<and> has_key g (f r) u"
  by (auto simp: refs_def has_key_iff)

lemma refs_filter [tbl_simps]: "refs f t g u \<Longrightarrow> refs f (filter P t) g u"
  by (simp add: refs_iff)

lemma refs_target_snoc [tbl_simps]: "refs f t g u \<Longrightarrow> refs f t g (u @ [s])"
  by (auto simp: refs_iff)

lemma refs_upd: "(\<And>r. f (h r) = f r) \<Longrightarrow> refs f (upd P h t) g u \<longleftrightarrow> refs f t g u"
  by (simp add: refs_def map_upd_key del: list.set_map)

lemma refs_target_upd: "(\<And>s. g (h s) = g s) \<Longrightarrow> refs f t g (upd P h u) \<longleftrightarrow> refs f t g u"
  by (simp add: refs_def map_upd_key del: list.set_map)

text \<open>\<open>ON DELETE CASCADE\<close>: the rows that refer to a deleted row are deleted with it.\<close>

lemma refs_cascade:
  "refs f t g u \<Longrightarrow> (\<And>r s. r \<in> set t \<Longrightarrow> P r \<Longrightarrow> s \<in> set u \<Longrightarrow> g s = f r \<Longrightarrow> Q s) \<Longrightarrow>
   refs f (filter P t) g (filter Q u)"
  by (force simp: refs_iff)

lemma orefs_iff: "orefs f t g u \<longleftrightarrow> (\<forall>r \<in> set t. \<forall>k. f r = Some k \<longrightarrow> k \<in> g ` set u)"
  by (auto simp: orefs_def list_all_iff split: option.splits)

lemma orefs_Nil [tbl_simps]: "orefs f [] g u"
  by (simp add: orefs_def)

lemma orefs_snoc [tbl_simps]:
  "orefs f (t @ [r]) g u \<longleftrightarrow> orefs f t g u \<and> (\<forall>k. f r = Some k \<longrightarrow> has_key g k u)"
  by (auto simp: orefs_iff has_key_iff)

lemma orefs_filter [tbl_simps]: "orefs f t g u \<Longrightarrow> orefs f (filter P t) g u"
  unfolding orefs_iff by auto

lemma orefs_target_snoc [tbl_simps]: "orefs f t g u \<Longrightarrow> orefs f t g (u @ [s])"
  unfolding orefs_iff by auto

lemma orefs_upd: "(\<And>r. f (h r) = f r) \<Longrightarrow> orefs f (upd P h t) g u \<longleftrightarrow> orefs f t g u"
  by (simp add: orefs_def map_upd_key del: list.set_map)

lemma orefs_target_upd: "(\<And>s. g (h s) = g s) \<Longrightarrow> orefs f t g (upd P h u) \<longleftrightarrow> orefs f t g u"
  by (simp add: orefs_iff image_upd)

text \<open>\<open>ON DELETE SET NULL\<close>: the column of the rows that refer to a deleted row is cleared.\<close>

lemma orefs_set_null:
  "orefs f t g u \<Longrightarrow> (\<And>r. P r \<Longrightarrow> f (h r) = None) \<Longrightarrow>
   (\<And>r k s. r \<in> set t \<Longrightarrow> \<not> P r \<Longrightarrow> f r = Some k \<Longrightarrow> s \<in> set u \<Longrightarrow> g s = k \<Longrightarrow> Q s) \<Longrightarrow>
   orefs f (upd P h t) g (filter Q u)"
  unfolding orefs_iff upd_def by (force split: if_splits)

lemma below_iff: "below f t n \<longleftrightarrow> (\<forall>r \<in> set t. f r < n)"
  by (simp add: below_def list_all_iff)

lemma below_Nil [tbl_simps]: "below f [] n"
  by (simp add: below_def)

lemma below_snoc [tbl_simps]: "below f t n \<Longrightarrow> f r = n \<Longrightarrow> below f (t @ [r]) (n + 1)"
  by (force simp: below_iff)

lemma below_filter [tbl_simps]: "below f t n \<Longrightarrow> below f (filter P t) n"
  by (simp add: below_iff)

lemma below_upd: "(\<And>r. f (h r) = f r) \<Longrightarrow> below f (upd P h t) n \<longleftrightarrow> below f t n"
  by (simp add: below_def map_upd_key)

lemma below_fresh: "below f t n \<Longrightarrow> \<not> has_key f n t"
  by (auto simp: below_iff has_key_iff)

lemma rows_affected_pos: "0 < rows_affected P t \<longleftrightarrow> (\<exists>r \<in> set t. P r)"
  by (auto simp: rows_affected_def filter_empty_conv)

lemma set_upd: "set (upd P g t) = (\<lambda>r. if P r then g r else r) ` set t"
  by (simp add: upd_def)

lemma length_upd [simp]: "length (upd P g t) = length t"
  by (simp add: upd_def)

lemma filter_upd_other:
  assumes "\<And>r. P r \<Longrightarrow> \<not> Q r" and "\<And>r. P r \<Longrightarrow> \<not> Q (g r)"
  shows "filter Q (upd P g t) = filter Q t"
  using assms by (induction t) (auto simp: upd_def)

subsection \<open>Lookups\<close>

lemma find_Some_mem: "find P xs = Some x \<Longrightarrow> x \<in> set xs \<and> P x"
  by (auto simp: find_Some_iff)

lemma find_uniq:
  assumes "uniq f t" and "r \<in> set t"
  shows "find (\<lambda>x. f x = f r) t = Some r"
  using assms by (induction t) (auto simp: uniq_def)

lemma filter_uniq_length: "uniq f t \<Longrightarrow> length (filter (\<lambda>r. f r = k) t) \<le> 1"
proof (induction t)
  case (Cons a t)
  show ?case
  proof (cases "f a = k")
    case True
    with Cons.prems have "filter (\<lambda>r. f r = k) t = []"
      by (auto simp: uniq_def filter_empty_conv image_iff)
    then show ?thesis by simp
  next
    case False
    with Cons show ?thesis by (simp add: uniq_def)
  qed
qed simp

end
