(* ===== verification/GoStrings.thy ===== *)
theory GoStrings
  imports Prelude
begin

text \<open>
  The functions of Go's packages \<^verbatim>\<open>strings\<close>, \<^verbatim>\<open>strconv\<close> and \<^verbatim>\<open>unicode/utf8\<close> that the program calls.
  A Go string is a sequence of bytes, as a \<open>string\<close> here is (a \<open>char\<close> is one byte).
  Where Go consults its Unicode tables only when the text is not ASCII (case mapping and
  white space), the ASCII path is written out and the other one is a field of the record
  \<open>unicode\<close>, which every definition that needs it takes as its argument \<open>U\<close>.
\<close>

abbreviation byte :: "char \<Rightarrow> nat" where "byte c \<equiv> of_char c"

definition is_ascii :: "string \<Rightarrow> bool" where
  "is_ascii s = list_all (\<lambda>c. byte c < 128) s"

definition lower_byte :: "char \<Rightarrow> char" where
  "lower_byte c = (if 65 \<le> byte c \<and> byte c \<le> 90 then char_of (byte c + 32) else c)"

definition is_space :: "char \<Rightarrow> bool" where
  "is_space c = (byte c = 32 \<or> (9 \<le> byte c \<and> byte c \<le> 13))"

record unicode =
  uni_ToLower :: "string \<Rightarrow> string"
  uni_TrimSpace :: "string \<Rightarrow> string"
  uni_Fields :: "string \<Rightarrow> string list"
  uni_EqualFold :: "string \<Rightarrow> string \<Rightarrow> bool"

subsection \<open>Prefixes, suffixes, search\<close>

definition ToLower :: "unicode \<Rightarrow> string \<Rightarrow> string" where
  "ToLower U s = (if is_ascii s then map lower_byte s else uni_ToLower U s)"

definition EqualFold :: "unicode \<Rightarrow> string \<Rightarrow> string \<Rightarrow> bool" where
  "EqualFold U s t = (if is_ascii s \<and> is_ascii t then map lower_byte s = map lower_byte t
     else uni_EqualFold U s t)"

definition HasPrefix :: "string \<Rightarrow> string \<Rightarrow> bool" where
  "HasPrefix s p = (take (length p) s = p)"

definition HasSuffix :: "string \<Rightarrow> string \<Rightarrow> bool" where
  "HasSuffix s p = (length p \<le> length s \<and> drop (length s - length p) s = p)"

fun Index :: "string \<Rightarrow> string \<Rightarrow> nat option" where
  "Index [] sub = (if sub = [] then Some 0 else None)"
| "Index (c # s) sub = (if HasPrefix (c # s) sub then Some 0 else map_option Suc (Index s sub))"

definition Contains :: "string \<Rightarrow> string \<Rightarrow> bool" where
  "Contains s sub = (Index s sub \<noteq> None)"

definition TrimPrefix :: "string \<Rightarrow> string \<Rightarrow> string" where
  "TrimPrefix s p = (if HasPrefix s p then drop (length p) s else s)"

definition TrimSuffix :: "string \<Rightarrow> string \<Rightarrow> string" where
  "TrimSuffix s p = (if HasSuffix s p then take (length s - length p) s else s)"

lemma HasPrefix_iff: "HasPrefix s p \<longleftrightarrow> (\<exists>t. s = p @ t)"
  by (metis HasPrefix_def append_eq_conv_conj)

lemma HasPrefix_append [simp, go_str]: "HasPrefix (p @ s) p"
  by (simp add: HasPrefix_iff)

lemma HasPrefix_Nil [simp, go_str]: "HasPrefix s []"
  by (simp add: HasPrefix_def)

lemma HasPrefix_Cons [go_str]: "HasPrefix (c # s) (d # p) \<longleftrightarrow> c = d \<and> HasPrefix s p"
  by (simp add: HasPrefix_def)

lemma HasPrefix_Nil_left [go_str]: "HasPrefix [] p \<longleftrightarrow> p = []"
  by (auto simp: HasPrefix_def)

lemma HasSuffix_iff: "HasSuffix s p \<longleftrightarrow> (\<exists>t. s = t @ p)"
  by (metis HasSuffix_def append_eq_conv_conj append_take_drop_id diff_diff_cancel length_append
      length_drop le_add2 add_diff_cancel_right')

lemma TrimPrefix_append [simp, go_str]: "TrimPrefix (p @ s) p = s"
  by (simp add: TrimPrefix_def)

lemma Index_Some: "Index s sub = Some i \<Longrightarrow> \<exists>b. s = take i s @ sub @ b \<and> i \<le> length s"
proof (induction s arbitrary: i)
  case Nil
  then show ?case by (auto split: if_splits)
next
  case (Cons c s)
  show ?case
  proof (cases "HasPrefix (c # s) sub")
    case True
    then obtain t where t: "c # s = sub @ t" by (auto simp: HasPrefix_iff)
    from True Cons.prems have "i = 0" by simp
    with t show ?thesis by simp
  next
    case False
    with Cons.prems obtain j where "i = Suc j" "Index s sub = Some j" by auto
    with Cons.IH show ?thesis by fastforce
  qed
qed

lemma Index_append: "Index (a @ sub @ b) sub \<noteq> None"
proof (induction a)
  case Nil
  have "HasPrefix (sub @ b) sub" by simp
  then show ?case by (cases "sub @ b") auto
qed simp

lemma Contains_iff: "Contains s sub \<longleftrightarrow> (\<exists>a b. s = a @ sub @ b)"
proof
  assume "Contains s sub"
  then obtain i where "Index s sub = Some i" by (auto simp: Contains_def)
  with Index_Some show "\<exists>a b. s = a @ sub @ b" by blast
next
  assume "\<exists>a b. s = a @ sub @ b"
  then show "Contains s sub" using Index_append by (auto simp: Contains_def)
qed

lemma Contains_appendI [intro]: "Contains t sub \<Longrightarrow> Contains (a @ t @ b) sub"
  unfolding Contains_iff by (metis append.assoc)

lemma Contains_self [simp]: "Contains s s"
  unfolding Contains_iff by (metis append.right_neutral append_Nil)

lemma Contains_append1: "Contains s sub \<Longrightarrow> Contains (s @ t) sub"
  using Contains_appendI [of s sub "[]" t] by simp

lemma Contains_append2: "Contains t sub \<Longrightarrow> Contains (s @ t) sub"
  using Contains_appendI [of t sub s "[]"] by simp

subsection \<open>Splitting, joining, replacing\<close>

text \<open>\<open>strings.Split\<close> and \<open>strings.SplitN(s, sep, 2)\<close> for a separator of one byte.\<close>

fun Split :: "string \<Rightarrow> char \<Rightarrow> string list" where
  "Split [] d = [[]]"
| "Split (c # s) d =
     (if c = d then [] # Split s d
      else (case Split s d of [] \<Rightarrow> [[c]] | w # ws \<Rightarrow> (c # w) # ws))"

definition SplitN2 :: "string \<Rightarrow> char \<Rightarrow> string list" where
  "SplitN2 s d = (if d \<in> set s then [takeWhile (\<lambda>c. c \<noteq> d) s, tl (dropWhile (\<lambda>c. c \<noteq> d) s)] else [s])"

fun Join :: "string list \<Rightarrow> string \<Rightarrow> string" where
  "Join [] sep = []"
| "Join [w] sep = w"
| "Join (w # v # ws) sep = w @ sep @ Join (v # ws) sep"

lemma Split_neq_Nil [simp]: "Split s d \<noteq> []"
  by (induction s) (auto split: list.splits)

lemma Join_Split: "Join (Split s d) [d] = s"
proof (induction s)
  case (Cons c s)
  obtain w ws where sp: "Split s d = w # ws"
    using Split_neq_Nil [of s d] by (cases "Split s d") auto
  with Cons.IH show ?case
    by (cases ws) auto
qed simp

text \<open>\<open>strings.ReplaceAll\<close> with a non-empty pattern: left to right, without overlap.\<close>

function ReplaceAll :: "string \<Rightarrow> string \<Rightarrow> string \<Rightarrow> string" where
  "ReplaceAll s old new =
     (if s = [] \<or> old = [] then s
      else if HasPrefix s old then new @ ReplaceAll (drop (length old) s) old new
      else hd s # ReplaceAll (tl s) old new)"
  by pat_completeness auto
termination
  by (relation "measure (\<lambda>(s, old, new). length s)") (auto simp: diff_less)

declare ReplaceAll.simps [simp del]

lemma ReplaceAll_Nil [simp]: "ReplaceAll [] old new = []"
  by (simp add: ReplaceAll.simps)

lemma ReplaceAll_absent: "\<not> Contains s old \<Longrightarrow> ReplaceAll s old new = s"
proof (induction s)
  case (Cons c s)
  from Cons.prems have np: "\<not> HasPrefix (c # s) old"
    by (auto simp: Contains_def)
  from Cons.prems have "\<not> Contains s old"
    using Contains_append2 [of s old "[c]"] by auto
  with Cons.IH np show ?case
    by (simp add: ReplaceAll.simps [of "c # s"])
qed simp

subsection \<open>Trimming\<close>

definition trim_by :: "(char \<Rightarrow> bool) \<Rightarrow> string \<Rightarrow> string" where
  "trim_by P s = rev (dropWhile P (rev (dropWhile P s)))"

text \<open>\<open>strings.Trim\<close> with an ASCII cutset works on bytes.\<close>

definition Trim :: "string \<Rightarrow> string \<Rightarrow> string" where
  "Trim s cutset = trim_by (\<lambda>c. c \<in> set cutset) s"

definition TrimRight :: "string \<Rightarrow> string \<Rightarrow> string" where
  "TrimRight s cutset = rev (dropWhile (\<lambda>c. c \<in> set cutset) (rev s))"

definition TrimSpace :: "unicode \<Rightarrow> string \<Rightarrow> string" where
  "TrimSpace U s = (if is_ascii s then trim_by is_space s else uni_TrimSpace U s)"

fun fields_by :: "(char \<Rightarrow> bool) \<Rightarrow> string \<Rightarrow> string \<Rightarrow> string list" where
  "fields_by P [] w = (if w = [] then [] else [rev w])"
| "fields_by P (c # s) w =
     (if P c then (if w = [] then fields_by P s [] else rev w # fields_by P s [])
      else fields_by P s (c # w))"

definition Fields :: "unicode \<Rightarrow> string \<Rightarrow> string list" where
  "Fields U s = (if is_ascii s then fields_by is_space s [] else uni_Fields U s)"

lemma trim_by_idem: "trim_by P (trim_by P s) = trim_by P s"
proof -
  have hd_ok: "dropWhile P (rev (dropWhile P (rev t))) = rev (dropWhile P (rev t))"
    if "dropWhile P t = t" for t
  proof (cases "rev (dropWhile P (rev t))")
    case (Cons a u)
    obtain p where "rev (dropWhile P (rev t)) @ p = t"
      by (metis append_Nil2 rev_append rev_rev_ident takeWhile_dropWhile_id)
    with Cons have "hd t = a" and "t \<noteq> []" by auto
    with that have "\<not> P a" by (metis hd_dropWhile)
    with Cons show ?thesis by simp
  next
    case Nil
    then show ?thesis by (simp only: dropWhile.simps)
  qed
  let ?t = "dropWhile P s"
  have "dropWhile P ?t = ?t" by (simp add: dropWhile_idem)
  then show ?thesis
    using hd_ok [of ?t] by (simp add: trim_by_def dropWhile_idem)
qed

lemma fields_by_no_sep:
  "list_all (\<lambda>c. \<not> P c) w \<Longrightarrow>
   list_all (\<lambda>x. x \<noteq> [] \<and> list_all (\<lambda>c. \<not> P c) x) (fields_by P s w)"
proof (induction s arbitrary: w)
  case (Cons c s)
  then show ?case
    using Cons.IH [of "[]"] Cons.IH [of "c # w"] by simp
qed simp

subsection \<open>Decimal numbers\<close>

text \<open>\<open>strconv.FormatInt(n, 10)\<close>, which is also the verb \<open>%d\<close> of \<open>fmt\<close>.\<close>

definition digit_char :: "nat \<Rightarrow> char" where
  "digit_char d = char_of (48 + d)"

fun nat_digits :: "nat \<Rightarrow> string" where
  "nat_digits n = (if n < 10 then [digit_char n] else nat_digits (n div 10) @ [digit_char (n mod 10)])"

declare nat_digits.simps [simp del]

definition FormatInt :: "int \<Rightarrow> string" where
  "FormatInt n = (if n < 0 then CHR ''-'' # nat_digits (nat (- n)) else nat_digits (nat n))"

definition is_digit :: "char \<Rightarrow> bool" where
  "is_digit c = (48 \<le> byte c \<and> byte c \<le> 57)"

fun digits_val :: "string \<Rightarrow> nat \<Rightarrow> nat" where
  "digits_val [] acc = acc"
| "digits_val (c # s) acc = digits_val s (10 * acc + (byte c - 48))"

text \<open>
  \<open>strconv.Atoi\<close>: an optional sign, then at least one decimal digit and nothing else;
  a value outside the range of a 64-bit \<open>int\<close> is an error as well.
\<close>

definition Atoi :: "string \<Rightarrow> int option" where
  "Atoi s =
     (let neg = HasPrefix s ''-'';
          ds = (if neg \<or> HasPrefix s ''+'' then tl s else s);
          v = int (digits_val ds 0);
          n = (if neg then - v else v)
      in if ds \<noteq> [] \<and> list_all is_digit ds \<and> int64_range n then Some n else None)"

lemma byte_digit_char: "d < 10 \<Longrightarrow> byte (digit_char d) = 48 + d"
  by (simp add: digit_char_def)

lemma is_digit_digit_char: "d < 10 \<Longrightarrow> is_digit (digit_char d)"
  by (simp add: is_digit_def byte_digit_char)

lemma nat_digits_neq_Nil [simp]: "nat_digits n \<noteq> []"
  by (subst nat_digits.simps) simp

lemma nat_digits_all: "list_all is_digit (nat_digits n)"
proof (induction n rule: nat_digits.induct)
  case (1 n)
  then show ?case
    by (cases "n < 10") (auto simp: nat_digits.simps [of n] is_digit_digit_char)
qed

lemma digits_val_append: "digits_val (s @ t) acc = digits_val t (digits_val s acc)"
  by (induction s arbitrary: acc) auto

lemma digits_val_nat_digits: "digits_val (nat_digits n) 0 = n"
proof (induction n rule: nat_digits.induct)
  case (1 n)
  show ?case
  proof (cases "n < 10")
    case True
    then show ?thesis by (simp add: nat_digits.simps [of n] byte_digit_char)
  next
    case False
    with 1 show ?thesis
      by (simp add: nat_digits.simps [of n] digits_val_append byte_digit_char)
  qed
qed

lemma nat_digits_head: "\<not> HasPrefix (nat_digits n) ''-''" "\<not> HasPrefix (nat_digits n) ''+''"
proof -
  obtain c s where cs: "nat_digits n = c # s" by (cases "nat_digits n") auto
  then have "is_digit c" using nat_digits_all [of n] by simp
  with cs show "\<not> HasPrefix (nat_digits n) ''-''" "\<not> HasPrefix (nat_digits n) ''+''"
    by (auto simp: HasPrefix_Cons is_digit_def)
qed

lemma Atoi_FormatInt: "int64_range n \<Longrightarrow> Atoi (FormatInt n) = Some n"
  by (auto simp: Atoi_def FormatInt_def nat_digits_head nat_digits_all digits_val_nat_digits
      HasPrefix_Cons Let_def)

lemma nat_digits_inject: "nat_digits m = nat_digits n \<longleftrightarrow> m = n"
  by (metis digits_val_nat_digits)

lemma nat_digits_not_minus: "nat_digits m \<noteq> CHR ''-'' # s"
  using nat_digits_head(1) [of m] by (auto simp: HasPrefix_def)

lemma FormatInt_inject: "FormatInt m = FormatInt n \<longleftrightarrow> m = n"
  by (auto simp: FormatInt_def nat_digits_inject nat_digits_not_minus nat_digits_not_minus [symmetric])

lemma FormatInt_no_colon: "CHR '':'' \<notin> set (FormatInt n)"
proof -
  have "CHR '':'' \<notin> set (nat_digits m)" for m
    using nat_digits_all [of m] by (auto simp: list_all_iff is_digit_def)
  then show ?thesis by (auto simp: FormatInt_def)
qed

end
