(* ===== verification/Models.thy ===== *)
theory Models
  imports Complex_Main GoStrings
begin

text \<open>
  The data the services share: the structs of \<^verbatim>\<open>internal/models\<close>, with the columns
  of the database tables that have no field in the structs, and the events of
  \<^verbatim>\<open>internal/nats\<close>. A field keeps its name behind a prefix that names its struct. An
  \<open>int64\<close> is an \<open>int\<close>, a \<open>*T\<close> that may be nil is an option, a
  \<open>float64\<close> is a rational number (every finite value of the type is one).
\<close>

type_synonym uid = nat

record tenant =
  t_ID :: int
  t_Name :: string
  t_Slug :: string
  t_APIKey :: string
  t_UserID :: "int option"
  t_CreatedAt :: time
  t_UpdatedAt :: time

record account =
  a_ID :: int
  a_TenantID :: int
  a_Name :: string
  a_Email :: string
  a_Provider :: string
  a_IMAPHost :: string
  a_IMAPPort :: int
  a_IMAPTLS :: bool
  a_Username :: string
  a_Password :: string
  a_OAuthToken :: string
  a_OAuthRefreshToken :: string
  a_OAuthTokenExpiry :: "time option"
  a_OAuthProvider :: string
  a_Active :: bool
  a_ExemptFolders :: "string list"
  a_LastSyncAt :: "time option"
  a_LastConnectionTestAt :: "time option"
  a_LastConnectionStatus :: string
  a_LastConnectionError :: string
  a_LastUIDProcessed :: nat
  a_CreatedAt :: time
  a_UpdatedAt :: time

record rule =
  r_ID :: int
  r_TenantID :: int
  r_Name :: string
  r_Description :: string
  r_LuaCode :: string
  r_Priority :: int
  r_Active :: bool
  r_Source :: string
  r_Approved :: bool
  r_UsesAI :: bool
  r_CreatedAt :: time
  r_UpdatedAt :: time

record exec_log =
  l_ID :: int
  l_RuleID :: int
  l_AccountID :: int
  l_MessageID :: string
  l_Subject :: string
  l_Sender :: string
  l_Action :: string
  l_Target :: string
  l_Success :: bool
  l_Error :: string
  l_ExecutedAt :: time

record deferred_action =
  d_ID :: int
  d_RuleID :: int
  d_AccountID :: int
  d_MessageID :: string
  d_Action :: string
  d_Target :: string
  d_ExecuteAt :: time
  d_Executed :: bool
  d_Status :: string
  d_ExecutedAt :: "time option"
  d_Error :: string
  d_CreatedAt :: time

record image_attachment =
  i_Filename :: string
  i_MediaType :: string
  i_Data :: string

record email_context =
  e_MessageID :: string
  e_Subject :: string
  e_SenderName :: string
  e_SenderAddress :: string
  e_Recipients :: "string list"
  e_Date :: time
  e_AgeSeconds :: rat
  e_BodyPreview :: string
  e_HasAttachments :: bool
  e_AttachmentNames :: "string list"
  e_AttachmentTypes :: "string list"
  e_Headers :: "string \<rightharpoonup> string"
  e_Folder :: string
  e_AccountID :: int
  e_OCRText :: string
  e_HasImages :: bool
  e_ImageAttachments :: "image_attachment list"

record rule_result =
  rr_Action :: string
  rr_Target :: string
  rr_Delay :: int
  rr_Reason :: string

record message_location =
  ml_AccountID :: int
  ml_MessageUID :: string
  ml_Folder :: string
  ml_MessageID :: string
  ml_Sender :: string
  ml_Subject :: string
  ml_SeenAt :: time

record metadata_record =
  md_ID :: int
  md_TenantID :: int
  md_MessageID :: string
  md_Key :: string
  md_Value :: string
  md_CreatedAt :: time
  md_UpdatedAt :: time

record detected_move =
  dm_ID :: int
  dm_AccountID :: int
  dm_MessageUID :: string
  dm_MessageID :: string
  dm_Sender :: string
  dm_Subject :: string
  dm_FromFolder :: string
  dm_ToFolder :: string
  dm_DetectedAt :: time
  dm_RuleID :: "int option"

text \<open>Rows of \<^verbatim>\<open>processed_messages\<close> and \<^verbatim>\<open>rule_applied_moves\<close>, which have no struct.\<close>

record processed_message =
  p_AccountID :: int
  p_MessageUID :: string
  p_RuleID :: "int option"
  p_Action :: string
  p_ProcessedAt :: time

record applied_move =
  am_ID :: int
  am_RuleID :: int
  am_MessageID :: string
  am_AccountID :: int
  am_Folder :: string
  am_CreatedAt :: time

record user =
  u_ID :: int
  u_Username :: string
  u_PasswordHash :: string
  u_TOTPSecret :: "string option"
  u_TOTPEnabled :: bool
  u_AIEnabled :: bool
  u_Role :: string
  u_CreatedAt :: time
  u_UpdatedAt :: time

record passkey =
  pk_ID :: int
  pk_UserID :: int
  pk_CredentialID :: string
  pk_PublicKey :: string
  pk_SignCount :: nat
  pk_Transports :: "string list"
  pk_BackupEligible :: bool
  pk_BackupState :: bool
  pk_Name :: string
  pk_CreatedAt :: time
  pk_LastUsedAt :: "time option"

record api_key =
  k_ID :: int
  k_UserID :: int
  k_KeyHash :: string
  k_Name :: string
  k_Prefix :: string
  k_CreatedAt :: time
  k_LastUsedAt :: "time option"

record login_attempt =
  at_ID :: int
  at_Username :: string
  at_IPAddress :: string
  at_Success :: bool
  at_AttemptedAt :: time

record blacklisted_token =
  b_TokenHash :: string
  b_ExpiresAt :: time

definition IsAdmin :: "user \<Rightarrow> bool" where
  "IsAdmin u = (u_Role u = ''admin'')"

subsection \<open>Events\<close>

record incoming_event =
  ev_AccountID :: int
  ev_TenantID :: int
  ev_MessageID :: string
  ev_UID :: uid
  ev_Subject :: string
  ev_Sender :: string
  ev_SenderName :: string
  ev_Recipients :: "string list"
  ev_Date :: time
  ev_AgeSeconds :: rat
  ev_BodyPreview :: string
  ev_Folder :: string
  ev_Headers :: "string \<rightharpoonup> string"
  ev_HasAttachments :: bool
  ev_AttachmentNames :: "string list"
  ev_AttachmentTypes :: "string list"
  ev_HasImages :: bool
  ev_ImageAttachments :: "image_attachment list"

record result_event =
  re_AccountID :: int
  re_TenantID :: int
  re_MessageID :: string
  re_UID :: uid
  re_RuleID :: int
  re_RuleName :: string
  re_Action :: string
  re_Target :: string
  re_Reason :: string
  re_Subject :: string
  re_Sender :: string
  re_Success :: bool
  re_Error :: string

record deferred_event =
  de_ActionID :: int
  de_AccountID :: int
  de_TenantID :: int
  de_MessageID :: string
  de_UID :: uid
  de_Action :: string
  de_Target :: string
  de_Delay :: int

end
