(* ===== verification/Kiro.thy ===== *)
theory Kiro
  imports Models "HOL-Library.AList"
begin

text \<open>
  \<^verbatim>\<open>internal/engine/kiro.go\<close>: the client of the AI service, its bounded cache with expiry,
  and the functions of the Lua table \<open>kiro\<close>. The HTTP service is the parameter
  \<open>kiro_env\<close>: the answer to a request, and Go's RFC 3339 rendering of a date (the model's
  instants have no time zone). The prompts are named rather than quoted. Every request the
  client sends is appended to \<open>kc_sent\<close>.
\<close>

subsection \<open>The cache\<close>

record kiro_entry =
  ke_result :: bool
  ke_timestamp :: time

text \<open>
  A Go map is an association list with distinct keys; its order is the iteration order, which
  decides which of several oldest entries is evicted.
\<close>

record kiro_cache =
  kca_entries :: "(string \<times> kiro_entry) list"
  kca_maxSize :: nat
  kca_ttl :: int

definition cacheKey :: "string \<Rightarrow> string \<Rightarrow> string \<Rightarrow> string" where
  "cacheKey op emailID question = op @ '':'' @ emailID @ '':'' @ question"

definition cache_get :: "time \<Rightarrow> string \<Rightarrow> kiro_cache \<Rightarrow> bool option" where
  "cache_get now key c =
     (case map_of (kca_entries c) key of
        None \<Rightarrow> None
      | Some entry \<Rightarrow> if kca_ttl c < now - ke_timestamp entry then None else Some (ke_result entry))"

text \<open>The loop that looks for the oldest entry; \<open>None\<close> is \<open>first\<close>.\<close>

fun oldest :: "(string \<times> kiro_entry) list \<Rightarrow> (string \<times> time) option \<Rightarrow> (string \<times> time) option" where
  "oldest [] acc = acc"
| "oldest ((k, v) # es) acc =
     oldest es (case acc of
                  None \<Rightarrow> Some (k, ke_timestamp v)
                | Some (ok, ot) \<Rightarrow> if ke_timestamp v < ot then Some (k, ke_timestamp v) else acc)"

definition evict :: "kiro_cache \<Rightarrow> kiro_cache" where
  "evict c =
     (if kca_maxSize c \<le> length (kca_entries c) then
        (case oldest (kca_entries c) None of
           Some (k, _) \<Rightarrow> if k \<noteq> [] then c\<lparr>kca_entries := AList.delete k (kca_entries c)\<rparr> else c
         | None \<Rightarrow> c)
      else c)"

definition cache_set :: "time \<Rightarrow> string \<Rightarrow> bool \<Rightarrow> kiro_cache \<Rightarrow> kiro_cache" where
  "cache_set now key result c =
     (let c' = evict c
      in c'\<lparr>kca_entries := AList.update key \<lparr>ke_result = result, ke_timestamp = now\<rparr> (kca_entries c')\<rparr>)"

definition cache_inv :: "kiro_cache \<Rightarrow> bool" where
  "cache_inv c \<longleftrightarrow> distinct (map fst (kca_entries c)) \<and> length (kca_entries c) \<le> kca_maxSize c
     \<and> 0 < kca_maxSize c \<and> [] \<notin> set (map fst (kca_entries c))"

subsection \<open>The client\<close>

datatype kiro_prompt = ClassifyVision | ClassifyText | ActionableText | InvoiceVision | InvoiceText

record kiro_request =
  kq_model :: string
  kq_system :: kiro_prompt
  kq_images :: "image_attachment list"
  kq_text :: string

datatype kiro_body = ReadFailed | BadJSON | Parsed "string option" "(string \<times> string) list"

datatype kiro_response = RequestFailed | Response int kiro_body

record KiroClient =
  kc_apiKey :: string
  kc_apiURL :: string
  kc_textModel :: string
  kc_visionModel :: string
  kc_cache :: kiro_cache
  kc_sent :: "kiro_request list"

record kiro_env =
  kv_api :: "kiro_request \<Rightarrow> kiro_response"
  kv_RFC3339 :: "time \<Rightarrow> string"
  kv_unicode :: unicode

datatype kiro_err = KeyNotConfigured | APIRequestFailed | RateLimited | ReadErr | StatusErr int
  | ParseErr | APIError string | NoTextContent

definition NewKiroClient :: "string \<Rightarrow> string \<Rightarrow> string \<Rightarrow> string \<Rightarrow> KiroClient" where
  "NewKiroClient apiKey apiURL textModel visionModel =
     \<lparr>kc_apiKey = apiKey,
      kc_apiURL = (if apiURL = [] then ''https://api.anthropic.com/v1/messages'' else apiURL),
      kc_textModel = (if textModel = [] then ''claude-haiku-4.5'' else textModel),
      kc_visionModel = (if visionModel = [] then ''claude-haiku-4.5'' else visionModel),
      kc_cache = \<lparr>kca_entries = [], kca_maxSize = 500, kca_ttl = 10 * Minute\<rparr>,
      kc_sent = []\<rparr>"

definition kc_Enabled :: "KiroClient \<Rightarrow> bool" where
  "kc_Enabled k = (kc_apiKey k \<noteq> [])"

fun first_text :: "(string \<times> string) list \<Rightarrow> string option" where
  "first_text [] = None"
| "first_text ((ty, tx) # bs) = (if ty = ''text'' then Some tx else first_text bs)"

definition doYesNoRequest :: "kiro_env \<Rightarrow> kiro_request \<Rightarrow> kiro_err + bool" where
  "doYesNoRequest E req =
     (case kv_api E req of
        RequestFailed \<Rightarrow> Inl APIRequestFailed
      | Response status body \<Rightarrow>
          if status = 429 then Inl RateLimited
          else if body = ReadFailed then Inl ReadErr
          else if status \<noteq> 200 then Inl (StatusErr status)
          else (case body of
                  Parsed err content \<Rightarrow>
                    (case err of
                       Some m \<Rightarrow> Inl (APIError m)
                     | None \<Rightarrow>
                         (case first_text content of
                            None \<Rightarrow> Inl NoTextContent
                          | Some t \<Rightarrow> Inr (TrimSpace (kv_unicode E) (ToLower (kv_unicode E) t) = ''yes'')))
                | _ \<Rightarrow> Inl ParseErr))"

definition askYesNo :: "kiro_env \<Rightarrow> kiro_prompt \<Rightarrow> string \<Rightarrow> KiroClient \<Rightarrow> (kiro_err + bool) \<times> KiroClient" where
  "askYesNo E p text k =
     (let req = \<lparr>kq_model = kc_textModel k, kq_system = p, kq_images = [], kq_text = text\<rparr>
      in (doYesNoRequest E req, k\<lparr>kc_sent := kc_sent k @ [req]\<rparr>))"

definition askYesNoWithImages ::
  "kiro_env \<Rightarrow> kiro_prompt \<Rightarrow> string \<Rightarrow> image_attachment list \<Rightarrow> KiroClient \<Rightarrow> (kiro_err + bool) \<times> KiroClient" where
  "askYesNoWithImages E p text images k =
     (let req = \<lparr>kq_model = kc_visionModel k, kq_system = p, kq_images = images, kq_text = text\<rparr>
      in (doYesNoRequest E req, k\<lparr>kc_sent := kc_sent k @ [req]\<rparr>))"

abbreviation nl :: string where "nl \<equiv> [CHR 10]"

definition formatEmailForKiro :: "kiro_env \<Rightarrow> email_context \<Rightarrow> string" where
  "formatEmailForKiro E m =
     ''From: '' @ e_SenderName m @ '' <'' @ e_SenderAddress m @ ''>'' @ nl
     @ ''Subject: '' @ e_Subject m @ nl
     @ ''Date: '' @ kv_RFC3339 E (e_Date m) @ nl
     @ (if e_Recipients m \<noteq> [] then ''To: '' @ Join (e_Recipients m) '', '' @ nl else [])
     @ (if e_HasAttachments m then ''Attachments: '' @ Join (e_AttachmentNames m) '', '' @ nl else [])
     @ (if e_BodyPreview m \<noteq> [] then nl @ ''Body preview:'' @ nl @ e_BodyPreview m @ nl else [])"

text \<open>
  The shape that the three questions share: look in the cache, ask the service (with the
  images when there are any), cache a successful answer.
\<close>

definition ask_cached ::
  "kiro_env \<Rightarrow> time \<Rightarrow> email_context \<Rightarrow> string \<Rightarrow> kiro_prompt \<Rightarrow> kiro_prompt option \<Rightarrow> string \<Rightarrow> KiroClient
     \<Rightarrow> (kiro_err + bool) \<times> KiroClient" where
  "ask_cached E now m key textPrompt visionPrompt text k =
     (if \<not> kc_Enabled k then (Inl KeyNotConfigured, k)
      else case cache_get now key (kc_cache k) of
        Some result \<Rightarrow> (Inr result, k)
      | None \<Rightarrow>
          (case (case visionPrompt of
                   Some p \<Rightarrow> askYesNoWithImages E p text (e_ImageAttachments m) k
                 | None \<Rightarrow> askYesNo E textPrompt text k) of
             (Inl err, k') \<Rightarrow> (Inl err, k')
           | (Inr result, k') \<Rightarrow> (Inr result, k'\<lparr>kc_cache := cache_set now key result (kc_cache k')\<rparr>)))"

definition vision :: "email_context \<Rightarrow> kiro_prompt \<Rightarrow> kiro_prompt option" where
  "vision m p = (if e_ImageAttachments m \<noteq> [] then Some p else None)"

definition classify ::
  "kiro_env \<Rightarrow> time \<Rightarrow> email_context \<Rightarrow> string \<Rightarrow> KiroClient \<Rightarrow> (kiro_err + bool) \<times> KiroClient" where
  "classify E now m question =
     ask_cached E now m
       (cacheKey (if e_ImageAttachments m \<noteq> [] then ''classify_vision'' else ''classify'')
          (e_MessageID m) question)
       ClassifyText (vision m ClassifyVision)
       (''Email:'' @ nl @ formatEmailForKiro E m @ nl @ nl @ ''Question: '' @ question)"

definition isActionable :: "kiro_env \<Rightarrow> time \<Rightarrow> email_context \<Rightarrow> KiroClient \<Rightarrow> (kiro_err + bool) \<times> KiroClient" where
  "isActionable E now m =
     ask_cached E now m (cacheKey ''is_actionable'' (e_MessageID m) []) ActionableText None
       (''Email:'' @ nl @ formatEmailForKiro E m @ nl @ nl
        @ ''Does this email require action from the recipient?'')"

definition isFakeInvoice :: "kiro_env \<Rightarrow> time \<Rightarrow> email_context \<Rightarrow> KiroClient \<Rightarrow> (kiro_err + bool) \<times> KiroClient" where
  "isFakeInvoice E now m =
     ask_cached E now m
       (cacheKey (if e_ImageAttachments m \<noteq> [] then ''is_fake_invoice_vision'' else ''is_fake_invoice'')
          (e_MessageID m) [])
       InvoiceText (vision m InvoiceVision)
       (''Email:'' @ nl @ formatEmailForKiro E m
        @ (if e_OCRText m \<noteq> [] then nl @ ''OCR text extracted from image attachments:'' @ nl
             @ e_OCRText m @ nl else [])
        @ nl @ nl @ ''Does this appear to be a fake, fraudulent, or suspicious invoice?'')"

datatype kiro_query = Classify string | IsActionable | IsFakeInvoice

text \<open>
  The functions of the table \<open>kiro\<close>: \<open>false\<close> without a configured client and on every error.
\<close>

definition kiro_call ::
  "kiro_env \<Rightarrow> time \<Rightarrow> email_context \<Rightarrow> kiro_query \<Rightarrow> KiroClient option \<Rightarrow> bool \<times> KiroClient option" where
  "kiro_call E now m q client =
     (case client of
        None \<Rightarrow> (False, None)
      | Some k \<Rightarrow>
          if \<not> kc_Enabled k then (False, Some k)
          else (case (case q of
                        Classify question \<Rightarrow> classify E now m question k
                      | IsActionable \<Rightarrow> isActionable E now m k
                      | IsFakeInvoice \<Rightarrow> isFakeInvoice E now m k) of
                  (r, k') \<Rightarrow> (res_or r False, Some k')))"

subsection \<open>The cache is bounded and returns what was stored\<close>

lemma oldest_mem:
  "oldest es acc = Some (k, t) \<Longrightarrow> acc = Some (k, t) \<or> k \<in> fst ` set es"
  by (induction es acc rule: oldest.induct) (auto split: option.splits if_splits)

lemma oldest_neq_None: "oldest es acc = None \<longleftrightarrow> es = [] \<and> acc = None"
  by (induction es acc rule: oldest.induct) (auto split: option.splits)

lemma delete_keys_length:
  "k \<in> set (map fst es) \<Longrightarrow> length (AList.delete k es) < length es"
  by (metis AList.delete_keys length_map length_removeAll_less)

lemma update_keys_length: "length (AList.update k v es) \<le> length es + 1"
proof -
  have "length (map fst (AList.update k v es)) \<le> length (map fst es) + 1"
    by (simp add: AList.update_keys del: length_map)
  then show ?thesis by simp
qed

lemma evict_cases:
  assumes "cache_inv c"
  obtains "length (kca_entries c) < kca_maxSize c" "evict c = c"
  | k where "k \<in> set (map fst (kca_entries c))" "evict c = c\<lparr>kca_entries := AList.delete k (kca_entries c)\<rparr>"
proof (cases "kca_maxSize c \<le> length (kca_entries c)")
  case True
  with assms have ne: "kca_entries c \<noteq> []" by (auto simp: cache_inv_def)
  then obtain k t where o: "oldest (kca_entries c) None = Some (k, t)"
    by (cases "oldest (kca_entries c) None") (auto simp: oldest_neq_None)
  from oldest_mem [OF o] have km: "k \<in> set (map fst (kca_entries c))" by simp
  have "k \<noteq> []" using km assms unfolding cache_inv_def by metis
  with True o km show thesis by (intro that(2)) (simp_all add: evict_def)
qed (auto simp: evict_def intro: that(1))

lemma evict_inv:
  assumes "cache_inv c"
  shows "cache_inv (evict c)" and "length (kca_entries (evict c)) < kca_maxSize (evict c)"
proof -
  have "cache_inv (evict c) \<and> length (kca_entries (evict c)) < kca_maxSize (evict c)"
    using assms
  proof (cases rule: evict_cases)
    case (2 k)
    have "length (AList.delete k (kca_entries c)) < length (kca_entries c)"
      using 2(1) by (rule delete_keys_length)
    with assms 2(2) show ?thesis
      by (auto simp: cache_inv_def AList.delete_keys distinct_removeAll simp del: set_map)
  qed (use assms in simp)
  then show "cache_inv (evict c)" "length (kca_entries (evict c)) < kca_maxSize (evict c)"
    by simp_all
qed

lemma cache_set_inv:
  assumes "cache_inv c" and "key \<noteq> []"
  shows "cache_inv (cache_set now key r c)"
proof -
  let ?u = "AList.update key \<lparr>ke_result = r, ke_timestamp = now\<rparr> (kca_entries (evict c))"
  note e = evict_inv [OF assms(1)]
  have "length ?u \<le> kca_maxSize (evict c)"
    using e(2) update_keys_length [of key "\<lparr>ke_result = r, ke_timestamp = now\<rparr>" "kca_entries (evict c)"]
    by linarith
  moreover have "distinct (map fst ?u)" and "[] \<notin> set (map fst ?u)"
    using e(1) assms(2) by (auto simp: cache_inv_def AList.update_keys simp del: set_map)
  ultimately show ?thesis
    using e(1) by (simp add: cache_set_def Let_def cache_inv_def)
qed

lemma cacheKey_neq_Nil [simp]: "cacheKey p i q \<noteq> []"
  by (simp add: cacheKey_def)

lemma cache_get_set: "0 \<le> kca_ttl c \<Longrightarrow> t \<le> now + kca_ttl c \<Longrightarrow> cache_get t key (cache_set now key r c) = Some r"
  by (auto simp: cache_get_def cache_set_def Let_def evict_def AList.update_conv' split: option.splits)

subsection \<open>Questions\<close>

definition client_inv :: "KiroClient \<Rightarrow> bool" where
  "client_inv k \<longleftrightarrow> cache_inv (kc_cache k) \<and> 0 \<le> kca_ttl (kc_cache k)"

lemma cache_set_ttl [simp]: "kca_ttl (cache_set now key r c) = kca_ttl c"
  by (simp add: cache_set_def Let_def evict_def split: option.splits)

lemma NewKiroClient_inv: "client_inv (NewKiroClient key url tm vm)"
  by (simp add: client_inv_def NewKiroClient_def cache_inv_def Minute_def Second_def)

lemma ask_split:
  obtains r s where "(case v of Some p \<Rightarrow> askYesNoWithImages E p t im k | None \<Rightarrow> askYesNo E q t k)
    = (r, k\<lparr>kc_sent := kc_sent k @ [s]\<rparr>)"
  by (cases v) (auto simp: askYesNoWithImages_def askYesNo_def Let_def)

lemma ask_cached_inv:
  assumes "client_inv k" and "key \<noteq> []"
  shows "client_inv (snd (ask_cached E now m key p v t k))"
proof -
  obtain r s where a: "(case v of Some q \<Rightarrow> askYesNoWithImages E q t (e_ImageAttachments m) k | None \<Rightarrow> askYesNo E p t k)
    = (r, k\<lparr>kc_sent := kc_sent k @ [s]\<rparr>)" by (rule ask_split)
  show ?thesis
    using assms by (cases r) (auto simp: ask_cached_def a client_inv_def cache_set_inv split: option.split)
qed

text \<open>An answer is remembered: asking again before it expires sends nothing.\<close>

lemma ask_cached_again:
  assumes "client_inv k" and "ask_cached E now m key p v t k = (Inr r, k')"
    and "now \<le> now'" and "now' \<le> now + kca_ttl (kc_cache k)"
    and fresh: "cache_get now key (kc_cache k) = None"
  shows "ask_cached E' now' m key p v t k' = (Inr r, k')"
proof -
  obtain x s where a: "(case v of Some q \<Rightarrow> askYesNoWithImages E q t (e_ImageAttachments m) k | None \<Rightarrow> askYesNo E p t k)
    = (x, k\<lparr>kc_sent := kc_sent k @ [s]\<rparr>)" by (rule ask_split)
  from assms(2) fresh have en: "kc_Enabled k" and x: "x = Inr r"
    and k': "k' = k\<lparr>kc_sent := kc_sent k @ [s], kc_cache := cache_set now key r (kc_cache k)\<rparr>"
    by (auto simp: ask_cached_def a split: if_splits sum.splits)
  have "cache_get now' key (kc_cache k') = Some r"
    using assms(1,4) by (simp add: k' cache_get_set client_inv_def)
  with en show ?thesis by (simp add: ask_cached_def k' kc_Enabled_def)
qed

lemma kiro_call_inv: "pred_option client_inv c \<Longrightarrow> pred_option client_inv (snd (kiro_call E now m q c))"
proof (cases c)
  case (Some k)
  assume "pred_option client_inv c"
  with Some have k: "client_inv k" by simp
  have "client_inv (snd (case q of Classify question \<Rightarrow> classify E now m question k
      | IsActionable \<Rightarrow> isActionable E now m k | IsFakeInvoice \<Rightarrow> isFakeInvoice E now m k))"
    by (cases q) (simp_all add: classify_def isActionable_def isFakeInvoice_def ask_cached_inv [OF k])
  then show ?thesis by (auto simp: kiro_call_def Some k split: prod.split)
qed (simp add: kiro_call_def)

lemma kiro_call_none [simp]: "kiro_call E now m q None = (False, None)"
  by (simp add: kiro_call_def)

end
