(* ===== verification/Engine.thy ===== *)
theory Engine
  imports Kiro
begin

text \<open>
  \<^verbatim>\<open>internal/engine/engine.go\<close>: evaluation of Lua rules. The Lua interpreter is a library:
  what a piece of rule code does is the parameter \<open>lua\<close>, a tree of its interactions with the
  engine (\<open>lua_prog\<close>). An interaction asks one of the registered helper functions and goes on
  with the answer, calls an action function, schedules a function, makes a protected call, raises
  an error, or does not end within the five seconds the engine waits (\<open>Hang\<close>). The helper and
  action functions themselves, which are Go code of the engine, are the definitions below. Rules
  that overwrite the engine's own globals (\<open>__result\<close>, \<open>email\<close> and the like) are not described
  by such a tree.
\<close>

datatype lua_val = VNil | VBool bool | VNum rat | VStr string | VList "string list"
  | VMap "string \<rightharpoonup> string"

datatype lua_query =
    Q_contains string string
  | Q_contains_any string "string list"
  | Q_matches string string
  | Q_ends_with string string
  | Q_starts_with string string
  | Q_domain_of string
  | Q_older_than rat
  | Q_older_than_hours rat
  | Q_older_than_days rat
  | Q_has_attachment_type string
  | Q_has_ics
  | Q_now_hour
  | Q_is_reply
  | Q_email string
  | Q_kiro kiro_query

datatype lua_act =
    A_skip
  | A_delete string
  | A_archive string
  | A_move string string
  | A_keep string
  | A_notify string string
  | A_defer_action string string int string
  | A_move_after string int string
  | A_delete_after int string
  | A_flag string string

datatype lua_prog =
    Done
  | Raise
  | Hang
  | Ask lua_query "lua_val \<Rightarrow> lua_prog"
  | Act lua_act lua_prog
  | Schedule int lua_prog lua_prog
  | Pcall lua_prog "bool \<Rightarrow> lua_prog"

text \<open>\<open>lua code\<close> is \<open>None\<close> when the code does not parse.\<close>

type_synonym lua_interp = "string \<Rightarrow> lua_prog option"

subsection \<open>Helper functions\<close>

definition contains_any :: "unicode \<Rightarrow> string \<Rightarrow> string list \<Rightarrow> bool" where
  "contains_any U haystack needles =
     list_ex (\<lambda>n. Contains (ToLower U haystack) (ToLower U n)) needles"

definition domain_of :: "unicode \<Rightarrow> string \<Rightarrow> string" where
  "domain_of U addr =
     (case SplitN2 addr (CHR ''@'') of
        [a, b] \<Rightarrow> ToLower U b
      | _ \<Rightarrow> ToLower U addr)"

definition older_than :: "email_context \<Rightarrow> rat \<Rightarrow> bool" where
  "older_than m seconds = (seconds < e_AgeSeconds m)"

definition has_attachment_type :: "unicode \<Rightarrow> email_context \<Rightarrow> string \<Rightarrow> bool" where
  "has_attachment_type U m contentType =
     list_ex (\<lambda>t. Contains (ToLower U t) (ToLower U contentType)) (e_AttachmentTypes m)"

definition has_ics :: "unicode \<Rightarrow> email_context \<Rightarrow> bool" where
  "has_ics U m =
     (list_ex (\<lambda>n. HasSuffix (ToLower U n) ''.ics'') (e_AttachmentNames m)
      \<or> list_ex (\<lambda>t. Contains (ToLower U t) ''calendar'') (e_AttachmentTypes m))"

definition now_hour :: "time \<Rightarrow> int" where
  "now_hour now = (now div Hour) mod 24"

definition is_reply :: "unicode \<Rightarrow> email_context \<Rightarrow> bool" where
  "is_reply U m =
     list_ex (HasPrefix (ToLower U (TrimSpace U (e_Subject m))))
       [''re:'', ''fwd:'', ''fw:'', ''aw:'', ''sv:'', ''tr:'']"

text \<open>The table \<open>email\<close>: its fields, \<open>VNil\<close> for any other name.\<close>

definition emailToLua :: "kiro_env \<Rightarrow> email_context \<Rightarrow> string \<Rightarrow> lua_val" where
  "emailToLua E m name =
     (if name = ''message_id'' then VStr (e_MessageID m)
      else if name = ''subject'' then VStr (e_Subject m)
      else if name = ''sender_name'' then VStr (e_SenderName m)
      else if name = ''sender_address'' \<or> name = ''sender'' then VStr (e_SenderAddress m)
      else if name = ''age_seconds'' then VNum (e_AgeSeconds m)
      else if name = ''body_preview'' then VStr (e_BodyPreview m)
      else if name = ''has_attachments'' then VBool (e_HasAttachments m)
      else if name = ''folder'' then VStr (e_Folder m)
      else if name = ''recipients'' then VList (e_Recipients m)
      else if name = ''attachment_names'' then VList (e_AttachmentNames m)
      else if name = ''attachment_types'' then VList (e_AttachmentTypes m)
      else if name = ''headers'' then VMap (e_Headers m)
      else if name = ''date'' then VStr (kv_RFC3339 E (e_Date m))
      else if name = ''ocr_text'' then VStr (e_OCRText m)
      else if name = ''has_images'' then VBool (e_HasImages m)
      else VNil)"

definition helper :: "kiro_env \<Rightarrow> time \<Rightarrow> email_context \<Rightarrow> lua_query \<Rightarrow> lua_val" where
  "helper E now m q =
     (let U = kv_unicode E in
      case q of
        Q_contains h n \<Rightarrow> VBool (Contains (ToLower U h) (ToLower U n))
      | Q_contains_any h ns \<Rightarrow> VBool (contains_any U h ns)
      | Q_matches t p \<Rightarrow> VBool (Contains (ToLower U t) (ToLower U p))
      | Q_ends_with t s \<Rightarrow> VBool (HasSuffix (ToLower U t) (ToLower U s))
      | Q_starts_with t p \<Rightarrow> VBool (HasPrefix (ToLower U t) (ToLower U p))
      | Q_domain_of a \<Rightarrow> VStr (domain_of U a)
      | Q_older_than s \<Rightarrow> VBool (older_than m s)
      | Q_older_than_hours h \<Rightarrow> VBool (older_than m (h * 3600))
      | Q_older_than_days d \<Rightarrow> VBool (older_than m (d * 86400))
      | Q_has_attachment_type ct \<Rightarrow> VBool (has_attachment_type U m ct)
      | Q_has_ics \<Rightarrow> VBool (has_ics U m)
      | Q_now_hour \<Rightarrow> VNum (of_int (now_hour now))
      | Q_is_reply \<Rightarrow> VBool (is_reply U m)
      | Q_email name \<Rightarrow> emailToLua E m name
      | Q_kiro _ \<Rightarrow> VNil)"

subsection \<open>Action functions\<close>

text \<open>
  The globals the action functions share: the table \<open>__result\<close> (with the field
  \<open>deferred_action\<close>, absent at first), the flag \<open>__schedule_capture\<close>, and the captured
  action with its target. The AI client, which outlives the evaluation, is threaded along.
\<close>

record lua_state =
  ls_action :: string
  ls_target :: string
  ls_delay :: int
  ls_reason :: string
  ls_deferred_action :: "string option"
  ls_capture :: bool
  ls_captured :: "(string \<times> string) option"
  ls_kiro :: "KiroClient option"

definition init_state :: "KiroClient option \<Rightarrow> lua_state" where
  "init_state k = \<lparr>ls_action = ''skip'', ls_target = [], ls_delay = 0, ls_reason = [],
     ls_deferred_action = None, ls_capture = False, ls_captured = None, ls_kiro = k\<rparr>"

definition setResult :: "string \<Rightarrow> string \<Rightarrow> int \<Rightarrow> string \<Rightarrow> lua_state \<Rightarrow> lua_state" where
  "setResult action target delay reason s =
     s\<lparr>ls_action := action, ls_target := target, ls_delay := delay, ls_reason := reason\<rparr>"

text \<open>An action that is captured in capture mode and sets the result otherwise.\<close>

definition capturable :: "string \<Rightarrow> string \<Rightarrow> string \<Rightarrow> lua_state \<Rightarrow> lua_state" where
  "capturable action target reason s =
     (if ls_capture s then s\<lparr>ls_captured := Some (action, target)\<rparr>
      else setResult action target 0 reason s)"

definition deferring :: "string \<Rightarrow> string \<Rightarrow> int \<Rightarrow> string \<Rightarrow> lua_state \<Rightarrow> lua_state" where
  "deferring action target delay reason s =
     (setResult ''defer'' target delay reason s)\<lparr>ls_deferred_action := Some action\<rparr>"

definition action_fn :: "lua_act \<Rightarrow> lua_state \<Rightarrow> lua_state" where
  "action_fn a =
     (case a of
        A_skip \<Rightarrow> setResult ''skip'' [] 0 []
      | A_delete reason \<Rightarrow> capturable ''delete'' [] reason
      | A_archive reason \<Rightarrow> capturable ''archive'' [] reason
      | A_move folder reason \<Rightarrow> capturable ''move'' folder reason
      | A_keep reason \<Rightarrow> capturable ''keep'' [] reason
      | A_notify message reason \<Rightarrow> capturable ''notify'' message reason
      | A_defer_action action target delay reason \<Rightarrow> deferring action target delay reason
      | A_move_after folder delay reason \<Rightarrow> deferring ''move'' folder delay reason
      | A_delete_after delay reason \<Rightarrow> deferring ''delete'' [] delay reason
      | A_flag flagName reason \<Rightarrow> capturable ''flag'' flagName reason)"

datatype lua_outcome = Returned | Raised | TimedOut

text \<open>The end of \<open>schedule\<close>, after the scheduled function returned.\<close>

definition schedule_finish :: "int \<Rightarrow> lua_state \<Rightarrow> lua_outcome \<times> lua_state" where
  "schedule_finish delay s =
     (let s = s\<lparr>ls_capture := False\<rparr>
      in case ls_captured s of
           None \<Rightarrow> (Raised, s)
         | Some (action, target) \<Rightarrow>
             if action = [] then (Raised, s)
             else (Returned, deferring action target delay (''scheduled '' @ action) s))"

primrec run :: "kiro_env \<Rightarrow> time \<Rightarrow> email_context \<Rightarrow> lua_prog \<Rightarrow> lua_state \<Rightarrow> lua_outcome \<times> lua_state" where
  "run E now m Done s = (Returned, s)"
| "run E now m Raise s = (Raised, s)"
| "run E now m Hang s = (TimedOut, s)"
| "run E now m (Ask q k) s =
     (case q of
        Q_kiro kq \<Rightarrow>
          (case kiro_call E now m kq (ls_kiro s) of (b, c) \<Rightarrow> run E now m (k (VBool b)) (s\<lparr>ls_kiro := c\<rparr>))
      | _ \<Rightarrow> run E now m (k (helper E now m q)) s)"
| "run E now m (Act a p) s = run E now m p (action_fn a s)"
| "run E now m (Schedule delay f p) s =
     (case run E now m f (s\<lparr>ls_capture := True, ls_captured := None\<rparr>) of
        (Returned, s') \<Rightarrow>
          (case schedule_finish delay s' of
             (Returned, s'') \<Rightarrow> run E now m p s''
           | other \<Rightarrow> other)
      | other \<Rightarrow> other)"
| "run E now m (Pcall f k) s =
     (case run E now m f s of
        (TimedOut, s') \<Rightarrow> (TimedOut, s')
      | (outcome, s') \<Rightarrow> run E now m (k (outcome = Returned)) s')"

subsection \<open>Evaluation\<close>

datatype engine_err = LuaError | LuaTimeout

definition extractResult :: "lua_state \<Rightarrow> rule_result" where
  "extractResult s = \<lparr>rr_Action = ls_action s, rr_Target = ls_target s, rr_Delay = ls_delay s,
     rr_Reason = ls_reason s\<rparr>"

text \<open>
  \<open>opts\<close> is \<open>None\<close> for nil, \<open>Some ai\<close> for the option \<open>AIEnabled\<close>. The client that the
  engine holds is returned as the evaluation leaves it.
\<close>

definition EvaluateWithOptions ::
  "lua_interp \<Rightarrow> kiro_env \<Rightarrow> time \<Rightarrow> bool option \<Rightarrow> rule \<Rightarrow> email_context \<Rightarrow> KiroClient option
     \<Rightarrow> (engine_err + rule_result) \<times> KiroClient option" where
  "EvaluateWithOptions lua E now opts r m client =
     (let disabled = (opts = Some False \<and> r_UsesAI r)
      in case lua (r_LuaCode r) of
           None \<Rightarrow> (Inl LuaError, client)
         | Some p \<Rightarrow>
             (case run E now m p (init_state (if disabled then None else client)) of
                (outcome, s) \<Rightarrow>
                  ((case outcome of
                      Returned \<Rightarrow> Inr (extractResult s)
                    | Raised \<Rightarrow> Inl LuaError
                    | TimedOut \<Rightarrow> Inl LuaTimeout),
                   if disabled then client else ls_kiro s)))"

definition skip_result :: rule_result where
  "skip_result = \<lparr>rr_Action = ''skip'', rr_Target = [], rr_Delay = 0, rr_Reason = []\<rparr>"

fun EvaluateAllWithOptions ::
  "lua_interp \<Rightarrow> kiro_env \<Rightarrow> time \<Rightarrow> bool option \<Rightarrow> rule list \<Rightarrow> email_context \<Rightarrow> KiroClient option
     \<Rightarrow> (rule_result \<times> rule option) \<times> KiroClient option" where
  "EvaluateAllWithOptions lua E now opts [] m client = ((skip_result, None), client)"
| "EvaluateAllWithOptions lua E now opts (r # rs) m client =
     (case EvaluateWithOptions lua E now opts r m client of
        (Inl _, c) \<Rightarrow> EvaluateAllWithOptions lua E now opts rs m c
      | (Inr res, c) \<Rightarrow>
          if rr_Action res \<noteq> ''skip'' then ((res, Some r), c)
          else EvaluateAllWithOptions lua E now opts rs m c)"

definition Evaluate where
  "Evaluate lua E now = EvaluateWithOptions lua E now None"

definition EvaluateAll where
  "EvaluateAll lua E now = EvaluateAllWithOptions lua E now None"

definition ValidateLua :: "lua_interp \<Rightarrow> string \<Rightarrow> bool" where
  "ValidateLua lua code = (lua code \<noteq> None)"

definition TestRule where
  "TestRule lua E now = Evaluate lua E now"

subsection \<open>What a result can be\<close>

text \<open>
  The actions of \<open>RuleResult\<close>; only \<open>move\<close>, \<open>notify\<close>, \<open>flag\<close> and \<open>defer\<close> have a target, only
  \<open>defer\<close> has a delay.
\<close>

definition result_ok :: "rule_result \<Rightarrow> bool" where
  "result_ok r \<longleftrightarrow>
     rr_Action r \<in> {''skip'', ''delete'', ''archive'', ''move'', ''keep'', ''notify'', ''flag'', ''defer''} \<and>
     (rr_Action r \<in> {''skip'', ''delete'', ''archive'', ''keep''} \<longrightarrow> rr_Target r = []) \<and>
     (rr_Action r \<noteq> ''defer'' \<longrightarrow> rr_Delay r = 0)"

text \<open>
  The same of the globals; a captured action is one of those that can be captured, and
  \<open>deferred_action\<close> is set whenever the result is \<open>defer\<close>.
\<close>

definition lua_inv :: "lua_state \<Rightarrow> bool" where
  "lua_inv s \<longleftrightarrow>
     result_ok (extractResult s) \<and>
     (ls_action s = ''defer'' \<longrightarrow> ls_deferred_action s \<noteq> None) \<and>
     (case ls_captured s of None \<Rightarrow> True
      | Some (a, t) \<Rightarrow> a \<in> {''delete'', ''archive'', ''move'', ''keep'', ''notify'', ''flag''})"

lemma init_state_inv: "lua_inv (init_state k)"
  by (simp add: lua_inv_def init_state_def result_ok_def extractResult_def)

lemma capturable_inv:
  assumes "lua_inv s" and "a \<in> {''delete'', ''archive'', ''move'', ''keep'', ''notify'', ''flag''}"
    and "a \<in> {''delete'', ''archive'', ''keep''} \<longrightarrow> t = []"
  shows "lua_inv (capturable a t r s)"
proof (cases "ls_capture s")
  case True
  with assms show ?thesis by (simp add: lua_inv_def extractResult_def capturable_def)
next
  case False
  have "result_ok \<lparr>rr_Action = a, rr_Target = t, rr_Delay = 0, rr_Reason = r\<rparr>"
    using assms(2,3) by (simp add: result_ok_def) fastforce
  moreover have "a \<noteq> ''defer''" using assms(2) by auto
  ultimately show ?thesis
    using False assms(1) by (simp add: lua_inv_def extractResult_def capturable_def setResult_def)
qed

lemma deferring_inv: "lua_inv s \<Longrightarrow> lua_inv (deferring a t d r s)"
  by (simp add: lua_inv_def deferring_def setResult_def result_ok_def extractResult_def)

lemma action_fn_inv: "lua_inv s \<Longrightarrow> lua_inv (action_fn a s)"
proof -
  assume inv: "lua_inv s"
  then have "lua_inv (setResult ''skip'' [] 0 [] s)"
    by (simp add: lua_inv_def setResult_def result_ok_def extractResult_def)
  with inv show ?thesis
    by (cases a) (simp_all add: action_fn_def capturable_inv deferring_inv)
qed

lemma capture_mode_inv: "lua_inv s \<Longrightarrow> lua_inv (s\<lparr>ls_capture := b, ls_captured := None\<rparr>)"
  by (simp add: lua_inv_def extractResult_def)

lemma schedule_finish_inv: "lua_inv s \<Longrightarrow> lua_inv (snd (schedule_finish d s))"
proof -
  assume inv: "lua_inv s"
  then have "lua_inv (s\<lparr>ls_capture := False\<rparr>)" by (simp add: lua_inv_def extractResult_def)
  then show ?thesis
    by (simp add: schedule_finish_def Let_def deferring_inv split: option.splits)
qed

lemma lua_inv_kiro [simp]: "lua_inv (s\<lparr>ls_kiro := k\<rparr>) = lua_inv s"
  by (simp add: lua_inv_def extractResult_def)

lemma run_inv: "lua_inv s \<Longrightarrow> lua_inv (snd (run E now m p s))"
proof (induction p arbitrary: s)
  case (Ask q k)
  show ?case
  proof (cases "\<exists>kq. q = Q_kiro kq")
    case True
    then obtain kq where q: "q = Q_kiro kq" by blast
    obtain b c where bc: "kiro_call E now m kq (ls_kiro s) = (b, c)" by fastforce
    show ?thesis
      using Ask.IH [of "k (VBool b)" "s\<lparr>ls_kiro := c\<rparr>"] Ask.prems by (simp add: q bc)
  next
    case False
    then have "run E now m (Ask q k) s = run E now m (k (helper E now m q)) s"
      by (cases q) auto
    then show ?thesis using Ask by simp
  qed
next
  case (Act a p)
  then show ?case by (simp add: action_fn_inv)
next
  case (Schedule d f p)
  obtain oc s' where f: "run E now m f (s\<lparr>ls_capture := True, ls_captured := None\<rparr>) = (oc, s')" by fastforce
  have s': "lua_inv s'"
    using Schedule.IH(1) [OF capture_mode_inv [OF Schedule.prems, of True]] f by simp
  obtain oc2 s2 where g: "schedule_finish d s' = (oc2, s2)" by fastforce
  have "lua_inv s2" using schedule_finish_inv [OF s', of d] g by simp
  then show ?case using s' f g Schedule.IH(2) by (cases oc; cases oc2) simp_all
next
  case (Pcall f k)
  obtain oc s' where f: "run E now m f s = (oc, s')" by fastforce
  with Pcall.IH(1) [OF Pcall.prems] have "lua_inv s'" by simp
  with f Pcall.IH(2) show ?case by (cases oc) auto
qed simp_all

lemma EvaluateWithOptions_ok:
  assumes "EvaluateWithOptions lua E now opts r m c = (Inr res, c')"
  shows "result_ok res"
proof -
  from assms obtain p k s where "run E now m p (init_state k) = (Returned, s)" and "res = extractResult s"
    by (auto simp: EvaluateWithOptions_def Let_def split: option.splits prod.splits lua_outcome.splits)
  then show ?thesis using run_inv [OF init_state_inv [of k], of E now m p] by (simp add: lua_inv_def)
qed

subsection \<open>The AI switch\<close>

text \<open>
  Without a client the answers of the AI service cannot be observed: the run is the same
  whatever the service would say.
\<close>

definition same_host :: "kiro_env \<Rightarrow> kiro_env \<Rightarrow> bool" where
  "same_host E E' \<longleftrightarrow> kv_RFC3339 E = kv_RFC3339 E' \<and> kv_unicode E = kv_unicode E'"

lemma helper_same_host: "same_host E E' \<Longrightarrow> helper E now m q = helper E' now m q"
  by (cases q) (simp_all add: helper_def same_host_def emailToLua_def Let_def)

lemma action_fn_kiro [simp]: "ls_kiro (action_fn a s) = ls_kiro s"
  by (cases a) (simp_all add: action_fn_def capturable_def deferring_def setResult_def)

lemma schedule_finish_kiro [simp]: "ls_kiro (snd (schedule_finish d s)) = ls_kiro s"
  by (simp add: schedule_finish_def deferring_def setResult_def Let_def split: option.splits)

lemma run_without_client:
  assumes "same_host E E'"
  shows "ls_kiro s = None \<Longrightarrow>
    run E now m p s = run E' now m p s \<and> ls_kiro (snd (run E now m p s)) = None"
proof (induction p arbitrary: s)
  case (Ask q k)
  show ?case
  proof (cases "\<exists>kq. q = Q_kiro kq")
    case True
    then obtain kq where q: "q = Q_kiro kq" by blast
    show ?thesis
      using Ask.IH [of "k (VBool False)" "s\<lparr>ls_kiro := None\<rparr>"] Ask.prems by (auto simp: q)
  next
    case False
    then have e: "run E' now m (Ask q k) s = run E' now m (k (helper E now m q)) s"
      "run E now m (Ask q k) s = run E now m (k (helper E now m q)) s"
      by (cases q; simp add: helper_same_host [OF assms])+
    show ?thesis unfolding e using Ask.IH [OF _ Ask.prems] by blast
  qed
next
  case (Act a p)
  then have "ls_kiro (action_fn a s) = None" by simp
  from Act.IH [OF this] show ?case unfolding run.simps .
next
  case (Schedule d f p)
  let ?s = "s\<lparr>ls_capture := True, ls_captured := None\<rparr>"
  obtain oc s' where f: "run E now m f ?s = (oc, s')" by fastforce
  have IH1: "run E' now m f ?s = (oc, s')" "ls_kiro s' = None"
    using Schedule.IH(1) [of ?s] Schedule.prems f by simp_all
  obtain oc2 s2 where g: "schedule_finish d s' = (oc2, s2)" by fastforce
  have "ls_kiro s2 = None" using schedule_finish_kiro [of d s'] g IH1 by simp
  then show ?case using f g IH1 Schedule.IH(2) [of s2] by (cases oc; cases oc2) simp_all
next
  case (Pcall f k)
  obtain oc s' where f: "run E now m f s = (oc, s')" by fastforce
  have "run E' now m f s = (oc, s')" "ls_kiro s' = None"
    using Pcall.IH(1) [OF Pcall.prems] f by simp_all
  then show ?case using f Pcall.IH(2) [of "k True" s'] Pcall.IH(2) [of "k False" s'] by (cases oc) auto
qed simp_all

lemma run_client_inv: "pred_option client_inv (ls_kiro s) \<Longrightarrow> pred_option client_inv (ls_kiro (snd (run E now m p s)))"
proof (induction p arbitrary: s)
  case (Ask q k)
  show ?case
  proof (cases "\<exists>kq. q = Q_kiro kq")
    case True
    then obtain kq where q: "q = Q_kiro kq" by blast
    obtain b c where bc: "kiro_call E now m kq (ls_kiro s) = (b, c)" by fastforce
    have "pred_option client_inv c" using kiro_call_inv [OF Ask.prems, of E now m kq] bc by simp
    then show ?thesis using Ask.IH [of "k (VBool b)" "s\<lparr>ls_kiro := c\<rparr>"] by (simp add: q bc)
  next
    case False
    then have "run E now m (Ask q k) s = run E now m (k (helper E now m q)) s"
      by (cases q) auto
    then show ?thesis using Ask by simp
  qed
next
  case (Schedule d f p)
  let ?s = "s\<lparr>ls_capture := True, ls_captured := None\<rparr>"
  obtain oc s' where f: "run E now m f ?s = (oc, s')" by fastforce
  have s': "pred_option client_inv (ls_kiro s')" using Schedule.IH(1) [of ?s] Schedule.prems f by simp
  obtain oc2 s2 where g: "schedule_finish d s' = (oc2, s2)" by fastforce
  have "pred_option client_inv (ls_kiro s2)" using schedule_finish_kiro [of d s'] g s' by simp
  then show ?case using f g s' Schedule.IH(2) [of s2] by (cases oc; cases oc2) simp_all
next
  case (Pcall f k)
  obtain oc s' where f: "run E now m f s = (oc, s')" by fastforce
  have "pred_option client_inv (ls_kiro s')" using Pcall.IH(1) [OF Pcall.prems] f by simp
  then show ?case using f Pcall.IH(2) by (cases oc) auto
qed simp_all

subsection \<open>The rule chain\<close>

text \<open>
  The contract of a chain of rules over a state that the evaluations thread: rules that fail or
  skip are passed over, the first other one decides. \<open>pass\<close> is the state after rules were
  passed over.
\<close>

definition pass :: "('r \<Rightarrow> 's \<Rightarrow> 'x \<times> 's) \<Rightarrow> 'r list \<Rightarrow> 's \<Rightarrow> 's" where
  "pass eval rs s = fold (\<lambda>r s. snd (eval r s)) rs s"

locale rule_chain =
  fixes eval :: "'r \<Rightarrow> 's \<Rightarrow> ('e + 'a) \<times> 's"
    and skips :: "'a \<Rightarrow> bool"
    and none :: 'a
    and chain :: "'r list \<Rightarrow> 's \<Rightarrow> ('a \<times> 'r option) \<times> 's"
  assumes chain_Nil: "chain [] s = ((none, None), s)"
    and chain_fail: "eval r s = (Inl e, s') \<Longrightarrow> chain (r # rs) s = chain rs s'"
    and chain_skip: "eval r s = (Inr a, s') \<Longrightarrow> skips a \<Longrightarrow> chain (r # rs) s = chain rs s'"
    and chain_stop: "eval r s = (Inr a, s') \<Longrightarrow> \<not> skips a \<Longrightarrow> chain (r # rs) s = ((a, Some r), s')"
begin

lemma chain_declined:
  assumes "\<And>a. fst (eval r s) = Inr a \<Longrightarrow> skips a"
  shows "chain (r # rs) s = chain rs (snd (eval r s))"
proof (cases "eval r s")
  case (Pair x s')
  with assms show ?thesis by (cases x) (simp_all add: chain_fail chain_skip)
qed

lemma chain_found:
  assumes "chain rs s = ((a, Some r), s')"
  shows "\<exists>ys zs. rs = ys @ r # zs \<and> eval r (pass eval ys s) = (Inr a, s') \<and> \<not> skips a \<and>
    (\<forall>i < length ys. \<forall>b. fst (eval (ys ! i) (pass eval (take i ys) s)) = Inr b \<longrightarrow> skips b)"
  using assms
proof (induction rs arbitrary: s)
  case (Cons x rs)
  show ?case
  proof (cases "\<exists>b. fst (eval x s) = Inr b \<and> \<not> skips b")
    case True
    then obtain b t where e: "eval x s = (Inr b, t)" and n: "\<not> skips b" by (metis prod.collapse)
    from chain_stop [OF e n] Cons.prems have "x = r" "b = a" "t = s'" by simp_all
    with e n show ?thesis by (intro exI [of _ "[]"] exI [of _ rs]) (simp add: pass_def)
  next
    case False
    then have d: "\<And>b. fst (eval x s) = Inr b \<Longrightarrow> skips b" by blast
    from Cons.prems chain_declined [of x s, OF d] have "chain rs (snd (eval x s)) = ((a, Some r), s')"
      by simp
    from Cons.IH [OF this] obtain ys zs where
      h: "rs = ys @ r # zs" "eval r (pass eval ys (snd (eval x s))) = (Inr a, s')" "\<not> skips a"
        "\<forall>i < length ys. \<forall>b. fst (eval (ys ! i) (pass eval (take i ys) (snd (eval x s)))) = Inr b \<longrightarrow> skips b"
      by blast
    have "\<forall>i < length (x # ys). \<forall>b. fst (eval ((x # ys) ! i) (pass eval (take i (x # ys)) s)) = Inr b \<longrightarrow> skips b"
      using h(4) d by (auto simp: pass_def nth_Cons split: nat.split)
    with h(1-3) show ?thesis by (intro exI [of _ "x # ys"] exI [of _ zs]) (simp add: pass_def)
  qed
qed (simp add: chain_Nil)

lemma chain_none:
  assumes "snd (fst (chain rs s)) = None"
  shows "chain rs s = ((none, None), pass eval rs s)"
    and "\<forall>i < length rs. \<forall>b. fst (eval (rs ! i) (pass eval (take i rs) s)) = Inr b \<longrightarrow> skips b"
proof -
  have "chain rs s = ((none, None), pass eval rs s) \<and>
    (\<forall>i < length rs. \<forall>b. fst (eval (rs ! i) (pass eval (take i rs) s)) = Inr b \<longrightarrow> skips b)"
    using assms
  proof (induction rs arbitrary: s)
    case (Cons x rs)
    have d: "\<And>b. fst (eval x s) = Inr b \<Longrightarrow> skips b"
    proof (rule ccontr)
      fix b assume "fst (eval x s) = Inr b" and "\<not> skips b"
      then show False
        using Cons.prems chain_stop [of x s b "snd (eval x s)" rs] by (metis fst_conv option.distinct(1) prod.collapse snd_conv)
    qed
    note c = chain_declined [of x s rs, OF d]
    from Cons.prems c Cons.IH [of "snd (eval x s)"] d show ?case
      by (auto simp: pass_def nth_Cons split: nat.split)
  qed (simp add: chain_Nil pass_def)
  then show "chain rs s = ((none, None), pass eval rs s)"
    and "\<forall>i < length rs. \<forall>b. fst (eval (rs ! i) (pass eval (take i rs) s)) = Inr b \<longrightarrow> skips b"
    by blast+
qed

end

abbreviation is_skip :: "rule_result \<Rightarrow> bool" where
  "is_skip res \<equiv> rr_Action res = ''skip''"

interpretation chain: rule_chain
  "\<lambda>r c. EvaluateWithOptions lua E now opts r m c" is_skip skip_result
  "\<lambda>rs c. EvaluateAllWithOptions lua E now opts rs m c"
  for lua E now opts m
  by unfold_locales simp_all

lemma EvaluateAll_member:
  assumes "EvaluateAllWithOptions lua E now opts rs m c = ((res, Some r), c')"
  shows "r \<in> set rs" and "rr_Action res \<noteq> ''skip''" and "result_ok res"
proof -
  from chain.chain_found [OF assms] obtain ys zs where
    h: "rs = ys @ r # zs" "\<not> is_skip res"
      "EvaluateWithOptions lua E now opts r m (pass (\<lambda>r c. EvaluateWithOptions lua E now opts r m c) ys c) = (Inr res, c')"
    by blast
  then show "r \<in> set rs" and "rr_Action res \<noteq> ''skip''" and "result_ok res"
    by (auto dest: EvaluateWithOptions_ok)
qed

lemma EvaluateAll_skip:
  assumes "EvaluateAllWithOptions lua E now opts rs m c = ((res, None), c')"
  shows "res = skip_result"
proof -
  from assms have "snd (fst (EvaluateAllWithOptions lua E now opts rs m c)) = None" by simp
  from chain.chain_none(1) [OF this] assms show ?thesis by simp
qed

end
