(* ===== verification/Crypto.thy ===== *)
theory Crypto
  imports GoStrings
begin

text \<open>
  \<^verbatim>\<open>internal/crypto/crypto.go\<close>: per-account encryption of mail passwords with versioned
  master keys. SHA-256, HKDF, AES-GCM and the random source are the fields of the record
  \<open>cipher_suite\<close>; what the code relies on of them is the predicate
  \<open>cipher_suite_ok\<close>. The text formats (\<open>v<N>:<base64>\<close>, standard base64) and
  every branch of \<open>Encrypt\<close>, \<open>Decrypt\<close> and \<open>NeedsRotation\<close> are written out.
\<close>

subsection \<open>Standard base64 (\<open>encoding/base64\<close>, \<open>StdEncoding\<close>)\<close>

definition b64_char :: "nat \<Rightarrow> char" where
  "b64_char n =
     (if n < 26 then char_of (n + 65) else if n < 52 then char_of (n + 71)
      else if n < 62 then char_of (n - 4) else if n = 62 then CHR ''+'' else CHR ''/'')"

definition b64_val :: "char \<Rightarrow> nat option" where
  "b64_val c =
     (if 65 \<le> byte c \<and> byte c \<le> 90 then Some (byte c - 65)
      else if 97 \<le> byte c \<and> byte c \<le> 122 then Some (byte c - 97 + 26)
      else if 48 \<le> byte c \<and> byte c \<le> 57 then Some (byte c - 48 + 52)
      else if c = CHR ''+'' then Some 62
      else if c = CHR ''/'' then Some 63
      else None)"

fun b64_encode :: "string \<Rightarrow> string" where
  "b64_encode [] = []"
| "b64_encode [a] = [b64_char (byte a div 4), b64_char (byte a mod 4 * 16), CHR ''='', CHR ''='']"
| "b64_encode [a, b] =
     [b64_char (byte a div 4), b64_char (byte a mod 4 * 16 + byte b div 16),
      b64_char (byte b mod 16 * 4), CHR ''='']"
| "b64_encode (a # b # c # s) =
     b64_char (byte a div 4) # b64_char (byte a mod 4 * 16 + byte b div 16)
     # b64_char (byte b mod 16 * 4 + byte c div 64) # b64_char (byte c mod 64) # b64_encode s"

text \<open>
  The decoder ignores carriage returns and line feeds; padding is required and ends the text;
  the unused low bits of a padded group are ignored (the encoding is not \<open>Strict\<close>).
\<close>

fun b64_groups :: "string \<Rightarrow> string option" where
  "b64_groups [] = Some []"
| "b64_groups (p # q # r # t # s) =
     (case (b64_val p, b64_val q) of
        (Some x, Some y) \<Rightarrow>
          (if r = CHR ''='' then
             (if t = CHR ''='' \<and> s = [] then Some [char_of (x * 4 + y div 16)] else None)
           else (case b64_val r of None \<Rightarrow> None | Some z \<Rightarrow>
             if t = CHR ''='' then
               (if s = [] then Some [char_of (x * 4 + y div 16), char_of (y mod 16 * 16 + z div 4)]
                else None)
             else (case b64_val t of None \<Rightarrow> None | Some w \<Rightarrow>
               map_option (\<lambda>u. char_of (x * 4 + y div 16) # char_of (y mod 16 * 16 + z div 4)
                              # char_of (z mod 4 * 64 + w) # u) (b64_groups s))))
      | _ \<Rightarrow> None)"
| "b64_groups _ = None"

definition b64_decode :: "string \<Rightarrow> string option" where
  "b64_decode s = b64_groups (filter (\<lambda>c. byte c \<noteq> 10 \<and> byte c \<noteq> 13) s)"

lemma b64_val_char: "n < 64 \<Longrightarrow> b64_val (b64_char n) = Some n"
  by (auto simp: b64_val_def b64_char_def)

lemma b64_char_neq: "n < 64 \<Longrightarrow> byte (b64_char n) \<notin> {10, 13, 61}"
  by (auto simp: b64_char_def)

lemma b64_char_not_pad: "n < 64 \<Longrightarrow> b64_char n \<noteq> CHR ''=''"
  using b64_char_neq [of n] by auto

lemma byte_less: "byte c < 256"
  by (rule nat_of_char_less_256)

lemma byte_parts:
  "byte a div 4 < 64" "byte a mod 4 * 16 < 64" "byte a mod 4 * 16 + byte b div 16 < 64"
  "byte b mod 16 * 4 < 64" "byte b mod 16 * 4 + byte c div 64 < 64" "byte c mod 64 < 64"
  using byte_less [of a] byte_less [of b] byte_less [of c] by linarith+

lemma byte_halves [simp]:
  "byte b div 16 div 16 = 0" "byte b div 16 mod 16 = byte b div 16"
  "byte b div 64 div 4 = 0" "byte b div 64 mod 4 = byte b div 64"
proof -
  have "byte b div 16 < 16" "byte b div 64 < 4" using byte_less [of b] by linarith+
  then show "byte b div 16 div 16 = 0" "byte b div 16 mod 16 = byte b div 16"
    "byte b div 64 div 4 = 0" "byte b div 64 mod 4 = byte b div 64"
    by simp_all
qed

lemma b64_groups_encode: "b64_groups (b64_encode s) = Some s"
proof (induction s rule: b64_encode.induct)
  case (2 a)
  then show ?case by (simp add: b64_val_char b64_char_not_pad byte_parts)
next
  case (3 a b)
  then show ?case by (simp add: b64_val_char b64_char_not_pad byte_parts)
next
  case (4 a b c s)
  then show ?case by (simp add: b64_val_char b64_char_not_pad byte_parts)
qed simp

lemma b64_encode_clean: "list_all (\<lambda>c. byte c \<noteq> 10 \<and> byte c \<noteq> 13) (b64_encode s)"
proof (induction s rule: b64_encode.induct)
  case (2 a)
  then show ?case using b64_char_neq byte_parts by simp
next
  case (3 a b)
  then show ?case using b64_char_neq byte_parts by simp
next
  case (4 a b c s)
  then show ?case using b64_char_neq byte_parts by simp
qed simp

lemma b64_decode_encode [simp]: "b64_decode (b64_encode s) = Some s"
proof -
  have "filter (\<lambda>c. byte c \<noteq> 10 \<and> byte c \<noteq> 13) (b64_encode s) = b64_encode s"
    using b64_encode_clean [of s] by (simp add: list_all_iff filter_id_conv)
  then show ?thesis by (simp add: b64_decode_def b64_groups_encode)
qed

subsection \<open>The encryptor\<close>

text \<open>
  \<open>cs_rand\<close> is the outcome of reading the nonce from the random source and
  \<open>cs_HKDF master info\<close> that of reading 32 bytes of the derived key; \<open>None\<close> is a
  failed read. \<open>cs_Open\<close> returns \<open>None\<close> when authentication fails.
\<close>

record cipher_suite =
  cs_SHA256 :: "string \<Rightarrow> string"
  cs_HKDF :: "string \<Rightarrow> string \<Rightarrow> string option"
  cs_Seal :: "string \<Rightarrow> string \<Rightarrow> string \<Rightarrow> string"
  cs_Open :: "string \<Rightarrow> string \<Rightarrow> string \<Rightarrow> string option"

definition cipher_suite_ok :: "cipher_suite \<Rightarrow> bool" where
  "cipher_suite_ok C \<longleftrightarrow>
     (\<forall>k i. \<exists>d. cs_HKDF C k i = Some d \<and> length d = 32) \<and>
     (\<forall>k n m. length k = 32 \<longrightarrow> length n = 12 \<longrightarrow> cs_Open C k n (cs_Seal C k n m) = Some m)"

datatype crypto_err =
    MasterKeyRequired
  | NoKeys
  | CurrentVersionNotFound int
  | EmptyKey
  | UnknownVersion int
  | DeriveFailed
  | CreateCipherFailed
  | NonceFailed
  | DecodeBase64Failed
  | CiphertextTooShort
  | OpenFailed

record Encryptor =
  currentVersion :: int
  keys :: "int \<rightharpoonup> string"

definition NewEncryptor :: "cipher_suite \<Rightarrow> string \<Rightarrow> crypto_err + Encryptor" where
  "NewEncryptor C masterKey =
     (if masterKey = [] then Inl MasterKeyRequired
      else Inr \<lparr>currentVersion = 1, keys = [1 \<mapsto> cs_SHA256 C masterKey]\<rparr>)"

text \<open>The argument \<open>keys\<close>, a Go map, is an association list with distinct versions.\<close>

definition NewVersionedEncryptor ::
  "cipher_suite \<Rightarrow> (int \<times> string) list \<Rightarrow> int \<Rightarrow> crypto_err + Encryptor" where
  "NewVersionedEncryptor C ks current =
     (if ks = [] then Inl NoKeys
      else if map_of ks current = None then Inl (CurrentVersionNotFound current)
      else if list_ex (\<lambda>(v, k). k = []) ks then Inl EmptyKey
      else Inr \<lparr>currentVersion = current, keys = map_of (map (\<lambda>(v, k). (v, cs_SHA256 C k)) ks)\<rparr>)"

definition key_info :: "int \<Rightarrow> string" where
  "key_info accountID = ''email-automation:account:'' @ FormatInt accountID"

definition deriveKey :: "cipher_suite \<Rightarrow> Encryptor \<Rightarrow> int \<Rightarrow> int \<Rightarrow> crypto_err + string" where
  "deriveKey C e version accountID =
     (case keys e version of
        None \<Rightarrow> Inl (UnknownVersion version)
      | Some masterKey \<Rightarrow>
          (case cs_HKDF C masterKey (key_info accountID) of
             None \<Rightarrow> Inl DeriveFailed
           | Some key \<Rightarrow> Inr key))"

text \<open>\<open>aes.NewCipher\<close> accepts keys of 16, 24 and 32 bytes; \<open>gcm.NonceSize()\<close> is 12.\<close>

definition NewGCM :: "string \<Rightarrow> crypto_err + string" where
  "NewGCM key = (if length key \<in> {16, 24, 32} then Inr key else Inl CreateCipherFailed)"

definition NonceSize :: nat where "NonceSize = 12"

definition Encrypt ::
  "cipher_suite \<Rightarrow> string option \<Rightarrow> Encryptor \<Rightarrow> string \<Rightarrow> int \<Rightarrow> crypto_err + string" where
  "Encrypt C rnd e plaintext accountID =
     (if plaintext = [] then Inr []
      else res_bind (deriveKey C e (currentVersion e) accountID) (\<lambda>key.
        res_bind (NewGCM key) (\<lambda>gcm.
          case rnd of
            None \<Rightarrow> Inl NonceFailed
          | Some nonce \<Rightarrow>
              Inr (''v'' @ FormatInt (currentVersion e) @ '':''
                   @ b64_encode (nonce @ cs_Seal C gcm nonce plaintext)))))"

definition decryptRaw ::
  "cipher_suite \<Rightarrow> Encryptor \<Rightarrow> string \<Rightarrow> int \<Rightarrow> int \<Rightarrow> crypto_err + string" where
  "decryptRaw C e data version accountID =
     res_bind (deriveKey C e version accountID) (\<lambda>key.
       res_bind (NewGCM key) (\<lambda>gcm.
         if length data < NonceSize then Inl CiphertextTooShort
         else (case cs_Open C gcm (take NonceSize data) (drop NonceSize data) of
                 None \<Rightarrow> Inl OpenFailed
               | Some plaintext \<Rightarrow> Inr plaintext)))"

definition decryptWithVersion ::
  "cipher_suite \<Rightarrow> Encryptor \<Rightarrow> string \<Rightarrow> int \<Rightarrow> int \<Rightarrow> crypto_err + string" where
  "decryptWithVersion C e encoded version accountID =
     (case b64_decode encoded of
        None \<Rightarrow> Inl DecodeBase64Failed
      | Some data \<Rightarrow> decryptRaw C e data version accountID)"

definition parseVersionedCiphertext :: "string \<Rightarrow> (int \<times> string) option" where
  "parseVersionedCiphertext s =
     (if \<not> HasPrefix s ''v'' then None
      else case Index s '':'' of
        None \<Rightarrow> None
      | Some idx \<Rightarrow>
          if idx < 2 then None
          else (case Atoi (drop 1 (take idx s)) of
                  None \<Rightarrow> None
                | Some v \<Rightarrow> Some (v, drop (idx + 1) s)))"

definition Decrypt :: "cipher_suite \<Rightarrow> Encryptor \<Rightarrow> string \<Rightarrow> int \<Rightarrow> crypto_err + string" where
  "Decrypt C e ciphertext accountID =
     (if ciphertext = [] then Inr []
      else case parseVersionedCiphertext ciphertext of
        Some (version, encoded) \<Rightarrow> decryptWithVersion C e encoded version accountID
      | None \<Rightarrow>
          (case b64_decode ciphertext of
             None \<Rightarrow> Inr ciphertext
           | Some data \<Rightarrow>
               (case decryptRaw C e data (currentVersion e) accountID of
                  Inl _ \<Rightarrow> Inr ciphertext
                | Inr result \<Rightarrow> Inr result)))"

definition NeedsRotation :: "Encryptor \<Rightarrow> string \<Rightarrow> bool" where
  "NeedsRotation e ciphertext =
     (if ciphertext = [] then False
      else case parseVersionedCiphertext ciphertext of
        None \<Rightarrow> True
      | Some (version, _) \<Rightarrow> version \<noteq> currentVersion e)"

text \<open>
  What a stored secret means: the text it decrypts to. The lemmas below are the laws of the
  text format that \<open>Encrypt\<close> writes; they do not depend on the cipher.
\<close>

lemma Index_char_first: "c \<notin> set p \<Longrightarrow> Index (p @ c # s) [c] = Some (length p)"
  by (induction p) (auto simp: HasPrefix_Cons)

lemma FormatInt_neq_Nil [simp]: "FormatInt n \<noteq> []"
  by (simp add: FormatInt_def)

lemma parse_versioned:
  assumes "int64_range v"
  shows "parseVersionedCiphertext (''v'' @ FormatInt v @ '':'' @ s) = Some (v, s)"
proof -
  have "Index ((''v'' @ FormatInt v) @ CHR '':'' # s) '':'' = Some (length (''v'' @ FormatInt v))"
    by (rule Index_char_first) (use FormatInt_no_colon in simp)
  then have ix: "Index (CHR ''v'' # FormatInt v @ CHR '':'' # s) '':'' = Some (Suc (length (FormatInt v)))"
    by simp
  have "FormatInt v \<noteq> []" by simp
  then have "length (FormatInt v) \<noteq> 0" by blast
  with ix assms show ?thesis
    by (simp add: parseVersionedCiphertext_def HasPrefix_Cons Atoi_FormatInt del: Index.simps)
qed

lemma Encrypt_shape:
  assumes "Encrypt C rnd e p a = Inr ct" and "p \<noteq> []"
  obtains key nonce where "deriveKey C e (currentVersion e) a = Inr key" and "rnd = Some nonce"
    and "ct = ''v'' @ FormatInt (currentVersion e) @ '':'' @ b64_encode (nonce @ cs_Seal C key nonce p)"
    and "NewGCM key = Inr key"
proof -
  from assms obtain key gcm where 1: "deriveKey C e (currentVersion e) a = Inr key" "NewGCM key = Inr gcm"
    and 2: "(case rnd of None \<Rightarrow> Inl NonceFailed | Some nonce \<Rightarrow>
      Inr (''v'' @ FormatInt (currentVersion e) @ '':'' @ b64_encode (nonce @ cs_Seal C gcm nonce p))) = Inr ct"
    unfolding Encrypt_def by (auto simp: res_bind_Inr_iff)
  from 1 have "gcm = key" by (simp add: NewGCM_def split: if_splits)
  with 1 2 that show thesis by (cases rnd) auto
qed

text \<open>
  A secret that was encrypted is read back by every encryptor that knows the version it was
  written with under the same key, whatever that encryptor's own current version is.
\<close>

lemma Decrypt_Encrypt_any:
  assumes ok: "cipher_suite_ok C" and enc: "Encrypt C rnd e p a = Inr ct"
    and n: "\<And>nonce. rnd = Some nonce \<Longrightarrow> length nonce = 12"
    and v: "int64_range (currentVersion e)" and k: "keys e' (currentVersion e) = keys e (currentVersion e)"
  shows "Decrypt C e' ct a = Inr p"
proof (cases "p = []")
  case True
  with enc show ?thesis by (simp add: Encrypt_def Decrypt_def)
next
  case False
  with enc obtain key nonce where key: "deriveKey C e (currentVersion e) a = Inr key"
    and rnd: "rnd = Some nonce"
    and ct: "ct = ''v'' @ FormatInt (currentVersion e) @ '':'' @ b64_encode (nonce @ cs_Seal C key nonce p)"
    and gcm: "NewGCM key = Inr key"
    by (rule Encrypt_shape)
  have ln: "length nonce = 12" using n rnd by simp
  from key k have key': "deriveKey C e' (currentVersion e) a = Inr key"
    by (simp add: deriveKey_def)
  have lk: "length key = 32"
    using key ok by (auto simp: deriveKey_def cipher_suite_ok_def split: option.splits) (metis option.inject)
  have op: "cs_Open C key nonce (cs_Seal C key nonce p) = Some p"
    using ok lk ln by (simp add: cipher_suite_ok_def)
  have ne: "ct \<noteq> []" using ct by simp
  have ps: "parseVersionedCiphertext ct
      = Some (currentVersion e, b64_encode (nonce @ cs_Seal C key nonce p))"
    unfolding ct using v by (rule parse_versioned)
  show ?thesis
    using ne ps key' gcm ln op
    by (simp add: Decrypt_def decryptWithVersion_def decryptRaw_def NonceSize_def)
qed

lemma NeedsRotation_Encrypt:
  assumes "Encrypt C rnd e p a = Inr ct" and "int64_range (currentVersion e)"
  shows "\<not> NeedsRotation e ct"
proof (cases "p = []")
  case True
  with assms show ?thesis by (simp add: Encrypt_def NeedsRotation_def)
next
  case False
  with assms(1) obtain s where "ct = ''v'' @ FormatInt (currentVersion e) @ '':'' @ s"
    by (rule Encrypt_shape)
  with assms(2) show ?thesis
    by (simp add: NeedsRotation_def parse_versioned [simplified])
qed

lemma Encrypt_total:
  assumes "cipher_suite_ok C" and "keys e (currentVersion e) \<noteq> None" and "rnd \<noteq> None"
  shows "res_ok (Encrypt C rnd e p a)"
proof -
  obtain m where m: "keys e (currentVersion e) = Some m" using assms(2) by blast
  obtain d where d: "cs_HKDF C m (key_info a) = Some d" "length d = 32"
    using assms(1) unfolding cipher_suite_ok_def by blast
  obtain nonce where "rnd = Some nonce" using assms(3) by blast
  with m d show ?thesis by (simp add: Encrypt_def deriveKey_def NewGCM_def)
qed

end
