(* ===== verification/Store.thy ===== *)
theory Store
  imports Models Crypto "HOL-Library.List_Lexorder"
begin

text \<open>
  \<^verbatim>\<open>internal/db/db.go\<close>: the data access layer, over a model of the PostgreSQL tables that
  \<^verbatim>\<open>migrations/\<close> create. A table is the list of its rows in insertion order; an operation
  takes the database and returns the Go result (\<open>Inl\<close> the error) with the database it leaves.
  The constraints of the schema are part of the operations: unique keys, foreign keys with
  ON DELETE CASCADE and ON DELETE SET NULL, \<open>int4\<close> and \<open>varchar(255)\<close> columns, and
  sequences, which advance even when the insert fails. \<open>now\<close> is \<open>NOW()\<close>. A statement
  of a single-statement operation can also fail because the database is unreachable: the callers
  model that with \<open>stmt\<close>. Operations of several statements take a fault function
  \<open>F\<close>, where \<open>F i\<close> means that their \<open>i\<close>-th statement fails.
\<close>

datatype dberr =
    ConnErr
  | NoRows
  | UniqueViolation
  | FKViolation
  | OutOfRange
  | StringTooLong
  | EncryptErr crypto_err
  | FolderNotExempt string
  | DeferredNotFound
  | RuleNotFound int
  | NoEncryptor
  | MetadataKeyNotFound
  | UserNotFound
  | TenantHasNoUser

datatype tbl = Tenants | Accounts | Rules | ExecLog | Deferred | Moves | Applied | Metadata
  | Users | Passkeys | APIKeys | Attempts

record db =
  tenants :: "tenant list"
  accounts :: "account list"
  rules :: "rule list"
  execLog :: "exec_log list"
  deferred :: "deferred_action list"
  processed :: "processed_message list"
  locations :: "message_location list"
  moves :: "detected_move list"
  applied :: "applied_move list"
  metadata :: "metadata_record list"
  users :: "user list"
  passkeys :: "passkey list"
  apiKeys :: "api_key list"
  blacklist :: "blacklisted_token list"
  attempts :: "login_attempt list"
  seqs :: "tbl \<Rightarrow> int"

type_synonym 'a dbres = "(dberr + 'a) \<times> db"

definition empty_db :: db where
  "empty_db = \<lparr>tenants = [], accounts = [], rules = [], execLog = [], deferred = [], processed = [],
     locations = [], moves = [], applied = [], metadata = [], users = [], passkeys = [], apiKeys = [],
     blacklist = [], attempts = [], seqs = (\<lambda>_. 1)\<rparr>"

text \<open>\<open>stmt f op\<close>: the statement \<open>op\<close> that does not reach the database when \<open>f\<close>.\<close>

definition stmt :: "bool \<Rightarrow> (db \<Rightarrow> 'a dbres) \<Rightarrow> db \<Rightarrow> 'a dbres" where
  "stmt f op d = (if f then (Inl ConnErr, d) else op d)"

definition query :: "bool \<Rightarrow> dberr + 'a \<Rightarrow> dberr + 'a" where
  "query f r = (if f then Inl ConnErr else r)"

definition bump :: "tbl \<Rightarrow> db \<Rightarrow> db" where
  "bump t d = d\<lparr>seqs := (seqs d)(t := seqs d t + 1)\<rparr>"

definition int4 :: "int \<Rightarrow> bool" where
  "int4 n = (- (2 ^ 31) \<le> n \<and> n < 2 ^ 31)"

text \<open>\<open>char_length\<close> of a UTF-8 text: the bytes that are not continuation bytes.\<close>

definition char_length :: "string \<Rightarrow> nat" where
  "char_length s = length (filter (\<lambda>c. byte c div 64 \<noteq> 2) s)"

subsection \<open>The invariant of the tables\<close>

definition keys_ok :: "db \<Rightarrow> bool" where
  "keys_ok d \<longleftrightarrow>
     uniq t_ID (tenants d) \<and> uniq t_Slug (tenants d) \<and> uniq t_APIKey (tenants d) \<and>
     uniq a_ID (accounts d) \<and> uniq r_ID (rules d) \<and> uniq l_ID (execLog d) \<and> uniq d_ID (deferred d) \<and>
     uniq (\<lambda>p. (p_AccountID p, p_MessageUID p)) (processed d) \<and>
     uniq (\<lambda>l. (ml_AccountID l, ml_MessageUID l, ml_Folder l)) (locations d) \<and>
     uniq dm_ID (moves d) \<and> uniq am_ID (applied d) \<and> uniq md_ID (metadata d) \<and>
     uniq (\<lambda>m. (md_TenantID m, md_MessageID m, md_Key m)) (metadata d) \<and>
     uniq u_ID (users d) \<and> uniq u_Username (users d) \<and>
     uniq pk_ID (passkeys d) \<and> uniq pk_CredentialID (passkeys d) \<and>
     uniq k_ID (apiKeys d) \<and> uniq k_KeyHash (apiKeys d) \<and> uniq b_TokenHash (blacklist d)"

definition seqs_ok :: "db \<Rightarrow> bool" where
  "seqs_ok d \<longleftrightarrow>
     below t_ID (tenants d) (seqs d Tenants) \<and> below a_ID (accounts d) (seqs d Accounts) \<and>
     below r_ID (rules d) (seqs d Rules) \<and> below l_ID (execLog d) (seqs d ExecLog) \<and>
     below d_ID (deferred d) (seqs d Deferred) \<and> below dm_ID (moves d) (seqs d Moves) \<and>
     below am_ID (applied d) (seqs d Applied) \<and> below md_ID (metadata d) (seqs d Metadata) \<and>
     below u_ID (users d) (seqs d Users) \<and> below pk_ID (passkeys d) (seqs d Passkeys) \<and>
     below k_ID (apiKeys d) (seqs d APIKeys)"

definition refs_ok :: "db \<Rightarrow> bool" where
  "refs_ok d \<longleftrightarrow>
     orefs t_UserID (tenants d) u_ID (users d) \<and>
     refs a_TenantID (accounts d) t_ID (tenants d) \<and> refs r_TenantID (rules d) t_ID (tenants d) \<and>
     refs l_RuleID (execLog d) r_ID (rules d) \<and> refs l_AccountID (execLog d) a_ID (accounts d) \<and>
     refs d_RuleID (deferred d) r_ID (rules d) \<and> refs d_AccountID (deferred d) a_ID (accounts d) \<and>
     refs p_AccountID (processed d) a_ID (accounts d) \<and> orefs p_RuleID (processed d) r_ID (rules d) \<and>
     refs ml_AccountID (locations d) a_ID (accounts d) \<and>
     refs dm_AccountID (moves d) a_ID (accounts d) \<and> orefs dm_RuleID (moves d) r_ID (rules d) \<and>
     refs am_RuleID (applied d) r_ID (rules d) \<and> refs am_AccountID (applied d) a_ID (accounts d) \<and>
     refs md_TenantID (metadata d) t_ID (tenants d) \<and>
     refs pk_UserID (passkeys d) u_ID (users d) \<and> refs k_UserID (apiKeys d) u_ID (users d)"

definition status_ok :: "deferred_action \<Rightarrow> bool" where
  "status_ok a \<longleftrightarrow>
     (d_Status a = ''pending'' \<and> \<not> d_Executed a \<and> d_Error a = []) \<or>
     (d_Status a = ''executed'' \<and> d_Executed a \<and> d_Error a = []) \<or>
     (d_Status a = ''failed'' \<and> d_Executed a \<and> d_Error a \<noteq> [])"

definition db_inv :: "db \<Rightarrow> bool" where
  "db_inv d \<longleftrightarrow> keys_ok d \<and> seqs_ok d \<and> refs_ok d \<and> list_all status_ok (deferred d)"

lemmas inv_defs = db_inv_def keys_ok_def seqs_ok_def refs_ok_def

subsection \<open>Encryption of stored secrets\<close>

record crypt =
  cr_suite :: cipher_suite
  cr_Encryptor :: "Encryptor option"

definition encryptPassword :: "crypt \<Rightarrow> string option \<Rightarrow> string \<Rightarrow> int \<Rightarrow> crypto_err + string" where
  "encryptPassword c rnd password accountID =
     (case cr_Encryptor c of
        None \<Rightarrow> Inr password
      | Some e \<Rightarrow> if password = [] then Inr password else Encrypt (cr_suite c) rnd e password accountID)"

definition decryptPassword :: "crypt \<Rightarrow> string \<Rightarrow> int \<Rightarrow> crypto_err + string" where
  "decryptPassword c password accountID =
     (case cr_Encryptor c of
        None \<Rightarrow> Inr password
      | Some e \<Rightarrow> if password = [] then Inr password else Decrypt (cr_suite c) e password accountID)"

subsection \<open>Tenants\<close>

definition insert_tenant :: "time \<Rightarrow> string \<Rightarrow> string \<Rightarrow> string \<Rightarrow> int option \<Rightarrow> db \<Rightarrow> tenant dbres" where
  "insert_tenant now name slug key user d =
     (let t = \<lparr>t_ID = seqs d Tenants, t_Name = name, t_Slug = slug, t_APIKey = key, t_UserID = user,
               t_CreatedAt = now, t_UpdatedAt = now\<rparr>;
          d' = bump Tenants d
      in if has_key t_Slug slug (tenants d) \<or> has_key t_APIKey key (tenants d)
         then (Inl UniqueViolation, d')
         else if (case user of None \<Rightarrow> False | Some u \<Rightarrow> \<not> has_key u_ID u (users d))
         then (Inl FKViolation, d')
         else (Inr t, d'\<lparr>tenants := tenants d @ [t]\<rparr>))"

definition CreateTenant :: "time \<Rightarrow> tenant \<Rightarrow> db \<Rightarrow> tenant dbres" where
  "CreateTenant now t = insert_tenant now (t_Name t) (t_Slug t) (t_APIKey t) None"

definition get_row :: "('r \<Rightarrow> bool) \<Rightarrow> 'r list \<Rightarrow> dberr + 'r" where
  "get_row P t = (case find P t of None \<Rightarrow> Inl NoRows | Some r \<Rightarrow> Inr r)"

definition GetTenant :: "int \<Rightarrow> db \<Rightarrow> dberr + tenant" where
  "GetTenant ident d = get_row (\<lambda>t. t_ID t = ident) (tenants d)"

definition GetTenantByAPIKey :: "string \<Rightarrow> db \<Rightarrow> dberr + tenant" where
  "GetTenantByAPIKey apiKey d = get_row (\<lambda>t. t_APIKey t = apiKey) (tenants d)"

definition ListTenants :: "db \<Rightarrow> tenant list" where
  "ListTenants d = sort_key t_ID (tenants d)"

subsection \<open>Exempt folders\<close>

definition GetExemptFolders :: "int \<Rightarrow> db \<Rightarrow> dberr + string list" where
  "GetExemptFolders accountID d =
     res_bind (get_row (\<lambda>a. a_ID a = accountID) (accounts d)) (\<lambda>a. Inr (a_ExemptFolders a))"

definition SetExemptFolders :: "time \<Rightarrow> int \<Rightarrow> string list \<Rightarrow> db \<Rightarrow> unit dbres" where
  "SetExemptFolders now accountID folders d =
     (Inr (), d\<lparr>accounts := upd (\<lambda>a. a_ID a = accountID)
                (\<lambda>a. a\<lparr>a_ExemptFolders := folders, a_UpdatedAt := now\<rparr>) (accounts d)\<rparr>)"

definition AddExemptFolder ::
  "unicode \<Rightarrow> (nat \<Rightarrow> bool) \<Rightarrow> time \<Rightarrow> int \<Rightarrow> string \<Rightarrow> db \<Rightarrow> string list dbres" where
  "AddExemptFolder U F now accountID folder d =
     (case query (F 0) (GetExemptFolders accountID d) of
        Inl e \<Rightarrow> (Inl e, d)
      | Inr folders \<Rightarrow>
          if list_ex (\<lambda>f. EqualFold U f folder) folders then (Inr folders, d)
          else (case stmt (F 1) (SetExemptFolders now accountID (folders @ [folder])) d of
                  (Inl e, d') \<Rightarrow> (Inl e, d')
                | (Inr _, d') \<Rightarrow> (Inr (folders @ [folder]), d')))"

definition RemoveExemptFolder ::
  "unicode \<Rightarrow> (nat \<Rightarrow> bool) \<Rightarrow> time \<Rightarrow> int \<Rightarrow> string \<Rightarrow> db \<Rightarrow> string list dbres" where
  "RemoveExemptFolder U F now accountID folder d =
     (case query (F 0) (GetExemptFolders accountID d) of
        Inl e \<Rightarrow> (Inl e, d)
      | Inr folders \<Rightarrow>
          (let updated = filter (\<lambda>f. \<not> EqualFold U f folder) folders
           in if length updated = length folders then (Inl (FolderNotExempt folder), d)
              else (case stmt (F 1) (SetExemptFolders now accountID updated) d of
                      (Inl e, d') \<Rightarrow> (Inl e, d')
                    | (Inr _, d') \<Rightarrow> (Inr updated, d'))))"

definition IsFolderExempt :: "unicode \<Rightarrow> int \<Rightarrow> string \<Rightarrow> db \<Rightarrow> dberr + bool" where
  "IsFolderExempt U accountID folder d =
     res_bind (GetExemptFolders accountID d) (\<lambda>folders. Inr (list_ex (\<lambda>f. EqualFold U f folder) folders))"

subsection \<open>Accounts\<close>

definition default_exempt :: "string list" where
  "default_exempt = [''Archive'', ''Trash'', ''Spam'', ''Drafts'']"

definition insert_account :: "time \<Rightarrow> account \<Rightarrow> db \<Rightarrow> account dbres" where
  "insert_account now a d =
     (if \<not> int4 (a_IMAPPort a) then (Inl OutOfRange, d)
      else let a' = a\<lparr>a_ID := seqs d Accounts, a_ExemptFolders := default_exempt, a_LastSyncAt := None,
                      a_LastConnectionTestAt := None, a_LastConnectionStatus := [],
                      a_LastConnectionError := [], a_LastUIDProcessed := 0,
                      a_CreatedAt := now, a_UpdatedAt := now\<rparr>;
               d' = bump Accounts d
           in if \<not> has_key t_ID (a_TenantID a) (tenants d) then (Inl FKViolation, d')
              else (Inr a', d'\<lparr>accounts := accounts d @ [a']\<rparr>))"

definition update_account :: "int \<Rightarrow> (account \<Rightarrow> account) \<Rightarrow> db \<Rightarrow> unit dbres" where
  "update_account ident g d = (Inr (), d\<lparr>accounts := upd (\<lambda>a. a_ID a = ident) g (accounts d)\<rparr>)"

text \<open>
  \<open>CreateAccount\<close> inserts the row in clear, then encrypts with the key of the new id and
  updates the row. \<open>rnd i\<close> is the nonce of the \<open>i\<close>-th encryption.
\<close>

definition encrypt_column ::
  "crypt \<Rightarrow> bool \<Rightarrow> string option \<Rightarrow> string \<Rightarrow> int \<Rightarrow> (string \<Rightarrow> account \<Rightarrow> account) \<Rightarrow> db \<Rightarrow> db" where
  "encrypt_column c f rnd token ident setc d =
     (if token = [] then d
      else case encryptPassword c rnd token ident of
        Inl _ \<Rightarrow> d
      | Inr enc \<Rightarrow> snd (stmt f (update_account ident (setc enc)) d))"

definition CreateAccount ::
  "crypt \<Rightarrow> (nat \<Rightarrow> string option) \<Rightarrow> (nat \<Rightarrow> bool) \<Rightarrow> time \<Rightarrow> account \<Rightarrow> db \<Rightarrow> account dbres" where
  "CreateAccount c rnd F now a d =
     (case stmt (F 0) (insert_account now a) d of
        (Inl e, d1) \<Rightarrow> (Inl e, d1)
      | (Inr a', d1) \<Rightarrow>
          (case (if cr_Encryptor c \<noteq> None \<and> a_Password a \<noteq> [] then
                   (case encryptPassword c (rnd 0) (a_Password a) (a_ID a') of
                      Inl e \<Rightarrow> (Inl (EncryptErr e), d1)
                    | Inr enc \<Rightarrow> stmt (F 1) (update_account (a_ID a') (\<lambda>r. r\<lparr>a_Password := enc\<rparr>)) d1)
                 else (Inr (), d1)) of
             (Inl e, d2) \<Rightarrow> (Inl e, d2)
           | (Inr _, d2) \<Rightarrow>
               if cr_Encryptor c = None then (Inr a', d2)
               else (let d3 = encrypt_column c (F 2) (rnd 1) (a_OAuthToken a) (a_ID a')
                                (\<lambda>v r. r\<lparr>a_OAuthToken := v\<rparr>) d2;
                         d4 = encrypt_column c (F 3) (rnd 2) (a_OAuthRefreshToken a) (a_ID a')
                                (\<lambda>v r. r\<lparr>a_OAuthRefreshToken := v\<rparr>) d3
                     in (Inr a', d4))))"

definition decrypt_account :: "crypt \<Rightarrow> account \<Rightarrow> account" where
  "decrypt_account c a =
     (let dec = (\<lambda>s. res_or (decryptPassword c s (a_ID a)) s)
      in a\<lparr>a_Password := dec (a_Password a), a_OAuthToken := dec (a_OAuthToken a),
           a_OAuthRefreshToken := dec (a_OAuthRefreshToken a)\<rparr>)"

text \<open>The columns that the account queries do not select are zero in the struct they fill.\<close>

definition select_account :: "account \<Rightarrow> account" where
  "select_account a = a\<lparr>a_ExemptFolders := [], a_LastConnectionTestAt := None,
     a_LastConnectionStatus := [], a_LastConnectionError := [], a_LastUIDProcessed := 0\<rparr>"

definition list_account :: "account \<Rightarrow> account" where
  "list_account a = a\<lparr>a_Password := [], a_OAuthToken := [], a_OAuthRefreshToken := [],
     a_OAuthTokenExpiry := None, a_ExemptFolders := [], a_LastUIDProcessed := 0\<rparr>"

definition GetAccount :: "crypt \<Rightarrow> int \<Rightarrow> int \<Rightarrow> db \<Rightarrow> dberr + account" where
  "GetAccount c tenantID ident d =
     res_bind (get_row (\<lambda>a. a_ID a = ident \<and> a_TenantID a = tenantID) (accounts d))
       (\<lambda>a. Inr (decrypt_account c (select_account a)))"

definition ListAccounts :: "int \<Rightarrow> db \<Rightarrow> account list" where
  "ListAccounts tenantID d =
     map list_account (sort_key a_ID (filter (\<lambda>a. a_TenantID a = tenantID) (accounts d)))"

definition ListActiveAccounts :: "crypt \<Rightarrow> db \<Rightarrow> account list" where
  "ListActiveAccounts c d =
     map (\<lambda>a. decrypt_account c (select_account a)) (sort_key a_ID (filter a_Active (accounts d)))"

definition GetActiveAccountByID :: "crypt \<Rightarrow> int \<Rightarrow> db \<Rightarrow> dberr + account" where
  "GetActiveAccountByID c accountID d =
     res_bind (get_row (\<lambda>a. a_ID a = accountID \<and> a_Active a) (accounts d))
       (\<lambda>a. Inr (decrypt_account c (select_account a)))"

definition UpdateAccount ::
  "crypt \<Rightarrow> (nat \<Rightarrow> string option) \<Rightarrow> time \<Rightarrow> account \<Rightarrow> db \<Rightarrow> unit dbres" where
  "UpdateAccount c rnd now a d =
     (let enc = (\<lambda>i s. res_or (encryptPassword c (rnd i) s (a_ID a)) s)
      in if \<not> int4 (a_IMAPPort a) then (Inl OutOfRange, d)
         else (Inr (), d\<lparr>accounts := upd (\<lambda>r. a_ID r = a_ID a \<and> a_TenantID r = a_TenantID a)
           (\<lambda>r. r\<lparr>a_Name := a_Name a, a_Email := a_Email a, a_Provider := a_Provider a,
                  a_IMAPHost := a_IMAPHost a, a_IMAPPort := a_IMAPPort a, a_IMAPTLS := a_IMAPTLS a,
                  a_Username := a_Username a, a_Password := enc 0 (a_Password a),
                  a_OAuthToken := enc 1 (a_OAuthToken a),
                  a_OAuthRefreshToken := enc 2 (a_OAuthRefreshToken a),
                  a_OAuthTokenExpiry := a_OAuthTokenExpiry a, a_OAuthProvider := a_OAuthProvider a,
                  a_Active := a_Active a, a_UpdatedAt := now\<rparr>) (accounts d)\<rparr>))"

text \<open>DELETE FROM accounts: the rows of the six tables that refer to an account go with it.\<close>

definition DeleteAccount :: "int \<Rightarrow> int \<Rightarrow> db \<Rightarrow> unit dbres" where
  "DeleteAccount tenantID ident d =
     (if list_ex (\<lambda>a. a_ID a = ident \<and> a_TenantID a = tenantID) (accounts d) then
        (Inr (), d\<lparr>accounts := filter (\<lambda>a. a_ID a \<noteq> ident) (accounts d),
                   execLog := filter (\<lambda>l. l_AccountID l \<noteq> ident) (execLog d),
                   deferred := filter (\<lambda>a. d_AccountID a \<noteq> ident) (deferred d),
                   processed := filter (\<lambda>p. p_AccountID p \<noteq> ident) (processed d),
                   locations := filter (\<lambda>l. ml_AccountID l \<noteq> ident) (locations d),
                   moves := filter (\<lambda>m. dm_AccountID m \<noteq> ident) (moves d),
                   applied := filter (\<lambda>m. am_AccountID m \<noteq> ident) (applied d)\<rparr>)
      else (Inr (), d))"

definition UpdateAccountOAuthTokens ::
  "crypt \<Rightarrow> (nat \<Rightarrow> string option) \<Rightarrow> time \<Rightarrow> int \<Rightarrow> string \<Rightarrow> string \<Rightarrow> time option \<Rightarrow> db \<Rightarrow> unit dbres" where
  "UpdateAccountOAuthTokens c rnd now accountID accessToken refreshToken expiry d =
     (let enc = (\<lambda>i s. res_or (encryptPassword c (rnd i) s accountID) s)
      in update_account accountID
           (\<lambda>r. r\<lparr>a_OAuthToken := enc 0 accessToken, a_OAuthRefreshToken := enc 1 refreshToken,
                  a_OAuthTokenExpiry := expiry, a_UpdatedAt := now\<rparr>) d)"

definition UpdateAccountSyncTime :: "time \<Rightarrow> int \<Rightarrow> db \<Rightarrow> unit dbres" where
  "UpdateAccountSyncTime now accountID = update_account accountID (\<lambda>r. r\<lparr>a_LastSyncAt := Some now\<rparr>)"

definition GetLastUIDProcessed :: "int \<Rightarrow> db \<Rightarrow> dberr + uid" where
  "GetLastUIDProcessed accountID d =
     res_bind (get_row (\<lambda>a. a_ID a = accountID) (accounts d))
       (\<lambda>a. Inr (a_LastUIDProcessed a mod 2 ^ 32))"

definition UpdateLastUIDProcessed :: "time \<Rightarrow> int \<Rightarrow> uid \<Rightarrow> db \<Rightarrow> unit dbres" where
  "UpdateLastUIDProcessed now accountID u =
     update_account accountID (\<lambda>r. r\<lparr>a_LastUIDProcessed := u, a_LastSyncAt := Some now\<rparr>)"

definition UpdateConnectionTestResult :: "time \<Rightarrow> int \<Rightarrow> string \<Rightarrow> string \<Rightarrow> db \<Rightarrow> unit dbres" where
  "UpdateConnectionTestResult now accountID status errMsg =
     update_account accountID
       (\<lambda>r. r\<lparr>a_LastConnectionTestAt := Some now, a_LastConnectionStatus := status,
              a_LastConnectionError := errMsg, a_UpdatedAt := now\<rparr>)"

subsection \<open>Rules\<close>

definition insert_rule :: "time \<Rightarrow> rule \<Rightarrow> db \<Rightarrow> rule dbres" where
  "insert_rule now r d =
     (if \<not> int4 (r_Priority r) then (Inl OutOfRange, d)
      else let r' = r\<lparr>r_ID := seqs d Rules, r_CreatedAt := now, r_UpdatedAt := now\<rparr>;
               d' = bump Rules d
           in if \<not> has_key t_ID (r_TenantID r) (tenants d) then (Inl FKViolation, d')
              else (Inr r', d'\<lparr>rules := rules d @ [r']\<rparr>))"

definition CreateRule :: "time \<Rightarrow> rule \<Rightarrow> db \<Rightarrow> rule dbres" where
  "CreateRule now r = insert_rule now (if r_Source r = [] then r\<lparr>r_Source := ''manual''\<rparr> else r)"

definition GetRule :: "int \<Rightarrow> int \<Rightarrow> db \<Rightarrow> dberr + rule" where
  "GetRule tenantID ident d = get_row (\<lambda>r. r_ID r = ident \<and> r_TenantID r = tenantID) (rules d)"

text \<open>ORDER BY priority, id.\<close>

definition rule_order :: "rule \<Rightarrow> int \<times> int" where
  "rule_order r = (r_Priority r, r_ID r)"

definition ListRules :: "int \<Rightarrow> db \<Rightarrow> rule list" where
  "ListRules tenantID d = sort_key rule_order (filter (\<lambda>r. r_TenantID r = tenantID) (rules d))"

definition ListActiveRules :: "int \<Rightarrow> db \<Rightarrow> rule list" where
  "ListActiveRules tenantID d =
     sort_key rule_order (filter (\<lambda>r. r_TenantID r = tenantID \<and> r_Active r \<and> r_Approved r) (rules d))"

definition UpdateRule :: "time \<Rightarrow> rule \<Rightarrow> db \<Rightarrow> unit dbres" where
  "UpdateRule now r d =
     (if \<not> int4 (r_Priority r) then (Inl OutOfRange, d)
      else (Inr (), d\<lparr>rules := upd (\<lambda>x. r_ID x = r_ID r \<and> r_TenantID x = r_TenantID r)
        (\<lambda>x. x\<lparr>r_Name := r_Name r, r_Description := r_Description r, r_LuaCode := r_LuaCode r,
               r_Priority := r_Priority r, r_Active := r_Active r, r_Source := r_Source r,
               r_Approved := r_Approved r, r_UsesAI := r_UsesAI r, r_UpdatedAt := now\<rparr>) (rules d)\<rparr>))"

text \<open>DELETE FROM rules: three tables cascade, two lose the reference.\<close>

definition drop_rule :: "int \<Rightarrow> db \<Rightarrow> db" where
  "drop_rule ident d = d\<lparr>rules := filter (\<lambda>r. r_ID r \<noteq> ident) (rules d),
     execLog := filter (\<lambda>l. l_RuleID l \<noteq> ident) (execLog d),
     deferred := filter (\<lambda>a. d_RuleID a \<noteq> ident) (deferred d),
     applied := filter (\<lambda>m. am_RuleID m \<noteq> ident) (applied d),
     processed := upd (\<lambda>p. p_RuleID p = Some ident) (\<lambda>p. p\<lparr>p_RuleID := None\<rparr>) (processed d),
     moves := upd (\<lambda>m. dm_RuleID m = Some ident) (\<lambda>m. m\<lparr>dm_RuleID := None\<rparr>) (moves d)\<rparr>"

definition delete_rule :: "int \<Rightarrow> int \<Rightarrow> db \<Rightarrow> nat \<times> db" where
  "delete_rule tenantID ident d =
     (let n = rows_affected (\<lambda>r. r_ID r = ident \<and> r_TenantID r = tenantID) (rules d)
      in (n, if n = 0 then d else drop_rule ident d))"

definition DeleteRule :: "int \<Rightarrow> int \<Rightarrow> db \<Rightarrow> unit dbres" where
  "DeleteRule tenantID ident d = (Inr (), snd (delete_rule tenantID ident d))"

definition ApproveRule :: "time \<Rightarrow> int \<Rightarrow> int \<Rightarrow> db \<Rightarrow> unit dbres" where
  "ApproveRule now tenantID ident d =
     (Inr (), d\<lparr>rules := upd (\<lambda>r. r_ID r = ident \<and> r_TenantID r = tenantID)
        (\<lambda>r. r\<lparr>r_Approved := True, r_UpdatedAt := now\<rparr>) (rules d)\<rparr>)"

definition ListSuggestedRules :: "int \<Rightarrow> db \<Rightarrow> rule list" where
  "ListSuggestedRules tenantID d =
     sort_key (\<lambda>r. - r_CreatedAt r) (filter (\<lambda>r. r_TenantID r = tenantID \<and> \<not> r_Approved r) (rules d))"

text \<open>
  Transactions: an error rolls the tables back to the state at BEGIN, the sequences stay.
\<close>

definition rollback :: "db \<Rightarrow> db \<Rightarrow> db" where
  "rollback d d' = d\<lparr>seqs := seqs d'\<rparr>"

fun reorder_loop :: "(nat \<Rightarrow> bool) \<Rightarrow> time \<Rightarrow> int \<Rightarrow> nat \<Rightarrow> int list \<Rightarrow> db \<Rightarrow> unit dbres" where
  "reorder_loop F now tenantID i [] d = (Inr (), d)"
| "reorder_loop F now tenantID i (ident # ids) d =
     (let priority = (int i + 1) * 10;
          P = (\<lambda>r. r_ID r = ident \<and> r_TenantID r = tenantID)
      in if F (i + 1) then (Inl ConnErr, d)
         else if \<not> int4 priority then (Inl OutOfRange, d)
         else if rows_affected P (rules d) = 0 then (Inl (RuleNotFound ident), d)
         else reorder_loop F now tenantID (i + 1) ids
                (d\<lparr>rules := upd P (\<lambda>r. r\<lparr>r_Priority := priority, r_UpdatedAt := now\<rparr>) (rules d)\<rparr>))"

definition ReorderRules :: "(nat \<Rightarrow> bool) \<Rightarrow> time \<Rightarrow> int \<Rightarrow> int list \<Rightarrow> db \<Rightarrow> unit dbres" where
  "ReorderRules F now tenantID ruleIDs d =
     (if F 0 then (Inl ConnErr, d)
      else case reorder_loop F now tenantID 0 ruleIDs d of
        (Inl e, d') \<Rightarrow> (Inl e, rollback d d')
      | (Inr _, d') \<Rightarrow> if F (length ruleIDs + 1) then (Inl ConnErr, rollback d d') else (Inr (), d'))"

fun bulk_delete_loop :: "(nat \<Rightarrow> bool) \<Rightarrow> int \<Rightarrow> nat \<Rightarrow> int list \<Rightarrow> nat \<Rightarrow> db \<Rightarrow> nat dbres" where
  "bulk_delete_loop F tenantID i [] deleted d = (Inr deleted, d)"
| "bulk_delete_loop F tenantID i (ident # ids) deleted d =
     (if F (i + 1) then (Inl ConnErr, d)
      else (case delete_rule tenantID ident d of
              (n, d') \<Rightarrow> bulk_delete_loop F tenantID (i + 1) ids (deleted + n) d'))"

definition BulkDeleteRules :: "(nat \<Rightarrow> bool) \<Rightarrow> int \<Rightarrow> int list \<Rightarrow> db \<Rightarrow> nat dbres" where
  "BulkDeleteRules F tenantID ruleIDs d =
     (if ruleIDs = [] then (Inr 0, d)
      else if F 0 then (Inl ConnErr, d)
      else case bulk_delete_loop F tenantID 0 ruleIDs 0 d of
        (Inl e, d') \<Rightarrow> (Inl e, rollback d d')
      | (Inr n, d') \<Rightarrow> if F (length ruleIDs + 1) then (Inl ConnErr, rollback d d') else (Inr n, d'))"

subsection \<open>Execution log and deferred actions\<close>

definition LogExecution :: "time \<Rightarrow> exec_log \<Rightarrow> db \<Rightarrow> exec_log dbres" where
  "LogExecution now l d =
     (let l' = l\<lparr>l_ID := seqs d ExecLog, l_ExecutedAt := now\<rparr>; d' = bump ExecLog d
      in if \<not> has_key r_ID (l_RuleID l) (rules d) \<or> \<not> has_key a_ID (l_AccountID l) (accounts d)
         then (Inl FKViolation, d')
         else (Inr l', d'\<lparr>execLog := execLog d @ [l']\<rparr>))"

text \<open>A negative LIMIT is an error of the database.\<close>

definition limit_rows :: "int \<Rightarrow> 'a list \<Rightarrow> dberr + 'a list" where
  "limit_rows n xs = (if n < 0 then Inl OutOfRange else Inr (take (nat n) xs))"

definition ListExecutionLogs :: "int \<Rightarrow> int \<Rightarrow> db \<Rightarrow> dberr + exec_log list" where
  "ListExecutionLogs tenantID limit d =
     limit_rows limit (sort_key (\<lambda>l. - l_ExecutedAt l)
       (filter (\<lambda>l. list_ex (\<lambda>r. r_ID r = l_RuleID l \<and> r_TenantID r = tenantID) (rules d)) (execLog d)))"

definition CreateDeferredAction :: "time \<Rightarrow> deferred_action \<Rightarrow> db \<Rightarrow> deferred_action dbres" where
  "CreateDeferredAction now a d =
     (let a' = a\<lparr>d_ID := seqs d Deferred, d_Executed := False, d_Status := ''pending'',
                 d_ExecutedAt := None, d_Error := [], d_CreatedAt := now\<rparr>;
          d' = bump Deferred d
      in if \<not> has_key r_ID (d_RuleID a) (rules d) \<or> \<not> has_key a_ID (d_AccountID a) (accounts d)
         then (Inl FKViolation, d')
         else (Inr a', d'\<lparr>deferred := deferred d @ [a']\<rparr>))"

definition due :: "time \<Rightarrow> deferred_action \<Rightarrow> bool" where
  "due now a \<longleftrightarrow> d_Status a = ''pending'' \<and> d_ExecuteAt a \<le> now"

definition GetPendingDeferredActions :: "time \<Rightarrow> db \<Rightarrow> deferred_action list" where
  "GetPendingDeferredActions now d = sort_key d_ExecuteAt (filter (due now) (deferred d))"

definition MarkDeferredActionDone :: "time \<Rightarrow> int \<Rightarrow> string \<Rightarrow> db \<Rightarrow> unit dbres" where
  "MarkDeferredActionDone now ident errMsg d =
     (let status = (if errMsg \<noteq> [] then ''failed'' else ''executed'')
      in (Inr (), d\<lparr>deferred := upd (\<lambda>a. d_ID a = ident)
            (\<lambda>a. a\<lparr>d_Executed := True, d_Status := status, d_ExecutedAt := Some now, d_Error := errMsg\<rparr>)
            (deferred d)\<rparr>))"

definition owned_by :: "db \<Rightarrow> int \<Rightarrow> int \<Rightarrow> bool" where
  "owned_by d tenantID accountID = list_ex (\<lambda>a. a_ID a = accountID \<and> a_TenantID a = tenantID) (accounts d)"

definition ListDeferredActions :: "int \<Rightarrow> db \<Rightarrow> deferred_action list" where
  "ListDeferredActions tenantID d =
     sort_key d_ExecuteAt
       (filter (\<lambda>a. owned_by d tenantID (d_AccountID a) \<and> d_Status a = ''pending'') (deferred d))"

definition CancelDeferredAction :: "int \<Rightarrow> int \<Rightarrow> db \<Rightarrow> unit dbres" where
  "CancelDeferredAction tenantID actionID d =
     (let P = (\<lambda>a. d_ID a = actionID \<and> owned_by d tenantID (d_AccountID a) \<and> d_Status a = ''pending'')
      in if rows_affected P (deferred d) = 0 then (Inl DeferredNotFound, d)
         else (Inr (), d\<lparr>deferred := filter (\<lambda>a. \<not> P a) (deferred d)\<rparr>))"

subsection \<open>Processed messages, locations, moves\<close>

definition IsMessageProcessed :: "int \<Rightarrow> string \<Rightarrow> db \<Rightarrow> bool" where
  "IsMessageProcessed accountID messageUID d =
     (0 < rows_affected (\<lambda>p. p_AccountID p = accountID \<and> p_MessageUID p = messageUID) (processed d))"

definition IsMessageMovedByRule :: "int \<Rightarrow> string \<Rightarrow> db \<Rightarrow> bool" where
  "IsMessageMovedByRule accountID messageUID d =
     (0 < rows_affected (\<lambda>p. p_AccountID p = accountID \<and> p_MessageUID p = messageUID
                            \<and> p_Action p = ''move'') (processed d))"

definition MarkMessageProcessed :: "time \<Rightarrow> int \<Rightarrow> string \<Rightarrow> int \<Rightarrow> string \<Rightarrow> db \<Rightarrow> unit dbres" where
  "MarkMessageProcessed now accountID messageUID ruleID action d =
     (if has_key (\<lambda>p. (p_AccountID p, p_MessageUID p)) (accountID, messageUID) (processed d)
      then (Inr (), d)
      else if \<not> has_key a_ID accountID (accounts d) \<or> \<not> has_key r_ID ruleID (rules d)
      then (Inl FKViolation, d)
      else (Inr (), d\<lparr>processed := processed d @
             [\<lparr>p_AccountID = accountID, p_MessageUID = messageUID, p_RuleID = Some ruleID,
               p_Action = action, p_ProcessedAt = now\<rparr>]\<rparr>))"

abbreviation loc_key :: "message_location \<Rightarrow> int \<times> string \<times> string" where
  "loc_key l \<equiv> (ml_AccountID l, ml_MessageUID l, ml_Folder l)"

definition UpsertMessageLocation :: "time \<Rightarrow> message_location \<Rightarrow> db \<Rightarrow> unit dbres" where
  "UpsertMessageLocation now loc d =
     (if has_key loc_key (loc_key loc) (locations d)
      then (Inr (), d\<lparr>locations := upd (\<lambda>l. loc_key l = loc_key loc) (\<lambda>l. l\<lparr>ml_SeenAt := now\<rparr>) (locations d)\<rparr>)
      else if \<not> has_key a_ID (ml_AccountID loc) (accounts d) then (Inl FKViolation, d)
      else (Inr (), d\<lparr>locations := locations d @ [loc\<lparr>ml_SeenAt := now\<rparr>]\<rparr>))"

definition GetMessageLocations :: "int \<Rightarrow> string \<Rightarrow> db \<Rightarrow> message_location list" where
  "GetMessageLocations accountID messageUID d =
     sort_key ml_SeenAt
       (filter (\<lambda>l. ml_AccountID l = accountID \<and> ml_MessageUID l = messageUID) (locations d))"

definition RecordDetectedMove :: "time \<Rightarrow> detected_move \<Rightarrow> db \<Rightarrow> detected_move dbres" where
  "RecordDetectedMove now m d =
     (let m' = m\<lparr>dm_ID := seqs d Moves, dm_DetectedAt := now, dm_RuleID := None\<rparr>; d' = bump Moves d
      in if \<not> has_key a_ID (dm_AccountID m) (accounts d) then (Inl FKViolation, d')
         else (Inr m', d'\<lparr>moves := moves d @ [m']\<rparr>))"

definition ListDetectedMoves :: "int \<Rightarrow> int \<Rightarrow> db \<Rightarrow> dberr + detected_move list" where
  "ListDetectedMoves tenantID limit d =
     limit_rows limit (sort_key (\<lambda>m. - dm_DetectedAt m)
       (filter (\<lambda>m. owned_by d tenantID (dm_AccountID m)) (moves d)))"

definition CleanOldMessageLocations :: "time \<Rightarrow> int \<Rightarrow> db \<Rightarrow> nat dbres" where
  "CleanOldMessageLocations now olderThan d =
     (let old = (\<lambda>l. ml_SeenAt l < now - olderThan)
      in (Inr (rows_affected old (locations d)), d\<lparr>locations := filter (\<lambda>l. \<not> old l) (locations d)\<rparr>))"

definition RecordRuleAppliedMove :: "time \<Rightarrow> int \<Rightarrow> int \<Rightarrow> string \<Rightarrow> string \<Rightarrow> db \<Rightarrow> unit dbres" where
  "RecordRuleAppliedMove now ruleID accountID messageID folder d =
     (let m = \<lparr>am_ID = seqs d Applied, am_RuleID = ruleID, am_MessageID = messageID,
               am_AccountID = accountID, am_Folder = folder, am_CreatedAt = now\<rparr>;
          d' = bump Applied d
      in if \<not> has_key r_ID ruleID (rules d) \<or> \<not> has_key a_ID accountID (accounts d)
         then (Inl FKViolation, d')
         else (Inr (), d'\<lparr>applied := applied d @ [m]\<rparr>))"

definition IsRuleAppliedMove :: "time \<Rightarrow> int \<Rightarrow> string \<Rightarrow> db \<Rightarrow> bool" where
  "IsRuleAppliedMove now accountID messageID d =
     (0 < rows_affected (\<lambda>m. am_AccountID m = accountID \<and> am_MessageID m = messageID
                            \<and> now - 24 * Hour < am_CreatedAt m) (applied d))"

definition CleanOldRuleAppliedMoves :: "time \<Rightarrow> db \<Rightarrow> nat dbres" where
  "CleanOldRuleAppliedMoves now d =
     (let old = (\<lambda>m. am_CreatedAt m < now - 24 * Hour)
      in (Inr (rows_affected old (applied d)), d\<lparr>applied := filter (\<lambda>m. \<not> old m) (applied d)\<rparr>))"

subsection \<open>Key rotation\<close>

fun rotate_loop ::
  "crypt \<Rightarrow> Encryptor \<Rightarrow> (nat \<Rightarrow> string option) \<Rightarrow> (nat \<Rightarrow> bool) \<Rightarrow> time \<Rightarrow> nat \<Rightarrow> (int \<times> string) list \<Rightarrow> nat \<Rightarrow> db \<Rightarrow> nat \<times> db" where
  "rotate_loop c e rnd F now i [] rotated d = (rotated, d)"
| "rotate_loop c e rnd F now i ((ident, password) # aps) rotated d =
     (case res_bind (Decrypt (cr_suite c) e password ident)
             (\<lambda>plaintext. Encrypt (cr_suite c) (rnd i) e plaintext ident) of
        Inl _ \<Rightarrow> rotate_loop c e rnd F now (i + 1) aps rotated d
      | Inr encrypted \<Rightarrow>
          if F (i + 1) then rotate_loop c e rnd F now (i + 1) aps rotated d
          else rotate_loop c e rnd F now (i + 1) aps (rotated + 1)
                 (snd (update_account ident (\<lambda>r. r\<lparr>a_Password := encrypted, a_UpdatedAt := now\<rparr>) d)))"

definition RotateEncryptionKeys ::
  "crypt \<Rightarrow> (nat \<Rightarrow> string option) \<Rightarrow> (nat \<Rightarrow> bool) \<Rightarrow> time \<Rightarrow> db \<Rightarrow> nat dbres" where
  "RotateEncryptionKeys c rnd F now d =
     (case cr_Encryptor c of
        None \<Rightarrow> (Inl NoEncryptor, d)
      | Some e \<Rightarrow>
          if F 0 then (Inl ConnErr, d)
          else (let toRotate = filter (\<lambda>(i, p). NeedsRotation e p)
                      (map (\<lambda>a. (a_ID a, a_Password a)) (filter (\<lambda>a. a_Password a \<noteq> []) (accounts d)))
                in case rotate_loop c e rnd F now 0 toRotate 0 d of (n, d') \<Rightarrow> (Inr n, d')))"

subsection \<open>Email metadata\<close>

abbreviation md_key :: "metadata_record \<Rightarrow> int \<times> string \<times> string" where
  "md_key m \<equiv> (md_TenantID m, md_MessageID m, md_Key m)"

definition AttachMetadata :: "time \<Rightarrow> int \<Rightarrow> string \<Rightarrow> string \<Rightarrow> string \<Rightarrow> db \<Rightarrow> metadata_record dbres" where
  "AttachMetadata now tenantID messageID key val d =
     (let d' = bump Metadata d
      in if 255 < char_length key then (Inl StringTooLong, d')
         else (case find (\<lambda>m. md_key m = (tenantID, messageID, key)) (metadata d) of
                 Some m \<Rightarrow>
                   (Inr (m\<lparr>md_Value := val, md_UpdatedAt := now\<rparr>),
                    d'\<lparr>metadata := upd (\<lambda>m. md_key m = (tenantID, messageID, key))
                        (\<lambda>m. m\<lparr>md_Value := val, md_UpdatedAt := now\<rparr>) (metadata d)\<rparr>)
               | None \<Rightarrow>
                   (let m = \<lparr>md_ID = seqs d Metadata, md_TenantID = tenantID, md_MessageID = messageID,
                             md_Key = key, md_Value = val, md_CreatedAt = now, md_UpdatedAt = now\<rparr>
                    in if \<not> has_key t_ID tenantID (tenants d) then (Inl FKViolation, d')
                       else (Inr m, d'\<lparr>metadata := metadata d @ [m]\<rparr>))))"

text \<open>\<open>coll\<close> is the sort key of the database's collation (ORDER BY key).\<close>

definition GetMetadataForMessage :: "(string \<Rightarrow> nat list) \<Rightarrow> int \<Rightarrow> string \<Rightarrow> db \<Rightarrow> metadata_record list" where
  "GetMetadataForMessage coll tenantID messageID d =
     sort_key (\<lambda>m. coll (md_Key m))
       (filter (\<lambda>m. md_TenantID m = tenantID \<and> md_MessageID m = messageID) (metadata d))"

definition UpdateMetadata :: "time \<Rightarrow> int \<Rightarrow> string \<Rightarrow> string \<Rightarrow> string \<Rightarrow> db \<Rightarrow> metadata_record dbres" where
  "UpdateMetadata now tenantID messageID key val d =
     (case find (\<lambda>m. md_key m = (tenantID, messageID, key)) (metadata d) of
        None \<Rightarrow> (Inl NoRows, d)
      | Some m \<Rightarrow>
          (Inr (m\<lparr>md_Value := val, md_UpdatedAt := now\<rparr>),
           d\<lparr>metadata := upd (\<lambda>m. md_key m = (tenantID, messageID, key))
               (\<lambda>m. m\<lparr>md_Value := val, md_UpdatedAt := now\<rparr>) (metadata d)\<rparr>))"

definition RemoveMetadata :: "int \<Rightarrow> string \<Rightarrow> string \<Rightarrow> db \<Rightarrow> unit dbres" where
  "RemoveMetadata tenantID messageID key d =
     (let P = (\<lambda>m. md_key m = (tenantID, messageID, key))
      in if rows_affected P (metadata d) = 0 then (Inl MetadataKeyNotFound, d)
         else (Inr (), d\<lparr>metadata := filter (\<lambda>m. \<not> P m) (metadata d)\<rparr>))"

definition QueryByMetadata :: "int \<Rightarrow> string \<Rightarrow> string \<Rightarrow> string \<Rightarrow> db \<Rightarrow> metadata_record list" where
  "QueryByMetadata tenantID key val excludeMessageID d =
     sort_key (\<lambda>m. - md_CreatedAt m)
       (filter (\<lambda>m. md_TenantID m = tenantID \<and> md_Key m = key \<and> md_Value m = val
                  \<and> (excludeMessageID \<noteq> [] \<longrightarrow> md_MessageID m \<noteq> excludeMessageID)) (metadata d))"

fun batch_attach_loop ::
  "(nat \<Rightarrow> bool) \<Rightarrow> time \<Rightarrow> int \<Rightarrow> string \<Rightarrow> string \<Rightarrow> nat \<Rightarrow> string list \<Rightarrow> metadata_record list \<Rightarrow> db \<Rightarrow> metadata_record list dbres" where
  "batch_attach_loop F now tenantID key val i [] records d = (Inr records, d)"
| "batch_attach_loop F now tenantID key val i (msgID # ids) records d =
     (case stmt (F (i + 1)) (AttachMetadata now tenantID msgID key val) d of
        (Inl e, d') \<Rightarrow> (Inl e, d')
      | (Inr m, d') \<Rightarrow> batch_attach_loop F now tenantID key val (i + 1) ids (records @ [m]) d')"

definition BatchAttachMetadata ::
  "(nat \<Rightarrow> bool) \<Rightarrow> time \<Rightarrow> int \<Rightarrow> string list \<Rightarrow> string \<Rightarrow> string \<Rightarrow> db \<Rightarrow> metadata_record list dbres" where
  "BatchAttachMetadata F now tenantID messageIDs key val d =
     (if F 0 then (Inl ConnErr, d)
      else case batch_attach_loop F now tenantID key val 0 messageIDs [] d of
        (Inl e, d') \<Rightarrow> (Inl e, rollback d d')
      | (Inr records, d') \<Rightarrow>
          if F (length messageIDs + 1) then (Inl ConnErr, rollback d d') else (Inr records, d'))"

fun batch_query_loop ::
  "(nat \<Rightarrow> bool) \<Rightarrow> int \<Rightarrow> nat \<Rightarrow> (string \<times> string) list \<Rightarrow> (string \<rightharpoonup> metadata_record list) \<Rightarrow> db
     \<Rightarrow> dberr + (string \<rightharpoonup> metadata_record list)" where
  "batch_query_loop F tenantID i [] results d = Inr results"
| "batch_query_loop F tenantID i ((key, val) # qs) results d =
     (if F i then Inl ConnErr
      else (let rows = QueryByMetadata tenantID key val [] d; mapKey = key @ ''='' @ val
            in batch_query_loop F tenantID (i + 1) qs
                 (if rows = [] then results
                  else results(mapKey \<mapsto> (case results mapKey of None \<Rightarrow> rows | Some rs \<Rightarrow> rs @ rows))) d))"

definition BatchQueryMetadata ::
  "(nat \<Rightarrow> bool) \<Rightarrow> int \<Rightarrow> (string \<times> string) list \<Rightarrow> db \<Rightarrow> dberr + (string \<rightharpoonup> metadata_record list)" where
  "BatchQueryMetadata F tenantID queries d = batch_query_loop F tenantID 0 queries Map.empty d"

end
