(* ===== verification/StoreAuth.thy ===== *)
theory StoreAuth
  imports Store
begin

text \<open>
  \<^verbatim>\<open>internal/db/auth.go\<close>: users, passkeys, API keys, the token blacklist, login attempts
  and the association of tenants with users.
\<close>

subsection \<open>Users\<close>

definition CreateUser :: "time \<Rightarrow> user \<Rightarrow> db \<Rightarrow> user dbres" where
  "CreateUser now u d =
     (let u' = u\<lparr>u_ID := seqs d Users, u_AIEnabled := True,
                 u_Role := (if u_Role u = [] then ''user'' else u_Role u),
                 u_CreatedAt := now, u_UpdatedAt := now\<rparr>;
          d' = bump Users d
      in if has_key u_Username (u_Username u) (users d) then (Inl UniqueViolation, d')
         else (Inr u', d'\<lparr>users := users d @ [u']\<rparr>))"

definition GetUserByUsername :: "string \<Rightarrow> db \<Rightarrow> dberr + user" where
  "GetUserByUsername username d = get_row (\<lambda>u. u_Username u = username) (users d)"

definition GetUserByID :: "int \<Rightarrow> db \<Rightarrow> dberr + user" where
  "GetUserByID ident d = get_row (\<lambda>u. u_ID u = ident) (users d)"

definition update_user :: "int \<Rightarrow> (user \<Rightarrow> user) \<Rightarrow> db \<Rightarrow> db" where
  "update_user ident g d = d\<lparr>users := upd (\<lambda>u. u_ID u = ident) g (users d)\<rparr>"

definition UpdateUserPassword :: "time \<Rightarrow> int \<Rightarrow> string \<Rightarrow> db \<Rightarrow> unit dbres" where
  "UpdateUserPassword now userID passwordHash d =
     (Inr (), update_user userID (\<lambda>u. u\<lparr>u_PasswordHash := passwordHash, u_UpdatedAt := now\<rparr>) d)"

definition UpdateUserTOTP :: "time \<Rightarrow> int \<Rightarrow> string option \<Rightarrow> bool \<Rightarrow> db \<Rightarrow> unit dbres" where
  "UpdateUserTOTP now userID secret enabled d =
     (Inr (), update_user userID
        (\<lambda>u. u\<lparr>u_TOTPSecret := secret, u_TOTPEnabled := enabled, u_UpdatedAt := now\<rparr>) d)"

subsection \<open>Passkeys\<close>

definition CreatePasskey :: "time \<Rightarrow> passkey \<Rightarrow> db \<Rightarrow> passkey dbres" where
  "CreatePasskey now p d =
     (let p' = p\<lparr>pk_ID := seqs d Passkeys, pk_CreatedAt := now, pk_LastUsedAt := None\<rparr>;
          d' = bump Passkeys d
      in if has_key pk_CredentialID (pk_CredentialID p) (passkeys d) then (Inl UniqueViolation, d')
         else if \<not> has_key u_ID (pk_UserID p) (users d) then (Inl FKViolation, d')
         else (Inr p', d'\<lparr>passkeys := passkeys d @ [p']\<rparr>))"

definition GetPasskeysByUserID :: "int \<Rightarrow> db \<Rightarrow> passkey list" where
  "GetPasskeysByUserID userID d =
     sort_key pk_CreatedAt (filter (\<lambda>p. pk_UserID p = userID) (passkeys d))"

definition GetPasskeyByCredentialID :: "string \<Rightarrow> db \<Rightarrow> dberr + passkey" where
  "GetPasskeyByCredentialID credentialID d =
     get_row (\<lambda>p. pk_CredentialID p = credentialID) (passkeys d)"

definition UpdatePasskeySignCount :: "time \<Rightarrow> int \<Rightarrow> nat \<Rightarrow> db \<Rightarrow> unit dbres" where
  "UpdatePasskeySignCount now ident signCount d =
     (Inr (), d\<lparr>passkeys := upd (\<lambda>p. pk_ID p = ident)
        (\<lambda>p. p\<lparr>pk_SignCount := signCount, pk_LastUsedAt := Some now\<rparr>) (passkeys d)\<rparr>)"

definition DeletePasskey :: "int \<Rightarrow> int \<Rightarrow> db \<Rightarrow> unit dbres" where
  "DeletePasskey ident userID d =
     (Inr (), d\<lparr>passkeys := filter (\<lambda>p. \<not> (pk_ID p = ident \<and> pk_UserID p = userID)) (passkeys d)\<rparr>)"

subsection \<open>API keys\<close>

definition CreateAPIKey :: "time \<Rightarrow> api_key \<Rightarrow> db \<Rightarrow> api_key dbres" where
  "CreateAPIKey now k d =
     (let k' = k\<lparr>k_ID := seqs d APIKeys, k_CreatedAt := now, k_LastUsedAt := None\<rparr>;
          d' = bump APIKeys d
      in if has_key k_KeyHash (k_KeyHash k) (apiKeys d) then (Inl UniqueViolation, d')
         else if \<not> has_key u_ID (k_UserID k) (users d) then (Inl FKViolation, d')
         else (Inr k', d'\<lparr>apiKeys := apiKeys d @ [k']\<rparr>))"

text \<open>The query does not select the hash.\<close>

definition GetAPIKeysByUserID :: "int \<Rightarrow> db \<Rightarrow> api_key list" where
  "GetAPIKeysByUserID userID d =
     map (\<lambda>k. k\<lparr>k_KeyHash := []\<rparr>)
       (sort_key k_CreatedAt (filter (\<lambda>k. k_UserID k = userID) (apiKeys d)))"

definition GetUserByAPIKeyHash :: "(nat \<Rightarrow> bool) \<Rightarrow> time \<Rightarrow> string \<Rightarrow> db \<Rightarrow> user dbres" where
  "GetUserByAPIKeyHash F now keyHash d =
     (case query (F 0) (res_bind (get_row (\<lambda>k. k_KeyHash k = keyHash) (apiKeys d))
                         (\<lambda>k. get_row (\<lambda>u. u_ID u = k_UserID k) (users d))) of
        Inl e \<Rightarrow> (Inl e, d)
      | Inr u \<Rightarrow>
          (Inr u, if F 1 then d
                  else d\<lparr>apiKeys := upd (\<lambda>k. k_KeyHash k = keyHash)
                           (\<lambda>k. k\<lparr>k_LastUsedAt := Some now\<rparr>) (apiKeys d)\<rparr>))"

definition DeleteAPIKey :: "int \<Rightarrow> int \<Rightarrow> db \<Rightarrow> unit dbres" where
  "DeleteAPIKey ident userID d =
     (Inr (), d\<lparr>apiKeys := filter (\<lambda>k. \<not> (k_ID k = ident \<and> k_UserID k = userID)) (apiKeys d)\<rparr>)"

subsection \<open>Token blacklist\<close>

definition BlacklistToken :: "string \<Rightarrow> time \<Rightarrow> db \<Rightarrow> unit dbres" where
  "BlacklistToken tokenHash expiresAt d =
     (Inr (), if has_key b_TokenHash tokenHash (blacklist d) then d
              else d\<lparr>blacklist := blacklist d @ [\<lparr>b_TokenHash = tokenHash, b_ExpiresAt = expiresAt\<rparr>]\<rparr>)"

definition IsTokenBlacklisted :: "time \<Rightarrow> string \<Rightarrow> db \<Rightarrow> bool" where
  "IsTokenBlacklisted now tokenHash d =
     (0 < rows_affected (\<lambda>b. b_TokenHash b = tokenHash \<and> now < b_ExpiresAt b) (blacklist d))"

definition CleanExpiredTokens :: "time \<Rightarrow> db \<Rightarrow> unit dbres" where
  "CleanExpiredTokens now d =
     (Inr (), d\<lparr>blacklist := filter (\<lambda>b. \<not> b_ExpiresAt b < now) (blacklist d)\<rparr>)"

subsection \<open>Login attempts\<close>

definition RecordLoginAttempt :: "time \<Rightarrow> string \<Rightarrow> string \<Rightarrow> bool \<Rightarrow> db \<Rightarrow> unit dbres" where
  "RecordLoginAttempt now username ip success d =
     (Inr (), (bump Attempts d)\<lparr>attempts := attempts d @
        [\<lparr>at_ID = seqs d Attempts, at_Username = username, at_IPAddress = ip, at_Success = success,
          at_AttemptedAt = now\<rparr>]\<rparr>)"

definition CountRecentFailedAttempts :: "time \<Rightarrow> string \<Rightarrow> string \<Rightarrow> int \<Rightarrow> db \<Rightarrow> nat" where
  "CountRecentFailedAttempts now username ip window d =
     rows_affected (\<lambda>a. (at_Username a = username \<or> at_IPAddress a = ip) \<and> \<not> at_Success a
                      \<and> now - window < at_AttemptedAt a) (attempts d)"

subsection \<open>Administration, tenants of a user\<close>

definition ListAllUsers :: "db \<Rightarrow> user list" where
  "ListAllUsers d = sort_key u_ID (users d)"

definition update_existing_user :: "int \<Rightarrow> (user \<Rightarrow> user) \<Rightarrow> db \<Rightarrow> unit dbres" where
  "update_existing_user userID g d =
     (if rows_affected (\<lambda>u. u_ID u = userID) (users d) = 0 then (Inl UserNotFound, d)
      else (Inr (), update_user userID g d))"

definition UpdateUserRole :: "time \<Rightarrow> int \<Rightarrow> string \<Rightarrow> db \<Rightarrow> unit dbres" where
  "UpdateUserRole now userID role =
     update_existing_user userID (\<lambda>u. u\<lparr>u_Role := role, u_UpdatedAt := now\<rparr>)"

definition UpdateUserAIEnabled :: "time \<Rightarrow> int \<Rightarrow> bool \<Rightarrow> db \<Rightarrow> unit dbres" where
  "UpdateUserAIEnabled now userID aiEnabled =
     update_existing_user userID (\<lambda>u. u\<lparr>u_AIEnabled := aiEnabled, u_UpdatedAt := now\<rparr>)"

definition GetUserAIEnabled :: "int \<Rightarrow> db \<Rightarrow> dberr + bool" where
  "GetUserAIEnabled userID d =
     res_bind (get_row (\<lambda>u. u_ID u = userID) (users d)) (\<lambda>u. Inr (u_AIEnabled u))"

definition GetUserIDByTenantID :: "int \<Rightarrow> db \<Rightarrow> dberr + int" where
  "GetUserIDByTenantID tenantID d =
     res_bind (get_row (\<lambda>t. t_ID t = tenantID) (tenants d))
       (\<lambda>t. case t_UserID t of None \<Rightarrow> Inl TenantHasNoUser | Some u \<Rightarrow> Inr u)"

definition GetTenantsByUserID :: "int \<Rightarrow> db \<Rightarrow> tenant list" where
  "GetTenantsByUserID userID d = sort_key t_ID (filter (\<lambda>t. t_UserID t = Some userID) (tenants d))"

definition AssignTenantToUser :: "int \<Rightarrow> int \<Rightarrow> db \<Rightarrow> unit dbres" where
  "AssignTenantToUser tenantID userID d =
     (if has_key t_ID tenantID (tenants d) \<and> \<not> has_key u_ID userID (users d) then (Inl FKViolation, d)
      else (Inr (), d\<lparr>tenants := upd (\<lambda>t. t_ID t = tenantID) (\<lambda>t. t\<lparr>t_UserID := Some userID\<rparr>) (tenants d)\<rparr>))"

definition CreateTenantForUser :: "time \<Rightarrow> int \<Rightarrow> string \<Rightarrow> db \<Rightarrow> tenant dbres" where
  "CreateTenantForUser now userID username =
     insert_tenant now (username @ [CHR 0x27] @ ''s workspace'') (''user-'' @ FormatInt userID)
       (''auto_'' @ FormatInt userID @ ''_'' @ FormatInt now) (Some userID)"

end
