(* ===== verification/StoreInv.thy ===== *)
theory StoreInv
  imports StoreAuth
begin

text \<open>
  The invariant of the database: every operation of \<^verbatim>\<open>internal/db\<close> keeps the unique keys,
  the foreign keys, the sequences ahead of the identifiers, and the status of deferred actions
  coherent. The first lemmas are about the statements the operations share; the collection
  \<open>db_inv_intros\<close> has one lemma per operation.
\<close>

named_theorems db_inv_intros \<open>every operation keeps the invariant\<close>

lemma below_Suc: "below f t n \<Longrightarrow> below f t (n + 1)"
  by (auto simp: below_iff)

lemma db_inv_bump: "db_inv d \<Longrightarrow> db_inv (bump t d)"
  by (cases t) (simp_all add: inv_defs bump_def below_Suc)

lemma db_inv_empty: "db_inv empty_db"
  by (simp add: inv_defs empty_db_def tbl_simps)

lemma below_mono: "below f t n \<Longrightarrow> n \<le> m \<Longrightarrow> below f t m"
  by (auto simp: below_iff)

lemma db_inv_rollback: "db_inv d \<Longrightarrow> (\<And>t. seqs d t \<le> seqs d' t) \<Longrightarrow> db_inv (rollback d d')"
  by (auto simp: rollback_def inv_defs elim: below_mono)

lemmas upd_keys = uniq_upd refs_upd refs_target_upd orefs_upd orefs_target_upd below_upd
lemmas inv_simps = db_inv_bump inv_defs bump_def tbl_simps below_fresh below_Suc upd_keys

subsection \<open>Statements\<close>

lemma insert_tenant_inv: "db_inv d \<Longrightarrow> db_inv (snd (insert_tenant now n s k u d))"
  by (simp add: insert_tenant_def Let_def inv_simps split: option.splits)

lemma insert_account_inv: "db_inv d \<Longrightarrow> db_inv (snd (insert_account now a d))"
  by (simp add: insert_account_def Let_def inv_simps)

lemma update_account_inv:
  assumes "db_inv d" and "\<And>r. a_ID (g r) = a_ID r" and "\<And>r. a_TenantID (g r) = a_TenantID r"
  shows "db_inv (snd (update_account i g d))"
  using assms by (simp add: update_account_def inv_defs upd_keys)

lemma insert_rule_inv: "db_inv d \<Longrightarrow> db_inv (snd (insert_rule now r d))"
  by (simp add: insert_rule_def Let_def inv_simps)

lemma upd_rules_inv:
  assumes "db_inv d" and "\<And>r. r_ID (g r) = r_ID r" and "\<And>r. r_TenantID (g r) = r_TenantID r"
  shows "db_inv (d\<lparr>rules := upd P g (rules d)\<rparr>)"
  using assms by (simp add: inv_defs upd_keys)

lemma update_user_inv:
  assumes "db_inv d" and "\<And>u. u_ID (g u) = u_ID u" and "\<And>u. u_Username (g u) = u_Username u"
  shows "db_inv (update_user i g d)"
  using assms by (simp add: update_user_def inv_defs upd_keys)

lemma status_filter: "list_all status_ok t \<Longrightarrow> list_all status_ok (filter P t)"
  by (simp add: list_all_iff)

lemma drop_rule_inv: "db_inv d \<Longrightarrow> db_inv (drop_rule i d)"
proof -
  assume inv: "db_inv d"
  have "orefs p_RuleID (upd (\<lambda>p. p_RuleID p = Some i) (\<lambda>p. p\<lparr>p_RuleID := None\<rparr>) (processed d))
      r_ID (filter (\<lambda>r. r_ID r \<noteq> i) (rules d))"
    and "orefs dm_RuleID (upd (\<lambda>m. dm_RuleID m = Some i) (\<lambda>m. m\<lparr>dm_RuleID := None\<rparr>) (moves d))
      r_ID (filter (\<lambda>r. r_ID r \<noteq> i) (rules d))"
    using inv by (auto simp: inv_defs intro!: orefs_set_null)
  with inv show ?thesis
    by (simp add: drop_rule_def inv_defs tbl_simps upd_keys status_filter refs_cascade)
qed

lemma delete_rule_inv: "db_inv d \<Longrightarrow> db_inv (snd (delete_rule t i d))"
  by (simp add: delete_rule_def Let_def drop_rule_inv)

lemma stmt_inv: "db_inv d \<Longrightarrow> (db_inv d \<Longrightarrow> db_inv (snd (op d))) \<Longrightarrow> db_inv (snd (stmt f op d))"
  by (simp add: stmt_def)

subsection \<open>Tenants, folders, accounts\<close>

lemma CreateTenant_inv [db_inv_intros]: "db_inv d \<Longrightarrow> db_inv (snd (CreateTenant now t d))"
  by (simp add: CreateTenant_def insert_tenant_inv)

lemma CreateTenantForUser_inv [db_inv_intros]:
  "db_inv d \<Longrightarrow> db_inv (snd (CreateTenantForUser now u n d))"
  by (simp add: CreateTenantForUser_def insert_tenant_inv)

lemma AssignTenantToUser_inv [db_inv_intros]: "db_inv d \<Longrightarrow> db_inv (snd (AssignTenantToUser t u d))"
proof -
  assume inv: "db_inv d"
  have "orefs t_UserID (upd (\<lambda>x. t_ID x = t) (\<lambda>x. x\<lparr>t_UserID := Some u\<rparr>) (tenants d)) u_ID (users d)"
    if "has_key t_ID t (tenants d) \<longrightarrow> has_key u_ID u (users d)"
    using that inv by (auto simp: orefs_iff set_upd inv_defs has_key_iff image_iff)
  with inv show ?thesis by (simp add: AssignTenantToUser_def inv_defs upd_keys)
qed

lemma SetExemptFolders_inv [db_inv_intros]: "db_inv d \<Longrightarrow> db_inv (snd (SetExemptFolders now a fs d))"
  by (simp add: SetExemptFolders_def inv_defs upd_keys)

lemma AddExemptFolder_inv [db_inv_intros]: "db_inv d \<Longrightarrow> db_inv (snd (AddExemptFolder U F now a f d))"
  using SetExemptFolders_inv
  by (auto simp: AddExemptFolder_def stmt_def split: sum.splits prod.splits) (metis snd_conv)+

lemma RemoveExemptFolder_inv [db_inv_intros]:
  "db_inv d \<Longrightarrow> db_inv (snd (RemoveExemptFolder U F now a f d))"
  using SetExemptFolders_inv
  by (auto simp: RemoveExemptFolder_def stmt_def Let_def split: sum.splits prod.splits) (metis snd_conv)+

lemma encrypt_column_inv:
  assumes "db_inv d" and "\<And>v r. a_ID (s v r) = a_ID r" and "\<And>v r. a_TenantID (s v r) = a_TenantID r"
  shows "db_inv (encrypt_column c f rnd tok i s d)"
  using assms by (auto simp: encrypt_column_def stmt_def update_account_inv split: sum.splits)

lemma CreateAccount_inv [db_inv_intros]:
  assumes "db_inv d"
  shows "db_inv (snd (CreateAccount c rnd F now a d))"
proof -
  obtain r d1 where i: "stmt (F 0) (insert_account now a) d = (r, d1)" by fastforce
  have d1: "db_inv d1"
    using stmt_inv [where op = "insert_account now a" and f = "F 0", OF assms] insert_account_inv i by force
  then have pw: "db_inv (snd (stmt f (update_account j (\<lambda>r. r\<lparr>a_Password := e\<rparr>)) d1))" for f j e
    by (simp add: stmt_def update_account_inv)
  show ?thesis
    using d1 pw [of "F 1"]
    by (auto simp: CreateAccount_def i Let_def split: sum.splits prod.splits
        intro!: encrypt_column_inv) (metis snd_conv)+
qed

lemma UpdateAccount_inv [db_inv_intros]: "db_inv d \<Longrightarrow> db_inv (snd (UpdateAccount c rnd now a d))"
  by (simp add: UpdateAccount_def Let_def inv_defs upd_keys)

lemma DeleteAccount_inv [db_inv_intros]: "db_inv d \<Longrightarrow> db_inv (snd (DeleteAccount t i d))"
  by (simp add: DeleteAccount_def inv_defs tbl_simps status_filter refs_cascade)

lemma account_updates_inv [db_inv_intros]:
  "db_inv d \<Longrightarrow> db_inv (snd (UpdateAccountOAuthTokens c rnd now i tok rtok ex d))"
  "db_inv d \<Longrightarrow> db_inv (snd (UpdateAccountSyncTime now i d))"
  "db_inv d \<Longrightarrow> db_inv (snd (UpdateLastUIDProcessed now i u d))"
  "db_inv d \<Longrightarrow> db_inv (snd (UpdateConnectionTestResult now i st er d))"
  by (simp_all add: UpdateAccountOAuthTokens_def UpdateAccountSyncTime_def UpdateLastUIDProcessed_def
      UpdateConnectionTestResult_def Let_def update_account_inv)

subsection \<open>Rules\<close>

lemma CreateRule_inv [db_inv_intros]: "db_inv d \<Longrightarrow> db_inv (snd (CreateRule now r d))"
  by (simp add: CreateRule_def insert_rule_inv)

lemma rule_updates_inv [db_inv_intros]:
  "db_inv d \<Longrightarrow> db_inv (snd (UpdateRule now r d))"
  "db_inv d \<Longrightarrow> db_inv (snd (ApproveRule now t i d))"
  by (simp_all add: UpdateRule_def ApproveRule_def upd_rules_inv)

lemma DeleteRule_inv [db_inv_intros]: "db_inv d \<Longrightarrow> db_inv (snd (DeleteRule t i d))"
  by (simp add: DeleteRule_def delete_rule_inv)

lemma reorder_loop_inv: "db_inv d \<Longrightarrow> db_inv (snd (reorder_loop F now t i ids d))"
  by (induction F now t i ids d rule: reorder_loop.induct) (auto simp: Let_def upd_rules_inv)

lemma reorder_loop_seqs: "seqs (snd (reorder_loop F now t i ids d)) = seqs d"
  by (induction F now t i ids d rule: reorder_loop.induct) (auto simp: Let_def)

lemma ReorderRules_inv [db_inv_intros]: "db_inv d \<Longrightarrow> db_inv (snd (ReorderRules F now t ids d))"
  using reorder_loop_inv [of d F now t 0 ids] reorder_loop_seqs [of F now t 0 ids d]
  by (auto simp: ReorderRules_def db_inv_rollback split: prod.splits sum.splits)

lemma delete_rule_seqs: "seqs (snd (delete_rule t i d)) = seqs d"
  by (simp add: delete_rule_def Let_def drop_rule_def)

lemma bulk_delete_loop_inv:
  "db_inv d \<Longrightarrow> db_inv (snd (bulk_delete_loop F t i ids n d)) \<and> seqs (snd (bulk_delete_loop F t i ids n d)) = seqs d"
proof (induction ids arbitrary: i n d)
  case (Cons x ids)
  obtain m d' where m: "delete_rule t x d = (m, d')" by fastforce
  with Cons.prems have "db_inv d'" "seqs d' = seqs d"
    using delete_rule_inv [of d t x] delete_rule_seqs [of t x d] by simp_all
  with Cons.IH [of d' "i + 1" "n + m"] Cons.prems m show ?case by simp
qed simp

lemma BulkDeleteRules_inv [db_inv_intros]: "db_inv d \<Longrightarrow> db_inv (snd (BulkDeleteRules F t ids d))"
  using bulk_delete_loop_inv [of d F t 0 ids 0]
  by (auto simp: BulkDeleteRules_def db_inv_rollback split: prod.splits sum.splits)

subsection \<open>Log, deferred actions, messages\<close>

lemma LogExecution_inv [db_inv_intros]: "db_inv d \<Longrightarrow> db_inv (snd (LogExecution now l d))"
  by (simp add: LogExecution_def Let_def inv_simps)

lemma CreateDeferredAction_inv [db_inv_intros]: "db_inv d \<Longrightarrow> db_inv (snd (CreateDeferredAction now a d))"
  by (simp add: CreateDeferredAction_def Let_def inv_simps status_ok_def)

lemma MarkDeferredActionDone_inv [db_inv_intros]:
  "db_inv d \<Longrightarrow> db_inv (snd (MarkDeferredActionDone now i e d))"
proof -
  assume inv: "db_inv d"
  have "list_all status_ok (upd P (\<lambda>a. a\<lparr>d_Executed := True, d_Status := (if e \<noteq> [] then ''failed'' else ''executed''),
      d_ExecutedAt := x, d_Error := e\<rparr>) t)" if "list_all status_ok t" for P x t
    using that by (auto simp: list_all_iff set_upd status_ok_def)
  with inv show ?thesis by (simp add: MarkDeferredActionDone_def Let_def inv_defs upd_keys)
qed

lemma CancelDeferredAction_inv [db_inv_intros]: "db_inv d \<Longrightarrow> db_inv (snd (CancelDeferredAction t i d))"
  by (simp add: CancelDeferredAction_def Let_def inv_defs tbl_simps status_filter)

lemma MarkMessageProcessed_inv [db_inv_intros]:
  "db_inv d \<Longrightarrow> db_inv (snd (MarkMessageProcessed now a u r ac d))"
  by (simp add: MarkMessageProcessed_def inv_simps)

lemma UpsertMessageLocation_inv [db_inv_intros]: "db_inv d \<Longrightarrow> db_inv (snd (UpsertMessageLocation now l d))"
  by (simp add: UpsertMessageLocation_def inv_simps)

lemma RecordDetectedMove_inv [db_inv_intros]: "db_inv d \<Longrightarrow> db_inv (snd (RecordDetectedMove now m d))"
  by (simp add: RecordDetectedMove_def Let_def inv_simps)

lemma RecordRuleAppliedMove_inv [db_inv_intros]:
  "db_inv d \<Longrightarrow> db_inv (snd (RecordRuleAppliedMove now r a m f d))"
  by (simp add: RecordRuleAppliedMove_def Let_def inv_simps)

lemma clean_inv [db_inv_intros]:
  "db_inv d \<Longrightarrow> db_inv (snd (CleanOldMessageLocations now age d))"
  "db_inv d \<Longrightarrow> db_inv (snd (CleanOldRuleAppliedMoves now d))"
  by (simp_all add: CleanOldMessageLocations_def CleanOldRuleAppliedMoves_def Let_def inv_defs tbl_simps)

subsection \<open>Key rotation and metadata\<close>

lemma rotate_loop_inv: "db_inv d \<Longrightarrow> db_inv (snd (rotate_loop c e rnd F now i aps n d))"
  by (induction c e rnd F now i aps n d rule: rotate_loop.induct)
    (auto simp: update_account_inv split: sum.splits)

lemma RotateEncryptionKeys_inv [db_inv_intros]:
  "db_inv d \<Longrightarrow> db_inv (snd (RotateEncryptionKeys c rnd F now d))"
  using rotate_loop_inv [of d]
  by (auto simp: RotateEncryptionKeys_def Let_def split: option.splits prod.splits) (metis snd_conv)

lemma AttachMetadata_inv [db_inv_intros]: "db_inv d \<Longrightarrow> db_inv (snd (AttachMetadata now t m k v d))"
proof -
  assume inv: "db_inv d"
  have "\<not> has_key md_key (t, m, k) (metadata d)"
    if "find (\<lambda>x. md_key x = (t, m, k)) (metadata d) = None"
    using that by (auto simp: find_None_iff has_key_iff)
  with inv show ?thesis
    by (simp add: AttachMetadata_def Let_def inv_simps split: option.splits)
qed

lemma metadata_updates_inv [db_inv_intros]:
  "db_inv d \<Longrightarrow> db_inv (snd (UpdateMetadata now t m k v d))"
  "db_inv d \<Longrightarrow> db_inv (snd (RemoveMetadata t m k d))"
  by (simp_all add: UpdateMetadata_def RemoveMetadata_def Let_def inv_defs tbl_simps upd_keys
      split: option.splits)

lemma AttachMetadata_seqs: "seqs d x \<le> seqs (snd (AttachMetadata now t m k v d)) x"
  by (simp add: AttachMetadata_def Let_def bump_def split: option.splits)

lemma batch_attach_loop_inv:
  "db_inv d \<Longrightarrow> db_inv (snd (batch_attach_loop F now t k v i ms rs d)) \<and>
    seqs d x \<le> seqs (snd (batch_attach_loop F now t k v i ms rs d)) x"
proof (induction ms arbitrary: i rs d)
  case (Cons m ms)
  obtain r d' where s: "stmt (F (i + 1)) (AttachMetadata now t m k v) d = (r, d')" by fastforce
  then have d': "db_inv d'" "seqs d x \<le> seqs d' x"
    using AttachMetadata_inv [OF Cons.prems, of now t m k v] AttachMetadata_seqs [of d x now t m k v] Cons.prems
    by (auto simp: stmt_def split: if_splits)
  show ?case
  proof (cases r)
    case (Inr y)
    with Cons.IH [OF d'(1), of "i + 1" "rs @ [y]"] s d'(2) show ?thesis by simp
  qed (use s d' in simp)
qed simp

lemma BatchAttachMetadata_inv [db_inv_intros]:
  "db_inv d \<Longrightarrow> db_inv (snd (BatchAttachMetadata F now t ms k v d))"
  using batch_attach_loop_inv [of d F now t k v 0 ms "[]"]
  by (auto simp: BatchAttachMetadata_def intro!: db_inv_rollback split: prod.splits sum.splits)

subsection \<open>Users, keys, tokens\<close>

lemma CreateUser_inv [db_inv_intros]: "db_inv d \<Longrightarrow> db_inv (snd (CreateUser now u d))"
  by (simp add: CreateUser_def Let_def inv_simps)

lemma user_updates_inv [db_inv_intros]:
  "db_inv d \<Longrightarrow> db_inv (snd (UpdateUserPassword now i h d))"
  "db_inv d \<Longrightarrow> db_inv (snd (UpdateUserTOTP now i s en d))"
  "db_inv d \<Longrightarrow> db_inv (snd (UpdateUserRole now i ro d))"
  "db_inv d \<Longrightarrow> db_inv (snd (UpdateUserAIEnabled now i ai d))"
  by (simp_all add: UpdateUserPassword_def UpdateUserTOTP_def UpdateUserRole_def UpdateUserAIEnabled_def
      update_existing_user_def update_user_inv)

lemma passkey_inv [db_inv_intros]:
  "db_inv d \<Longrightarrow> db_inv (snd (CreatePasskey now p d))"
  "db_inv d \<Longrightarrow> db_inv (snd (UpdatePasskeySignCount now i n d))"
  "db_inv d \<Longrightarrow> db_inv (snd (DeletePasskey i u d))"
  by (simp_all add: CreatePasskey_def UpdatePasskeySignCount_def DeletePasskey_def Let_def inv_simps)

lemma api_key_inv [db_inv_intros]:
  "db_inv d \<Longrightarrow> db_inv (snd (CreateAPIKey now k d))"
  "db_inv d \<Longrightarrow> db_inv (snd (GetUserByAPIKeyHash F now h d))"
  "db_inv d \<Longrightarrow> db_inv (snd (DeleteAPIKey i u d))"
  by (simp_all add: CreateAPIKey_def GetUserByAPIKeyHash_def DeleteAPIKey_def Let_def inv_simps
      split: sum.splits)

lemma token_inv [db_inv_intros]:
  "db_inv d \<Longrightarrow> db_inv (snd (BlacklistToken h e d))"
  "db_inv d \<Longrightarrow> db_inv (snd (CleanExpiredTokens now d))"
  "db_inv d \<Longrightarrow> db_inv (snd (RecordLoginAttempt now u ip s d))"
  by (simp_all add: BlacklistToken_def CleanExpiredTokens_def RecordLoginAttempt_def inv_simps)

end
