(* ===== verification/World.thy ===== *)
theory World
  imports StoreInv Kiro
begin

text \<open>
  The world the services act on: the database, the connections to IMAP servers and the commands
  sent to them, the chat messages sent, the events published (\<^verbatim>\<open>internal/nats/nats.go\<close>), and the
  AI client. What lies outside the program is the record \<open>env\<close>: the answer of an IMAP server to a
  command, given all commands before it; the answer of the Telegram API; whether the event bus
  accepts an event; the texts of database errors; which database calls do not reach the server.
\<close>

datatype imap_cmd =
    C_DialTLS string
  | C_Dial string
  | C_Greeting
  | C_Login string string
  | C_Logout
  | C_Close
  | C_Select string
  | C_UIDSearchMessageID string
  | C_StoreAdd uid string
  | C_UIDExpunge uid
  | C_Expunge
  | C_Create string
  | C_Move uid string

datatype imap_resp = R_OK | R_Err string | R_UIDs "uid list"

datatype bus_event = Incoming incoming_event | Result result_event | DeferredEv deferred_event

datatype tg_resp = TgFailed string | TgStatus int

record imap_conn =
  ic_account :: account
  ic_client :: bool

record world =
  w_db :: db
  w_conns :: "int \<rightharpoonup> imap_conn"
  w_cmds :: "(int \<times> imap_cmd) list"
  w_sent :: "string list"
  w_bus :: "(string \<times> bus_event) list"
  w_kiro :: "KiroClient option"

text \<open>The database calls of the event handlers that can fail to reach the server.\<close>

datatype site = S_IsProcessed | S_ListRules | S_TenantUser | S_UserAI | S_LogExecution | S_CreateDeferred
  | S_LogFailure | S_MarkProcessed | S_ListAccounts | S_RecordMove | S_Pending | S_MarkDone int
  | S_Clean | S_LastUID | S_SyncTime | S_UpdateUID | S_FetchProcessed uid | S_Locations uid | S_Upsert uid
  | S_Exempt string | S_DetectedMove string | S_IsApplied string | S_MovedByRule string
  | S_SimilarRules string | S_CreateRule string | S_OAuthTokens

record telegram =
  tg_botToken :: string
  tg_chatID :: string

record env =
  en_imap :: "(int \<times> imap_cmd) list \<Rightarrow> int \<Rightarrow> imap_cmd \<Rightarrow> imap_resp"
  en_telegram :: "string \<Rightarrow> tg_resp"
  en_publish :: "string \<Rightarrow> bus_event \<Rightarrow> bool"
  en_dbtext :: "dberr \<Rightarrow> string"
  en_fault :: "site \<Rightarrow> bool"
  en_crypt :: crypt
  en_kiro :: kiro_env
  en_notifier :: "telegram option"

abbreviation en_unicode :: "env \<Rightarrow> unicode" where
  "en_unicode N \<equiv> kv_unicode (en_kiro N)"

text \<open>A step that can fail with the text of its error, over the world.\<close>

type_synonym 'a io = "world \<Rightarrow> (string + 'a) \<times> world"

definition io_return :: "'a \<Rightarrow> 'a io" where
  "io_return x w = (Inr x, w)"

definition io_fail :: "string \<Rightarrow> 'a io" where
  "io_fail e w = (Inl e, w)"

definition io_bind :: "'a io \<Rightarrow> ('a \<Rightarrow> 'b io) \<Rightarrow> 'b io" where
  "io_bind m f w = (case m w of (Inl e, w') \<Rightarrow> (Inl e, w') | (Inr x, w') \<Rightarrow> f x w')"

text \<open>\<open>fmt.Errorf("p: %w", err)\<close> around the error of a step.\<close>

definition io_wrap :: "string \<Rightarrow> 'a io \<Rightarrow> 'a io" where
  "io_wrap p m w = (case m w of (Inl e, w') \<Rightarrow> (Inl (p @ '': '' @ e), w') | r \<Rightarrow> r)"

text \<open>A step whose error is ignored.\<close>

definition io_try :: "'a io \<Rightarrow> unit io" where
  "io_try m w = (Inr (), snd (m w))"

text \<open>When the first step fails, the second runs and the failure stays.\<close>

definition io_onerror :: "'a io \<Rightarrow> unit io \<Rightarrow> 'a io" where
  "io_onerror m cleanup w =
     (case m w of (Inl e, w') \<Rightarrow> (Inl e, snd (cleanup w')) | r \<Rightarrow> r)"

definition imap_do :: "env \<Rightarrow> int \<Rightarrow> imap_cmd \<Rightarrow> imap_resp io" where
  "imap_do N aid c w =
     (let r = en_imap N (w_cmds w) aid c; w' = w\<lparr>w_cmds := w_cmds w @ [(aid, c)]\<rparr>
      in case r of R_Err e \<Rightarrow> (Inl e, w') | _ \<Rightarrow> (Inr r, w'))"

definition db_do :: "env \<Rightarrow> site \<Rightarrow> (db \<Rightarrow> 'a dbres) \<Rightarrow> 'a io" where
  "db_do N at_site op w =
     (case stmt (en_fault N at_site) op (w_db w) of
        (Inl e, d) \<Rightarrow> (Inl (en_dbtext N e), w\<lparr>w_db := d\<rparr>)
      | (Inr x, d) \<Rightarrow> (Inr x, w\<lparr>w_db := d\<rparr>))"

definition db_read :: "env \<Rightarrow> site \<Rightarrow> (db \<Rightarrow> dberr + 'a) \<Rightarrow> 'a io" where
  "db_read N at_site q = db_do N at_site (\<lambda>d. (q d, d))"

text \<open>\<open>PublishToStream\<close>: the event is on the stream when the bus accepted it.\<close>

definition PublishToStream :: "env \<Rightarrow> string \<Rightarrow> bus_event \<Rightarrow> unit io" where
  "PublishToStream N subject data w =
     (if en_publish N subject data then (Inr (), w\<lparr>w_bus := w_bus w @ [(subject, data)]\<rparr>)
      else (Inl (''publish to '' @ subject), w))"

lemmas io_defs = io_return_def io_fail_def io_bind_def io_wrap_def io_try_def io_onerror_def

subsection \<open>Relations that steps keep\<close>

text \<open>
  \<open>io_rel R m\<close>: the world after \<open>m\<close> is related by \<open>R\<close> to the one before, whether \<open>m\<close> fails or
  not. For a preorder \<open>R\<close> the combinators compose: this is the contract \<open>io_preorder\<close>, of which
  the preservation of an invariant and the frame conditions below are instances.
\<close>

definition io_rel :: "(world \<Rightarrow> world \<Rightarrow> bool) \<Rightarrow> 'a io \<Rightarrow> bool" where
  "io_rel R m \<longleftrightarrow> (\<forall>w. R w (snd (m w)))"

lemma io_relD: "io_rel R m \<Longrightarrow> m w = (r, w') \<Longrightarrow> R w w'"
  unfolding io_rel_def by (metis snd_conv)

locale io_preorder =
  fixes R :: "world \<Rightarrow> world \<Rightarrow> bool"
  assumes refl [simp, intro]: "R w w"
    and trans: "R w w' \<Longrightarrow> R w' w'' \<Longrightarrow> R w w''"
begin

lemma return: "io_rel R (io_return x)"
  by (simp add: io_rel_def io_return_def)

lemma fail: "io_rel R (io_fail e)"
  by (simp add: io_rel_def io_fail_def)

lemma bind: "io_rel R m \<Longrightarrow> (\<And>x. io_rel R (f x)) \<Longrightarrow> io_rel R (io_bind m f)"
  unfolding io_rel_def io_bind_def
  by (auto split: prod.splits sum.splits) (metis snd_conv trans)+

lemma wrap: "io_rel R m \<Longrightarrow> io_rel R (io_wrap p m)"
  unfolding io_rel_def io_wrap_def by (auto split: prod.splits sum.splits) (metis snd_conv)+

lemma attempt: "io_rel R m \<Longrightarrow> io_rel R (io_try m)"
  by (simp add: io_rel_def io_try_def)

lemma onerror: "io_rel R m \<Longrightarrow> io_rel R c \<Longrightarrow> io_rel R (io_onerror m c)"
  unfolding io_rel_def io_onerror_def
  by (auto split: prod.splits sum.splits) (metis snd_conv trans)+

lemma fallback:
  assumes "io_rel R m" and "io_rel R n"
  shows "io_rel R (\<lambda>w. case m w of (Inr _, w') \<Rightarrow> (Inr (), w') | (Inl _, w') \<Rightarrow> n w')"
proof -
  have "R w (snd (case m w of (Inr _, w') \<Rightarrow> (Inr (), w') | (Inl _, w') \<Rightarrow> n w'))" for w
  proof (cases "m w")
    case (Pair r w')
    have "R w w'" and "R w' (snd (n w'))" using assms io_relD Pair by (auto simp: io_rel_def) (metis snd_conv)
    then have "R w (snd (n w'))" by (rule trans)
    with \<open>R w w'\<close> Pair show ?thesis by (cases r) simp_all
  qed
  then show ?thesis by (simp add: io_rel_def)
qed

lemma read: "io_rel R (db_read N s q)"
  by (simp add: io_rel_def db_read_def db_do_def stmt_def split: prod.splits sum.splits)

lemmas composed = return fail bind wrap attempt onerror read

end

definition world_inv :: "world \<Rightarrow> bool" where
  "world_inv w \<longleftrightarrow> db_inv (w_db w) \<and> pred_option client_inv (w_kiro w)"

definition keeps_inv :: "world \<Rightarrow> world \<Rightarrow> bool" where
  "keeps_inv w w' \<longleftrightarrow> (world_inv w \<longrightarrow> world_inv w')"

text \<open>Only the IMAP side, the chat and (for \<open>only_applied\<close>) the table of rule-driven moves change.\<close>

definition quiet :: "world \<Rightarrow> world \<Rightarrow> bool" where
  "quiet w w' \<longleftrightarrow> w_db w' = w_db w \<and> w_bus w' = w_bus w \<and> w_kiro w' = w_kiro w"

definition only_applied :: "world \<Rightarrow> world \<Rightarrow> bool" where
  "only_applied w w' \<longleftrightarrow>
     (\<exists>ms sq. w_db w' = (w_db w)\<lparr>applied := applied (w_db w) @ ms, seqs := sq\<rparr>)
     \<and> w_bus w' = w_bus w \<and> w_kiro w' = w_kiro w"

lemma only_appliedI:
  "w_db w' = (w_db w)\<lparr>applied := applied (w_db w) @ ms, seqs := sq\<rparr> \<Longrightarrow>
   w_bus w' = w_bus w \<Longrightarrow> w_kiro w' = w_kiro w \<Longrightarrow> only_applied w w'"
  unfolding only_applied_def by blast

interpretation keeps: io_preorder keeps_inv
  by unfold_locales (auto simp: keeps_inv_def)

interpretation quiet: io_preorder quiet
  by unfold_locales (auto simp: quiet_def)

interpretation applied: io_preorder only_applied
proof
  show "only_applied w w" for w
    by (auto simp: only_applied_def intro!: exI [of _ "[]"] exI [of _ "seqs (w_db w)"])
  show "only_applied w w''" if "only_applied w w'" "only_applied w' w''" for w w' w''
    using that by (auto simp: only_applied_def) blast
qed

lemma quiet_keeps: "quiet w w' \<Longrightarrow> keeps_inv w w'"
  by (simp add: quiet_def keeps_inv_def world_inv_def)

lemma quiet_applied: "quiet w w' \<Longrightarrow> only_applied w w'"
  by (auto simp: quiet_def only_applied_def intro!: exI [of _ "[]"] exI [of _ "seqs (w_db w)"])

lemma imap_do_quiet: "io_rel quiet (imap_do N aid c)"
  by (simp add: io_rel_def imap_do_def Let_def quiet_def split: imap_resp.split)

lemma db_do_keeps:
  assumes "\<And>d. db_inv d \<Longrightarrow> db_inv (snd (op d))"
  shows "io_rel keeps_inv (db_do N s op)"
proof -
  have "db_inv d \<Longrightarrow> db_inv (snd (stmt f op d))" for f d by (simp add: stmt_def assms)
  then show ?thesis
    by (auto simp: io_rel_def keeps_inv_def db_do_def world_inv_def split: prod.splits sum.splits)
      (metis snd_conv)+
qed

lemma PublishToStream_keeps: "io_rel keeps_inv (PublishToStream N s e)"
  by (simp add: io_rel_def keeps_inv_def PublishToStream_def world_inv_def)

lemma db_read_same [simp]: "snd (db_read N s q w) = w"
  by (simp add: db_read_def db_do_def stmt_def split: prod.splits sum.splits)

lemma db_do_cases:
  obtains "db_do N s op w = (Inl (en_dbtext N ConnErr), w)" "en_fault N s"
  | e d where "\<not> en_fault N s" "op (w_db w) = (Inl e, d)" "db_do N s op w = (Inl (en_dbtext N e), w\<lparr>w_db := d\<rparr>)"
  | x d where "\<not> en_fault N s" "op (w_db w) = (Inr x, d)" "db_do N s op w = (Inr x, w\<lparr>w_db := d\<rparr>)"
proof (cases "en_fault N s")
  case True
  then show thesis by (intro that(1)) (simp_all add: db_do_def stmt_def)
next
  case False
  obtain r d where rd: "op (w_db w) = (r, d)" by fastforce
  with False show thesis by (cases r) (auto simp: db_do_def stmt_def intro: that)
qed

end
