(* ===== verification/Executor.thy ===== *)
theory Executor
  imports World
begin

text \<open>
  \<^verbatim>\<open>internal/imapactions/executor.go\<close> and \<^verbatim>\<open>internal/notifier/telegram.go\<close>: execution of rule
  actions on the IMAP server of an account, with one cached connection per account, and chat
  notifications. An error is its text.
\<close>

subsection \<open>Telegram\<close>

definition tg_Enabled :: "telegram \<Rightarrow> bool" where
  "tg_Enabled t = (tg_botToken t \<noteq> [] \<and> tg_chatID t \<noteq> [])"

definition SendMessage :: "env \<Rightarrow> telegram \<Rightarrow> string \<Rightarrow> unit io" where
  "SendMessage N t msg w =
     (if \<not> tg_Enabled t then (Inr (), w)
      else (let w' = w\<lparr>w_sent := w_sent w @ [msg]\<rparr>
            in case en_telegram N msg of
                 TgFailed e \<Rightarrow> (Inl (''send request: '' @ e), w')
               | TgStatus s \<Rightarrow>
                   if s \<noteq> 200 then (Inl (''telegram API returned status '' @ FormatInt s), w')
                   else (Inr (), w')))"

definition emoji :: "string \<Rightarrow> string" where
  "emoji action =
     (if action = ''delete'' then [CHR 0xF0, CHR 0x9F, CHR 0x97, CHR 0x91]
      else if action = ''move'' then [CHR 0xF0, CHR 0x9F, CHR 0x93, CHR 0x81]
      else if action = ''archive'' then [CHR 0xF0, CHR 0x9F, CHR 0x93, CHR 0xA6]
      else if action = ''keep'' then [CHR 0xF0, CHR 0x9F, CHR 0x93, CHR 0x8C]
      else if action = ''flag'' then [CHR 0xF0, CHR 0x9F, CHR 0x8F, CHR 0xB7]
      else [CHR 0xF0, CHR 0x9F, CHR 0x93, CHR 0xA7])"

definition rule_action_text :: "string \<Rightarrow> string \<Rightarrow> string \<Rightarrow> string \<Rightarrow> string \<Rightarrow> string" where
  "rule_action_text ruleName action subject sender target =
     emoji action @ '' <b>'' @ action @ ''</b>'' @ nl @ nl
     @ ''<b>Rule:</b> '' @ ruleName @ nl
     @ ''<b>Action:</b> '' @ action @ nl
     @ ''<b>From:</b> '' @ sender @ nl
     @ ''<b>Subject:</b> '' @ subject
     @ (if target \<noteq> [] then nl @ ''<b>Target:</b> '' @ target else [])"

definition NotifyRuleAction ::
  "env \<Rightarrow> string \<Rightarrow> string \<Rightarrow> string \<Rightarrow> string \<Rightarrow> string \<Rightarrow> unit io" where
  "NotifyRuleAction N ruleName action subject sender target =
     (case en_notifier N of
        None \<Rightarrow> io_return ()
      | Some t \<Rightarrow>
          if \<not> tg_Enabled t then io_return ()
          else SendMessage N t (rule_action_text ruleName action subject sender target))"

definition executeNotify :: "env \<Rightarrow> string \<Rightarrow> unit io" where
  "executeNotify N message =
     (case en_notifier N of
        None \<Rightarrow> io_return ()
      | Some t \<Rightarrow>
          if \<not> tg_Enabled t then io_return ()
          else SendMessage N t
                 (if message = [] then [CHR 0xF0, CHR 0x9F, CHR 0x93, CHR 0xA7] @ '' Email notification triggered''
                  else message))"

definition FormatNotifyMessage :: "string \<Rightarrow> string \<Rightarrow> string \<Rightarrow> string \<Rightarrow> string" where
  "FormatNotifyMessage message senderAddr subject senderName =
     ReplaceAll (ReplaceAll (ReplaceAll message ''{sender}'' senderAddr) ''{subject}'' subject)
       ''{sender_name}'' senderName"

subsection \<open>Connections\<close>

definition getConnection :: "env \<Rightarrow> int \<Rightarrow> unit io" where
  "getConnection N aid w =
     (case w_conns w aid of
        Some _ \<Rightarrow> (Inr (), w)
      | None \<Rightarrow>
          io_bind (io_wrap ''list accounts''
                     (db_read N S_ListAccounts (\<lambda>d. Inr (ListActiveAccounts (en_crypt N) d))))
            (\<lambda>accs w.
               case find (\<lambda>a. a_ID a = aid) accs of
                 None \<Rightarrow> (Inl (''account '' @ FormatInt aid @ '' not found or inactive''), w)
               | Some a \<Rightarrow> (Inr (), w\<lparr>w_conns := (w_conns w)(aid \<mapsto> \<lparr>ic_account = a, ic_client = False\<rparr>)\<rparr>)) w)"

text \<open>\<open>net.JoinHostPort\<close>.\<close>

definition JoinHostPort :: "string \<Rightarrow> string \<Rightarrow> string" where
  "JoinHostPort host port =
     (if CHR '':'' \<in> set host \<or> CHR ''%'' \<in> set host then ''['' @ host @ '']:'' @ port
      else host @ '':'' @ port)"

definition set_client :: "int \<Rightarrow> bool \<Rightarrow> world \<Rightarrow> world" where
  "set_client aid b w =
     (case w_conns w aid of
        None \<Rightarrow> w
      | Some c \<Rightarrow> w\<lparr>w_conns := (w_conns w)(aid \<mapsto> c\<lparr>ic_client := b\<rparr>)\<rparr>)"

definition conn_addr :: "account \<Rightarrow> string" where
  "conn_addr a = JoinHostPort (a_IMAPHost a) (FormatInt (if a_IMAPPort a = 0 then 993 else a_IMAPPort a))"

definition login_name :: "account \<Rightarrow> string" where
  "login_name a = (if a_Username a = [] then a_Email a else a_Username a)"

definition dial_and_login :: "env \<Rightarrow> int \<Rightarrow> account \<Rightarrow> imap_resp io" where
  "dial_and_login N aid a =
     (let addr = conn_addr a
      in io_bind (if a_IMAPTLS a then io_wrap (''connect to '' @ addr) (imap_do N aid (C_DialTLS addr))
                  else io_wrap (''dial '' @ addr) (imap_do N aid (C_Dial addr)))
           (\<lambda>_. io_bind (io_wrap (''greeting from '' @ addr)
                           (io_onerror (imap_do N aid C_Greeting) (io_try (imap_do N aid C_Close))))
             (\<lambda>_. io_wrap (''login to '' @ addr)
                    (io_onerror (imap_do N aid (C_Login (login_name a) (a_Password a)))
                       (io_try (imap_do N aid C_Close))))))"

definition connect :: "env \<Rightarrow> int \<Rightarrow> unit io" where
  "connect N aid w =
     (case w_conns w aid of
        None \<Rightarrow> (Inr (), w)
      | Some c \<Rightarrow>
          if ic_client c then (Inr (), w)
          else io_bind (dial_and_login N aid (ic_account c)) (\<lambda>_ w. (Inr (), set_client aid True w)) w)"

definition disconnect :: "env \<Rightarrow> int \<Rightarrow> unit io" where
  "disconnect N aid w =
     (case w_conns w aid of
        Some c \<Rightarrow>
          if ic_client c
          then (Inr (), set_client aid False
                  (snd (io_try (imap_do N aid C_Close) (snd (io_try (imap_do N aid C_Logout) w)))))
          else (Inr (), w)
      | None \<Rightarrow> (Inr (), w))"

subsection \<open>Actions\<close>

definition RuleAppliedFlag :: string where "RuleAppliedFlag = ''$RuleApplied''"

definition flagNameToIMAP :: "unicode \<Rightarrow> string \<Rightarrow> string" where
  "flagNameToIMAP U name =
     (let l = ToLower U name; bs = (\<lambda>s. CHR 0x5C # s) in
      if l = ''flagged'' \<or> l = ''starred'' then bs ''Flagged''
      else if l = ''seen'' \<or> l = ''read'' then bs ''Seen''
      else if l = ''answered'' \<or> l = ''replied'' then bs ''Answered''
      else if l = ''draft'' then bs ''Draft''
      else if l = ''deleted'' then bs ''Deleted''
      else if l = ''junk'' \<or> l = ''spam'' then ''$Junk''
      else if l = ''notjunk'' then ''$NotJunk''
      else name)"

definition FlagDeleted :: string where "FlagDeleted = CHR 0x5C # ''Deleted''"

definition executeDelete :: "env \<Rightarrow> int \<Rightarrow> uid \<Rightarrow> unit io" where
  "executeDelete N aid u =
     io_bind (io_wrap ''store deleted flag'' (imap_do N aid (C_StoreAdd u FlagDeleted)))
       (\<lambda>_ w. case imap_do N aid (C_UIDExpunge u) w of
                (Inr _, w') \<Rightarrow> (Inr (), w')
              | (Inl _, w') \<Rightarrow> io_bind (io_wrap ''expunge'' (imap_do N aid C_Expunge)) (\<lambda>_. io_return ()) w')"

definition executeMove :: "env \<Rightarrow> int \<Rightarrow> uid \<Rightarrow> string \<Rightarrow> unit io" where
  "executeMove N aid u folder =
     io_bind (io_try (imap_do N aid (C_Create folder)))
       (\<lambda>_. io_bind (io_try (imap_do N aid (C_StoreAdd u RuleAppliedFlag)))
         (\<lambda>_. io_bind (io_wrap (''move to '' @ folder) (imap_do N aid (C_Move u folder)))
           (\<lambda>_. io_return ())))"

definition executeFlag :: "env \<Rightarrow> int \<Rightarrow> uid \<Rightarrow> string \<Rightarrow> unit io" where
  "executeFlag N aid u flagName =
     io_bind (io_wrap (''store flag '' @ flagName)
                (imap_do N aid (C_StoreAdd u (flagNameToIMAP (en_unicode N) flagName))))
       (\<lambda>_. io_return ())"

text \<open>The \<open>switch action\<close> that both entry points end in.\<close>

definition perform :: "env \<Rightarrow> int \<Rightarrow> uid \<Rightarrow> string \<Rightarrow> string \<Rightarrow> unit io" where
  "perform N aid u action target =
     (if action = ''delete'' then executeDelete N aid u
      else if action = ''move'' then executeMove N aid u target
      else if action = ''archive'' then executeMove N aid u ''Archive''
      else if action = ''flag'' then executeFlag N aid u target
      else if action = ''notify'' then executeNotify N target
      else if action = ''keep'' then io_return ()
      else io_fail (''unknown action: '' @ action))"

definition open_inbox :: "env \<Rightarrow> int \<Rightarrow> unit io" where
  "open_inbox N aid =
     io_bind (io_wrap ''get connection'' (getConnection N aid))
       (\<lambda>_. io_bind (io_wrap ''connect'' (connect N aid))
         (\<lambda>_. io_bind (io_wrap ''select INBOX''
                         (io_onerror (imap_do N aid (C_Select ''INBOX'')) (disconnect N aid)))
           (\<lambda>_. io_return ())))"

definition ExecuteAction :: "env \<Rightarrow> int \<Rightarrow> uid \<Rightarrow> string \<Rightarrow> string \<Rightarrow> unit io" where
  "ExecuteAction N aid u action target =
     io_bind (open_inbox N aid) (\<lambda>_. perform N aid u action target)"

definition AllUIDs :: "imap_resp \<Rightarrow> uid list" where
  "AllUIDs r = (case r of R_UIDs us \<Rightarrow> us | _ \<Rightarrow> [])"

definition ExecuteActionByMessageID :: "env \<Rightarrow> int \<Rightarrow> string \<Rightarrow> string \<Rightarrow> string \<Rightarrow> unit io" where
  "ExecuteActionByMessageID N aid messageID action target =
     io_bind (open_inbox N aid)
       (\<lambda>_. io_bind (io_wrap (''search for message '' @ messageID)
                       (imap_do N aid (C_UIDSearchMessageID messageID)))
         (\<lambda>r. case AllUIDs r of
                [] \<Rightarrow> io_return ()
              | u # _ \<Rightarrow> perform N aid u action target))"

text \<open>The record of a rule-driven move is written before the action, its failure only logged.\<close>

definition record_move :: "env \<Rightarrow> time \<Rightarrow> int \<Rightarrow> string \<Rightarrow> string \<Rightarrow> int \<Rightarrow> string \<Rightarrow> unit io" where
  "record_move N now aid action target ruleID messageID =
     (if (action = ''move'' \<or> action = ''archive'') \<and> messageID \<noteq> []
      then io_try (db_do N S_RecordMove
             (RecordRuleAppliedMove now ruleID aid messageID (if action = ''archive'' then ''Archive'' else target)))
      else io_return ())"

definition ExecuteActionForRule ::
  "env \<Rightarrow> time \<Rightarrow> int \<Rightarrow> uid \<Rightarrow> string \<Rightarrow> string \<Rightarrow> int \<Rightarrow> string \<Rightarrow> unit io" where
  "ExecuteActionForRule N now aid u action target ruleID messageID =
     io_bind (record_move N now aid action target ruleID messageID)
       (\<lambda>_. ExecuteAction N aid u action target)"

definition ExecuteActionByMessageIDForRule ::
  "env \<Rightarrow> time \<Rightarrow> int \<Rightarrow> string \<Rightarrow> string \<Rightarrow> string \<Rightarrow> int \<Rightarrow> unit io" where
  "ExecuteActionByMessageIDForRule N now aid messageID action target ruleID =
     io_bind (record_move N now aid action target ruleID messageID)
       (\<lambda>_. ExecuteActionByMessageID N aid messageID action target)"

text \<open>\<open>Close\<close>: every open connection is logged out and forgotten; \<open>ids\<close> are the keys of the map.\<close>

fun close_all :: "env \<Rightarrow> int list \<Rightarrow> world \<Rightarrow> world" where
  "close_all N [] w = w"
| "close_all N (i # ids) w =
     close_all N ids ((snd (disconnect N i w))\<lparr>w_conns := (w_conns w)(i := None)\<rparr>)"

subsection \<open>What an action may change\<close>

lemma SendMessage_quiet: "io_rel quiet (SendMessage N t msg)"
  by (auto simp: io_rel_def SendMessage_def quiet_def Let_def split: tg_resp.split)

lemma notify_quiet:
  "io_rel quiet (NotifyRuleAction N rn ac su se ta)" "io_rel quiet (executeNotify N msg)"
  by (auto simp: NotifyRuleAction_def executeNotify_def intro: SendMessage_quiet quiet.composed
      split: option.split)

lemma getConnection_quiet: "io_rel quiet (getConnection N aid)"
proof -
  have "quiet w (snd (getConnection N aid w))" for w
  proof (cases "w_conns w aid")
    case None
    have "snd (io_wrap p (db_read N s q) w) = w" for p and q :: "db \<Rightarrow> dberr + account list" and s
      by (simp add: io_wrap_def db_read_def db_do_def stmt_def split: prod.splits sum.splits)
    then show ?thesis
      by (auto simp: getConnection_def None io_bind_def quiet_def split: prod.splits sum.splits option.split)
        (metis snd_conv)+
  qed (simp add: getConnection_def)
  then show ?thesis by (simp add: io_rel_def)
qed

lemma set_client_quiet [simp]: "quiet w (set_client aid b w') = quiet w w'"
  by (simp add: set_client_def quiet_def split: option.split)

lemma dial_quiet: "io_rel quiet (dial_and_login N aid a)"
  unfolding dial_and_login_def Let_def
  by (intro quiet.composed) (auto intro!: quiet.composed imap_do_quiet)

lemma connect_quiet: "io_rel quiet (connect N aid)"
proof -
  have "io_rel quiet (io_bind (dial_and_login N aid a) (\<lambda>_ w. (Inr (), set_client aid True w)))" for a
    by (rule quiet.bind [OF dial_quiet]) (simp add: io_rel_def)
  then show ?thesis by (auto simp: io_rel_def connect_def split: option.split)
qed

lemma disconnect_quiet: "io_rel quiet (disconnect N aid)"
proof -
  have q: "quiet w (snd (io_try (imap_do N aid c) w))" for w c
    using quiet.attempt [OF imap_do_quiet, of N aid c] unfolding io_rel_def by blast
  have "quiet w (snd (io_try (imap_do N aid C_Close) (snd (io_try (imap_do N aid C_Logout) w))))" for w
    by (rule quiet.trans [OF q q])
  then show ?thesis by (auto simp: io_rel_def disconnect_def split: option.split)
qed

lemma open_inbox_quiet: "io_rel quiet (open_inbox N aid)"
  unfolding open_inbox_def
  by (intro quiet.composed getConnection_quiet connect_quiet disconnect_quiet imap_do_quiet)

lemma executeMove_quiet: "io_rel quiet (executeMove N aid u f)"
  unfolding executeMove_def by (intro quiet.composed imap_do_quiet)

lemma executeDelete_quiet: "io_rel quiet (executeDelete N aid u)"
proof -
  have x: "io_rel quiet (io_bind (io_wrap ''expunge'' (imap_do N aid C_Expunge)) (\<lambda>_. io_return ()))"
    by (intro quiet.composed imap_do_quiet)
  show ?thesis
    unfolding executeDelete_def
    by (rule quiet.bind [OF quiet.wrap [OF imap_do_quiet]], rule quiet.fallback [OF imap_do_quiet x])
qed

lemma perform_quiet: "io_rel quiet (perform N aid u ac ta)"
  unfolding perform_def executeFlag_def
  by (auto intro!: executeMove_quiet executeDelete_quiet notify_quiet quiet.composed imap_do_quiet)

lemma execute_quiet:
  "io_rel quiet (ExecuteAction N aid u ac ta)"
  "io_rel quiet (ExecuteActionByMessageID N aid mid ac ta)"
  unfolding ExecuteAction_def ExecuteActionByMessageID_def
  by (auto intro!: open_inbox_quiet perform_quiet quiet.composed imap_do_quiet split: list.split)

lemma RecordRuleAppliedMove_shape:
  obtains ms sq where "snd (RecordRuleAppliedMove now r aid mid f d) = d\<lparr>applied := applied d @ ms, seqs := sq\<rparr>"
proof (cases "fst (RecordRuleAppliedMove now r aid mid f d)")
  case (Inl e)
  then have "snd (RecordRuleAppliedMove now r aid mid f d) = d\<lparr>applied := applied d @ [],
      seqs := (seqs d)(Applied := seqs d Applied + 1)\<rparr>"
    by (auto simp: RecordRuleAppliedMove_def Let_def bump_def split: if_splits)
  then show thesis by (rule that)
next
  case (Inr x)
  then have "snd (RecordRuleAppliedMove now r aid mid f d) = d\<lparr>applied := applied d @
      [\<lparr>am_ID = seqs d Applied, am_RuleID = r, am_MessageID = mid, am_AccountID = aid, am_Folder = f,
        am_CreatedAt = now\<rparr>], seqs := (seqs d)(Applied := seqs d Applied + 1)\<rparr>"
    by (simp add: RecordRuleAppliedMove_def Let_def bump_def split: if_splits)
  then show thesis by (rule that)
qed

lemma record_move_applied: "io_rel only_applied (record_move N now aid ac ta r mid)"
proof -
  have "only_applied w (snd (db_do N S_RecordMove (RecordRuleAppliedMove now r aid mid f) w))" for w f
  proof (cases rule: db_do_cases [of N S_RecordMove "RecordRuleAppliedMove now r aid mid f" w])
    case 1
    then show ?thesis by simp
  next
    case (2 e d)
    obtain ms sq where "snd (RecordRuleAppliedMove now r aid mid f (w_db w))
        = (w_db w)\<lparr>applied := applied (w_db w) @ ms, seqs := sq\<rparr>" by (rule RecordRuleAppliedMove_shape)
    with 2 show ?thesis by (auto intro: only_appliedI)
  next
    case (3 x d)
    obtain ms sq where "snd (RecordRuleAppliedMove now r aid mid f (w_db w))
        = (w_db w)\<lparr>applied := applied (w_db w) @ ms, seqs := sq\<rparr>" by (rule RecordRuleAppliedMove_shape)
    with 3 show ?thesis by (auto intro: only_appliedI)
  qed
  then show ?thesis
    by (auto simp: record_move_def io_rel_def io_try_def io_return_def)
qed

text \<open>
  The contract that the rules engine and the scheduler rely on: an action keeps the invariant,
  publishes nothing, and of the tables changes only \<^verbatim>\<open>rule_applied_moves\<close>, to which it only adds.
\<close>

locale action_runner =
  fixes act :: "unit io"
  assumes act_applied: "io_rel only_applied act"
    and act_keeps: "io_rel keeps_inv act"
begin

lemma act_shape:
  obtains ms sq where "w_db (snd (act w)) = (w_db w)\<lparr>applied := applied (w_db w) @ ms, seqs := sq\<rparr>"
    and "w_bus (snd (act w)) = w_bus w" and "w_kiro (snd (act w)) = w_kiro w"
  using act_applied unfolding io_rel_def only_applied_def by blast

lemma tables_same:
  "processed (w_db (snd (act w))) = processed (w_db w)"
  "deferred (w_db (snd (act w))) = deferred (w_db w)"
  "execLog (w_db (snd (act w))) = execLog (w_db w)"
  "rules (w_db (snd (act w))) = rules (w_db w)"
  "accounts (w_db (snd (act w))) = accounts (w_db w)"
  "tenants (w_db (snd (act w))) = tenants (w_db w)"
  by (rule act_shape [of w], simp)+

lemma rest_same: "w_bus (snd (act w)) = w_bus w" "w_kiro (snd (act w)) = w_kiro w"
  by (rule act_shape [of w], simp)+

lemma applied_mono:
  assumes "IsRuleAppliedMove t aid mid (w_db w)"
  shows "IsRuleAppliedMove t aid mid (w_db (snd (act w)))"
  using assms by (rule_tac act_shape [of w]) (auto simp: IsRuleAppliedMove_def rows_affected_pos)

lemma inv_kept: "world_inv w \<Longrightarrow> world_inv (snd (act w))"
  using act_keeps by (simp add: io_rel_def keeps_inv_def)

end

lemma record_move_keeps: "io_rel keeps_inv (record_move N now aid ac ta r mid)"
  unfolding record_move_def
  by (auto intro!: keeps.composed db_do_keeps RecordRuleAppliedMove_inv)

lemma quiet_rels: "io_rel quiet m \<Longrightarrow> io_rel only_applied m" "io_rel quiet m \<Longrightarrow> io_rel keeps_inv m"
  by (simp_all add: io_rel_def quiet_applied quiet_keeps)

interpretation by_uid: action_runner "ExecuteActionForRule N now aid u ac ta r mid"
  for N now aid u ac ta r mid
  unfolding ExecuteActionForRule_def
  by unfold_locales (intro applied.bind keeps.bind record_move_applied record_move_keeps
      quiet_rels execute_quiet)+

interpretation by_message_id: action_runner "ExecuteActionByMessageIDForRule N now aid mid ac ta r"
  for N now aid mid ac ta r
  unfolding ExecuteActionByMessageIDForRule_def
  by unfold_locales (intro applied.bind keeps.bind record_move_applied record_move_keeps
      quiet_rels execute_quiet)+

interpretation notification: action_runner "NotifyRuleAction N rn ac su se ta"
  for N rn ac su se ta
  by unfold_locales (intro quiet_rels notify_quiet)+

end
