(* ===== verification/Consumer.thy ===== *)
theory Consumer
  imports Engine Executor
begin

text \<open>
  \<^verbatim>\<open>internal/rulesengine/consumer.go\<close>: the handler of the stream of incoming messages, and its
  processing loop. The handler answers the broker with \<open>Ack\<close> (done), \<open>Nak\<close> (deliver again) or
  \<open>Term\<close> (never again); a message that does not parse as an event is \<open>None\<close>.
\<close>

datatype disposition = Ack | Nak | Term

definition eventToEmailContext :: "incoming_event \<Rightarrow> email_context" where
  "eventToEmailContext ev =
     \<lparr>e_MessageID = ev_MessageID ev, e_Subject = ev_Subject ev, e_SenderName = ev_SenderName ev,
      e_SenderAddress = ev_Sender ev, e_Recipients = ev_Recipients ev, e_Date = ev_Date ev,
      e_AgeSeconds = ev_AgeSeconds ev, e_BodyPreview = ev_BodyPreview ev,
      e_HasAttachments = ev_HasAttachments ev, e_AttachmentNames = ev_AttachmentNames ev,
      e_AttachmentTypes = ev_AttachmentTypes ev, e_Headers = ev_Headers ev, e_Folder = ev_Folder ev,
      e_AccountID = ev_AccountID ev, e_OCRText = [], e_HasImages = ev_HasImages ev,
      e_ImageAttachments = ev_ImageAttachments ev\<rparr>"

definition hasImageAttachments :: "unicode \<Rightarrow> string list \<Rightarrow> bool" where
  "hasImageAttachments U types = list_ex (\<lambda>ct. HasPrefix (ToLower U ct) ''image/'') types"

definition uid_text :: "uid \<Rightarrow> string" where
  "uid_text u = FormatInt (int u)"

text \<open>Whether the user behind the tenant may use AI; every failure means yes.\<close>

definition ai_enabled :: "env \<Rightarrow> int \<Rightarrow> world \<Rightarrow> bool" where
  "ai_enabled N tenantID w =
     (case fst (db_read N S_TenantUser (GetUserIDByTenantID tenantID) w) of
        Inl _ \<Rightarrow> True
      | Inr userID \<Rightarrow>
          (case fst (db_read N S_UserAI (GetUserAIEnabled userID) w) of
             Inl _ \<Rightarrow> True
           | Inr b \<Rightarrow> b))"

definition exec_log_row :: "rule \<Rightarrow> incoming_event \<Rightarrow> rule_result \<Rightarrow> exec_log" where
  "exec_log_row r ev res =
     \<lparr>l_ID = 0, l_RuleID = r_ID r, l_AccountID = ev_AccountID ev, l_MessageID = ev_MessageID ev,
      l_Subject = ev_Subject ev, l_Sender = ev_Sender ev, l_Action = rr_Action res,
      l_Target = rr_Target res, l_Success = True, l_Error = [], l_ExecutedAt = 0\<rparr>"

definition result_event_of :: "rule \<Rightarrow> incoming_event \<Rightarrow> rule_result \<Rightarrow> result_event" where
  "result_event_of r ev res =
     \<lparr>re_AccountID = ev_AccountID ev, re_TenantID = ev_TenantID ev, re_MessageID = ev_MessageID ev,
      re_UID = ev_UID ev, re_RuleID = r_ID r, re_RuleName = r_Name r, re_Action = rr_Action res,
      re_Target = rr_Target res, re_Reason = rr_Reason res, re_Subject = ev_Subject ev,
      re_Sender = ev_Sender ev, re_Success = True, re_Error = []\<rparr>"

definition execute_at :: "time \<Rightarrow> int \<Rightarrow> time" where
  "execute_at now delay = now + wrap64 (delay * Second)"

definition deferred_row :: "time \<Rightarrow> rule \<Rightarrow> incoming_event \<Rightarrow> rule_result \<Rightarrow> deferred_action" where
  "deferred_row now r ev res =
     \<lparr>d_ID = 0, d_RuleID = r_ID r, d_AccountID = ev_AccountID ev, d_MessageID = ev_MessageID ev,
      d_Action = rr_Target res, d_Target = rr_Target res, d_ExecuteAt = execute_at now (rr_Delay res),
      d_Executed = False, d_Status = [], d_ExecutedAt = None, d_Error = [], d_CreatedAt = 0\<rparr>"

definition deferred_event_of :: "int \<Rightarrow> incoming_event \<Rightarrow> rule_result \<Rightarrow> deferred_event" where
  "deferred_event_of actionID ev res =
     \<lparr>de_ActionID = actionID, de_AccountID = ev_AccountID ev, de_TenantID = ev_TenantID ev,
      de_MessageID = ev_MessageID ev, de_UID = ev_UID ev, de_Action = rr_Target res,
      de_Target = rr_Target res, de_Delay = rr_Delay res\<rparr>"

text \<open>
  The \<open>switch\<close> over immediate actions. The message prepared for \<open>notify\<close> is not used: the
  notification is built from the rule's raw target.
\<close>

definition run_action :: "env \<Rightarrow> time \<Rightarrow> incoming_event \<Rightarrow> rule \<Rightarrow> rule_result \<Rightarrow> unit io" where
  "run_action N now ev r res =
     (if rr_Action res \<in> {''delete'', ''move'', ''archive'', ''flag''}
      then ExecuteActionForRule N now (ev_AccountID ev) (ev_UID ev) (rr_Action res) (rr_Target res)
             (r_ID r) (ev_MessageID ev)
      else if rr_Action res = ''notify''
      then NotifyRuleAction N (r_Name r) (rr_Action res) (ev_Subject ev) (ev_Sender ev) (rr_Target res)
      else io_return ())"

definition result_subject :: "incoming_event \<Rightarrow> string" where
  "result_subject ev = ''email.results.'' @ FormatInt (ev_AccountID ev)"

definition deferred_subject :: "incoming_event \<Rightarrow> string" where
  "deferred_subject ev = ''email.deferred.'' @ FormatInt (ev_AccountID ev)"

text \<open>What follows a match: log, publish, then defer or act.\<close>

definition defer_branch :: "env \<Rightarrow> time \<Rightarrow> incoming_event \<Rightarrow> rule \<Rightarrow> rule_result \<Rightarrow> world \<Rightarrow> disposition \<times> world" where
  "defer_branch N now ev r res w =
     (case db_do N S_CreateDeferred (CreateDeferredAction now (deferred_row now r ev res)) w of
        (Inl _, w1) \<Rightarrow> (Nak, w1)
      | (Inr row, w1) \<Rightarrow>
          (Ack, snd (PublishToStream N (deferred_subject ev)
                       (DeferredEv (deferred_event_of (d_ID row) ev res)) w1)))"

definition action_branch :: "env \<Rightarrow> time \<Rightarrow> incoming_event \<Rightarrow> rule \<Rightarrow> rule_result \<Rightarrow> world \<Rightarrow> disposition \<times> world" where
  "action_branch N now ev r res w =
     (case run_action N now ev r res w of
        (Inl err, w1) \<Rightarrow>
          (let w2 = snd (db_do N S_LogFailure (LogExecution now
                      ((exec_log_row r ev res)\<lparr>l_Success := False, l_Error := err\<rparr>)) w1);
               w3 = snd (PublishToStream N (result_subject ev)
                      (Result ((result_event_of r ev res)\<lparr>re_Success := False, re_Error := err\<rparr>)) w2)
           in (Nak, w3))
      | (Inr _, w1) \<Rightarrow>
          (Ack, snd (db_do N S_MarkProcessed
                       (MarkMessageProcessed now (ev_AccountID ev) (uid_text (ev_UID ev)) (r_ID r) (rr_Action res)) w1)))"

definition handle_match :: "env \<Rightarrow> time \<Rightarrow> incoming_event \<Rightarrow> rule \<Rightarrow> rule_result \<Rightarrow> world \<Rightarrow> disposition \<times> world" where
  "handle_match N now ev r res w =
     (let w1 = snd (db_do N S_LogExecution (LogExecution now (exec_log_row r ev res)) w);
          w2 = snd (PublishToStream N (result_subject ev) (Result (result_event_of r ev res)) w1)
      in if rr_Action res = ''defer'' \<and> 0 < rr_Delay res then defer_branch N now ev r res w2
         else action_branch N now ev r res w2)"

text \<open>
  The handler. A result other than \<open>skip\<close> comes with the rule it is from (the lemma
  \<open>EvaluateAll_skip\<close>); the branch for a nil rule is there because the source would
  panic in it, which leaves the message unacknowledged.
\<close>

definition handleMessage :: "lua_interp \<Rightarrow> env \<Rightarrow> time \<Rightarrow> incoming_event option \<Rightarrow> world \<Rightarrow> disposition \<times> world" where
  "handleMessage lua N now msg w =
     (case msg of
        None \<Rightarrow> (Term, w)
      | Some ev \<Rightarrow>
          if fst (db_read N S_IsProcessed (\<lambda>d. Inr (IsMessageProcessed (ev_AccountID ev) (uid_text (ev_UID ev)) d)) w)
             = Inr True
          then (Ack, w)
          else
            (case fst (db_read N S_ListRules (\<lambda>d. Inr (ListActiveRules (ev_TenantID ev) d)) w) of
               Inl _ \<Rightarrow> (Nak, w)
             | Inr rs \<Rightarrow>
                 (case EvaluateAllWithOptions lua (en_kiro N) now (Some (ai_enabled N (ev_TenantID ev) w)) rs
                         (eventToEmailContext ev) (w_kiro w) of
                    ((res, matched), k) \<Rightarrow>
                      if rr_Action res = ''skip'' then (Ack, w\<lparr>w_kiro := k\<rparr>)
                      else (case matched of
                              None \<Rightarrow> (Nak, w\<lparr>w_kiro := k\<rparr>)
                            | Some r \<Rightarrow> handle_match N now ev r res (w\<lparr>w_kiro := k\<rparr>)))))"

text \<open>
  \<open>processLoop\<close> over what the iterator yields until it is closed: \<open>None\<close> is a fetch error,
  after which the loop waits and goes on. Each delivery has its own instant and environment.
\<close>

fun processLoop :: "lua_interp \<Rightarrow> (env \<times> time \<times> incoming_event option) option list \<Rightarrow> world \<Rightarrow> disposition list \<times> world" where
  "processLoop lua [] w = ([], w)"
| "processLoop lua (None # ms) w = processLoop lua ms w"
| "processLoop lua (Some (N, now, msg) # ms) w =
     (case handleMessage lua N now msg w of
        (d, w1) \<Rightarrow> (case processLoop lua ms w1 of (ds, w2) \<Rightarrow> (d # ds, w2)))"

subsection \<open>The paths of the handler\<close>

lemma db_read_Inr [simp]:
  "fst (db_read N s (\<lambda>d. Inr (f d)) w) = (if en_fault N s then Inl (en_dbtext N ConnErr) else Inr (f (w_db w)))"
  by (simp add: db_read_def db_do_def stmt_def)

text \<open>What the rules say of an event: the result, the rule, and the AI client afterwards.\<close>

definition evaluation :: "lua_interp \<Rightarrow> env \<Rightarrow> time \<Rightarrow> incoming_event \<Rightarrow> world \<Rightarrow> (rule_result \<times> rule option) \<times> KiroClient option" where
  "evaluation lua N now ev w =
     EvaluateAllWithOptions lua (en_kiro N) now (Some (ai_enabled N (ev_TenantID ev) w))
       (ListActiveRules (ev_TenantID ev) (w_db w)) (eventToEmailContext ev) (w_kiro w)"

lemma handleMessage_Some:
  "handleMessage lua N now (Some ev) w =
     (if \<not> en_fault N S_IsProcessed \<and> IsMessageProcessed (ev_AccountID ev) (uid_text (ev_UID ev)) (w_db w)
      then (Ack, w)
      else if en_fault N S_ListRules then (Nak, w)
      else (case evaluation lua N now ev w of
              ((res, None), k) \<Rightarrow> (Ack, w\<lparr>w_kiro := k\<rparr>)
            | ((res, Some r), k) \<Rightarrow> handle_match N now ev r res (w\<lparr>w_kiro := k\<rparr>)))"
proof -
  obtain res m k where e: "evaluation lua N now ev w = ((res, m), k)"
    by (cases "evaluation lua N now ev w") (metis surj_pair)
  note e' = e [unfolded evaluation_def]
  show ?thesis
  proof (cases m)
    case None
    with EvaluateAll_skip e' have "rr_Action res = ''skip''" by (fastforce simp: skip_result_def)
    with None e e' show ?thesis by (simp add: handleMessage_def)
  next
    case (Some r)
    with EvaluateAll_member(2) e' have "rr_Action res \<noteq> ''skip''" by blast
    with Some e e' show ?thesis by (simp add: handleMessage_def)
  qed
qed

lemma handleMessage_cases:
  assumes "handleMessage lua N now (Some ev) w = (dsp, w')"
  obtains (duplicate) "IsMessageProcessed (ev_AccountID ev) (uid_text (ev_UID ev)) (w_db w)" "dsp = Ack" "w' = w"
  | (unavailable) "dsp = Nak" "w' = w"
  | (nomatch) res k where "evaluation lua N now ev w = ((res, None), k)" "dsp = Ack" "w' = w\<lparr>w_kiro := k\<rparr>"
  | (match) r res k where "evaluation lua N now ev w = ((res, Some r), k)"
      "handle_match N now ev r res (w\<lparr>w_kiro := k\<rparr>) = (dsp, w')"
proof -
  obtain res m k where e: "evaluation lua N now ev w = ((res, m), k)"
    by (cases "evaluation lua N now ev w") (metis surj_pair)
  consider (dup) "\<not> en_fault N S_IsProcessed" "IsMessageProcessed (ev_AccountID ev) (uid_text (ev_UID ev)) (w_db w)"
    | (fault) "\<not> (\<not> en_fault N S_IsProcessed \<and> IsMessageProcessed (ev_AccountID ev) (uid_text (ev_UID ev)) (w_db w))"
        "en_fault N S_ListRules"
    | (eval) "\<not> (\<not> en_fault N S_IsProcessed \<and> IsMessageProcessed (ev_AccountID ev) (uid_text (ev_UID ev)) (w_db w))"
        "\<not> en_fault N S_ListRules" by blast
  then show thesis
  proof cases
    case dup
    then have "(Ack, w) = (dsp, w')" using assms by (simp only: handleMessage_Some if_True simp_thms)
    with dup duplicate show thesis by blast
  next
    case fault
    then have "(Nak, w) = (dsp, w')" using assms by (simp only: handleMessage_Some if_True if_False)
    with unavailable show thesis by blast
  next
    case eval
    then have x: "(case evaluation lua N now ev w of
              ((res, None), k) \<Rightarrow> (Ack, w\<lparr>w_kiro := k\<rparr>)
            | ((res, Some r), k) \<Rightarrow> handle_match N now ev r res (w\<lparr>w_kiro := k\<rparr>)) = (dsp, w')"
      using assms by (simp only: handleMessage_Some if_False)
    show thesis
    proof (cases m)
      case None
      then have "(Ack, w\<lparr>w_kiro := k\<rparr>) = (dsp, w')" using x e by (simp only: prod.case option.case)
      with None e nomatch show thesis by blast
    next
      case (Some r)
      then have "handle_match N now ev r res (w\<lparr>w_kiro := k\<rparr>) = (dsp, w')"
        using x e by (simp only: prod.case option.case)
      with Some e match show thesis by blast
    qed
  qed
qed

lemma ListActiveRules_iff:
  "r \<in> set (ListActiveRules t d) \<longleftrightarrow> r \<in> set (rules d) \<and> r_TenantID r = t \<and> r_Active r \<and> r_Approved r"
  by (auto simp: ListActiveRules_def)

lemma evaluation_match:
  assumes "evaluation lua N now ev w = ((res, Some r), k)"
  shows "r \<in> set (ListActiveRules (ev_TenantID ev) (w_db w))" and "rr_Action res \<noteq> ''skip''" and "result_ok res"
  using assms unfolding evaluation_def by (rule EvaluateAll_member)+

lemma run_action_runner: "action_runner (run_action N now ev r res)"
proof -
  have "action_runner (io_return () :: unit io)"
    by unfold_locales (intro applied.composed keeps.composed)+
  then show ?thesis
    by (auto simp: run_action_def by_uid.action_runner_axioms notification.action_runner_axioms)
qed

interpretation act: action_runner "run_action N now ev r res" for N now ev r res
  by (rule run_action_runner)

subsection \<open>The invariant\<close>

lemma EvaluateWithOptions_client:
  assumes "pred_option client_inv c"
  shows "pred_option client_inv (snd (EvaluateWithOptions lua E now opts r m c))"
proof (cases "lua (r_LuaCode r)")
  case (Some p)
  have "pred_option client_inv (ls_kiro (snd (run E now m p (init_state c))))"
    by (rule run_client_inv) (simp add: init_state_def assms)
  then show ?thesis
    by (auto simp: EvaluateWithOptions_def Let_def Some assms split: prod.split)
qed (simp add: EvaluateWithOptions_def assms)

lemma EvaluateAll_client:
  "pred_option client_inv c \<Longrightarrow> pred_option client_inv (snd (EvaluateAllWithOptions lua E now opts rs m c))"
proof (induction rs arbitrary: c)
  case (Cons r rs)
  obtain x c' where x: "EvaluateWithOptions lua E now opts r m c = (x, c')" by fastforce
  with EvaluateWithOptions_client [OF Cons.prems, of lua E now opts r m] have "pred_option client_inv c'" by simp
  with Cons.IH x show ?case by (cases x) auto
qed simp

lemma db_do_inv:
  "world_inv w \<Longrightarrow> (\<And>d. db_inv d \<Longrightarrow> db_inv (snd (op d))) \<Longrightarrow> world_inv (snd (db_do N s op w))"
  using db_do_keeps [of op N s] by (simp add: io_rel_def keeps_inv_def)

lemma publish_inv: "world_inv w \<Longrightarrow> world_inv (snd (PublishToStream N s e w))"
  using PublishToStream_keeps [of N s e] by (simp add: io_rel_def keeps_inv_def)

lemma handle_match_inv:
  assumes "world_inv w"
  shows "world_inv (snd (handle_match N now ev r res w))"
proof -
  have def_inv: "world_inv (snd (defer_branch N now ev r res w))" if "world_inv w" for w
  proof (cases "db_do N S_CreateDeferred (CreateDeferredAction now (deferred_row now r ev res)) w")
    case (Pair x w1)
    have "world_inv w1"
      using db_do_inv [OF that, of "CreateDeferredAction now (deferred_row now r ev res)" N S_CreateDeferred]
        CreateDeferredAction_inv Pair by simp
    then show ?thesis using Pair by (cases x) (simp_all add: defer_branch_def publish_inv)
  qed
  have act_inv: "world_inv (snd (action_branch N now ev r res w))" if "world_inv w" for w
  proof (cases "run_action N now ev r res w")
    case (Pair x w1)
    with act.inv_kept [OF that, of N now ev r res] have w1: "world_inv w1" by simp
    then show ?thesis
      using Pair by (cases x) (simp_all add: action_branch_def Let_def db_do_inv publish_inv
          LogExecution_inv MarkMessageProcessed_inv)
  qed
  show ?thesis
    using assms by (simp add: handle_match_def Let_def def_inv act_inv publish_inv db_do_inv LogExecution_inv)
qed

lemma world_inv_kiro: "world_inv w \<Longrightarrow> pred_option client_inv k \<Longrightarrow> world_inv (w\<lparr>w_kiro := k\<rparr>)"
  by (simp add: world_inv_def)

lemma handleMessage_inv:
  assumes "world_inv w"
  shows "world_inv (snd (handleMessage lua N now msg w))"
proof (cases msg)
  case (Some ev)
  obtain dsp w' where h: "handleMessage lua N now (Some ev) w = (dsp, w')" by fastforce
  have k: "world_inv (w\<lparr>w_kiro := snd (evaluation lua N now ev w)\<rparr>)"
    using assms unfolding evaluation_def
    by (intro world_inv_kiro EvaluateAll_client) (simp_all add: world_inv_def)
  from h show ?thesis
  proof (cases rule: handleMessage_cases)
    case (match r res k)
    then show ?thesis using Some h k handle_match_inv [of "w\<lparr>w_kiro := k\<rparr>" N now ev r res] by simp
  qed (use assms Some h k in simp_all)
qed (simp add: handleMessage_def assms)

lemma processLoop_inv: "world_inv w \<Longrightarrow> world_inv (snd (processLoop lua ms w))"
proof (induction ms arbitrary: w)
  case (Cons x ms)
  show ?case
  proof (cases x)
    case (Some y)
    obtain N now msg where y: "y = (N, now, msg)" by (cases y) auto
    obtain d w1 where h: "handleMessage lua N now msg w = (d, w1)" by fastforce
    with handleMessage_inv [OF Cons.prems, of lua N now msg] have "world_inv w1" by simp
    with Cons.IH show ?thesis by (simp add: Some y h split: prod.split) (metis snd_conv)
  qed (use Cons in simp)
qed simp

end
