(* ===== verification/Samples.thy ===== *)
theory Samples
  imports Consumer
begin

text \<open>
  A small installation on which the properties are instantiated: one tenant with one account and
  one rule, a mail server that accepts (or refuses) every command, and rule code given by name.
\<close>

definition sample_unicode :: unicode where
  "sample_unicode = \<lparr>uni_ToLower = (\<lambda>s. s), uni_TrimSpace = (\<lambda>s. s), uni_Fields = (\<lambda>s. [s]),
     uni_EqualFold = (\<lambda>s t. s = t)\<rparr>"

definition sample_suite :: cipher_suite where
  "sample_suite = \<lparr>cs_SHA256 = (\<lambda>s. s), cs_HKDF = (\<lambda>k i. Some (replicate 32 (CHR ''k''))),
     cs_Seal = (\<lambda>k n p. p), cs_Open = (\<lambda>k n c. Some c)\<rparr>"

definition sample_lua :: lua_interp where
  "sample_lua code =
     (if code = ''move'' then Some (Act (A_move ''Work'' []) Done)
      else if code = ''delete_after'' then Some (Act (A_delete_after 60 []) Done)
      else if code = ''skip'' then Some (Act A_skip Done)
      else None)"

definition sample_kiro :: kiro_env where
  "sample_kiro = \<lparr>kv_api = (\<lambda>_. RequestFailed), kv_RFC3339 = (\<lambda>_. ''1970-01-01T00:00:00Z''),
     kv_unicode = sample_unicode\<rparr>"

definition sample_env :: "imap_resp \<Rightarrow> env" where
  "sample_env resp = \<lparr>en_imap = (\<lambda>_ _ _. resp), en_telegram = (\<lambda>_. TgStatus 200), en_publish = (\<lambda>_ _. True),
     en_dbtext = (\<lambda>_. ''database error''), en_fault = (\<lambda>_. False),
     en_crypt = \<lparr>cr_suite = sample_suite, cr_Encryptor = None\<rparr>, en_kiro = sample_kiro, en_notifier = None\<rparr>"

definition sample_tenant :: tenant where
  "sample_tenant = \<lparr>t_ID = 1, t_Name = ''acme'', t_Slug = ''acme'', t_APIKey = ''key'', t_UserID = None,
     t_CreatedAt = 0, t_UpdatedAt = 0\<rparr>"

definition sample_account :: account where
  "sample_account = \<lparr>a_ID = 1, a_TenantID = 1, a_Name = ''main'', a_Email = ''me@acme'', a_Provider = ''imap'',
     a_IMAPHost = ''mail'', a_IMAPPort = 993, a_IMAPTLS = True, a_Username = ''me'', a_Password = ''pw'',
     a_OAuthToken = [], a_OAuthRefreshToken = [], a_OAuthTokenExpiry = None, a_OAuthProvider = [],
     a_Active = True, a_ExemptFolders = [], a_LastSyncAt = None, a_LastConnectionTestAt = None,
     a_LastConnectionStatus = [], a_LastConnectionError = [], a_LastUIDProcessed = 0, a_CreatedAt = 0,
     a_UpdatedAt = 0\<rparr>"

definition sample_rule :: "string \<Rightarrow> rule" where
  "sample_rule code = \<lparr>r_ID = 1, r_TenantID = 1, r_Name = ''rule'', r_Description = [], r_LuaCode = code,
     r_Priority = 10, r_Active = True, r_Source = ''manual'', r_Approved = True, r_UsesAI = False,
     r_CreatedAt = 0, r_UpdatedAt = 0\<rparr>"

definition sample_db :: "string \<Rightarrow> db" where
  "sample_db code = empty_db\<lparr>tenants := [sample_tenant], accounts := [sample_account],
     rules := [sample_rule code], seqs := (\<lambda>_. 2)\<rparr>"

definition sample_world :: "string \<Rightarrow> world" where
  "sample_world code = \<lparr>w_db = sample_db code, w_conns = Map.empty, w_cmds = [], w_sent = [], w_bus = [],
     w_kiro = None\<rparr>"

definition sample_event :: incoming_event where
  "sample_event = \<lparr>ev_AccountID = 1, ev_TenantID = 1, ev_MessageID = ''<1@x>'', ev_UID = 7,
     ev_Subject = ''Hello'', ev_Sender = ''bob@x'', ev_SenderName = ''Bob'', ev_Recipients = [''me@acme''],
     ev_Date = 0, ev_AgeSeconds = 0, ev_BodyPreview = [], ev_Folder = ''INBOX'', ev_Headers = Map.empty,
     ev_HasAttachments = False, ev_AttachmentNames = [], ev_AttachmentTypes = [], ev_HasImages = False,
     ev_ImageAttachments = []\<rparr>"

lemmas sample_defs = sample_unicode_def sample_suite_def sample_lua_def sample_kiro_def sample_env_def
  sample_tenant_def sample_account_def sample_rule_def sample_db_def sample_world_def sample_event_def
  empty_db_def

lemma sample_world_inv: "world_inv (sample_world code)"
  by (simp add: world_inv_def inv_defs sample_defs uniq_def below_def refs_def orefs_def)

lemma sample_evaluation:
  "evaluation sample_lua (sample_env resp) now sample_event (sample_world ''move'')
     = ((\<lparr>rr_Action = ''move'', rr_Target = ''Work'', rr_Delay = 0, rr_Reason = []\<rparr>, Some (sample_rule ''move'')), None)"
  by (simp add: evaluation_def sample_defs ListActiveRules_def EvaluateWithOptions_def init_state_def
      action_fn_def capturable_def setResult_def extractResult_def)

end
