(* ===== verification/Delivery.thy ===== *)
theory Delivery
  imports Samples
begin

text \<open>
  What the handler of incoming messages guarantees: which rule decides, which rows it writes,
  when a message counts as processed, and what a second delivery of the same message does.
\<close>

subsection \<open>The tables after a match\<close>

lemma db_do_db: "w_db (snd (db_do N s op w)) = (if en_fault N s then w_db w else snd (op (w_db w)))"
  by (simp add: db_do_def stmt_def split: prod.split sum.split)

lemma db_do_rows:
  "execLog (w_db (snd (db_do N s (MarkMessageProcessed now a u r ac) w))) = execLog (w_db w)"
  "execLog (w_db (snd (db_do N s (CreateDeferredAction now da) w))) = execLog (w_db w)"
  "rules (w_db (snd (db_do N s (LogExecution now l) w))) = rules (w_db w)"
  "accounts (w_db (snd (db_do N s (LogExecution now l) w))) = accounts (w_db w)"
  "processed (w_db (snd (db_do N s (LogExecution now l) w))) = processed (w_db w)"
  "deferred (w_db (snd (db_do N s (LogExecution now l) w))) = deferred (w_db w)"
  "processed (w_db (snd (db_do N s (CreateDeferredAction now da) w))) = processed (w_db w)"
  by (simp_all add: db_do_def stmt_def MarkMessageProcessed_def CreateDeferredAction_def LogExecution_def
      Let_def bump_def)

lemma publish_db [simp]: "w_db (snd (PublishToStream N s e w)) = w_db w"
  by (simp add: PublishToStream_def)

lemma LogExecution_rows:
  obtains "execLog (w_db (snd (db_do N s (LogExecution now l) w))) = execLog (w_db w)"
  | i where "execLog (w_db (snd (db_do N s (LogExecution now l) w)))
      = execLog (w_db w) @ [l\<lparr>l_ID := i, l_ExecutedAt := now\<rparr>]"
proof (cases rule: db_do_cases [of N s "LogExecution now l" w])
  case 1
  then show thesis using that(1) by simp
next
  case (2 e d)
  then have "execLog d = execLog (w_db w)" by (auto simp: LogExecution_def Let_def bump_def split: if_splits)
  with 2 show thesis using that(1) by simp
next
  case (3 x d)
  then have "execLog d = execLog (w_db w) @ [l\<lparr>l_ID := seqs (w_db w) ExecLog, l_ExecutedAt := now\<rparr>]"
    by (auto simp: LogExecution_def Let_def bump_def split: if_splits)
  with 3 show thesis using that(2) by simp
qed

text \<open>Rows the handler appends to the log: about this rule, this account and this message.\<close>

definition logged_for :: "rule \<Rightarrow> incoming_event \<Rightarrow> exec_log \<Rightarrow> bool" where
  "logged_for r ev l \<longleftrightarrow> l_RuleID l = r_ID r \<and> l_AccountID l = ev_AccountID ev \<and> l_MessageID l = ev_MessageID ev"

lemma log_appends:
  assumes "logged_for r ev l"
  shows "\<exists>new. execLog (w_db (snd (db_do N s (LogExecution now l) w))) = execLog (w_db w) @ new
    \<and> list_all (logged_for r ev) new"
  using assms by (rule_tac LogExecution_rows [of N s now l w]) (auto simp: logged_for_def intro: exI [of _ "[]"])

lemma logged_for_rows:
  "logged_for r ev (exec_log_row r ev res)"
  "logged_for r ev ((exec_log_row r ev res)\<lparr>l_Success := False, l_Error := e\<rparr>)"
  by (simp_all add: logged_for_def exec_log_row_def)

lemma action_branch_log:
  "\<exists>new. execLog (w_db (snd (action_branch N now ev r res w))) = execLog (w_db w) @ new
    \<and> list_all (logged_for r ev) new"
proof (cases "run_action N now ev r res w")
  case (Pair x w3)
  with act.tables_same(3) [of N now ev r res w] have l: "execLog (w_db w3) = execLog (w_db w)" by simp
  show ?thesis
  proof (cases x)
    case (Inl e)
    then show ?thesis
      using Pair l log_appends [OF logged_for_rows(2) [of r ev e res], of N S_LogFailure now w3]
      by (simp add: action_branch_def Let_def)
  next
    case (Inr y)
    then show ?thesis
      using Pair l by (simp add: action_branch_def db_do_rows exI [of _ "[]"])
  qed
qed

lemma defer_branch_log: "execLog (w_db (snd (defer_branch N now ev r res w))) = execLog (w_db w)"
  using db_do_rows(2) [of N S_CreateDeferred now "deferred_row now r ev res" w]
  by (auto simp: defer_branch_def split: prod.splits sum.splits)

lemma handle_match_log:
  "\<exists>new. execLog (w_db (snd (handle_match N now ev r res w))) = execLog (w_db w) @ new
    \<and> list_all (logged_for r ev) new"
proof -
  let ?w1 = "snd (db_do N S_LogExecution (LogExecution now (exec_log_row r ev res)) w)"
  let ?w2 = "snd (PublishToStream N (result_subject ev) (Result (result_event_of r ev res)) ?w1)"
  obtain n1 where n1: "execLog (w_db ?w2) = execLog (w_db w) @ n1" "list_all (logged_for r ev) n1"
    using log_appends [OF logged_for_rows(1) [of r ev res], of N S_LogExecution now w] by auto
  obtain n2 where n2: "execLog (w_db (snd (action_branch N now ev r res ?w2))) = execLog (w_db ?w2) @ n2"
      "list_all (logged_for r ev) n2"
    using action_branch_log by blast
  show ?thesis
  proof (cases "rr_Action res = ''defer'' \<and> 0 < rr_Delay res")
    case True
    with n1 show ?thesis by (simp add: handle_match_def Let_def defer_branch_log)
  next
    case False
    with n1 n2 show ?thesis by (auto simp: handle_match_def Let_def)
  qed
qed


text \<open>
  C2. The rule that decides is the first in the order of priority and id: every active, approved
  rule of the tenant that comes before it failed or skipped when it was evaluated.
\<close>
theorem evaluation_first_match:
  assumes "evaluation lua N now ev w = ((res, Some r), k)"
  shows "rr_Action res \<noteq> ''skip'' \<and>
    (\<exists>c. EvaluateWithOptions lua (en_kiro N) now (Some (ai_enabled N (ev_TenantID ev) w)) r
        (eventToEmailContext ev) c = (Inr res, k)) \<and>
    (\<forall>r' \<in> set (rules (w_db w)). r_TenantID r' = ev_TenantID ev \<longrightarrow> r_Active r' \<longrightarrow> r_Approved r' \<longrightarrow>
       rule_order r' < rule_order r \<longrightarrow>
       (\<exists>c. \<forall>b. fst (EvaluateWithOptions lua (en_kiro N) now (Some (ai_enabled N (ev_TenantID ev) w)) r'
          (eventToEmailContext ev) c) = Inr b \<longrightarrow> rr_Action b = ''skip''))"
proof -
  let ?ev = "\<lambda>r c. EvaluateWithOptions lua (en_kiro N) now (Some (ai_enabled N (ev_TenantID ev) w)) r
        (eventToEmailContext ev) c"
  let ?L = "ListActiveRules (ev_TenantID ev) (w_db w)"
  from chain.chain_found [OF assms [unfolded evaluation_def]] obtain ys zs where
    h: "?L = ys @ r # zs" "?ev r (pass ?ev ys (w_kiro w)) = (Inr res, k)" "rr_Action res \<noteq> ''skip''"
      "\<forall>i < length ys. \<forall>b. fst (?ev (ys ! i) (pass ?ev (take i ys) (w_kiro w))) = Inr b \<longrightarrow> rr_Action b = ''skip''"
    by blast
  have "\<exists>c. \<forall>b. fst (?ev r' c) = Inr b \<longrightarrow> rr_Action b = ''skip''"
    if "r' \<in> set (rules (w_db w))" "r_TenantID r' = ev_TenantID ev" "r_Active r'" "r_Approved r'"
      "rule_order r' < rule_order r" for r'
  proof -
    have "r' \<in> set ?L" using that by (simp add: ListActiveRules_iff)
    moreover have "sorted (map rule_order ?L)" by (simp add: ListActiveRules_def)
    ultimately have "r' \<in> set ys" using h(1) that(5) by (auto simp: sorted_append)
    then obtain i where "i < length ys" "ys ! i = r'" by (auto simp: in_set_conv_nth)
    with h(4) show ?thesis by blast
  qed
  with h(2,3) show ?thesis by blast
qed

theorem evaluation_first_match_witness:
  "\<exists>r res k. evaluation sample_lua (sample_env R_OK) 0 sample_event (sample_world ''move'') = ((res, Some r), k)
     \<and> rr_Action res \<noteq> ''skip''"
  using evaluation_first_match [OF sample_evaluation [of R_OK 0]] sample_evaluation [of R_OK 0] by blast

subsection \<open>Processed messages\<close>

lemma IsMessageProcessed_iff:
  "IsMessageProcessed a u d \<longleftrightarrow> (a, u) \<in> (\<lambda>p. (p_AccountID p, p_MessageUID p)) ` set (processed d)"
  by (force simp: IsMessageProcessed_def rows_affected_pos)

lemma MarkMessageProcessed_marks:
  assumes "has_key a_ID a (accounts d)" and "has_key r_ID r (rules d)"
  shows "IsMessageProcessed a u (snd (MarkMessageProcessed now a u r ac d))"
  using assms by (auto simp: MarkMessageProcessed_def IsMessageProcessed_iff has_key_iff)

text \<open>Processed messages stay processed, whatever the handler does.\<close>

definition processed_grows :: "world \<Rightarrow> world \<Rightarrow> bool" where
  "processed_grows w w' \<longleftrightarrow> set (processed (w_db w)) \<subseteq> set (processed (w_db w'))"

lemma processed_growsD:
  "processed_grows w w' \<Longrightarrow> IsMessageProcessed a u (w_db w) \<Longrightarrow> IsMessageProcessed a u (w_db w')"
  by (auto simp: processed_grows_def IsMessageProcessed_iff)

lemma processed_grows_trans: "processed_grows u v \<Longrightarrow> processed_grows v w \<Longrightarrow> processed_grows u w"
  by (auto simp: processed_grows_def)

lemma mark_grows: "processed_grows w (snd (db_do N s (MarkMessageProcessed now a u r ac) w))"
  by (auto simp: processed_grows_def db_do_def stmt_def MarkMessageProcessed_def)

lemma action_branch_grows: "processed_grows w (snd (action_branch N now ev r res w))"
proof (cases "run_action N now ev r res w")
  case (Pair x w3)
  with act.tables_same(1) [of N now ev r res w] have p: "processed (w_db w3) = processed (w_db w)" by simp
  show ?thesis
  proof (cases x)
    case (Inl e)
    with Pair p show ?thesis by (simp add: action_branch_def Let_def processed_grows_def db_do_rows)
  next
    case (Inr y)
    with Pair p mark_grows [of w3] show ?thesis by (simp add: action_branch_def processed_grows_def)
  qed
qed

lemma defer_branch_grows: "processed_grows w (snd (defer_branch N now ev r res w))"
  using db_do_rows(7) [of N S_CreateDeferred now "deferred_row now r ev res" w]
  by (auto simp: defer_branch_def processed_grows_def split: prod.splits sum.splits)

lemma handle_match_grows: "processed_grows w (snd (handle_match N now ev r res w))"
proof -
  let ?w2 = "snd (PublishToStream N (result_subject ev) (Result (result_event_of r ev res))
    (snd (db_do N S_LogExecution (LogExecution now (exec_log_row r ev res)) w)))"
  have "processed (w_db ?w2) = processed (w_db w)" by (simp add: db_do_rows)
  then show ?thesis
    using action_branch_grows [of ?w2 N now ev r res] defer_branch_grows [of ?w2 N now ev r res]
    by (simp add: handle_match_def Let_def processed_grows_def)
qed

lemma handleMessage_grows: "processed_grows w (snd (handleMessage lua N now msg w))"
proof (cases msg)
  case (Some ev)
  obtain dsp w' where h: "handleMessage lua N now (Some ev) w = (dsp, w')" by fastforce
  then have "processed_grows w w'"
  proof (cases rule: handleMessage_cases)
    case (match r res k)
    then show ?thesis
      using handle_match_grows [of "w\<lparr>w_kiro := k\<rparr>" N now ev r res] by (simp add: processed_grows_def)
  qed (simp_all add: processed_grows_def)
  with h Some show ?thesis by simp
qed (simp add: handleMessage_def processed_grows_def)

lemma processLoop_append:
  "snd (processLoop lua (ms @ ns) w) = snd (processLoop lua ns (snd (processLoop lua ms w)))"
  by (induction lua ms w rule: processLoop.induct) (auto split: prod.split)

lemma processLoop_grows: "processed_grows w (snd (processLoop lua ms w))"
proof (induction lua ms w rule: processLoop.induct)
  case (3 lua N now msg ms w)
  obtain d w1 where h: "handleMessage lua N now msg w = (d, w1)" by fastforce
  have "processed_grows w w1" using handleMessage_grows [of w lua N now msg] h by simp
  moreover have "processed_grows w1 (snd (processLoop lua ms w1))" using 3 h by simp
  ultimately have "processed_grows w (snd (processLoop lua ms w1))" by (rule processed_grows_trans)
  with h show ?case by (simp split: prod.split) (metis snd_conv)
qed (simp_all add: processed_grows_def)

lemma handleMessage_duplicate:
  "\<not> en_fault N S_IsProcessed \<Longrightarrow> IsMessageProcessed (ev_AccountID ev) (uid_text (ev_UID ev)) (w_db w) \<Longrightarrow>
   handleMessage lua N now (Some ev) w = (Ack, w)"
  by (simp add: handleMessage_Some)

text \<open>
  C1. Once a message is processed, further deliveries of it are without effect: a delivery whose
  check for processed messages reaches the database can be removed from any sequence of deliveries
  without changing the world the sequence leaves.
\<close>
theorem redelivery_is_invisible:
  assumes "IsMessageProcessed (ev_AccountID ev) (uid_text (ev_UID ev)) (w_db w)"
    and "\<not> en_fault N S_IsProcessed"
  shows "snd (processLoop lua (before @ Some (N, now, Some ev) # after) w)
    = snd (processLoop lua (before @ after) w)"
proof -
  let ?w1 = "snd (processLoop lua before w)"
  have "IsMessageProcessed (ev_AccountID ev) (uid_text (ev_UID ev)) (w_db ?w1)"
    using processed_growsD [OF processLoop_grows assms(1)] .
  then show ?thesis
    by (simp add: processLoop_append handleMessage_duplicate [OF assms(2)] split: prod.split)
qed

theorem redelivery_is_invisible_witness:
  "let w = (sample_world ''move'')\<lparr>w_db := (sample_db ''move'')\<lparr>processed :=
       [\<lparr>p_AccountID = 1, p_MessageUID = uid_text 7, p_RuleID = Some 1, p_Action = ''move'', p_ProcessedAt = 0\<rparr>]\<rparr>\<rparr>
   in IsMessageProcessed 1 (uid_text 7) (w_db w) \<and>
     snd (processLoop sample_lua ([] @ Some (sample_env R_OK, 5, Some sample_event) # []) w)
     = snd (processLoop sample_lua ([] @ []) w)"
  unfolding Let_def
  by (intro conjI redelivery_is_invisible)
    (simp_all add: IsMessageProcessed_def rows_affected_def sample_event_def sample_env_def)

text \<open>
  When the handler acknowledges a message for which a rule asked for an immediate action, the
  message is marked as processed (the account exists and the statement reaches the database).
\<close>
theorem immediate_action_marks_processed:
  assumes "evaluation lua N now ev w = ((res, Some r), k)"
    and "\<not> (rr_Action res = ''defer'' \<and> 0 < rr_Delay res)"
    and "has_key a_ID (ev_AccountID ev) (accounts (w_db w))" and "\<not> en_fault N S_MarkProcessed"
    and "handleMessage lua N now (Some ev) w = (Ack, w')"
  shows "IsMessageProcessed (ev_AccountID ev) (uid_text (ev_UID ev)) (w_db w')"
  using assms(5)
proof (cases rule: handleMessage_cases)
  case (match r' res' k')
  with assms(1) have eq: "r' = r" "res' = res" "k' = k" by simp_all
  let ?w2 = "snd (PublishToStream N (result_subject ev) (Result (result_event_of r ev res))
    (snd (db_do N S_LogExecution (LogExecution now (exec_log_row r ev res)) (w\<lparr>w_kiro := k\<rparr>))))"
  have ab: "action_branch N now ev r res ?w2 = (Ack, w')"
    using match(2) assms(2) by (simp add: eq handle_match_def Let_def)
  then obtain w3 where w3: "run_action N now ev r res ?w2 = (Inr (), w3)"
    and w': "w' = snd (db_do N S_MarkProcessed (MarkMessageProcessed now (ev_AccountID ev)
      (uid_text (ev_UID ev)) (r_ID r) (rr_Action res)) w3)"
    by (auto simp: action_branch_def Let_def split: prod.splits sum.splits)
  have "rules (w_db w3) = rules (w_db w)" "accounts (w_db w3) = accounts (w_db w)"
    using act.tables_same(4,5) [of N now ev r res ?w2] w3 by (simp_all add: db_do_rows)
  moreover have "has_key r_ID (r_ID r) (rules (w_db w))"
    using evaluation_match(1) [OF assms(1)] by (auto simp: ListActiveRules_iff has_key_iff)
  ultimately have "IsMessageProcessed (ev_AccountID ev) (uid_text (ev_UID ev))
      (snd (MarkMessageProcessed now (ev_AccountID ev) (uid_text (ev_UID ev)) (r_ID r) (rr_Action res) (w_db w3)))"
    using assms(3) by (intro MarkMessageProcessed_marks) simp_all
  then show ?thesis
    using assms(4) by (simp add: w' db_do_db)
qed (use assms(1) in auto)

lemma sample_delivery:
  "fst (handleMessage sample_lua (sample_env R_OK) 0 (Some sample_event) (sample_world ''move'')) = Ack"
  using sample_evaluation [of R_OK 0]
  by (simp add: handleMessage_Some handle_match_def action_branch_def run_action_def ExecuteActionForRule_def
      record_move_def ExecuteAction_def open_inbox_def getConnection_def connect_def dial_and_login_def
      perform_def executeMove_def io_defs imap_do_def db_do_def db_read_def stmt_def Let_def
      PublishToStream_def set_client_def RecordRuleAppliedMove_def LogExecution_def exec_log_row_def bump_def
      ListActiveAccounts_def select_account_def decrypt_account_def
      IsMessageProcessed_def rows_affected_def sample_defs)

theorem immediate_action_marks_processed_witness:
  "IsMessageProcessed (ev_AccountID sample_event) (uid_text (ev_UID sample_event))
     (w_db (snd (handleMessage sample_lua (sample_env R_OK) 0 (Some sample_event) (sample_world ''move''))))"
  by (rule immediate_action_marks_processed [OF sample_evaluation [of R_OK 0]])
    (simp_all add: prod_eq_iff sample_delivery, simp_all add: sample_defs)

subsection \<open>Failures and deferrals\<close>

text \<open>
  A failed action is answered with \<open>Nak\<close> and the message is not marked as processed, so the
  broker delivers it again; the log has a failed row with the error (rule and account exist and the
  statement reaches the database).
\<close>
theorem failed_action_is_retried:
  assumes "run_action N now ev r res w = (Inl err, w1)"
    and "has_key r_ID (r_ID r) (rules (w_db w))" and "has_key a_ID (ev_AccountID ev) (accounts (w_db w))"
    and "\<not> en_fault N S_LogFailure"
  shows "fst (action_branch N now ev r res w) = Nak \<and>
    processed (w_db (snd (action_branch N now ev r res w))) = processed (w_db w) \<and>
    list_ex (\<lambda>l. logged_for r ev l \<and> \<not> l_Success l \<and> l_Error l = err)
      (execLog (w_db (snd (action_branch N now ev r res w))))"
proof -
  have t: "processed (w_db w1) = processed (w_db w)" "rules (w_db w1) = rules (w_db w)"
    "accounts (w_db w1) = accounts (w_db w)"
    using act.tables_same(1,4,5) [of N now ev r res w] assms(1) by simp_all
  with assms show ?thesis
    by (simp add: action_branch_def Let_def db_do_db LogExecution_def logged_for_def exec_log_row_def bump_def)
qed

lemma sample_failure:
  "\<exists>err w1. run_action (sample_env (R_Err ''no'')) 0 sample_event (sample_rule ''move'')
     \<lparr>rr_Action = ''move'', rr_Target = ''Work'', rr_Delay = 0, rr_Reason = []\<rparr> (sample_world ''move'') = (Inl err, w1)"
  by (simp add: run_action_def ExecuteActionForRule_def record_move_def ExecuteAction_def open_inbox_def
      getConnection_def connect_def dial_and_login_def io_defs imap_do_def db_do_def db_read_def stmt_def Let_def
      RecordRuleAppliedMove_def bump_def ListActiveAccounts_def select_account_def decrypt_account_def sample_defs)

theorem failed_action_is_retried_witness:
  "fst (action_branch (sample_env (R_Err ''no'')) 0 sample_event (sample_rule ''move'')
     \<lparr>rr_Action = ''move'', rr_Target = ''Work'', rr_Delay = 0, rr_Reason = []\<rparr> (sample_world ''move'')) = Nak"
proof -
  obtain err w1 where "run_action (sample_env (R_Err ''no'')) 0 sample_event (sample_rule ''move'')
     \<lparr>rr_Action = ''move'', rr_Target = ''Work'', rr_Delay = 0, rr_Reason = []\<rparr> (sample_world ''move'') = (Inl err, w1)"
    using sample_failure by blast
  from failed_action_is_retried [OF this] show ?thesis by (simp add: sample_defs)
qed

text \<open>
  When an immediate action fails, the execution log nevertheless keeps the row written before
  the attempt, which says that it succeeded.
\<close>
theorem failed_action_leaves_success_row:
  assumes "rr_Action res \<noteq> ''defer''" and "\<not> en_fault N S_LogExecution"
    and "has_key r_ID (r_ID r) (rules (w_db w))" and "has_key a_ID (ev_AccountID ev) (accounts (w_db w))"
    and "fst (handle_match N now ev r res w) = Nak"
  shows "list_ex (\<lambda>l. logged_for r ev l \<and> l_Success l \<and> l_Action l = rr_Action res \<and> l_ExecutedAt l = now)
    (execLog (w_db (snd (handle_match N now ev r res w))))"
proof -
  let ?w2 = "snd (PublishToStream N (result_subject ev) (Result (result_event_of r ev res))
    (snd (db_do N S_LogExecution (LogExecution now (exec_log_row r ev res)) w)))"
  let ?P = "\<lambda>l. logged_for r ev l \<and> l_Success l \<and> l_Action l = rr_Action res \<and> l_ExecutedAt l = now"
  have "list_ex ?P (execLog (w_db ?w2))"
    using assms(2-4) by (simp add: db_do_db LogExecution_def Let_def logged_for_def exec_log_row_def bump_def)
  moreover obtain new where
    "execLog (w_db (snd (action_branch N now ev r res ?w2))) = execLog (w_db ?w2) @ new"
    using action_branch_log by blast
  ultimately have "list_ex ?P (execLog (w_db (snd (action_branch N now ev r res ?w2))))" by simp
  with assms(1) show ?thesis by (simp add: handle_match_def Let_def)
qed

theorem failed_action_leaves_success_row_witness:
  "list_ex (\<lambda>l. logged_for (sample_rule ''move'') sample_event l \<and> l_Success l \<and> l_Action l = ''move'' \<and> l_ExecutedAt l = 0)
     (execLog (w_db (snd (handle_match (sample_env (R_Err ''no'')) 0 sample_event (sample_rule ''move'')
        \<lparr>rr_Action = ''move'', rr_Target = ''Work'', rr_Delay = 0, rr_Reason = []\<rparr> (sample_world ''move'')))))"
proof -
  have "fst (handle_match (sample_env (R_Err ''no'')) 0 sample_event (sample_rule ''move'')
        \<lparr>rr_Action = ''move'', rr_Target = ''Work'', rr_Delay = 0, rr_Reason = []\<rparr> (sample_world ''move'')) = Nak"
    by (simp add: handle_match_def action_branch_def run_action_def ExecuteActionForRule_def
      record_move_def ExecuteAction_def open_inbox_def getConnection_def connect_def dial_and_login_def
      io_defs imap_do_def db_do_def db_read_def stmt_def Let_def PublishToStream_def
      RecordRuleAppliedMove_def LogExecution_def exec_log_row_def bump_def
      ListActiveAccounts_def select_account_def decrypt_account_def sample_defs)
  with failed_action_leaves_success_row [of "\<lparr>rr_Action = ''move'', rr_Target = ''Work'', rr_Delay = 0, rr_Reason = []\<rparr>"
      "sample_env (R_Err ''no'')" "sample_rule ''move''" "sample_world ''move''" sample_event 0]
  show ?thesis by (simp add: sample_defs)
qed

lemma defer_branch_row:
  assumes "has_key r_ID (r_ID r) (rules (w_db w))" and "has_key a_ID (ev_AccountID ev) (accounts (w_db w))"
    and "\<not> en_fault N S_CreateDeferred"
  shows "\<exists>i. fst (defer_branch N now ev r res w) = Ack \<and>
    deferred (w_db (snd (defer_branch N now ev r res w))) = deferred (w_db w) @
      [(deferred_row now r ev res)\<lparr>d_ID := i, d_Status := ''pending'', d_CreatedAt := now\<rparr>]"
  using assms
  by (simp add: defer_branch_def db_do_def stmt_def CreateDeferredAction_def Let_def bump_def deferred_row_def)

text \<open>
  C12. A rule that asks for a delay leads to exactly one new pending deferred action for this
  message, due after the delay, and to an \<open>Ack\<close>; but the message is not marked as processed, so a
  second delivery of it is not recognised. The stored action is the target of the rule, not the
  action that the rule named.
\<close>
theorem deferral:
  assumes "rr_Action res = ''defer''" and "0 < rr_Delay res"
    and "has_key r_ID (r_ID r) (rules (w_db w))" and "has_key a_ID (ev_AccountID ev) (accounts (w_db w))"
    and "\<not> en_fault N S_CreateDeferred"
  shows "fst (handle_match N now ev r res w) = Ack \<and>
    processed (w_db (snd (handle_match N now ev r res w))) = processed (w_db w) \<and>
    (\<exists>row. deferred (w_db (snd (handle_match N now ev r res w))) = deferred (w_db w) @ [row] \<and>
       d_Status row = ''pending'' \<and> d_MessageID row = ev_MessageID ev \<and> d_AccountID row = ev_AccountID ev \<and>
       d_RuleID row = r_ID r \<and> d_ExecuteAt row = now + wrap64 (rr_Delay res * Second) \<and>
       d_Action row = rr_Target res)"
proof -
  let ?w2 = "snd (PublishToStream N (result_subject ev) (Result (result_event_of r ev res))
    (snd (db_do N S_LogExecution (LogExecution now (exec_log_row r ev res)) w)))"
  have t: "rules (w_db ?w2) = rules (w_db w)" "accounts (w_db ?w2) = accounts (w_db w)"
    "processed (w_db ?w2) = processed (w_db w)" "deferred (w_db ?w2) = deferred (w_db w)"
    by (simp_all add: db_do_rows)
  obtain i where i: "fst (defer_branch N now ev r res ?w2) = Ack"
    "deferred (w_db (snd (defer_branch N now ev r res ?w2))) = deferred (w_db ?w2) @
      [(deferred_row now r ev res)\<lparr>d_ID := i, d_Status := ''pending'', d_CreatedAt := now\<rparr>]"
    using defer_branch_row [of r ?w2 ev N now res] assms(3-5) t by auto
  have "processed (w_db (snd (defer_branch N now ev r res ?w2))) = processed (w_db ?w2)"
    using db_do_rows(7) [of N S_CreateDeferred now "deferred_row now r ev res" ?w2]
    by (auto simp: defer_branch_def split: prod.splits sum.splits)
  with i t assms(1,2) show ?thesis
    by (simp add: handle_match_def Let_def deferred_row_def execute_at_def)
qed

theorem deferral_witness:
  "\<exists>row. deferred (w_db (snd (handle_match (sample_env R_OK) 0 sample_event (sample_rule ''delete_after'')
      \<lparr>rr_Action = ''defer'', rr_Target = [], rr_Delay = 60, rr_Reason = []\<rparr> (sample_world ''delete_after''))))
     = [row] \<and> d_Action row = []"
proof -
  have "has_key r_ID (r_ID (sample_rule ''delete_after'')) (rules (w_db (sample_world ''delete_after'')))"
    and "has_key a_ID (ev_AccountID sample_event) (accounts (w_db (sample_world ''delete_after'')))"
    and "\<not> en_fault (sample_env R_OK) S_CreateDeferred"
    and none: "deferred (w_db (sample_world ''delete_after'')) = []"
    by (simp_all add: sample_defs)
  from deferral [OF _ _ this(1-3), of "\<lparr>rr_Action = ''defer'', rr_Target = [], rr_Delay = 60, rr_Reason = []\<rparr>" 0]
  show ?thesis unfolding none by auto
qed

text \<open>
  The due time of a deferral is the delay after now for every delay up to 9223372036 seconds;
  one second more overflows the 64-bit duration and lies in the past.
\<close>
theorem execute_at_bounds:
  "(\<forall>delay. 0 < delay \<longrightarrow> delay \<le> 9223372036 \<longrightarrow>
      execute_at now delay = now + delay * Second \<and> now < execute_at now delay) \<and>
   execute_at now 9223372037 < now"
  by (auto simp: execute_at_def wrap64_def Second_def)

theorem execute_at_bounds_witness:
  "execute_at 0 60 = 60 * Second \<and> 0 < execute_at 0 60 \<and> execute_at 0 9223372037 < 0"
  using execute_at_bounds [of 0] by (simp add: Second_def)

end
