(* ===== verification/Schedulers.thy ===== *)
theory Schedulers
  imports Samples Delivery
begin

text \<open>
  The two schedulers of deferred actions: \<^verbatim>\<open>internal/sched/scheduler.go\<close> executes them through the
  IMAP executor; \<^verbatim>\<open>internal/scheduler/scheduler.go\<close>, of the single-process server, hands them to the
  mail worker over the event bus. \<open>bus\<close> says whether the scheduler has a bus.
\<close>

subsection \<open>The executing scheduler\<close>

definition result_of_deferred :: "deferred_action \<Rightarrow> string + unit \<Rightarrow> result_event" where
  "result_of_deferred a r =
     \<lparr>re_AccountID = d_AccountID a, re_TenantID = 0, re_MessageID = d_MessageID a, re_UID = 0,
      re_RuleID = d_RuleID a, re_RuleName = ''deferred'', re_Action = d_Action a, re_Target = d_Target a,
      re_Reason = [], re_Subject = [], re_Sender = [],
      re_Success = res_ok r, re_Error = (case r of Inl e \<Rightarrow> e | Inr _ \<Rightarrow> [])\<rparr>"

definition process_deferred :: "env \<Rightarrow> bool \<Rightarrow> time \<Rightarrow> deferred_action \<Rightarrow> world \<Rightarrow> world" where
  "process_deferred N bus now a w =
     (case ExecuteActionByMessageIDForRule N now (d_AccountID a) (d_MessageID a) (d_Action a) (d_Target a)
             (d_RuleID a) w of
        (r, w1) \<Rightarrow>
          (let errMsg = (case r of Inl e \<Rightarrow> e | Inr _ \<Rightarrow> [])
           in case db_do N (S_MarkDone (d_ID a)) (MarkDeferredActionDone now (d_ID a) errMsg) w1 of
                (Inl _, w2) \<Rightarrow> w2
              | (Inr _, w2) \<Rightarrow>
                  if bus then snd (PublishToStream N (''email.results.'' @ FormatInt (d_AccountID a))
                                     (Result (result_of_deferred a r)) w2)
                  else w2))"

definition processPending :: "env \<Rightarrow> bool \<Rightarrow> time \<Rightarrow> world \<Rightarrow> world" where
  "processPending N bus now w =
     (case db_read N S_Pending (\<lambda>d. Inr (GetPendingDeferredActions now d)) w of
        (Inl _, w1) \<Rightarrow> w1
      | (Inr actions, w1) \<Rightarrow> fold (process_deferred N bus now) actions w1)"

definition cleanupStaleData :: "env \<Rightarrow> time \<Rightarrow> world \<Rightarrow> world" where
  "cleanupStaleData N now w = snd (db_do N S_Clean (CleanOldRuleAppliedMoves now) w)"

text \<open>The loop of \<open>Start\<close>: which ticker fired, at which instant, in which environment.\<close>

datatype tick = T_interval | T_cleanup

fun scheduler_loop :: "bool \<Rightarrow> (tick \<times> env \<times> time) list \<Rightarrow> world \<Rightarrow> world" where
  "scheduler_loop bus [] w = w"
| "scheduler_loop bus ((t, N, now) # ts) w =
     scheduler_loop bus ts
       (case t of T_interval \<Rightarrow> processPending N bus now w | T_cleanup \<Rightarrow> cleanupStaleData N now w)"

subsection \<open>The publishing scheduler\<close>

text \<open>\<open>Publish\<close> on a subject of core NATS; the text of its error is only logged.\<close>

definition Publish :: "env \<Rightarrow> string \<Rightarrow> bus_event \<Rightarrow> unit io" where
  "Publish N subject data w =
     (if en_publish N subject data then (Inr (), w\<lparr>w_bus := w_bus w @ [(subject, data)]\<rparr>) else (Inl [], w))"

definition publish_deferred :: "env \<Rightarrow> bool \<Rightarrow> time \<Rightarrow> deferred_action \<Rightarrow> world \<Rightarrow> world" where
  "publish_deferred N bus now a w =
     (if \<not> bus then w
      else case Publish N ''email.deferred''
                  (DeferredEv \<lparr>de_ActionID = d_ID a, de_AccountID = d_AccountID a, de_TenantID = 0,
                     de_MessageID = d_MessageID a, de_UID = 0, de_Action = d_Action a, de_Target = d_Target a,
                     de_Delay = 0\<rparr>) w of
             (Inl _, w1) \<Rightarrow> w1
           | (Inr _, w1) \<Rightarrow> snd (db_do N (S_MarkDone (d_ID a)) (MarkDeferredActionDone now (d_ID a) []) w1))"

definition publishPending :: "env \<Rightarrow> bool \<Rightarrow> time \<Rightarrow> world \<Rightarrow> world" where
  "publishPending N bus now w =
     (case db_read N S_Pending (\<lambda>d. Inr (GetPendingDeferredActions now d)) w of
        (Inl _, w1) \<Rightarrow> w1
      | (Inr actions, w1) \<Rightarrow> fold (publish_deferred N bus now) actions w1)"

fun publishing_loop :: "bool \<Rightarrow> (env \<times> time) list \<Rightarrow> world \<Rightarrow> world" where
  "publishing_loop bus [] w = w"
| "publishing_loop bus ((N, now) # ticks) w = publishing_loop bus ticks (publishPending N bus now w)"

subsection \<open>Invariant\<close>

lemma process_deferred_inv:
  assumes "world_inv w"
  shows "world_inv (process_deferred N bus now a w)"
proof -
  obtain r w1 where e: "ExecuteActionByMessageIDForRule N now (d_AccountID a) (d_MessageID a) (d_Action a)
      (d_Target a) (d_RuleID a) w = (r, w1)" by fastforce
  have w1: "world_inv w1"
    using by_message_id.inv_kept [OF assms, of N now "d_AccountID a" "d_MessageID a" "d_Action a" "d_Target a" "d_RuleID a"]
      e by simp
  let ?op = "MarkDeferredActionDone now (d_ID a) (case r of Inl e \<Rightarrow> e | Inr _ \<Rightarrow> [])"
  obtain x w2 where m: "db_do N (S_MarkDone (d_ID a)) ?op w1 = (x, w2)" by fastforce
  have "world_inv w2"
    using db_do_inv [OF w1, of ?op N "S_MarkDone (d_ID a)"] MarkDeferredActionDone_inv m by simp
  then show ?thesis
    using m by (cases x) (simp_all add: process_deferred_def e Let_def publish_inv)
qed

lemma fold_inv: "(\<And>x w. I w \<Longrightarrow> I (f x w)) \<Longrightarrow> I w \<Longrightarrow> I (fold f xs w)"
  by (induction xs arbitrary: w) simp_all

lemma pending_cases:
  obtains "en_fault N S_Pending" "\<And>f. (case db_read N S_Pending (\<lambda>d. Inr (GetPendingDeferredActions now d)) w of
        (Inl _, w1) \<Rightarrow> w1 | (Inr actions, w1) \<Rightarrow> fold f actions w1) = w"
  | "\<not> en_fault N S_Pending" "\<And>f. (case db_read N S_Pending (\<lambda>d. Inr (GetPendingDeferredActions now d)) w of
        (Inl _, w1) \<Rightarrow> w1 | (Inr actions, w1) \<Rightarrow> fold f actions w1)
      = fold f (GetPendingDeferredActions now (w_db w)) w"
proof (cases "en_fault N S_Pending")
  case True
  then show thesis by (intro that(1)) (simp_all add: db_read_def db_do_def stmt_def)
next
  case False
  then show thesis by (intro that(2)) (simp_all add: db_read_def db_do_def stmt_def)
qed

lemma processPending_inv: "world_inv w \<Longrightarrow> world_inv (processPending N bus now w)"
  by (cases rule: pending_cases [of N now w])
    (simp_all add: processPending_def fold_inv [where I = world_inv] process_deferred_inv)

lemma scheduler_loop_inv: "world_inv w \<Longrightarrow> world_inv (scheduler_loop bus ts w)"
proof (induction bus ts w rule: scheduler_loop.induct)
  case (2 bus t N now ts w)
  have "world_inv (cleanupStaleData N now w)"
    using 2(2) clean_inv(2) by (simp add: cleanupStaleData_def db_do_inv)
  with 2 processPending_inv show ?case by (cases t) simp_all
qed simp

subsection \<open>What one round does to the table of deferred actions\<close>

definition mark_done :: "time \<Rightarrow> string \<Rightarrow> deferred_action \<Rightarrow> deferred_action" where
  "mark_done now e a = a\<lparr>d_Executed := True, d_Status := (if e \<noteq> [] then ''failed'' else ''executed''),
     d_ExecutedAt := Some now, d_Error := e\<rparr>"

lemma mark_done_simps [simp]: "d_ID (mark_done now e a) = d_ID a" "d_Status (mark_done now e a) \<noteq> ''pending''"
  by (simp_all add: mark_done_def)

lemma MarkDeferredActionDone_marks:
  "MarkDeferredActionDone now i e d = (Inr (), d\<lparr>deferred := upd (\<lambda>x. d_ID x = i) (mark_done now e) (deferred d)\<rparr>)"
proof -
  have "mark_done now e = (\<lambda>a. a\<lparr>d_Executed := True, d_Status := (if e \<noteq> [] then ''failed'' else ''executed''),
     d_ExecutedAt := Some now, d_Error := e\<rparr>)"
    by (rule ext) (simp add: mark_done_def)
  then show ?thesis by (simp add: MarkDeferredActionDone_def Let_def)
qed

lemma process_deferred_rows:
  assumes "\<not> en_fault N (S_MarkDone (d_ID a))"
  shows "\<exists>e. deferred (w_db (process_deferred N bus now a w))
    = map (\<lambda>x. if d_ID x = d_ID a then mark_done now e x else x) (deferred (w_db w))"
proof -
  obtain r w1 where e: "ExecuteActionByMessageIDForRule N now (d_AccountID a) (d_MessageID a) (d_Action a)
      (d_Target a) (d_RuleID a) w = (r, w1)" by fastforce
  have w1: "deferred (w_db w1) = deferred (w_db w)"
    using by_message_id.tables_same(2) [of N now "d_AccountID a" "d_MessageID a" "d_Action a" "d_Target a" "d_RuleID a" w]
      e by simp
  let ?e = "case r of Inl e \<Rightarrow> e | Inr _ \<Rightarrow> []"
  have "deferred (w_db (process_deferred N bus now a w)) = upd (\<lambda>x. d_ID x = d_ID a) (mark_done now ?e) (deferred (w_db w))"
    using assms w1
    by (simp add: process_deferred_def e Let_def db_do_def stmt_def MarkDeferredActionDone_marks)
  then show ?thesis by (intro exI [of _ ?e]) (simp add: upd_def)
qed

lemma process_all_rows:
  assumes "\<And>i. \<not> en_fault N (S_MarkDone i)" and "distinct (map d_ID as)"
  shows "\<exists>err. deferred (w_db (fold (process_deferred N bus now) as w))
    = map (\<lambda>x. if d_ID x \<in> d_ID ` set as then mark_done now (err (d_ID x)) x else x) (deferred (w_db w))"
  using assms(2)
proof (induction as arbitrary: w)
  case (Cons a as)
  obtain e where e: "deferred (w_db (process_deferred N bus now a w))
      = map (\<lambda>x. if d_ID x = d_ID a then mark_done now e x else x) (deferred (w_db w))"
    using process_deferred_rows assms(1) by blast
  obtain err where err: "deferred (w_db (fold (process_deferred N bus now) as (process_deferred N bus now a w)))
      = map (\<lambda>x. if d_ID x \<in> d_ID ` set as then mark_done now (err (d_ID x)) x else x)
          (deferred (w_db (process_deferred N bus now a w)))"
    using Cons.IH [of "process_deferred N bus now a w"] Cons.prems by auto
  have nd: "d_ID a \<notin> d_ID ` set as" using Cons.prems by simp
  have "(if d_ID y \<in> d_ID ` set as then mark_done now (err (d_ID y)) y else y)
      = (if d_ID x \<in> d_ID ` set (a # as) then mark_done now ((err(d_ID a := e)) (d_ID x)) x else x)"
    if "y = (if d_ID x = d_ID a then mark_done now e x else x)" for x y
    using nd that by simp
  then have "deferred (w_db (fold (process_deferred N bus now) (a # as) w))
      = map (\<lambda>x. if d_ID x \<in> d_ID ` set (a # as) then mark_done now ((err(d_ID a := e)) (d_ID x)) x else x)
          (deferred (w_db w))"
    unfolding fold_simps comp_apply err e map_map by (intro map_cong) simp_all
  then show ?case by blast
qed simp

text \<open>
  C11. One round of the scheduler (with the database reachable) settles exactly the actions that are
  due: each becomes \<open>executed\<close>, or \<open>failed\<close> with the error, at this instant, and every other row
  of the table is left as it is.
\<close>
theorem processPending_settles_due:
  assumes "db_inv (w_db w)" and "\<not> en_fault N S_Pending" and "\<And>i. \<not> en_fault N (S_MarkDone i)"
  shows "\<exists>err. deferred (w_db (processPending N bus now w))
    = map (\<lambda>a. if due now a then mark_done now (err (d_ID a)) a else a) (deferred (w_db w))"
proof -
  let ?as = "GetPendingDeferredActions now (w_db w)"
  have u: "uniq d_ID (deferred (w_db w))" using assms(1) by (simp add: db_inv_def keys_ok_def)
  have "distinct (map d_ID (filter (due now) (deferred (w_db w))))"
    using u by (simp add: uniq_def distinct_map_filter)
  then have di: "distinct (map d_ID ?as)"
    by (simp add: GetPendingDeferredActions_def distinct_map distinct_sort)
  obtain err where err: "deferred (w_db (fold (process_deferred N bus now) ?as w))
    = map (\<lambda>x. if d_ID x \<in> d_ID ` set ?as then mark_done now (err (d_ID x)) x else x) (deferred (w_db w))"
    using process_all_rows [OF assms(3) di] by blast
  have iff: "d_ID x \<in> d_ID ` set ?as \<longleftrightarrow> due now x" if "x \<in> set (deferred (w_db w))" for x
    using u that by (auto simp: GetPendingDeferredActions_def uniq_def distinct_map dest: inj_onD)
  have "processPending N bus now w = fold (process_deferred N bus now) ?as w"
    using assms(2) by (simp add: processPending_def db_read_def db_do_def stmt_def)
  with err iff show ?thesis by (intro exI [of _ err]) (auto cong: map_cong)
qed

definition sample_deferred :: deferred_action where
  "sample_deferred = \<lparr>d_ID = 1, d_RuleID = 1, d_AccountID = 1, d_MessageID = ''<1@x>'', d_Action = ''move'',
     d_Target = ''Work'', d_ExecuteAt = 3, d_Executed = False, d_Status = ''pending'', d_ExecutedAt = None,
     d_Error = [], d_CreatedAt = 0\<rparr>"

definition sample_pending :: world where
  "sample_pending = (sample_world ''move'')\<lparr>w_db := (sample_db ''move'')\<lparr>deferred := [sample_deferred]\<rparr>\<rparr>"

lemma sample_pending_inv: "db_inv (w_db sample_pending)"
  by (simp add: inv_defs sample_pending_def sample_deferred_def status_ok_def sample_defs
      uniq_def below_def refs_def orefs_def)

theorem processPending_settles_due_witness:
  "\<exists>err. deferred (w_db (processPending (sample_env R_OK) True 5 sample_pending))
    = [mark_done 5 (err (1 :: int)) sample_deferred]"
proof -
  have "\<exists>err. deferred (w_db (processPending (sample_env R_OK) True 5 sample_pending))
    = map (\<lambda>a. if due 5 a then mark_done 5 (err (d_ID a)) a else a) (deferred (w_db sample_pending))"
    by (rule processPending_settles_due [OF sample_pending_inv]) (simp_all add: sample_env_def)
  moreover have "deferred (w_db sample_pending) = [sample_deferred]" "due 5 sample_deferred"
    "d_ID sample_deferred = 1"
    by (simp_all add: sample_pending_def due_def sample_deferred_def)
  ultimately show ?thesis by simp
qed

subsection \<open>Rule-driven moves are remembered for a day\<close>

lemma record_move_recorded:
  assumes "ac = ''move'' \<or> ac = ''archive''" and "mid \<noteq> []" and "\<not> en_fault N S_RecordMove"
    and "has_key r_ID r (rules (w_db w))" and "has_key a_ID aid (accounts (w_db w))"
    and "now' < now + 24 * Hour"
  shows "IsRuleAppliedMove now' aid mid (w_db (snd (record_move N now aid ac ta r mid w)))"
  using assms by (auto simp: record_move_def io_try_def db_do_db RecordRuleAppliedMove_def Let_def bump_def
      IsRuleAppliedMove_def rows_affected_def)

lemma cleanup_keeps_recent:
  assumes "IsRuleAppliedMove now' aid mid d" and "now \<le> now'"
  shows "IsRuleAppliedMove now' aid mid (snd (CleanOldRuleAppliedMoves now d))"
  using assms by (force simp: IsRuleAppliedMove_def CleanOldRuleAppliedMoves_def Let_def rows_affected_pos)

lemma processPending_applied_mono:
  assumes "IsRuleAppliedMove t aid mid (w_db w)"
  shows "IsRuleAppliedMove t aid mid (w_db (processPending N bus now w))"
proof -
  have step: "IsRuleAppliedMove t aid mid (w_db (process_deferred N bus now a w))"
    if "IsRuleAppliedMove t aid mid (w_db w)" for a w
  proof -
    obtain r w1 where e: "ExecuteActionByMessageIDForRule N now (d_AccountID a) (d_MessageID a) (d_Action a)
        (d_Target a) (d_RuleID a) w = (r, w1)" by fastforce
    have "IsRuleAppliedMove t aid mid (w_db w1)"
      using by_message_id.applied_mono [OF that, of N now "d_AccountID a" "d_MessageID a" "d_Action a" "d_Target a" "d_RuleID a"]
        e by simp
    then show ?thesis
      by (simp add: process_deferred_def e Let_def db_do_def stmt_def MarkDeferredActionDone_marks
          IsRuleAppliedMove_def PublishToStream_def)
  qed
  show ?thesis
    by (cases rule: pending_cases [of N now w])
      (simp_all add: processPending_def assms fold_inv [where I = "\<lambda>w. IsRuleAppliedMove t aid mid (w_db w)"] step)
qed

lemma scheduler_loop_applied:
  assumes "IsRuleAppliedMove now' aid mid (w_db w)" and "list_all (\<lambda>(k, M, t). t \<le> now') ts"
  shows "IsRuleAppliedMove now' aid mid (w_db (scheduler_loop bus ts w))"
  using assms
proof (induction bus ts w rule: scheduler_loop.induct)
  case (2 bus t N now ts w)
  have "IsRuleAppliedMove now' aid mid (w_db (cleanupStaleData N now w))"
    using 2(2,3) cleanup_keeps_recent by (simp add: cleanupStaleData_def db_do_db)
  with 2 processPending_applied_mono show ?case by (cases t) simp_all
qed simp

lemma scheduled_move_recorded:
  assumes "ac = ''move'' \<or> ac = ''archive''" and "mid \<noteq> []" and "\<not> en_fault N S_RecordMove"
    and "has_key r_ID r (rules (w_db w))" and "has_key a_ID aid (accounts (w_db w))"
    and "now' < now + 24 * Hour" and "list_all (\<lambda>(k, M, t). t \<le> now') ts"
  shows "IsRuleAppliedMove now' aid mid
    (w_db (scheduler_loop bus ts (snd (ExecuteActionByMessageIDForRule N now aid mid ac ta r w))))"
proof -
  let ?w1 = "snd (record_move N now aid ac ta r mid w)"
  have "IsRuleAppliedMove now' aid mid (w_db ?w1)"
    using assms(1-6) by (rule record_move_recorded)
  moreover have "w_db (snd (ExecuteActionByMessageIDForRule N now aid mid ac ta r w)) = w_db ?w1"
  proof -
    have "fst (record_move N now aid ac ta r mid w) = Inr ()"
      by (simp add: record_move_def io_try_def io_return_def)
    then have "snd (ExecuteActionByMessageIDForRule N now aid mid ac ta r w)
        = snd (ExecuteActionByMessageID N aid mid ac ta ?w1)"
      by (cases "record_move N now aid ac ta r mid w") (simp add: ExecuteActionByMessageIDForRule_def io_bind_def)
    then show ?thesis using execute_quiet(2) [of N aid mid ac ta] by (simp add: io_rel_def quiet_def)
  qed
  ultimately have "IsRuleAppliedMove now' aid mid (w_db (snd (ExecuteActionByMessageIDForRule N now aid mid ac ta r w)))"
    by simp
  then show ?thesis using assms(7) by (rule scheduler_loop_applied)
qed

text \<open>
  A move or archive that the scheduler executes for a rule is recorded before the mail server is
  asked, whatever the server answers, and the record answers the check of the move detectors for 24
  hours: no later round and no cleanup of the scheduler up to the instant of the check removes it.
\<close>
theorem rule_move_remembered:
  assumes "ac = ''move'' \<or> ac = ''archive''" and "mid \<noteq> []" and "\<not> en_fault N S_RecordMove"
    and "has_key r_ID r (rules (w_db w))" and "has_key a_ID aid (accounts (w_db w))"
    and "now' < now + 24 * Hour" and "list_all (\<lambda>(k, M, t). t \<le> now') ts"
  shows "IsRuleAppliedMove now' aid mid
    (w_db (scheduler_loop bus ts (snd (ExecuteActionByMessageIDForRule N now aid mid ac ta r w))))"
  using assms by (rule scheduled_move_recorded)

theorem rule_move_remembered_witness:
  "IsRuleAppliedMove Hour 1 ''<1@x>'' (w_db (scheduler_loop True [(T_cleanup, sample_env R_OK, 5)]
     (snd (ExecuteActionByMessageIDForRule (sample_env (R_Err ''no'')) 0 1 ''<1@x>'' ''archive'' [] 1 (sample_world ''move'')))))"
  by (rule rule_move_remembered) (simp_all add: sample_defs Hour_def Minute_def Second_def)

end
