(* ===== verification/Traces.thy ===== *)
theory Traces
  imports Schedulers
begin

text \<open>
  Which commands the mail server sees. A property of command sequences that holds of the empty one
  and of concatenations is kept by sequences of steps: the locale \<open>trace_property\<close>, a source of
  instances of \<open>io_preorder\<close>. Two such properties are used: that every move is directly preceded by
  setting the flag that tells move detection about it, and that no command removes a message.
\<close>

definition appends :: "((int \<times> imap_cmd) list \<Rightarrow> bool) \<Rightarrow> world \<Rightarrow> world \<Rightarrow> bool" where
  "appends P w w' \<longleftrightarrow> (\<exists>new. w_cmds w' = w_cmds w @ new \<and> P new)"

text \<open>The commands that open and close a session and select a mailbox.\<close>

fun is_session :: "imap_cmd \<Rightarrow> bool" where
  "is_session (C_DialTLS a) = True"
| "is_session (C_Dial a) = True"
| "is_session C_Greeting = True"
| "is_session (C_Login u p) = True"
| "is_session C_Logout = True"
| "is_session C_Close = True"
| "is_session (C_Select m) = True"
| "is_session c = False"

locale trace_property =
  fixes P :: "(int \<times> imap_cmd) list \<Rightarrow> bool"
  assumes P_Nil: "P []"
    and P_append: "P xs \<Longrightarrow> P ys \<Longrightarrow> P (xs @ ys)"
    and P_session: "is_session c \<Longrightarrow> P [(aid, c)]"

sublocale trace_property \<subseteq> steps: io_preorder "appends P"
proof
  show "appends P w w" for w using P_Nil by (auto simp: appends_def)
  show "appends P w w''" if "appends P w w'" "appends P w' w''" for w w' w''
    using that P_append by (fastforce simp: appends_def)
qed

context trace_property
begin

lemma same_cmds: "(\<And>w. w_cmds (snd (m w)) = w_cmds w) \<Longrightarrow> io_rel (appends P) m"
  using P_Nil by (auto simp: io_rel_def appends_def)

lemma command: "P [(aid, c)] \<Longrightarrow> io_rel (appends P) (imap_do N aid c)"
  by (auto simp: io_rel_def appends_def imap_do_def Let_def split: imap_resp.split)

lemmas session_command = command [OF P_session]

lemma db_step: "io_rel (appends P) (db_do N s op)"
  by (rule same_cmds) (simp add: db_do_def split: prod.split sum.split)

lemma recording: "io_rel (appends P) (record_move N now aid ac ta r mid)"
  by (auto simp: record_move_def intro: steps.composed db_step)

lemma chat: "io_rel (appends P) (SendMessage N t msg)" "io_rel (appends P) (executeNotify N msg)"
proof -
  show s: "io_rel (appends P) (SendMessage N t msg)" for t msg
    by (rule same_cmds) (simp add: SendMessage_def Let_def split: tg_resp.split)
  show "io_rel (appends P) (executeNotify N msg)"
    by (auto simp: executeNotify_def intro: s steps.composed split: option.split)
qed

lemma get_connection: "io_rel (appends P) (getConnection N aid)"
proof (rule same_cmds)
  show "w_cmds (snd (getConnection N aid w)) = w_cmds w" for w
    by (auto simp: getConnection_def io_bind_def io_wrap_def db_read_def db_do_def stmt_def
        split: option.split prod.split sum.split)
qed

lemma dial: "io_rel (appends P) (dial_and_login N aid a)"
  unfolding dial_and_login_def Let_def
  by (auto intro!: steps.composed session_command)

lemma connection: "io_rel (appends P) (connect N aid)"
proof -
  have "io_rel (appends P) (\<lambda>w. (Inr (), set_client aid True w))"
    by (rule same_cmds) (simp add: set_client_def split: option.split)
  then have "io_rel (appends P) (io_bind (dial_and_login N aid a) (\<lambda>_ w. (Inr (), set_client aid True w)))" for a
    by (intro steps.bind dial)
  then show ?thesis by (auto simp: io_rel_def connect_def split: option.split)
qed

lemma disconnection: "io_rel (appends P) (disconnect N aid)"
proof -
  have c: "appends P w (snd (io_try (imap_do N aid c) w))" if "is_session c" for w c
    using steps.attempt [OF session_command [OF that], of N aid] unfolding io_rel_def by blast
  have "appends P w (snd (io_try (imap_do N aid C_Close) (snd (io_try (imap_do N aid C_Logout) w))))" for w
    by (rule steps.trans [OF c c]) simp_all
  then show ?thesis
    by (auto simp: io_rel_def disconnect_def set_client_def appends_def P_Nil split: option.split)
qed

lemma inbox: "io_rel (appends P) (open_inbox N aid)"
  unfolding open_inbox_def
  by (auto intro!: steps.composed get_connection connection disconnection session_command)

end

subsection \<open>Moves carry the flag\<close>

fun moves_flagged :: "(int \<times> imap_cmd) option \<Rightarrow> (int \<times> imap_cmd) list \<Rightarrow> bool" where
  "moves_flagged prev [] = True"
| "moves_flagged prev ((aid, c) # cs) =
     ((case c of C_Move u f \<Rightarrow> prev = Some (aid, C_StoreAdd u RuleAppliedFlag) | _ \<Rightarrow> True)
      \<and> moves_flagged (Some (aid, c)) cs)"

lemma moves_flagged_prev: "moves_flagged None cs \<Longrightarrow> moves_flagged p cs"
  by (cases cs) (auto split: imap_cmd.splits)

lemma moves_flagged_append: "moves_flagged p xs \<Longrightarrow> moves_flagged None ys \<Longrightarrow> moves_flagged p (xs @ ys)"
  by (induction p xs rule: moves_flagged.induct) (auto simp: moves_flagged_prev)

interpretation flagged: trace_property "moves_flagged None"
proof
  show "moves_flagged None [(aid, c)]" if "is_session c" for aid c using that by (cases c) simp_all
qed (simp_all add: moves_flagged_append)

lemma io_world [simp]:
  "w_cmds (snd (imap_do N aid c w)) = w_cmds w @ [(aid, c)]"
  "io_bind (io_try m) f w = f () (snd (m w))"
  "snd (io_wrap p m w) = snd (m w)"
  "snd (io_bind m (\<lambda>_. io_return ()) w) = snd (m w)"
  by (simp_all add: imap_do_def Let_def io_bind_def io_try_def io_wrap_def io_return_def
      split: imap_resp.split prod.split sum.split)

lemma executeMove_cmds:
  "w_cmds (snd (executeMove N aid u f w))
     = w_cmds w @ [(aid, C_Create f), (aid, C_StoreAdd u RuleAppliedFlag), (aid, C_Move u f)]"
  by (simp add: executeMove_def)

lemma perform_flagged: "io_rel (appends (moves_flagged None)) (perform N aid u ac ta)"
proof -
  have m: "io_rel (appends (moves_flagged None)) (executeMove N aid u f)" for f
    by (simp add: io_rel_def appends_def executeMove_cmds)
  have x: "io_rel (appends (moves_flagged None)) (io_bind (io_wrap ''expunge'' (imap_do N aid C_Expunge)) (\<lambda>_. io_return ()))"
    by (intro flagged.steps.bind flagged.steps.wrap flagged.command flagged.steps.return) simp
  have d: "io_rel (appends (moves_flagged None)) (executeDelete N aid u)"
    unfolding executeDelete_def
    by (rule flagged.steps.bind [OF flagged.steps.wrap [OF flagged.command]], simp,
        rule flagged.steps.fallback [OF flagged.command x]) simp
  have fl: "io_rel (appends (moves_flagged None)) (executeFlag N aid u ta)"
    unfolding executeFlag_def
    by (intro flagged.steps.bind flagged.steps.wrap flagged.command flagged.steps.return) simp
  show ?thesis
    by (simp add: perform_def m d fl flagged.chat flagged.steps.return flagged.steps.fail)
qed


subsection \<open>Deferred deletions do not delete\<close>

fun removes :: "imap_cmd \<Rightarrow> bool" where
  "removes (C_StoreAdd u f) = (f = FlagDeleted)"
| "removes (C_UIDExpunge u) = True"
| "removes C_Expunge = True"
| "removes (C_Move u f) = True"
| "removes c = False"

interpretation harmless: trace_property "list_all (\<lambda>(aid, c). \<not> removes c)"
proof
  show "list_all (\<lambda>(aid, c). \<not> removes c) [(aid, c)]" if "is_session c" for aid c
    using that by (cases c) simp_all
qed simp_all

lemma unknown_action_harmless:
  "io_rel (appends (list_all (\<lambda>(aid, c). \<not> removes c))) (ExecuteActionByMessageIDForRule N now aid mid [] ta r)"
proof -
  have "perform N aid u [] ta = io_fail (''unknown action: '' @ [])" for u
    by (simp add: perform_def)
  then show ?thesis
    unfolding ExecuteActionByMessageIDForRule_def ExecuteActionByMessageID_def
    by (auto intro!: harmless.steps.composed harmless.recording harmless.inbox harmless.command split: list.split)
qed

lemma process_deferred_cmds:
  "w_cmds (process_deferred N bus now a w)
     = w_cmds (snd (ExecuteActionByMessageIDForRule N now (d_AccountID a) (d_MessageID a) (d_Action a) (d_Target a) (d_RuleID a) w))"
  by (simp add: process_deferred_def Let_def db_do_def PublishToStream_def split: prod.split sum.split)

text \<open>
  C34. A deletion that a rule asks for with \<open>delete_after\<close> never happens: the deferred action that the
  rules engine stores for it has an empty action, and when the scheduler processes it, no command that
  deletes, expunges or moves a message is sent.
\<close>
theorem delete_after_never_deletes:
  "let res = extractResult (snd (run E t m (Act (A_delete_after delay reason) Done) (init_state k)));
       a = (deferred_row t r ev res)\<lparr>d_ID := i, d_Status := ''pending'', d_CreatedAt := t\<rparr>
   in rr_Action res = ''defer'' \<and> d_Action a = [] \<and>
      appends (list_all (\<lambda>(aid, c). \<not> removes c)) w (process_deferred N bus now a w)"
proof -
  let ?res = "extractResult (snd (run E t m (Act (A_delete_after delay reason) Done) (init_state k)))"
  have res: "rr_Action ?res = ''defer''" "rr_Target ?res = []"
    by (simp_all add: extractResult_def action_fn_def deferring_def setResult_def)
  have "appends (list_all (\<lambda>(aid, c). \<not> removes c)) w (process_deferred N bus now a w)" if "d_Action a = []" for a
    using unknown_action_harmless [of N now "d_AccountID a" "d_MessageID a" "d_Target a" "d_RuleID a"] that
    by (simp add: io_rel_def appends_def process_deferred_cmds)
  with res show ?thesis by (simp add: Let_def deferred_row_def)
qed

end
