(* ===== verification/Evaluation.thy ===== *)
theory Evaluation
  imports Samples
begin

text \<open>
  Properties of the rule engine and of the AI client it calls
  (\<^verbatim>\<open>internal/engine/engine.go\<close>, \<^verbatim>\<open>internal/engine/kiro.go\<close>).
\<close>

subsection \<open>Results\<close>


subsection \<open>The AI switch\<close>

text \<open>
  C36. When the user has switched AI off, a rule that is marked as using AI is evaluated as if there were
  no AI service: its result depends neither on the client nor on what the service would answer, no
  request is sent and the cache stays as it is.
\<close>
theorem ai_off_is_independent:
  assumes "r_UsesAI r" and "same_host E E'"
  shows "fst (EvaluateWithOptions lua E now (Some False) r m c) = fst (EvaluateWithOptions lua E' now (Some False) r m c') \<and>
    snd (EvaluateWithOptions lua E now (Some False) r m c) = c"
proof (cases "lua (r_LuaCode r)")
  case None
  then show ?thesis by (simp add: EvaluateWithOptions_def)
next
  case (Some p)
  have "run E now m p (init_state None) = run E' now m p (init_state None)"
    using run_without_client [OF assms(2), of "init_state None"] by (simp add: init_state_def)
  with Some assms(1) show ?thesis by (simp add: EvaluateWithOptions_def Let_def split: prod.split)
qed

theorem ai_off_is_independent_witness:
  "fst (EvaluateWithOptions sample_lua (sample_kiro\<lparr>kv_api := \<lambda>_. Response 200 (Parsed None [(''text'', ''yes'')])\<rparr>) 0 (Some False)
      ((sample_rule ''move'')\<lparr>r_UsesAI := True\<rparr>) (eventToEmailContext sample_event) (Some (NewKiroClient ''k'' [] [] [])))
   = fst (EvaluateWithOptions sample_lua sample_kiro 0 (Some False)
      ((sample_rule ''move'')\<lparr>r_UsesAI := True\<rparr>) (eventToEmailContext sample_event) None)"
  using ai_off_is_independent [of "(sample_rule ''move'')\<lparr>r_UsesAI := True\<rparr>"
      "sample_kiro\<lparr>kv_api := \<lambda>_. Response 200 (Parsed None [(''text'', ''yes'')])\<rparr>" sample_kiro sample_lua 0
      "eventToEmailContext sample_event" "Some (NewKiroClient ''k'' [] [] [])" None]
  by (simp add: same_host_def sample_kiro_def)

subsection \<open>The cache of AI answers\<close>

text \<open>A session of the client: the questions that rules ask one after the other.\<close>

fun kiro_session :: "(kiro_env \<times> time \<times> email_context \<times> kiro_query) list \<Rightarrow> KiroClient option \<Rightarrow> KiroClient option" where
  "kiro_session [] c = c"
| "kiro_session ((E, now, m, q) # qs) c = kiro_session qs (snd (kiro_call E now m q c))"

lemma ask_cached_limits:
  "kca_maxSize (kc_cache (snd (ask_cached E now m key p v t k))) = kca_maxSize (kc_cache k)"
  "kca_ttl (kc_cache (snd (ask_cached E now m key p v t k))) = kca_ttl (kc_cache k)"
proof -
  obtain r s where a: "(case v of Some q \<Rightarrow> askYesNoWithImages E q t (e_ImageAttachments m) k | None \<Rightarrow> askYesNo E p t k)
    = (r, k\<lparr>kc_sent := kc_sent k @ [s]\<rparr>)" by (rule ask_split)
  have "kca_maxSize (cache_set now key b c) = kca_maxSize c" for b c
    by (simp add: cache_set_def Let_def evict_def split: option.split)
  with a show "kca_maxSize (kc_cache (snd (ask_cached E now m key p v t k))) = kca_maxSize (kc_cache k)"
    "kca_ttl (kc_cache (snd (ask_cached E now m key p v t k))) = kca_ttl (kc_cache k)"
    by (simp_all add: ask_cached_def split: option.split sum.split)
qed

definition limits :: "KiroClient \<Rightarrow> bool" where
  "limits k \<longleftrightarrow> kca_maxSize (kc_cache k) = 500 \<and> kca_ttl (kc_cache k) = 10 * Minute"

definition limits_ok :: "KiroClient option \<Rightarrow> bool" where
  "limits_ok c = pred_option (\<lambda>k. client_inv k \<and> limits k) c"

lemma kiro_call_limits: "limits_ok c \<Longrightarrow> limits_ok (snd (kiro_call E now m q c))"
proof -
  assume c: "limits_ok c"
  then have "pred_option client_inv (snd (kiro_call E now m q c))"
    by (intro kiro_call_inv) (auto simp: limits_ok_def pred_option_def)
  moreover have "limits (snd (case q of Classify question \<Rightarrow> classify E now m question k
      | IsActionable \<Rightarrow> isActionable E now m k | IsFakeInvoice \<Rightarrow> isFakeInvoice E now m k))" if "limits k" for k
    using that by (cases q) (simp_all add: limits_def classify_def isActionable_def isFakeInvoice_def ask_cached_limits)
  ultimately show ?thesis
    using c by (cases c) (auto simp: limits_ok_def kiro_call_def split: prod.split, metis snd_conv)
qed

lemma kiro_session_limits: "limits_ok c \<Longrightarrow> limits_ok (kiro_session qs c)"
  by (induction qs c rule: kiro_session.induct) (simp_all add: kiro_call_limits)

text \<open>
  C37. However many questions rules ask and however the service answers, the cache of a client never holds
  more than 500 answers, under distinct keys, and keeps its lifetime of ten minutes.
\<close>
theorem ai_cache_bounded:
  "case kiro_session qs (Some (NewKiroClient key url tm vm)) of
     None \<Rightarrow> False
   | Some k \<Rightarrow> length (kca_entries (kc_cache k)) \<le> 500 \<and> distinct (map fst (kca_entries (kc_cache k))) \<and>
       kca_ttl (kc_cache k) = 10 * Minute"
proof -
  have some: "kiro_session qs (Some k) \<noteq> None" for qs and k :: KiroClient
  proof (induction qs arbitrary: k)
    case (Cons x qs)
    obtain E now m q where x: "x = (E, now, m, q)" by (cases x)
    have "\<exists>k'. snd (kiro_call E now m q (Some k)) = Some k'" by (simp add: kiro_call_def split: prod.split)
    with Cons x show ?case by auto
  qed simp
  have "limits_ok (Some (NewKiroClient key url tm vm))"
    using NewKiroClient_inv [of key url tm vm] by (simp add: limits_ok_def limits_def NewKiroClient_def)
  from kiro_session_limits [OF this, of qs] some [of qs "NewKiroClient key url tm vm"] show ?thesis
    by (auto simp: limits_ok_def limits_def client_inv_def cache_inv_def split: option.split)
qed

text \<open>
  An answer that the service gave is given again for ten minutes to the same question about the same
  message, without another request, even if the service has become unreachable.
\<close>
theorem ai_answer_reused:
  assumes "limits_ok (Some k)" and "classify E now m question k = (Inr r, k')"
    and "cache_get now (cacheKey (if e_ImageAttachments m \<noteq> [] then ''classify_vision'' else ''classify'')
           (e_MessageID m) question) (kc_cache k) = None"
    and "now \<le> now'" and "now' \<le> now + 10 * Minute" and "same_host E E'"
  shows "classify E' now' m question k' = (Inr r, k')"
proof -
  have k: "client_inv k" and ttl: "kca_ttl (kc_cache k) = 10 * Minute"
    using assms(1) by (simp_all add: limits_ok_def limits_def)
  have fmt: "formatEmailForKiro E' m = formatEmailForKiro E m"
    using assms(6) unfolding formatEmailForKiro_def same_host_def by simp
  show ?thesis
    using ask_cached_again [OF k assms(2) [unfolded classify_def] assms(4) _ assms(3)] assms(5) ttl
    unfolding classify_def fmt by simp
qed

definition sample_kiro_yes :: kiro_env where
  "sample_kiro_yes = sample_kiro\<lparr>kv_api := \<lambda>_. Response 200 (Parsed None [(''text'', ''yes'')])\<rparr>"

theorem ai_answer_reused_witness:
  "\<exists>k'. classify sample_kiro (5 * Minute) (eventToEmailContext sample_event) ''spam?'' k' = (Inr True, k')"
proof -
  let ?k = "NewKiroClient ''key'' [] [] []" and ?m = "eventToEmailContext sample_event"
  have "fst (classify sample_kiro_yes 0 ?m ''spam?'' ?k) = Inr True"
    by (simp add: classify_def ask_cached_def NewKiroClient_def kc_Enabled_def cache_get_def vision_def askYesNo_def
        doYesNoRequest_def sample_kiro_yes_def sample_defs eventToEmailContext_def Let_def ToLower_def
        TrimSpace_def is_ascii_def lower_byte_def trim_by_def is_space_def split: prod.split)
  then obtain k' where "classify sample_kiro_yes 0 ?m ''spam?'' ?k = (Inr True, k')" by (metis prod.collapse)
  then have "classify sample_kiro (5 * Minute) ?m ''spam?'' k' = (Inr True, k')"
    by (rule ai_answer_reused [rotated])
      (simp_all add: limits_ok_def limits_def NewKiroClient_inv, simp_all add: NewKiroClient_def cache_get_def
        Minute_def Second_def same_host_def sample_kiro_yes_def)
  then show ?thesis by blast
qed

subsection \<open>Errors inside a scheduled function\<close>

text \<open>
  An error inside the function given to \<open>schedule\<close> that the rule catches leaves the capture mode on:
  every later immediate action of the rule is swallowed, and the evaluation ends with \<open>skip\<close>.
\<close>
theorem schedule_error_swallows_actions:
  "run E now m (Pcall (Schedule delay Raise Done) (\<lambda>_. Act (A_delete reason) Done)) (init_state k)
     = (Returned, (init_state k)\<lparr>ls_capture := True, ls_captured := Some (''delete'', [])\<rparr>) \<and>
   extractResult ((init_state k)\<lparr>ls_capture := True, ls_captured := Some (''delete'', [])\<rparr>) = skip_result"
  by (simp add: init_state_def action_fn_def capturable_def extractResult_def skip_result_def)

end
