(* ===== verification/Infer.thy ===== *)
theory Infer
  imports GoStrings
begin

text \<open>
  \<^verbatim>\<open>internal/movedetect/infer.go\<close>: the Lua code that is generated from a message the user
  moved. The two regular expressions over hexadecimal digits and the one that removes bracketed
  text are written out as functions on bytes.
\<close>

abbreviation dq :: string where "dq \<equiv> [CHR 0x22]"
abbreviation bsl :: string where "bsl \<equiv> [CHR 0x5C]"
abbreviation eol :: string where "eol \<equiv> [CHR 10]"

definition truncate :: "string \<Rightarrow> nat \<Rightarrow> string" where
  "truncate s maxLen = (if length s \<le> maxLen then s else take (maxLen - 3) s @ ''...'')"

definition escapeHTML :: "string \<Rightarrow> string" where
  "escapeHTML s = ReplaceAll (ReplaceAll (ReplaceAll s ''&'' ''&amp;'') ''<'' ''&lt;'') ''>'' ''&gt;''"

subsection \<open>Complex senders\<close>

definition Count1 :: "string \<Rightarrow> char \<Rightarrow> nat" where
  "Count1 s c = length (filter (\<lambda>x. x = c) s)"

definition is_hex :: "char \<Rightarrow> bool" where
  "is_hex c = ((48 \<le> byte c \<and> byte c \<le> 57) \<or> (97 \<le> byte c \<and> byte c \<le> 102))"

definition hex_run :: "nat \<Rightarrow> string \<Rightarrow> bool" where
  "hex_run n s = (n \<le> length s \<and> list_all is_hex (take n s))"

text \<open>\<^verbatim>\<open>[0-9a-f]{8,}\<close> and \<^verbatim>\<open>[0-9a-f]{8}-[0-9a-f]{4}-[0-9a-f]{4}\<close>, unanchored.\<close>

definition hexPattern :: "string \<Rightarrow> bool" where
  "hexPattern s = list_ex (hex_run 8) (suffixes s)"

definition uuidPattern :: "string \<Rightarrow> bool" where
  "uuidPattern s =
     list_ex (\<lambda>t. hex_run 8 t \<and> take 1 (drop 8 t) = ''-'' \<and> hex_run 4 (drop 9 t)
                \<and> take 1 (drop 13 t) = ''-'' \<and> hex_run 4 (drop 14 t)) (suffixes s)"

definition local_part :: "string \<Rightarrow> string" where
  "local_part s = (case Index s ''@'' of Some idx \<Rightarrow> if 0 < idx then take idx s else s | None \<Rightarrow> s)"

definition isComplexSender :: "unicode \<Rightarrow> string \<Rightarrow> bool" where
  "isComplexSender U sender =
     (if sender = [] then True
      else let l = ToLower U sender; localPart = local_part l in
        if Contains l ''='' \<and> 1 \<le> Count1 l (CHR ''@'') then True
        else if HasPrefix l ''bounce-'' \<or> HasPrefix l ''bounces-'' then True
        else if Contains l ''+'' \<and> (Contains l ''bounce'' \<or> Contains l ''return'') then True
        else if 3 < Count1 localPart (CHR ''-'') then True
        else if hexPattern localPart then True
        else if uuidPattern localPart then True
        else if (Contains localPart ''noreply'' \<or> Contains localPart ''no-reply'') \<and> 15 < length localPart then True
        else False)"

subsection \<open>Keywords\<close>

definition subject_prefixes :: "string list" where
  "subject_prefixes = [''Re:'', ''RE:'', ''Fwd:'', ''FWD:'', ''Fw:'', ''FW:'', ''AW:'', ''SV:'', ''TR:'']"

text \<open>\<^verbatim>\<open>\[.*?\]\<close>: from an opening bracket to the next closing one on the same line.\<close>

fun bracket_rest :: "string \<Rightarrow> string option" where
  "bracket_rest [] = None"
| "bracket_rest (c # s) = (if c = CHR '']'' then Some s else if byte c = 10 then None else bracket_rest s)"

lemma bracket_rest_length: "bracket_rest s = Some r \<Longrightarrow> length r < length s"
  by (induction s) (auto split: if_splits)

function strip_brackets :: "string \<Rightarrow> string" where
  "strip_brackets [] = []"
| "strip_brackets (c # s) =
     (if c = CHR ''['' then (case bracket_rest s of Some r \<Rightarrow> strip_brackets r | None \<Rightarrow> c # strip_brackets s)
      else c # strip_brackets s)"
  by pat_completeness auto
termination
  by (relation "measure length") (auto dest: bracket_rest_length)

definition stopWords :: "string list" where
  "stopWords = [''the'', ''a'', ''an'', ''is'', ''are'', ''was'', ''were'', ''be'', ''been'', ''being'',
     ''have'', ''has'', ''had'', ''do'', ''does'', ''did'', ''will'', ''would'', ''could'', ''should'',
     ''may'', ''might'', ''shall'', ''can'', ''for'', ''and'', ''nor'', ''but'', ''or'',
     ''yet'', ''so'', ''at'', ''by'', ''from'', ''in'', ''into'', ''of'', ''on'', ''to'',
     ''with'', ''that'', ''this'', ''these'', ''those'', ''it'', ''its'', ''you'', ''your'', ''we'',
     ''our'', ''my'', ''me'', ''i'', ''he'', ''she'', ''they'', ''them'', ''their'',
     ''not'', ''no'', ''all'', ''each'', ''every'', ''new'', ''just'', ''about'', ''up'', ''out'',
     ''if'', ''then'', ''than'', ''when'', ''what'', ''how'', ''who'', ''which'', ''where'', ''why'',
     ''here'', ''there'', ''now'', ''also'', ''-'', [CHR 0xE2, CHR 0x80, CHR 0x93], [CHR 0xE2, CHR 0x80, CHR 0x94], ''|'']"

definition isNumeric :: "string \<Rightarrow> bool" where
  "isNumeric s = (list_all is_digit s \<and> 0 < length s)"

definition edge_punctuation :: string where
  "edge_punctuation = ''.,!?;:'' @ dq @ [CHR 0x27] @ ''()[]{}#*''"

definition keyword_of :: "unicode \<Rightarrow> string \<Rightarrow> string" where
  "keyword_of U word = Trim (ToLower U word) edge_punctuation"

definition is_keyword :: "string \<Rightarrow> bool" where
  "is_keyword l = (\<not> length l < 3 \<and> l \<notin> set stopWords \<and> \<not> isNumeric l)"

definition extractKeywords :: "unicode \<Rightarrow> string \<Rightarrow> string list" where
  "extractKeywords U subject =
     (let cleaned = fold (\<lambda>p s. TrimPrefix (TrimPrefix s p) (ToLower U p)) subject_prefixes subject;
          cleaned = TrimSpace U cleaned;
          cleaned = TrimSpace U (strip_brackets cleaned);
          significant = filter is_keyword (map (keyword_of U) (Fields U cleaned))
      in if 3 < length significant then take 3 significant else significant)"

subsection \<open>Rule code\<close>

definition inferFromSender :: "string \<Rightarrow> string \<Rightarrow> string" where
  "inferFromSender sender destFolder =
     (let escapedSender = ReplaceAll sender dq (bsl @ dq)
      in ''-- Auto-learned: move emails from '' @ sender @ '' to '' @ destFolder @ eol
         @ ''if email.sender == '' @ dq @ escapedSender @ dq @ '' then'' @ eol
         @ ''  move('' @ dq @ destFolder @ dq @ '')'' @ eol @ ''end'')"

definition inferFromSubject :: "unicode \<Rightarrow> string \<Rightarrow> string \<Rightarrow> string" where
  "inferFromSubject U subject destFolder =
     (let keywords = extractKeywords U subject
      in if length keywords = 0 then
           ''-- Auto-learned: move to '' @ destFolder @ '' (no keywords extracted)'' @ eol
           @ ''-- Subject was: '' @ truncate subject 80 @ eol
           @ ''-- TODO: refine this rule manually'' @ eol
           @ ''if false then'' @ eol @ ''  move('' @ dq @ destFolder @ dq @ '')'' @ eol @ ''end''
         else
           (let conditions = map (\<lambda>kw. ''contains(email.subject, '' @ dq @ ReplaceAll kw dq (bsl @ dq) @ dq @ '')'') keywords;
                condStr = Join conditions '' or ''
            in ''-- Auto-learned: move to '' @ destFolder @ '' based on subject keywords'' @ eol
               @ ''if '' @ condStr @ '' then'' @ eol
               @ ''  move('' @ dq @ destFolder @ dq @ '')'' @ eol @ ''end''))"

definition InferRule :: "unicode \<Rightarrow> string \<Rightarrow> string \<Rightarrow> string \<Rightarrow> string" where
  "InferRule U sender subject destFolder =
     (if isComplexSender U sender then inferFromSubject U subject destFolder
      else inferFromSender sender destFolder)"

subsection \<open>Reading a Lua string literal\<close>

text \<open>
  The text after an opening quote, read as Lua reads it: the literal and what follows its closing
  quote. \<open>None\<close>: the literal does not end on its line, or has an escape sequence other than an
  escaped quote or backslash.
\<close>

fun lua_string :: "string \<Rightarrow> (string \<times> string) option" where
  "lua_string [] = None"
| "lua_string (c # s) =
     (if c = CHR 0x22 then Some ([], s)
      else if byte c = 10 then None
      else if c = CHR 0x5C then
        (case s of
           [] \<Rightarrow> None
         | e # t \<Rightarrow> if e = CHR 0x22 \<or> e = CHR 0x5C then map_option (apfst (Cons e)) (lua_string t) else None)
      else map_option (apfst (Cons c)) (lua_string s))"

definition plain :: "string \<Rightarrow> bool" where
  "plain s = list_all (\<lambda>c. c \<noteq> CHR 0x5C \<and> byte c \<noteq> 10) s"

lemma ReplaceAll_char: "ReplaceAll s [c] new = concat (map (\<lambda>x. if x = c then new else [x]) s)"
  by (induction s) (simp_all add: ReplaceAll.simps [of "_ # _"] HasPrefix_Cons)

lemma lua_string_escaped: "plain s \<Longrightarrow> lua_string (ReplaceAll s dq (bsl @ dq) @ dq @ rest) = Some (s, rest)"
  by (induction s) (auto simp: ReplaceAll_char plain_def)

lemma lua_string_plain: "plain s \<Longrightarrow> CHR 0x22 \<notin> set s \<Longrightarrow> lua_string (s @ dq @ rest) = Some (s, rest)"
  by (induction s) (auto simp: plain_def)

subsection \<open>Properties\<close>

text \<open>
  The code generated for an ordinary sender compares the sender of a message with exactly the address
  the message was moved from, and moves to exactly the folder it was moved to, as Lua reads the two
  string literals: quotes in the address are escaped. (Addresses and folders with a backslash or a line
  break, and folders with a quote, are excluded: they are not escaped.)
\<close>
theorem inferred_rule_literals:
  assumes "\<not> isComplexSender U sender" and "plain sender" and "plain folder" and "CHR 0x22 \<notin> set folder"
  shows "\<exists>r1 r2. InferRule U sender subject folder
      = ''-- Auto-learned: move emails from '' @ sender @ '' to '' @ folder @ eol @ ''if email.sender == '' @ dq @ r1 \<and>
    lua_string r1 = Some (sender, '' then'' @ eol @ ''  move('' @ dq @ r2) \<and>
    lua_string r2 = Some (folder, '')'' @ eol @ ''end'')"
proof -
  let ?r2 = "folder @ dq @ '')'' @ eol @ ''end''"
  let ?r1 = "ReplaceAll sender dq (bsl @ dq) @ dq @ '' then'' @ eol @ ''  move('' @ dq @ ?r2"
  have "InferRule U sender subject folder
      = ''-- Auto-learned: move emails from '' @ sender @ '' to '' @ folder @ eol @ ''if email.sender == '' @ dq @ ?r1"
    using assms(1) by (simp add: InferRule_def inferFromSender_def Let_def)
  moreover have "lua_string ?r1 = Some (sender, '' then'' @ eol @ ''  move('' @ dq @ ?r2)"
    using assms(2) by (rule lua_string_escaped)
  moreover have "lua_string ?r2 = Some (folder, '')'' @ eol @ ''end'')"
    using assms(3,4) by (rule lua_string_plain)
  ultimately show ?thesis by blast
qed

definition plain_unicode :: unicode where
  "plain_unicode = \<lparr>uni_ToLower = (\<lambda>s. s), uni_TrimSpace = (\<lambda>s. s), uni_Fields = (\<lambda>s. [s]), uni_EqualFold = (\<lambda>s t. s = t)\<rparr>"

lemmas complex_defs = isComplexSender_def ToLower_def is_ascii_def lower_byte_def local_part_def Contains_def
  HasPrefix_def Count1_def hexPattern_def uuidPattern_def hex_run_def is_hex_def

theorem inferred_rule_literals_witness:
  "\<exists>r1 r2. InferRule plain_unicode ''bob@x.org'' ''hi'' ''Work''
      = ''-- Auto-learned: move emails from bob@x.org to Work'' @ eol @ ''if email.sender == '' @ dq @ r1 \<and>
    lua_string r1 = Some (''bob@x.org'', '' then'' @ eol @ ''  move('' @ dq @ r2) \<and>
    lua_string r2 = Some (''Work'', '')'' @ eol @ ''end'')"
  using inferred_rule_literals [of plain_unicode "''bob@x.org''" "''Work''" "''hi''"]
  by (simp add: complex_defs plain_def Let_def)

text \<open>
  The destination folder is not escaped: a folder whose name contains a quote ends the string literal of
  the generated code there, and the rest of the name becomes Lua code of the learned rule.
\<close>
theorem inferred_rule_folder_injection:
  assumes "\<not> isComplexSender U sender" and "plain f" and "CHR 0x22 \<notin> set f"
  shows "\<exists>pre r2. InferRule U sender subject (f @ dq @ g) = pre @ ''move('' @ dq @ r2 \<and>
    lua_string r2 = Some (f, g @ dq @ '')'' @ eol @ ''end'')"
proof -
  let ?r2 = "f @ dq @ g @ dq @ '')'' @ eol @ ''end''"
  have "\<exists>pre. InferRule U sender subject (f @ dq @ g) = pre @ ''move('' @ dq @ ?r2"
    using assms(1) by (auto simp: InferRule_def inferFromSender_def Let_def
        intro!: exI [of _ "''-- Auto-learned: move emails from '' @ sender @ '' to '' @ f @ dq @ g @ eol
          @ ''if email.sender == '' @ dq @ ReplaceAll sender dq (bsl @ dq) @ dq @ '' then'' @ eol @ ''  ''"])
  moreover have "lua_string ?r2 = Some (f, g @ dq @ '')'' @ eol @ ''end'')"
    using assms(2,3) lua_string_plain [of f] by simp
  ultimately show ?thesis by blast
qed

theorem inferred_rule_folder_injection_witness:
  "\<exists>pre r2. InferRule plain_unicode ''bob@x.org'' ''hi'' (''Work'' @ dq @ '') delete('' @ dq) = pre @ ''move('' @ dq @ r2 \<and>
    lua_string r2 = Some (''Work'', '') delete('' @ dq @ dq @ '')'' @ eol @ ''end'')"
  using inferred_rule_folder_injection [of plain_unicode "''bob@x.org''" "''Work''" "''hi''" "'') delete('' @ dq"]
  by (simp add: complex_defs plain_def Let_def)

text \<open>
  A rule learned from a subject rests on at most three keywords; each has at least three bytes, is no
  stop word and no number, and appears in the generated condition.
\<close>
theorem keywords_bounded:
  "length (extractKeywords U subject) \<le> 3 \<and>
   list_all (\<lambda>k. 3 \<le> length k \<and> k \<notin> set stopWords \<and> \<not> isNumeric k \<and>
       Contains (inferFromSubject U subject folder) (''contains(email.subject, '' @ dq @ ReplaceAll k dq (bsl @ dq) @ dq @ '')''))
     (extractKeywords U subject)"
proof -
  have join: "x \<in> set xs \<Longrightarrow> Contains (Join xs sep) x" for x xs sep
    by (induction xs sep rule: Join.induct) (auto intro: Contains_append1 Contains_append2)
  have "list_all is_keyword (extractKeywords U subject)"
    by (auto simp: extractKeywords_def Let_def list_all_iff dest: in_set_takeD)
  moreover have "Contains (inferFromSubject U subject folder) (''contains(email.subject, '' @ dq @ ReplaceAll k dq (bsl @ dq) @ dq @ '')'')"
    if "k \<in> set (extractKeywords U subject)" for k
  proof -
    let ?c = "\<lambda>kw. ''contains(email.subject, '' @ dq @ ReplaceAll kw dq (bsl @ dq) @ dq @ '')''"
    let ?conds = "Join (map ?c (extractKeywords U subject)) '' or ''"
    have "Contains ?conds (?c k)" using that by (intro join) simp
    moreover have "inferFromSubject U subject folder = (''-- Auto-learned: move to '' @ folder @ '' based on subject keywords'' @ eol @ ''if '')
        @ ?conds @ ('' then'' @ eol @ ''  move('' @ dq @ folder @ dq @ '')'' @ eol @ ''end'')"
      using that unfolding inferFromSubject_def Let_def by (auto simp del: ReplaceAll.simps)
    ultimately show ?thesis by (metis Contains_appendI)
  qed
  moreover have "length (extractKeywords U subject) \<le> 3"
    by (simp add: extractKeywords_def Let_def)
  ultimately show ?thesis by (auto simp: list_all_iff is_keyword_def not_less)
qed

text \<open>The last pattern of \<open>isComplexSender\<close> is never decisive: what it matches has eight hexadecimal digits.\<close>

lemma uuidPattern_hexPattern: "uuidPattern s \<Longrightarrow> hexPattern s"
  by (auto simp: uuidPattern_def hexPattern_def list_ex_iff)

text \<open>
  The texts of a notification fit and are safe to show: a truncated text has at most the length that
  was asked for, and an escaped text has no angle bracket.
\<close>
theorem notification_text_safe:
  assumes "3 \<le> n"
  shows "length (truncate s n) \<le> n \<and> (length s \<le> n \<longrightarrow> truncate s n = s) \<and>
    CHR ''<'' \<notin> set (escapeHTML s) \<and> CHR ''>'' \<notin> set (escapeHTML s)"
  using assms by (auto simp: truncate_def escapeHTML_def ReplaceAll_char split: if_splits)

theorem notification_text_safe_witness: "length (truncate (replicate 100 (CHR ''a'')) 60) \<le> 60"
  using notification_text_safe [of 60 "replicate 100 (CHR ''a'')"] by simp

end
