(* ===== verification/Mail.thy ===== *)
theory Mail
  imports Models Crypto
begin

text \<open>
  \<^verbatim>\<open>internal/imaplistener/listener.go\<close>, the part that turns a fetched message into an event:
  headers, body preview, attachments, images. What the IMAP library returns is the record
  \<open>message_buf\<close>; the header parser of the mail library is the argument \<open>read_fields\<close>.
\<close>

record address =
  ad_Name :: string
  ad_Addr :: string

record envelope =
  nv_Date :: time
  nv_Subject :: string
  nv_From :: "address list"
  nv_To :: "address list"
  nv_Cc :: "address list"
  nv_MessageID :: string

text \<open>A single part has its media type, the value of its disposition, its file name and its size.\<close>

datatype body_structure =
    SinglePart string "string option" string nat
  | MultiPart "body_structure list"

datatype body_section = S_Header | S_Text | S_Part "nat list"

record message_buf =
  mb_UID :: uid
  mb_Envelope :: "envelope option"
  mb_InternalDate :: time
  mb_BodySection :: "(body_section \<times> string) list"
  mb_BodyStructure :: "body_structure option"

subsection \<open>Headers\<close>

text \<open>The state of the loop: the map, the current key and the current value.\<close>

fun simple_lines :: "unicode \<Rightarrow> string list \<Rightarrow> (string \<rightharpoonup> string) \<Rightarrow> string \<Rightarrow> string \<Rightarrow> (string \<rightharpoonup> string)" where
  "simple_lines U [] hs k v = (if k \<noteq> [] then hs(ToLower U k \<mapsto> v) else hs)"
| "simple_lines U (l # ls) hs k v =
     (let line = TrimRight l [CHR 13] in
      if line = [] then (if k \<noteq> [] then hs(ToLower U k \<mapsto> v) else hs)
      else if HasPrefix line '' '' \<or> HasPrefix line [CHR 9] then simple_lines U ls hs k (v @ '' '' @ TrimSpace U line)
      else (let hs' = (if k \<noteq> [] then hs(ToLower U k \<mapsto> v) else hs) in
        case SplitN2 line (CHR '':'') of
          [a, b] \<Rightarrow> simple_lines U ls hs' (TrimSpace U a) (TrimSpace U b)
        | _ \<Rightarrow> simple_lines U ls hs' k v))"

definition parseHeadersSimple :: "unicode \<Rightarrow> string \<Rightarrow> (string \<rightharpoonup> string)" where
  "parseHeadersSimple U raw = simple_lines U (Split raw (CHR 10)) Map.empty [] []"

definition parseHeaders :: "unicode \<Rightarrow> (string \<Rightarrow> (string \<times> string) list option) \<Rightarrow> string \<Rightarrow> (string \<rightharpoonup> string)" where
  "parseHeaders U read_fields raw =
     (case read_fields (raw @ [CHR 13, CHR 10, CHR 13, CHR 10]) of
        None \<Rightarrow> parseHeadersSimple U raw
      | Some fs \<Rightarrow> fold (\<lambda>(k, v) hs. hs(ToLower U k \<mapsto> v)) fs Map.empty)"

subsection \<open>Attachments\<close>

fun extractAttachmentInfo :: "unicode \<Rightarrow> body_structure \<Rightarrow> string list \<times> string list" where
  "extractAttachmentInfo U (SinglePart ct disp filename sz) =
     (case disp of
        None \<Rightarrow> ([], [])
      | Some v \<Rightarrow>
          if ToLower U v = ''attachment'' \<or> ToLower U v = ''inline''
          then ((if filename \<noteq> [] then [filename] else []), [ct]) else ([], []))"
| "extractAttachmentInfo U (MultiPart children) =
     (concat (map (\<lambda>c. fst (extractAttachmentInfo U c)) children),
      concat (map (\<lambda>c. snd (extractAttachmentInfo U c)) children))"

record imagePartInfo =
  ip_Part :: "nat list"
  ip_MediaType :: string
  ip_Filename :: string
  ip_Size :: nat

definition maxImageSize :: nat where "maxImageSize = 5 * 1024 * 1024"
definition maxImageAttachments :: nat where "maxImageAttachments = 4"

fun findImageParts :: "unicode \<Rightarrow> body_structure \<Rightarrow> nat list \<Rightarrow> imagePartInfo list"
  and image_children :: "unicode \<Rightarrow> nat \<Rightarrow> body_structure list \<Rightarrow> nat list \<Rightarrow> imagePartInfo list" where
  "findImageParts U (SinglePart ct disp filename sz) path =
     (let mt = ToLower U ct in
      if HasPrefix mt ''image/'' \<and> mt \<in> {''image/jpeg'', ''image/png'', ''image/gif'', ''image/webp''} \<and> sz \<le> maxImageSize
      then [\<lparr>ip_Part = path, ip_MediaType = mt, ip_Filename = filename, ip_Size = sz\<rparr>] else [])"
| "findImageParts U (MultiPart children) path = image_children U 0 children path"
| "image_children U i [] path = []"
| "image_children U i (c # cs) path = findImageParts U c (path @ [i + 1]) @ image_children U (i + 1) cs path"

definition hasImages :: "unicode \<Rightarrow> string list \<Rightarrow> bool" where
  "hasImages U attachmentTypes = list_ex (\<lambda>ct. HasPrefix (ToLower U ct) ''image/'') attachmentTypes"

text \<open>
  \<open>fetchImageAttachments\<close>: \<open>fetch parts\<close> is what the server returns for the body sections \<open>parts\<close> of
  the message: for each response either a failed \<open>Collect\<close> or the sections with their bytes.
\<close>

definition image_of :: "imagePartInfo list \<Rightarrow> nat list \<times> string \<Rightarrow> image_attachment list" where
  "image_of imageParts s =
     (case s of (part, bytes) \<Rightarrow>
        if bytes = [] then []
        else case find (\<lambda>ip. part = ip_Part ip) imageParts of
          None \<Rightarrow> []
        | Some ip \<Rightarrow> [\<lparr>i_Filename = ip_Filename ip, i_MediaType = ip_MediaType ip, i_Data = b64_encode bytes\<rparr>])"

definition fetchImageAttachments ::
  "(nat list list \<Rightarrow> (string + (nat list \<times> string) list) list) \<Rightarrow> imagePartInfo list \<Rightarrow> image_attachment list" where
  "fetchImageAttachments fetch imageParts =
     (if imageParts = [] then []
      else let imageParts = (if maxImageAttachments < length imageParts then take maxImageAttachments imageParts else imageParts)
           in concat (map (\<lambda>r. case r of Inl _ \<Rightarrow> [] | Inr sections \<Rightarrow> concat (map (image_of imageParts) sections))
                 (fetch (map ip_Part imageParts))))"

subsection \<open>The event\<close>

text \<open>The zero \<open>time.Time\<close>; \<open>time.Since\<close> saturates at the range of a \<open>Duration\<close>.\<close>

definition zero_time :: time where "zero_time = - 62135596800 * Second"

definition Since :: "time \<Rightarrow> time \<Rightarrow> int" where
  "Since now t = max (- (2 ^ 63)) (min (2 ^ 63 - 1) (now - t))"

definition sections_fold ::
  "unicode \<Rightarrow> (string \<Rightarrow> (string \<times> string) list option) \<Rightarrow> (body_section \<times> string) list \<Rightarrow> (string \<rightharpoonup> string) \<times> string" where
  "sections_fold U rd secs =
     fold (\<lambda>(sec, bytes) (hs, preview).
        (if sec = S_Header \<and> 0 < length bytes then parseHeaders U rd bytes else hs,
         if sec = S_Text \<and> 0 < length bytes then (if 500 < length bytes then take 500 bytes else bytes) else preview))
       secs (Map.empty, [])"

definition bufferToEvent ::
  "unicode \<Rightarrow> (string \<Rightarrow> (string \<times> string) list option) \<Rightarrow> time \<Rightarrow> account \<Rightarrow> message_buf \<Rightarrow> incoming_event option" where
  "bufferToEvent U rd now acc buf =
     (case mb_Envelope buf of
        None \<Rightarrow> None
      | Some env \<Rightarrow>
          let senderName = (case nv_From env of [] \<Rightarrow> [] | a # _ \<Rightarrow> ad_Name a);
              senderAddr = (case nv_From env of [] \<Rightarrow> [] | a # _ \<Rightarrow> ad_Addr a);
              recipients = map ad_Addr (nv_To env) @ map ad_Addr (nv_Cc env);
              (headers, bodyPreview) = sections_fold U rd (mb_BodySection buf);
              (names, types) = (case mb_BodyStructure buf of None \<Rightarrow> ([], []) | Some bs \<Rightarrow> extractAttachmentInfo U bs);
              msgDate = (if nv_Date env = zero_time then mb_InternalDate buf else nv_Date env);
              age = of_int (Since now msgDate) / of_int Second
          in Some \<lparr>ev_AccountID = a_ID acc, ev_TenantID = a_TenantID acc, ev_MessageID = nv_MessageID env,
               ev_UID = mb_UID buf, ev_Subject = TrimSpace U (nv_Subject env), ev_Sender = senderAddr,
               ev_SenderName = senderName, ev_Recipients = recipients, ev_Date = msgDate,
               ev_AgeSeconds = (if age < 0 then 0 else age), ev_BodyPreview = bodyPreview, ev_Folder = ''INBOX'',
               ev_Headers = headers, ev_HasAttachments = (names \<noteq> [] \<or> types \<noteq> []), ev_AttachmentNames = names,
               ev_AttachmentTypes = types, ev_HasImages = hasImages U types, ev_ImageAttachments = []\<rparr>)"

subsection \<open>Image parts\<close>

text \<open>The part of a structure that an IMAP part path names, counting children from one.\<close>

fun part_at :: "body_structure \<Rightarrow> nat list \<Rightarrow> body_structure option" where
  "part_at bs [] = Some bs"
| "part_at (MultiPart cs) (i # p) = (if 0 < i \<and> i \<le> length cs then part_at (cs ! (i - 1)) p else None)"
| "part_at (SinglePart ct disp filename sz) (i # p) = None"

fun vision_info :: "unicode \<Rightarrow> nat list \<Rightarrow> body_structure \<Rightarrow> imagePartInfo option" where
  "vision_info U p (SinglePart ct disp filename sz) =
     (if ToLower U ct \<in> {''image/jpeg'', ''image/png'', ''image/gif'', ''image/webp''} \<and> sz \<le> maxImageSize
      then Some \<lparr>ip_Part = p, ip_MediaType = ToLower U ct, ip_Filename = filename, ip_Size = sz\<rparr> else None)"
| "vision_info U p (MultiPart cs) = None"

lemma vision_info_part: "vision_info U p x = Some ip \<Longrightarrow> ip_Part ip = p"
  by (cases x) (auto split: if_splits)

lemma image_type_prefix: "mt \<in> {''image/jpeg'', ''image/png'', ''image/gif'', ''image/webp''} \<Longrightarrow> HasPrefix mt ''image/''"
  by (auto simp: HasPrefix_def)

lemma set_findImageParts:
  "set (findImageParts U bs path) = {ip. \<exists>p x. part_at bs p = Some x \<and> vision_info U (path @ p) x = Some ip}"
  "set (image_children U i cs path) = {ip. \<exists>j p x. j < length cs \<and> part_at (cs ! j) p = Some x
      \<and> vision_info U (path @ (i + j + 1) # p) x = Some ip}"
proof (induction U bs path and U i cs path rule: findImageParts_image_children.induct)
  case (1 U ct disp filename sz path)
  have one: "part_at (SinglePart ct disp filename sz) p = Some x \<longleftrightarrow> p = [] \<and> x = SinglePart ct disp filename sz" for p x
    by (cases p) auto
  show ?case using image_type_prefix [of "ToLower U ct"] by (auto simp: one Let_def)
next
  case (2 U cs path)
  have "(\<exists>p x. part_at (MultiPart cs) p = Some x \<and> vision_info U (path @ p) x = Some ip) \<longleftrightarrow>
      (\<exists>j p x. j < length cs \<and> part_at (cs ! j) p = Some x \<and> vision_info U (path @ (j + 1) # p) x = Some ip)" (is "?L = ?R") for ip
  proof
    assume ?L
    then obtain p x where p: "part_at (MultiPart cs) p = Some x" "vision_info U (path @ p) x = Some ip" by blast
    then obtain k q where "p = k # q" by (cases p) auto
    with p show ?R by (auto split: if_splits intro!: exI [of _ "k - 1"] exI [of _ q] exI [of _ x])
  next
    assume ?R
    then obtain j p x where "j < length cs" "part_at (cs ! j) p = Some x" "vision_info U (path @ (j + 1) # p) x = Some ip" by blast
    then show ?L by (intro exI [of _ "(j + 1) # p"] exI [of _ x]) simp
  qed
  with 2 show ?case by simp
next
  case (4 U i c cs path)
  let ?Q = "\<lambda>ip j. \<exists>p x. part_at ((c # cs) ! j) p = Some x \<and> vision_info U (path @ (i + j + 1) # p) x = Some ip"
  have "(\<exists>j < length (c # cs). ?Q ip j) \<longleftrightarrow> ?Q ip 0 \<or> (\<exists>j < length cs. ?Q ip (Suc j))" for ip
    unfolding length_Cons by (rule Ex_less_Suc2)
  with 4 show ?case by auto
qed simp

lemma findImageParts_paths:
  "ip \<in> set (findImageParts U bs path) \<Longrightarrow> \<exists>p. ip_Part ip = path @ p"
  "ip \<in> set (image_children U i cs path) \<Longrightarrow> \<exists>k p. i < k \<and> ip_Part ip = path @ k # p"
  unfolding set_findImageParts by (auto dest!: vision_info_part)

lemma findImageParts_distinct:
  "distinct (map ip_Part (findImageParts U bs path))"
  "distinct (map ip_Part (image_children U i cs path))"
proof (induction U bs path and U i cs path rule: findImageParts_image_children.induct)
  case (4 U i c cs path)
  have "ip_Part ` set (findImageParts U c (path @ [i + 1])) \<inter> ip_Part ` set (image_children U (i + 1) cs path) = {}"
    using findImageParts_paths by fastforce
  with 4 show ?case by simp
qed (simp_all add: Let_def)

text \<open>
  The image parts that are fetched for the vision model are exactly the parts of the message that are
  JPEG, PNG, GIF or WebP images of at most five mebibytes, each named once by the path under which the
  server stores it; at most four of them are requested.
\<close>
theorem image_parts_exact:
  "((\<exists>ip \<in> set (findImageParts U bs []). ip_Part ip = p) =
     (case part_at bs p of
        Some (SinglePart ct disp filename sz) \<Rightarrow>
          ToLower U ct \<in> {''image/jpeg'', ''image/png'', ''image/gif'', ''image/webp''} \<and> sz \<le> 5 * 1024 * 1024
      | _ \<Rightarrow> False)) \<and>
   distinct (map ip_Part (findImageParts U bs [])) \<and>
   (\<exists>parts. fetchImageAttachments fetch (findImageParts U bs []) = fetchImageAttachments fetch parts \<and>
      length parts \<le> 4 \<and> prefix parts (findImageParts U bs []))"
proof (intro conjI)
  have "(\<exists>ip \<in> set (findImageParts U bs []). ip_Part ip = p) \<longleftrightarrow> (\<exists>x. part_at bs p = Some x \<and> vision_info U p x \<noteq> None)"
    unfolding set_findImageParts using vision_info_part by fastforce
  also have "\<dots> \<longleftrightarrow> (case part_at bs p of
        Some (SinglePart ct disp filename sz) \<Rightarrow>
          ToLower U ct \<in> {''image/jpeg'', ''image/png'', ''image/gif'', ''image/webp''} \<and> sz \<le> 5 * 1024 * 1024
      | _ \<Rightarrow> False)"
    by (simp add: maxImageSize_def split: option.split body_structure.split)
  finally show "(\<exists>ip \<in> set (findImageParts U bs []). ip_Part ip = p) = \<dots>" .
  show "distinct (map ip_Part (findImageParts U bs []))" by (rule findImageParts_distinct)
  show "\<exists>parts. fetchImageAttachments fetch (findImageParts U bs []) = fetchImageAttachments fetch parts \<and>
      length parts \<le> 4 \<and> prefix parts (findImageParts U bs [])"
    by (intro exI [of _ "take 4 (findImageParts U bs [])"])
      (auto simp: fetchImageAttachments_def maxImageAttachments_def Let_def take_is_prefix)
qed

subsection \<open>The fallback header parser\<close>

definition print_header :: "string \<times> string \<Rightarrow> string" where
  "print_header f = fst f @ '': '' @ snd f @ [CHR 13, CHR 10]"

text \<open>A field on one line, with a name without colon and without surrounding white space.\<close>

definition field_ok :: "unicode \<Rightarrow> string \<times> string \<Rightarrow> bool" where
  "field_ok U f \<longleftrightarrow> fst f \<noteq> [] \<and> CHR '':'' \<notin> set (fst f) \<and> list_all (\<lambda>c. c \<noteq> CHR 10 \<and> c \<noteq> CHR 13) (fst f @ snd f) \<and>
     hd (fst f) \<noteq> CHR '' '' \<and> hd (fst f) \<noteq> CHR 9 \<and> TrimSpace U (fst f) = fst f \<and> TrimSpace U (CHR '' '' # snd f) = snd f"

lemma Split_line: "CHR 10 \<notin> set l \<Longrightarrow> Split (l @ CHR 10 # s) (CHR 10) = l # Split s (CHR 10)"
  by (induction l) auto

lemma Split_headers:
  "list_all (field_ok U) hs \<Longrightarrow> Split (concat (map print_header hs)) (CHR 10) = map (\<lambda>f. fst f @ '': '' @ snd f @ [CHR 13]) hs @ [[]]"
proof (induction hs)
  case (Cons f hs)
  have "Split ((fst f @ '': '' @ snd f @ [CHR 13]) @ CHR 10 # concat (map print_header hs)) (CHR 10)
      = (fst f @ '': '' @ snd f @ [CHR 13]) # Split (concat (map print_header hs)) (CHR 10)"
    using Cons.prems by (intro Split_line) (auto simp: field_ok_def list_all_iff)
  with Cons show ?case by (simp add: print_header_def [of f])
qed simp

lemma dropWhile_absent: "\<forall>x \<in> set xs. \<not> P x \<Longrightarrow> dropWhile P xs = xs"
  by (cases xs) simp_all

lemma split_at_char:
  "x \<notin> set xs \<Longrightarrow> takeWhile (\<lambda>c. c \<noteq> x) (xs @ x # ys) = xs"
  "x \<notin> set xs \<Longrightarrow> dropWhile (\<lambda>c. c \<noteq> x) (xs @ x # ys) = x # ys"
  by (induction xs) auto

lemma header_line:
  assumes "field_ok U f"
  shows "TrimRight (fst f @ '': '' @ snd f @ [CHR 13]) [CHR 13] = fst f @ '': '' @ snd f"
    and "SplitN2 (fst f @ '': '' @ snd f) (CHR '':'') = [fst f, CHR '' '' # snd f]"
    and "\<not> HasPrefix (fst f @ '': '' @ snd f) '' ''" and "\<not> HasPrefix (fst f @ '': '' @ snd f) [CHR 9]"
proof -
  let ?l = "fst f @ '': '' @ snd f"
  have "dropWhile (\<lambda>c. c \<in> set [CHR 13]) (rev ?l) = rev ?l"
    using assms by (intro dropWhile_absent) (auto simp: field_ok_def list_all_iff)
  then have "rev (dropWhile (\<lambda>c. c \<in> set [CHR 13]) (rev (?l @ [CHR 13]))) = ?l" by simp
  then show "TrimRight (fst f @ '': '' @ snd f @ [CHR 13]) [CHR 13] = ?l" by (simp add: TrimRight_def)
  show "SplitN2 ?l (CHR '':'') = [fst f, CHR '' '' # snd f]"
    using assms by (simp add: SplitN2_def field_ok_def split_at_char)
  show "\<not> HasPrefix ?l '' ''" "\<not> HasPrefix ?l [CHR 9]"
    using assms by (cases "fst f"; simp add: field_ok_def HasPrefix_Cons)+
qed

lemma simple_lines_headers:
  assumes "list_all (field_ok U) hs"
  shows "simple_lines U (map (\<lambda>f. fst f @ '': '' @ snd f @ [CHR 13]) hs @ [[]]) m k v
    = fold (\<lambda>(k, v) hs. hs(ToLower U k \<mapsto> v)) hs (if k \<noteq> [] then m(ToLower U k \<mapsto> v) else m)"
  using assms
proof (induction hs arbitrary: m k v)
  case (Cons f hs)
  obtain a b where ab: "f = (a, b)" by (cases f)
  with Cons.prems have f: "field_ok U (a, b)" by simp
  have ok: "a \<noteq> []" "TrimSpace U a = a" "TrimSpace U (CHR '' '' # b) = b"
    using f by (simp_all add: field_ok_def)
  then have "simple_lines U ((a @ '': '' @ b @ [CHR 13]) # ls) m k v
      = simple_lines U ls (if k \<noteq> [] then m(ToLower U k \<mapsto> v) else m) a b" for ls
    using header_line [OF f] by (simp add: Let_def)
  with Cons.IH [of _ a b] Cons.prems ok(1) show ?case by (simp add: ab)
qed (simp add: TrimRight_def)

text \<open>
  On a block of header fields, one per line, the parser that is used when the mail library fails
  returns what the library's field list gives: the value of the last field of each name, under the name
  in lower case.
\<close>
theorem fallback_headers_agree:
  assumes "list_all (field_ok U) hs" and "rd (concat (map print_header hs) @ [CHR 13, CHR 10, CHR 13, CHR 10]) = Some hs"
  shows "parseHeadersSimple U (concat (map print_header hs)) = parseHeaders U rd (concat (map print_header hs))"
  using simple_lines_headers [OF assms(1), of Map.empty "[]" "[]"] assms(2)
  by (simp add: parseHeadersSimple_def parseHeaders_def Split_headers [OF assms(1)])

theorem fallback_headers_agree_witness:
  "parseHeadersSimple U (concat (map print_header [(''subject'', ''Hi''), (''x-list'', ''a'')])) ''subject'' = Some ''Hi''"
proof -
  let ?hs = "[(''subject'', ''Hi''), (''x-list'', ''a'')]"
  have "list_all (field_ok U) ?hs"
    by (simp add: field_ok_def TrimSpace_def is_ascii_def trim_by_def is_space_def)
  from fallback_headers_agree [OF this, of "\<lambda>_. Some ?hs"] show ?thesis
    by (simp add: parseHeaders_def ToLower_def is_ascii_def lower_byte_def)
qed

text \<open>
  The image of a message that is a single part is asked for under the empty path, which names the whole
  message and not its first part.
\<close>
lemma single_part_image_path:
  "ip \<in> set (findImageParts U (SinglePart ct disp filename sz) []) \<Longrightarrow> ip_Part ip = []"
  by (auto simp: Let_def split: if_splits)

end
