(* ===== verification/Folders.thy ===== *)
theory Folders
  imports Infer Mail
begin

text \<open>
  The folders in which the two move detectors look for a message that left the inbox, and the
  search: \<^verbatim>\<open>internal/movedetect/movedetect.go\<close> and, as separate copies with the same intent,
  \<^verbatim>\<open>internal/imaplistener/movedetect.go\<close> and \<^verbatim>\<open>internal/imaplistener/trashfolders.go\<close>
  (the definitions that start with \<open>idle_\<close>).
\<close>

record folder_info =
  fo_Name :: string
  fo_Attrs :: "string list"

definition skipFolderAttrs :: "string list" where
  "skipFolderAttrs = [bsl @ ''Trash'', bsl @ ''Junk'', bsl @ ''All'', bsl @ ''Archive'']"

definition sentOrDraftsAttrs :: "string list" where
  "sentOrDraftsAttrs = [bsl @ ''Sent'', bsl @ ''Drafts'']"

definition sentOrDraftsNames :: "string list" where
  "sentOrDraftsNames = [''drafts'', ''sent'', ''sent messages'', ''sent items'', ''[gmail]/sent mail'', ''[gmail]/drafts'']"

definition systemTrashNames :: "string list" where
  "systemTrashNames = [''trash'', ''deleted messages'', ''deleted items'', ''[gmail]/trash'', ''[gmail]/all mail'',
     ''[gmail]/spam'', ''junk'', ''spam'', ''junk e-mail'', ''bulk mail'']"

definition isSkipFolder :: "unicode \<Rightarrow> string \<Rightarrow> string list \<Rightarrow> bool" where
  "isSkipFolder U name attrs =
     (if list_ex (\<lambda>a. a \<in> set skipFolderAttrs) attrs then True
      else ToLower U name \<in> set systemTrashNames)"

text \<open>
  The responses to LIST that \<open>Next\<close> yields, and the error of \<open>Close\<close>, if any.
\<close>

record list_data =
  ld_mailboxes :: "(string \<times> string list) list"
  ld_closeErr :: "string option"

definition listed :: "unicode \<Rightarrow> string \<times> string list \<Rightarrow> folder_info list" where
  "listed U m =
     (case m of (name, attrs) \<Rightarrow>
        if name = ''INBOX'' then []
        else if list_ex (\<lambda>a. a = bsl @ ''Noselect'') attrs then []
        else if list_ex (\<lambda>a. a \<in> set sentOrDraftsAttrs) attrs \<or> ToLower U name \<in> set sentOrDraftsNames then []
        else [\<lparr>fo_Name = name, fo_Attrs = attrs\<rparr>])"

definition listFolders :: "unicode \<Rightarrow> list_data \<Rightarrow> string + folder_info list" where
  "listFolders U ld =
     (case ld_closeErr ld of
        Some e \<Rightarrow> Inl (''list folders: '' @ e)
      | None \<Rightarrow> Inr (concat (map (listed U) (ld_mailboxes ld))))"

subsection \<open>The copies of the IDLE listener\<close>

definition idle_skipFolderAttrs :: "string list" where
  "idle_skipFolderAttrs = [bsl @ ''Trash'', bsl @ ''Junk'', bsl @ ''All'', bsl @ ''Archive'']"

definition idle_systemTrashNames :: "string list" where
  "idle_systemTrashNames = [''trash'', ''deleted messages'', ''deleted items'', ''[gmail]/trash'', ''[gmail]/all mail'',
     ''[gmail]/spam'', ''junk'', ''spam'', ''junk e-mail'', ''bulk mail'']"

definition idle_isSkipFolder :: "unicode \<Rightarrow> string \<Rightarrow> string list \<Rightarrow> bool" where
  "idle_isSkipFolder U name attrs =
     (if list_ex (\<lambda>a. a \<in> set idle_skipFolderAttrs) attrs then True
      else ToLower U name \<in> set idle_systemTrashNames)"

definition idle_listed :: "unicode \<Rightarrow> string \<times> string list \<Rightarrow> folder_info list" where
  "idle_listed U m =
     (case m of (name, attrs) \<Rightarrow>
        if name = ''INBOX'' then []
        else if list_ex (\<lambda>a. a = bsl @ ''Noselect'') attrs then []
        else if list_ex (\<lambda>a. a = bsl @ ''Sent'' \<or> a = bsl @ ''Drafts'') attrs
          \<or> (let l = ToLower U name in l = ''drafts'' \<or> l = ''sent'' \<or> l = ''sent messages'' \<or> l = ''sent items''
               \<or> l = ''[gmail]/sent mail'' \<or> l = ''[gmail]/drafts'') then []
        else [\<lparr>fo_Name = name, fo_Attrs = attrs\<rparr>])"

definition idle_listFolders :: "unicode \<Rightarrow> list_data \<Rightarrow> folder_info list" where
  "idle_listFolders U ld =
     (case ld_closeErr ld of
        Some e \<Rightarrow> []
      | None \<Rightarrow> concat (map (idle_listed U) (ld_mailboxes ld)))"

subsection \<open>The batch search\<close>

text \<open>
  What the server answers about a folder during a search: the outcome of SELECT with the number of
  messages, and the messages that FETCH yields (\<open>Inl\<close>: \<open>Collect\<close> failed). The result is a Go map; the
  list has its entries in the order in which they were added.
\<close>

record mail_server =
  ms_Select :: "string \<Rightarrow> string + nat"
  ms_FetchAll :: "string \<Rightarrow> (string + message_buf) list"

fun scan_messages ::
  "string set \<Rightarrow> folder_info \<Rightarrow> (string + message_buf) list \<Rightarrow> (string \<times> folder_info) list \<Rightarrow> int \<Rightarrow> (string \<times> folder_info) list \<times> int" where
  "scan_messages wanted folder [] result remaining = (result, remaining)"
| "scan_messages wanted folder (m # ms) result remaining =
     (case m of
        Inl _ \<Rightarrow> scan_messages wanted folder ms result remaining
      | Inr buf \<Rightarrow>
          (case mb_Envelope buf of
             None \<Rightarrow> scan_messages wanted folder ms result remaining
           | Some env \<Rightarrow>
               if nv_MessageID env = [] then scan_messages wanted folder ms result remaining
               else if nv_MessageID env \<in> wanted \<and> map_of result (nv_MessageID env) = None
               then scan_messages wanted folder ms (result @ [(nv_MessageID env, folder)]) (remaining - 1)
               else scan_messages wanted folder ms result remaining))"

fun search_folders ::
  "mail_server \<Rightarrow> string set \<Rightarrow> folder_info list \<Rightarrow> (string \<times> folder_info) list \<Rightarrow> int \<Rightarrow> (string \<times> folder_info) list" where
  "search_folders S wanted [] result remaining = result"
| "search_folders S wanted (f # fs) result remaining =
     (if remaining = 0 then result
      else case ms_Select S (fo_Name f) of
        Inl _ \<Rightarrow> search_folders S wanted fs result remaining
      | Inr n \<Rightarrow>
          if n = 0 then search_folders S wanted fs result remaining
          else (case scan_messages wanted f (ms_FetchAll S (fo_Name f)) result remaining of
                  (result', remaining') \<Rightarrow> search_folders S wanted fs result' remaining'))"

definition findMessagesInFoldersBatch :: "mail_server \<Rightarrow> string list \<Rightarrow> folder_info list \<Rightarrow> (string \<times> folder_info) list" where
  "findMessagesInFoldersBatch S messageIDSet folders =
     search_folders S (set messageIDSet) folders [] (int (card (set messageIDSet)))"

text \<open>The listener has the same search, with a set of Message-IDs instead of a map to UIDs.\<close>

definition idle_findMessagesInFoldersBatch :: "mail_server \<Rightarrow> string list \<Rightarrow> folder_info list \<Rightarrow> (string \<times> folder_info) list" where
  "idle_findMessagesInFoldersBatch S messageIDSet folders =
     search_folders S (set messageIDSet) folders [] (int (card (set messageIDSet)))"

subsection \<open>The search finds the first folder\<close>

definition message_ids :: "(string + message_buf) list \<Rightarrow> string set" where
  "message_ids ms = {nv_MessageID env | env buf. Inr buf \<in> set ms \<and> mb_Envelope buf = Some env \<and> nv_MessageID env \<noteq> []}"

text \<open>A folder holds a message when it can be selected, is not empty and FETCH yields the message.\<close>

definition holds_message :: "mail_server \<Rightarrow> folder_info \<Rightarrow> string \<Rightarrow> bool" where
  "holds_message S f mid =
     (case ms_Select S (fo_Name f) of Inl _ \<Rightarrow> False | Inr n \<Rightarrow> n \<noteq> 0 \<and> mid \<in> message_ids (ms_FetchAll S (fo_Name f)))"

text \<open>\<open>remaining\<close> counts the wanted messages that are not yet found.\<close>

definition search_inv :: "string set \<Rightarrow> (string \<times> folder_info) list \<Rightarrow> int \<Rightarrow> bool" where
  "search_inv W result remaining \<longleftrightarrow> finite W \<and> distinct (map fst result) \<and> fst ` set result \<subseteq> W \<and>
     remaining = int (card W) - int (length result)"

lemma message_ids_simps:
  "message_ids [] = {}"
  "message_ids (Inl e # ms) = message_ids ms"
  "mb_Envelope b = None \<Longrightarrow> message_ids (Inr b # ms) = message_ids ms"
  "mb_Envelope b = Some v \<Longrightarrow> nv_MessageID v = [] \<Longrightarrow> message_ids (Inr b # ms) = message_ids ms"
  "mb_Envelope b = Some v \<Longrightarrow> nv_MessageID v \<noteq> [] \<Longrightarrow> message_ids (Inr b # ms) = insert (nv_MessageID v) (message_ids ms)"
  unfolding message_ids_def by (simp, force+)

lemma scan_messages_spec:
  assumes "search_inv W result remaining" and "scan_messages W f ms result remaining = (result', remaining')"
  shows "search_inv W result' remaining' \<and>
    (\<forall>mid. map_of result' mid = (case map_of result mid of Some g \<Rightarrow> Some g
       | None \<Rightarrow> if mid \<in> W \<and> mid \<in> message_ids ms then Some f else None))"
  using assms
proof (induction W f ms result remaining rule: scan_messages.induct)
  case (1 W f result remaining)
  then show ?case by (simp add: message_ids_simps split: option.split)
next
  case (2 W f m ms result remaining)
  show ?case
  proof (cases "\<exists>b v. m = Inr b \<and> mb_Envelope b = Some v \<and> nv_MessageID v \<noteq> []")
    case False
    then have "message_ids (m # ms) = message_ids ms"
      by (cases m; cases "mb_Envelope (projr m)") (auto simp: message_ids_simps)
    with 2 False show ?thesis by (auto split: sum.splits option.splits)
  next
    case True
    then obtain b v where m: "m = Inr b" "mb_Envelope b = Some v" "nv_MessageID v \<noteq> []" by blast
    let ?i = "nv_MessageID v"
    show ?thesis
    proof (cases "?i \<in> W \<and> map_of result ?i = None")
      case new: True
      then have nin: "?i \<notin> fst ` set result" by (simp add: map_of_eq_None_iff)
      then have "search_inv W (result @ [(?i, f)]) (remaining - 1)"
        using 2(6) new by (auto simp: search_inv_def)
      moreover have "map_of (result @ [(?i, f)]) x = (case map_of result x of Some g \<Rightarrow> Some g | None \<Rightarrow> if x = ?i then Some f else None)" for x
        by (simp add: map_add_def split: option.split)
      ultimately show ?thesis
        using 2(4) [OF m(1,2,3) new] 2(7) m new by (auto simp: message_ids_simps split: option.splits if_splits)
    next
      case False
      then show ?thesis
        using 2(5) [OF m(1,2,3) False 2(6)] 2(7) m by (auto simp: message_ids_simps split: option.splits if_splits)
    qed
  qed
qed

lemma search_complete: "search_inv W result 0 \<Longrightarrow> mid \<in> W \<Longrightarrow> map_of result mid \<noteq> None"
proof -
  assume inv: "search_inv W result 0" and mid: "mid \<in> W"
  then have "card (fst ` set result) = card W"
    using distinct_card [of "map fst result"] by (simp add: search_inv_def)
  with inv have "fst ` set result = W" by (auto simp: search_inv_def dest: card_subset_eq)
  with mid show ?thesis by (simp add: map_of_eq_None_iff)
qed

lemma search_folders_spec:
  assumes "search_inv W result remaining"
  shows "distinct (map fst (search_folders S W fs result remaining)) \<and>
    map_of (search_folders S W fs result remaining) mid = (case map_of result mid of Some g \<Rightarrow> Some g
       | None \<Rightarrow> if mid \<in> W then find (\<lambda>f. holds_message S f mid) fs else None)"
  using assms
proof (induction S W fs result remaining rule: search_folders.induct)
  case (1 S W result remaining)
  then show ?case by (simp add: search_inv_def split: option.split)
next
  case (2 S W f fs result remaining)
  show ?case
  proof (cases "remaining = 0")
    case True
    with 2(4) show ?thesis
      using search_complete [of W result mid] by (auto simp: search_inv_def map_of_eq_None_iff split: option.splits)
  next
    case rem: False
    show ?thesis
    proof (cases "ms_Select S (fo_Name f)")
      case (Inl e)
      then have "\<not> holds_message S f mid" by (simp add: holds_message_def)
      with 2(1) [OF rem Inl 2(4)] rem Inl show ?thesis by (simp split: option.split)
    next
      case (Inr n)
      show ?thesis
      proof (cases "n = 0")
        case True
        then have "\<not> holds_message S f mid" using Inr by (simp add: holds_message_def)
        with 2(2) [OF rem Inr True 2(4)] rem Inr True show ?thesis by (simp split: option.split)
      next
        case False
        obtain r' m' where s: "scan_messages W f (ms_FetchAll S (fo_Name f)) result remaining = (r', m')" by fastforce
        from scan_messages_spec [OF 2(4) s] have inv: "search_inv W r' m'"
          and mo: "map_of r' mid = (case map_of result mid of Some g \<Rightarrow> Some g
            | None \<Rightarrow> if mid \<in> W \<and> mid \<in> message_ids (ms_FetchAll S (fo_Name f)) then Some f else None)" by blast+
        have "holds_message S f mid = (mid \<in> message_ids (ms_FetchAll S (fo_Name f)))"
          using Inr False by (simp add: holds_message_def)
        with 2(3) [OF rem Inr False s [symmetric] inv] rem Inr False s mo show ?thesis
          by (auto split: option.split)
      qed
    qed
  qed
qed

lemma batch_search:
  "map_of (findMessagesInFoldersBatch S ids folders) mid =
     (if mid \<in> set ids then find (\<lambda>f. holds_message S f mid) folders else None)"
  "distinct (map fst (findMessagesInFoldersBatch S ids folders))"
proof -
  have "search_inv (set ids) [] (int (card (set ids)))" by (simp add: search_inv_def)
  from search_folders_spec [OF this, of S folders mid]
  show "map_of (findMessagesInFoldersBatch S ids folders) mid =
     (if mid \<in> set ids then find (\<lambda>f. holds_message S f mid) folders else None)"
    "distinct (map fst (findMessagesInFoldersBatch S ids folders))"
    by (simp_all add: findMessagesInFoldersBatch_def)
qed

text \<open>
  The batch search, which reads each folder once and stops as soon as nothing is missing, gives every
  message that is looked for the same folder as a separate search would: the first of the folders, in
  the order of the listing, that holds it; and it reports no message that was not looked for.
\<close>
theorem batch_search_first_folder:
  "map_of (findMessagesInFoldersBatch S ids folders) mid =
     (if mid \<in> set ids then find (\<lambda>f. holds_message S f mid) folders else None) \<and>
   distinct (map fst (findMessagesInFoldersBatch S ids folders))"
  using batch_search by blast

subsection \<open>System folders\<close>

lemma idle_listed_same: "idle_listed U = listed U"
proof
  fix m :: "string \<times> string list"
  have a: "(a = bsl @ ''Sent'' \<or> a = bsl @ ''Drafts'') = (a \<in> set sentOrDraftsAttrs)" for a
    unfolding sentOrDraftsAttrs_def by simp
  have n: "(l = ''drafts'' \<or> l = ''sent'' \<or> l = ''sent messages'' \<or> l = ''sent items''
      \<or> l = ''[gmail]/sent mail'' \<or> l = ''[gmail]/drafts'') = (l \<in> set sentOrDraftsNames)" for l
    unfolding sentOrDraftsNames_def by simp
  show "idle_listed U m = listed U m" unfolding idle_listed_def listed_def Let_def a n ..
qed

lemma listed_ok:
  assumes "f \<in> set (listed U m)"
  shows "fo_Name f \<noteq> ''INBOX'' \<and> bsl @ ''Noselect'' \<notin> set (fo_Attrs f) \<and>
    bsl @ ''Sent'' \<notin> set (fo_Attrs f) \<and> bsl @ ''Drafts'' \<notin> set (fo_Attrs f)"
proof -
  have "bsl @ ''Sent'' \<in> set sentOrDraftsAttrs" "bsl @ ''Drafts'' \<in> set sentOrDraftsAttrs"
    by (simp_all add: sentOrDraftsAttrs_def)
  with assms show ?thesis
    unfolding listed_def list_ex_iff by (cases m) (auto split: if_splits simp del: append.simps)
qed

text \<open>
  Both move detectors treat the same folders alike: they search the same folders (never the inbox, an
  unselectable mailbox, or a folder for sent mail or drafts) and exempt the same ones from learning. A
  folder that the server does not mark is exempt only if its whole name, up to case, is a known system
  name, so that a folder such as \<^verbatim>\<open>@3DayTrash\<close> is not.
\<close>
theorem detectors_agree_on_folders:
  "idle_isSkipFolder U name attrs = isSkipFolder U name attrs \<and>
   idle_listFolders U ld = (case listFolders U ld of Inl _ \<Rightarrow> [] | Inr fs \<Rightarrow> fs) \<and>
   list_all (\<lambda>f. fo_Name f \<noteq> ''INBOX'' \<and> bsl @ ''Noselect'' \<notin> set (fo_Attrs f) \<and>
       bsl @ ''Sent'' \<notin> set (fo_Attrs f) \<and> bsl @ ''Drafts'' \<notin> set (fo_Attrs f)) (idle_listFolders U ld) \<and>
   isSkipFolder U ''@3DayTrash'' [] = False"
proof (intro conjI)
  show "idle_isSkipFolder U name attrs = isSkipFolder U name attrs"
    unfolding idle_isSkipFolder_def isSkipFolder_def idle_skipFolderAttrs_def skipFolderAttrs_def
      idle_systemTrashNames_def systemTrashNames_def by (rule refl)
  have same: "idle_listed U = listed U" by (rule idle_listed_same)
  then show "idle_listFolders U ld = (case listFolders U ld of Inl _ \<Rightarrow> [] | Inr fs \<Rightarrow> fs)"
    by (simp add: idle_listFolders_def listFolders_def split: option.split)
  show "list_all (\<lambda>f. fo_Name f \<noteq> ''INBOX'' \<and> bsl @ ''Noselect'' \<notin> set (fo_Attrs f) \<and>
       bsl @ ''Sent'' \<notin> set (fo_Attrs f) \<and> bsl @ ''Drafts'' \<notin> set (fo_Attrs f)) (idle_listFolders U ld)"
    by (auto simp: idle_listFolders_def same list_all_iff dest!: listed_ok split: option.splits)
  show "isSkipFolder U ''@3DayTrash'' [] = False"
    by (simp add: isSkipFolder_def ToLower_def is_ascii_def lower_byte_def systemTrashNames_def)
qed

end
