(* ===== verification/OAuth.thy ===== *)
theory OAuth
  imports GoStrings "HOL-Library.List_Lexorder" "HOL-Library.Char_ord"
begin

text \<open>
  \<^verbatim>\<open>internal/oauth2/oauth2.go\<close>: the authorization links and token requests of the two providers,
  and the XOAUTH2 string. \<open>net/url\<close>'s query encoding is written out. The HTTP client is the
  argument \<open>http\<close>, the JSON decoder the argument \<open>decode\<close>.
\<close>

subsection \<open>Query strings (\<open>net/url\<close>)\<close>

definition unreserved :: "char \<Rightarrow> bool" where
  "unreserved c = ((65 \<le> byte c \<and> byte c \<le> 90) \<or> (97 \<le> byte c \<and> byte c \<le> 122) \<or> (48 \<le> byte c \<and> byte c \<le> 57)
     \<or> c \<in> set ''-_.~'')"

definition hex_digit :: "nat \<Rightarrow> char" where
  "hex_digit n = (if n < 10 then char_of (48 + n) else char_of (55 + n))"

definition escape_char :: "char \<Rightarrow> string" where
  "escape_char c =
     (if unreserved c then [c] else if c = CHR '' '' then ''+''
      else [CHR ''%'', hex_digit (byte c div 16), hex_digit (byte c mod 16)])"

definition QueryEscape :: "string \<Rightarrow> string" where
  "QueryEscape s = concat (map escape_char s)"

text \<open>\<open>url.Values.Encode\<close>, for values with one entry per key: sorted by key.\<close>

definition encode_pair :: "string \<times> string \<Rightarrow> string" where
  "encode_pair kv = QueryEscape (fst kv) @ ''='' @ QueryEscape (snd kv)"

definition Encode :: "(string \<times> string) list \<Rightarrow> string" where
  "Encode vs = Join (map encode_pair (sort_key fst vs)) ''&''"

subsection \<open>Providers\<close>

record TokenResponse =
  tr_AccessToken :: string
  tr_RefreshToken :: string
  tr_TokenType :: string
  tr_ExpiresIn :: int
  tr_Scope :: string
  tr_IDToken :: string

datatype provider =
    Microsoft365Provider string string string string
  | GmailProvider string string string

text \<open>The fields of \<open>Microsoft365Provider\<close> are the client id, secret, tenant and redirect URI; \<open>GmailProvider\<close> has no tenant.\<close>

fun provider_Name :: "provider \<Rightarrow> string" where
  "provider_Name (Microsoft365Provider cid secret tenant redirect) = ''microsoft365''"
| "provider_Name (GmailProvider cid secret redirect) = ''gmail''"

definition ms_scope :: string where
  "ms_scope = ''https://outlook.office365.com/IMAP.AccessAsUser.All offline_access openid email profile''"

definition ms_tenant :: "string \<Rightarrow> string" where
  "ms_tenant tenant = (if tenant = [] then ''common'' else tenant)"

fun auth_params :: "provider \<Rightarrow> string \<Rightarrow> (string \<times> string) list" where
  "auth_params (Microsoft365Provider cid secret tenant redirect) state =
     [(''client_id'', cid), (''response_type'', ''code''), (''redirect_uri'', redirect), (''scope'', ms_scope),
      (''state'', state), (''response_mode'', ''query''), (''prompt'', ''consent'')]"
| "auth_params (GmailProvider cid secret redirect) state =
     [(''client_id'', cid), (''response_type'', ''code''), (''redirect_uri'', redirect),
      (''scope'', ''https://mail.google.com/ openid email profile''), (''state'', state),
      (''access_type'', ''offline''), (''prompt'', ''consent'')]"

fun auth_base :: "provider \<Rightarrow> string" where
  "auth_base (Microsoft365Provider cid secret tenant redirect) =
     ''https://login.microsoftonline.com/'' @ ms_tenant tenant @ ''/oauth2/v2.0/authorize?''"
| "auth_base (GmailProvider cid secret redirect) = ''https://accounts.google.com/o/oauth2/v2/auth?''"

definition AuthURL :: "provider \<Rightarrow> string \<Rightarrow> string" where
  "AuthURL p state = auth_base p @ Encode (auth_params p state)"

fun token_url :: "provider \<Rightarrow> string" where
  "token_url (Microsoft365Provider cid secret tenant redirect) =
     ''https://login.microsoftonline.com/'' @ ms_tenant tenant @ ''/oauth2/v2.0/token''"
| "token_url (GmailProvider cid secret redirect) = ''https://oauth2.googleapis.com/token''"

datatype http_result = HttpFailed string | HttpReadFailed string | HttpBody int string

definition postTokenRequest ::
  "(string \<Rightarrow> string \<Rightarrow> http_result) \<Rightarrow> (string \<Rightarrow> string + TokenResponse) \<Rightarrow> string \<Rightarrow> (string \<times> string) list \<Rightarrow> string + TokenResponse" where
  "postTokenRequest http decode tokenURL data =
     (case http tokenURL (Encode data) of
        HttpFailed e \<Rightarrow> Inl (''token request: '' @ e)
      | HttpReadFailed e \<Rightarrow> Inl (''read token response: '' @ e)
      | HttpBody status body \<Rightarrow>
          if status \<noteq> 200 then Inl (''token request failed ('' @ FormatInt status @ ''): '' @ body)
          else (case decode body of Inl e \<Rightarrow> Inl (''decode token response: '' @ e) | Inr t \<Rightarrow> Inr t))"

fun exchange_data :: "provider \<Rightarrow> string \<Rightarrow> (string \<times> string) list" where
  "exchange_data (Microsoft365Provider cid secret tenant redirect) code =
     [(''client_id'', cid), (''client_secret'', secret), (''code'', code), (''redirect_uri'', redirect),
      (''grant_type'', ''authorization_code''), (''scope'', ms_scope)]"
| "exchange_data (GmailProvider cid secret redirect) code =
     [(''client_id'', cid), (''client_secret'', secret), (''code'', code), (''redirect_uri'', redirect),
      (''grant_type'', ''authorization_code'')]"

fun refresh_data :: "provider \<Rightarrow> string \<Rightarrow> (string \<times> string) list" where
  "refresh_data (Microsoft365Provider cid secret tenant redirect) refreshToken =
     [(''client_id'', cid), (''client_secret'', secret), (''refresh_token'', refreshToken),
      (''grant_type'', ''refresh_token''), (''scope'', ms_scope)]"
| "refresh_data (GmailProvider cid secret redirect) refreshToken =
     [(''client_id'', cid), (''client_secret'', secret), (''refresh_token'', refreshToken),
      (''grant_type'', ''refresh_token'')]"

definition ExchangeCode where
  "ExchangeCode http decode p code = postTokenRequest http decode (token_url p) (exchange_data p code)"

definition RefreshToken where
  "RefreshToken http decode p refreshToken = postTokenRequest http decode (token_url p) (refresh_data p refreshToken)"

fun provider_IMAPHost :: "provider \<Rightarrow> string" where
  "provider_IMAPHost (Microsoft365Provider cid secret tenant redirect) = ''outlook.office365.com''"
| "provider_IMAPHost (GmailProvider cid secret redirect) = ''imap.gmail.com''"

definition provider_IMAPPort :: "provider \<Rightarrow> int" where "provider_IMAPPort p = 993"

subsection \<open>XOAUTH2 and expiry\<close>

definition BuildXOAuth2String :: "string \<Rightarrow> string \<Rightarrow> string" where
  "BuildXOAuth2String email accessToken =
     ''user='' @ email @ [CHR 0x01] @ ''auth=Bearer '' @ accessToken @ [CHR 0x01, CHR 0x01]"

definition IsTokenExpired :: "time \<Rightarrow> time option \<Rightarrow> bool" where
  "IsTokenExpired now expiry = (case expiry of None \<Rightarrow> True | Some e \<Rightarrow> e < now + 5 * Minute)"

subsection \<open>Decoding what is encoded\<close>

definition unhex :: "char \<Rightarrow> nat option" where
  "unhex c = (if 48 \<le> byte c \<and> byte c \<le> 57 then Some (byte c - 48)
     else if 65 \<le> byte c \<and> byte c \<le> 70 then Some (byte c - 55)
     else if 97 \<le> byte c \<and> byte c \<le> 102 then Some (byte c - 87) else None)"

fun QueryUnescape :: "string \<Rightarrow> string option" where
  "QueryUnescape [] = Some []"
| "QueryUnescape (c # s) =
     (if c = CHR ''%'' then
        (case s of
           a # b # t \<Rightarrow>
             (case (unhex a, unhex b) of
                (Some x, Some y) \<Rightarrow> map_option (Cons (char_of (16 * x + y))) (QueryUnescape t)
              | _ \<Rightarrow> None)
         | _ \<Rightarrow> None)
      else if c = CHR ''+'' then map_option (Cons (CHR '' '')) (QueryUnescape s)
      else map_option (Cons c) (QueryUnescape s))"

definition ParseQuery :: "string \<Rightarrow> (string option \<times> string option) list" where
  "ParseQuery s = map (\<lambda>w. case SplitN2 w (CHR ''='') of
       [k, v] \<Rightarrow> (QueryUnescape k, QueryUnescape v) | _ \<Rightarrow> (QueryUnescape w, Some [])) (Split s (CHR ''&''))"

lemma unhex_hex_digit: "n < 16 \<Longrightarrow> unhex (hex_digit n) = Some n"
  by (auto simp: unhex_def hex_digit_def)

lemma byte_less_256: "byte c < 256"
  by (rule nat_of_char_less_256)

lemma QueryUnescape_escape_char: "QueryUnescape (escape_char c @ s) = map_option (Cons c) (QueryUnescape s)"
proof (cases "unreserved c")
  case True
  then have "c \<noteq> CHR ''%''" "c \<noteq> CHR ''+''" by (auto simp: unreserved_def)
  with True show ?thesis by (simp add: escape_char_def)
next
  case False
  have "byte c div 16 < 16" "byte c mod 16 < 16" using byte_less_256 [of c] by linarith+
  moreover have "16 * (byte c div 16) + byte c mod 16 = byte c" by simp
  ultimately show ?thesis using False by (simp add: escape_char_def unhex_hex_digit)
qed

lemma QueryUnescape_QueryEscape: "QueryUnescape (QueryEscape s) = Some s"
  by (induction s) (simp_all add: QueryEscape_def QueryUnescape_escape_char)

text \<open>The separators of a query do not occur in escaped text.\<close>

lemma escape_char_clean: "CHR ''&'' \<notin> set (escape_char c)" "CHR ''='' \<notin> set (escape_char c)"
proof -
  have div_16: "byte c div 16 < 16" using byte_less_256 [of c] by linarith
  have hex: "CHR ''&'' \<noteq> hex_digit n \<and> CHR ''='' \<noteq> hex_digit n" if "n < 16" for n
  proof -
    have "unhex (CHR ''&'') = None" "unhex (CHR ''='') = None" by (simp_all add: unhex_def)
    with unhex_hex_digit [OF that] show ?thesis by (metis option.distinct(1))
  qed
  have "CHR ''&'' \<noteq> hex_digit (byte c div 16) \<and> CHR ''='' \<noteq> hex_digit (byte c div 16) \<and>
      CHR ''&'' \<noteq> hex_digit (byte c mod 16) \<and> CHR ''='' \<noteq> hex_digit (byte c mod 16)"
    using hex [of "byte c div 16"] hex [of "byte c mod 16"] div_16 by simp
  moreover have "\<not> unreserved (CHR ''&'')" "\<not> unreserved (CHR ''='')" by (simp_all add: unreserved_def)
  ultimately show "CHR ''&'' \<notin> set (escape_char c)" "CHR ''='' \<notin> set (escape_char c)"
    by (auto simp: escape_char_def)
qed

lemma QueryEscape_clean: "CHR ''&'' \<notin> set (QueryEscape s)" "CHR ''='' \<notin> set (QueryEscape s)"
  using escape_char_clean by (auto simp: QueryEscape_def)

lemma encode_pair_split: "SplitN2 (encode_pair kv) (CHR ''='') = [QueryEscape (fst kv), QueryEscape (snd kv)]"
proof -
  have "takeWhile (\<lambda>c. c \<noteq> CHR ''='') (xs @ CHR ''='' # ys) = xs \<and> dropWhile (\<lambda>c. c \<noteq> CHR ''='') (xs @ CHR ''='' # ys) = CHR ''='' # ys"
    if "CHR ''='' \<notin> set xs" for xs ys using that by (induction xs) auto
  with QueryEscape_clean(2) show ?thesis by (simp add: encode_pair_def SplitN2_def)
qed

lemma Split_append: "d \<notin> set l \<Longrightarrow> Split (l @ d # s) d = l # Split s d"
  by (induction l) auto

lemma Split_single: "d \<notin> set l \<Longrightarrow> Split l d = [l]"
  by (induction l) auto

lemma Split_Join:
  assumes "ws \<noteq> []" and "\<forall>w \<in> set ws. d \<notin> set w"
  shows "Split (Join ws [d]) d = ws"
  using assms by (induction ws "[d]" rule: Join.induct) (auto simp: Split_single Split_append)

lemma ParseQuery_Encode: "vs \<noteq> [] \<Longrightarrow> ParseQuery (Encode vs) = map (\<lambda>(k, v). (Some k, Some v)) (sort_key fst vs)"
proof -
  assume "vs \<noteq> []"
  moreover have "\<forall>w \<in> set (map encode_pair xs). CHR ''&'' \<notin> set w" for xs
    using QueryEscape_clean(1) by (auto simp: encode_pair_def)
  ultimately have "Split (Encode vs) (CHR ''&'') = map encode_pair (sort_key fst vs)"
    unfolding Encode_def by (intro Split_Join) (auto dest: arg_cong [where f = length])
  then show ?thesis
    by (auto simp: ParseQuery_def encode_pair_split QueryUnescape_QueryEscape comp_def)
qed

text \<open>
  The authorization link of a provider carries exactly its parameters: whatever bytes the state, the
  client id or the redirect URI contain, a server that parses the query gets each of them back, once and
  unchanged; no value can add or change another parameter.
\<close>
theorem auth_url_roundtrip:
  "\<exists>query. AuthURL p state = auth_base p @ query \<and>
     ParseQuery query = map (\<lambda>(k, v). (Some k, Some v)) (sort_key fst (auth_params p state)) \<and>
     (Some ''state'', Some state) \<in> set (ParseQuery query) \<and> distinct (map fst (auth_params p state))"
proof -
  have "auth_params p state \<noteq> []" "(''state'', state) \<in> set (auth_params p state)"
    "distinct (map fst (auth_params p state))" by (cases p; simp)+
  with ParseQuery_Encode show ?thesis by (force simp: AuthURL_def image_iff)
qed

end
