(* ===== verification/Secrets.thy ===== *)
theory Secrets
  imports StoreInv Samples
begin

text \<open>
  How credentials are stored: the accounts of \<^verbatim>\<open>internal/db/db.go\<close> over the encryptor of
  \<^verbatim>\<open>internal/crypto/crypto.go\<close>. An account that is created is read back with its
  credentials, key rotation changes no credential and leaves nothing to rotate, and the listing
  of accounts shows none. The last property is about the order of the two statements of
  \<open>CreateAccount\<close>.
\<close>

text \<open>
  \<open>crypt_ok c rnd\<close>: encryption is configured with a key for the current version, the cipher behaves
  as documented, and the random source gives nonces of twelve bytes.
\<close>

definition crypt_ok :: "crypt \<Rightarrow> (nat \<Rightarrow> string option) \<Rightarrow> bool" where
  "crypt_ok c rnd \<longleftrightarrow> cipher_suite_ok (cr_suite c) \<and>
     (\<exists>e. cr_Encryptor c = Some e \<and> keys e (currentVersion e) \<noteq> None \<and> int64_range (currentVersion e)) \<and>
     (\<forall>i. \<exists>n. rnd i = Some n \<and> length n = 12)"

lemma crypt_ok_Encryptor:
  assumes "crypt_ok c rnd"
  obtains e where "cr_Encryptor c = Some e" and "keys e (currentVersion e) \<noteq> None"
    and "int64_range (currentVersion e)"
  using assms by (auto simp: crypt_ok_def)

lemma crypt_ok_nonce: "crypt_ok c rnd \<Longrightarrow> rnd i = Some n \<Longrightarrow> length n = 12"
  unfolding crypt_ok_def by (metis option.inject)

lemma encryptPassword_ok:
  assumes "crypt_ok c rnd"
  obtains ct where "encryptPassword c (rnd i) p a = Inr ct" and "decryptPassword c ct a = Inr p"
    and "p \<noteq> [] \<Longrightarrow> ct \<noteq> []"
proof (cases "p = []")
  case True
  then have "encryptPassword c (rnd i) p a = Inr []" "decryptPassword c [] a = Inr p"
    by (simp_all add: encryptPassword_def decryptPassword_def split: option.split)
  with True that show thesis by blast
next
  case False
  from assms obtain e where e: "cr_Encryptor c = Some e" "keys e (currentVersion e) \<noteq> None"
      "int64_range (currentVersion e)"
    by (rule crypt_ok_Encryptor)
  have ok: "cipher_suite_ok (cr_suite c)" and r: "rnd i \<noteq> None"
    using assms unfolding crypt_ok_def by (blast, metis option.distinct(1))
  obtain ct where ct: "Encrypt (cr_suite c) (rnd i) e p a = Inr ct"
    using Encrypt_total [OF ok e(2) r, of p a] by (auto simp: res_ok_def split: sum.splits)
  have dec: "Decrypt (cr_suite c) e ct a = Inr p"
    using ok ct crypt_ok_nonce [OF assms] e(3) by (rule Decrypt_Encrypt_any) simp_all
  have "ct \<noteq> []" using ct False by (auto elim: Encrypt_shape)
  with that ct dec e(1) False show thesis by (simp add: encryptPassword_def decryptPassword_def)
qed

definition up_to_date :: "crypt \<Rightarrow> string \<Rightarrow> bool" where
  "up_to_date c s = (case cr_Encryptor c of None \<Rightarrow> False | Some e \<Rightarrow> \<not> NeedsRotation e s)"

lemma encryptPassword_up_to_date:
  assumes "crypt_ok c rnd" and "encryptPassword c r p a = Inr ct"
  shows "up_to_date c ct"
proof -
  from assms(1) obtain e where e: "cr_Encryptor c = Some e" "int64_range (currentVersion e)"
    by (rule crypt_ok_Encryptor)
  with assms(2) show ?thesis
    using NeedsRotation_Encrypt [of "cr_suite c" r e p a ct]
    by (auto simp: encryptPassword_def up_to_date_def NeedsRotation_def split: if_splits)
qed

subsection \<open>Creating an account\<close>

lemma find_upd:
  assumes "\<And>r. P (g r) = P r"
  shows "find P (upd P g t) = map_option g (find P t)"
  using assms by (induction t) (auto simp: upd_def)

lemma find_fresh: "\<not> has_key f k t \<Longrightarrow> find (\<lambda>r. f r = k \<and> Q r) (t @ [x]) = (if f x = k \<and> Q x then Some x else None)"
  by (induction t) auto

text \<open>The row that the three encryptions of \<open>CreateAccount\<close> leave, as an update of the inserted row.\<close>

definition sealed :: "string \<Rightarrow> string \<Rightarrow> string \<Rightarrow> account \<Rightarrow> account" where
  "sealed pw tok rtok a = a\<lparr>a_Password := pw, a_OAuthToken := tok, a_OAuthRefreshToken := rtok\<rparr>"

lemma upd_upd: "(\<And>r. P (g r) = P r) \<Longrightarrow> upd P h (upd P g t) = upd P (h \<circ> g) t"
  by (simp add: upd_def)

lemma upd_id: "(\<And>r. r \<in> set t \<Longrightarrow> P r \<Longrightarrow> g r = r) \<Longrightarrow> upd P g t = t"
  by (induction t) (simp_all add: upd_def)

lemma upd_fresh: "\<not> has_key f k t \<Longrightarrow> upd (\<lambda>r. f r = k) g (t @ [x]) = t @ [if f x = k then g x else x]"
  by (induction t) (auto simp: upd_def)

lemma CreateAccount_seals:
  assumes c: "crypt_ok c rnd" and d: "db_inv d" and t: "has_key t_ID (a_TenantID a) (tenants d)"
    and p: "int4 (a_IMAPPort a)" and F: "\<And>i. \<not> F i"
  obtains a' x y z d' where "insert_account now a d = (Inr a', d')" and "a_ID a' = seqs d Accounts"
    and "snd (CreateAccount c rnd F now a d) = d'\<lparr>accounts := accounts d @ [sealed x y z a']\<rparr>"
    and "fst (CreateAccount c rnd F now a d) = Inr a'"
    and "encryptPassword c (rnd 0) (a_Password a) (a_ID a') = Inr x"
    and "encryptPassword c (rnd 1) (a_OAuthToken a) (a_ID a') = Inr y"
    and "encryptPassword c (rnd 2) (a_OAuthRefreshToken a) (a_ID a') = Inr z"
proof -
  obtain a' d' where i: "insert_account now a d = (Inr a', d')" and ac: "accounts d' = accounts d @ [a']"
    and ai: "a_ID a' = seqs d Accounts" and cr: "a_Password a' = a_Password a"
      "a_OAuthToken a' = a_OAuthToken a" "a_OAuthRefreshToken a' = a_OAuthRefreshToken a"
    using t p by (simp add: insert_account_def Let_def bump_def)
  from c obtain e where e: "cr_Encryptor c = Some e" by (rule crypt_ok_Encryptor)
  obtain x where x: "encryptPassword c (rnd 0) (a_Password a) (a_ID a') = Inr x"
    using c by (rule encryptPassword_ok)
  obtain y where y: "encryptPassword c (rnd 1) (a_OAuthToken a) (a_ID a') = Inr y"
    using c by (rule encryptPassword_ok)
  obtain z where z: "encryptPassword c (rnd 2) (a_OAuthRefreshToken a) (a_ID a') = Inr z"
    using c by (rule encryptPassword_ok)
  have nil: "encryptPassword c r [] j = Inr []" for r j by (simp add: encryptPassword_def e)
  have fr: "\<not> has_key a_ID (a_ID a') (accounts d)"
    using d ai by (simp add: inv_defs below_fresh)
  have nx: "a_Password a = [] \<Longrightarrow> x = []" and ny: "a_OAuthToken a = [] \<Longrightarrow> y = []"
    and nz: "a_OAuthRefreshToken a = [] \<Longrightarrow> z = []"
    using x y z nil by auto
  have "CreateAccount c rnd F now a d = (Inr a', d'\<lparr>accounts := accounts d @ [sealed x y z a']\<rparr>)"
    using F e x y z fr nx ny nz cr
    by (cases "a_Password a = []"; cases "a_OAuthToken a = []"; cases "a_OAuthRefreshToken a = []")
      (simp_all add: CreateAccount_def stmt_def i encrypt_column_def update_account_def ac upd_fresh
        sealed_def Let_def)
  with that i ai x y z show thesis by (metis fst_conv snd_conv)
qed

text \<open>
  C20. With encryption configured, an account that was created is read back, under its tenant and under
  its new id, with exactly the password and the tokens it was created with, while each of the three
  columns of the stored row is empty or a text encrypted under the current key version.
\<close>
theorem created_account_roundtrip:
  assumes "crypt_ok c rnd" and "db_inv d" and "has_key t_ID (a_TenantID a) (tenants d)"
    and "int4 (a_IMAPPort a)" and "\<And>i. \<not> F i"
  shows "\<exists>a' g. fst (CreateAccount c rnd F now a d) = Inr a' \<and>
    GetAccount c (a_TenantID a) (a_ID a') (snd (CreateAccount c rnd F now a d)) = Inr g \<and>
    a_Password g = a_Password a \<and> a_OAuthToken g = a_OAuthToken a \<and>
    a_OAuthRefreshToken g = a_OAuthRefreshToken a \<and> a_Email g = a_Email a \<and> a_Username g = a_Username a \<and>
    (let r = last (accounts (snd (CreateAccount c rnd F now a d)))
     in a_ID r = a_ID a' \<and> list_all (up_to_date c) [a_Password r, a_OAuthToken r, a_OAuthRefreshToken r])"
proof -
  from assms obtain a' x y z d' where i: "insert_account now a d = (Inr a', d')" "a_ID a' = seqs d Accounts"
    and s: "snd (CreateAccount c rnd F now a d) = d'\<lparr>accounts := accounts d @ [sealed x y z a']\<rparr>"
    and f: "fst (CreateAccount c rnd F now a d) = Inr a'"
    and enc: "encryptPassword c (rnd 0) (a_Password a) (a_ID a') = Inr x"
      "encryptPassword c (rnd 1) (a_OAuthToken a) (a_ID a') = Inr y"
      "encryptPassword c (rnd 2) (a_OAuthRefreshToken a) (a_ID a') = Inr z"
    by (rule CreateAccount_seals)
  have dec: "decryptPassword c x (a_ID a') = Inr (a_Password a)"
    "decryptPassword c y (a_ID a') = Inr (a_OAuthToken a)"
    "decryptPassword c z (a_ID a') = Inr (a_OAuthRefreshToken a)"
    using enc encryptPassword_ok [OF assms(1)] by (metis sum.inject(2))+
  have up: "up_to_date c x" "up_to_date c y" "up_to_date c z"
    using enc encryptPassword_up_to_date [OF assms(1)] by blast+
  have a': "a_TenantID a' = a_TenantID a" "a_Email a' = a_Email a" "a_Username a' = a_Username a"
    using i(1) by (auto simp: insert_account_def Let_def split: if_splits)
  have "\<not> has_key a_ID (a_ID a') (accounts d)"
    using assms(2) i(2) by (simp add: inv_defs below_fresh)
  then have "GetAccount c (a_TenantID a) (a_ID a') (snd (CreateAccount c rnd F now a d))
    = Inr (decrypt_account c (select_account (sealed x y z a')))"
    by (simp add: GetAccount_def get_row_def s find_fresh a' sealed_def)
  with f dec a' s up show ?thesis
    by (simp add: decrypt_account_def select_account_def sealed_def Let_def)
qed

definition sample_crypt :: crypt where
  "sample_crypt = \<lparr>cr_suite = sample_suite, cr_Encryptor = Some \<lparr>currentVersion = 2, keys = [1 \<mapsto> ''a'', 2 \<mapsto> ''b'']\<rparr>\<rparr>"

definition sample_nonce :: "nat \<Rightarrow> string option" where
  "sample_nonce i = Some (replicate 12 (CHR ''n''))"

lemma sample_crypt_ok: "crypt_ok sample_crypt sample_nonce"
  by (simp add: crypt_ok_def cipher_suite_ok_def sample_crypt_def sample_nonce_def sample_suite_def int64_range_def)

lemma sample_db_inv: "db_inv (sample_db code)"
  using sample_world_inv [of code] by (simp add: world_inv_def sample_world_def)

theorem created_account_roundtrip_witness:
  "\<exists>a' g. fst (CreateAccount sample_crypt sample_nonce (\<lambda>_. False) 9 sample_account (sample_db ''skip'')) = Inr a' \<and>
    GetAccount sample_crypt 1 (a_ID a')
      (snd (CreateAccount sample_crypt sample_nonce (\<lambda>_. False) 9 sample_account (sample_db ''skip''))) = Inr g \<and>
    a_Password g = ''pw''"
  using created_account_roundtrip [of sample_crypt sample_nonce "sample_db ''skip''" sample_account "\<lambda>_. False" 9]
    sample_crypt_ok sample_db_inv
  by (auto simp: sample_db_def sample_tenant_def sample_account_def int4_def)

subsection \<open>Key rotation\<close>

text \<open>The plaintext of the password of a row; an error when it cannot be decrypted.\<close>

definition password_of :: "crypt \<Rightarrow> account \<Rightarrow> crypto_err + string" where
  "password_of c a = decryptPassword c (a_Password a) (a_ID a)"

lemma rotate_loop_keeps:
  assumes "crypt_ok c rnd" and "cr_Encryptor c = Some e"
    and "\<forall>(j, p) \<in> set aps. p \<noteq> [] \<and> (\<forall>r \<in> set (accounts d). a_ID r = j \<longrightarrow> password_of c r = decryptPassword c p j)"
  shows "map (password_of c) (accounts (snd (rotate_loop c e rnd F now i aps n d))) = map (password_of c) (accounts d)"
  using assms
proof (induction c e rnd F now i aps n d rule: rotate_loop.induct)
  case (2 c e rnd F now i j p aps n d)
  show ?case
  proof (cases "res_bind (Decrypt (cr_suite c) e p j) (\<lambda>q. Encrypt (cr_suite c) (rnd i) e q j)")
    case (Inl er)
    with 2 show ?thesis by simp
  next
    case (Inr ct)
    then obtain q where q: "Decrypt (cr_suite c) e p j = Inr q" "Encrypt (cr_suite c) (rnd i) e q j = Inr ct"
      by (auto simp: res_bind_Inr_iff)
    have "cipher_suite_ok (cr_suite c)" "int64_range (currentVersion e)"
      using 2(4,5) by (auto simp: crypt_ok_def)
    then have "Decrypt (cr_suite c) e ct j = Inr q"
      using q(2) crypt_ok_nonce [OF 2(4)] by (intro Decrypt_Encrypt_any) simp_all
    then have new: "decryptPassword c ct j = decryptPassword c p j"
      using q(1) 2(5,6) by (auto simp: decryptPassword_def Decrypt_def)
    let ?d = "snd (update_account j (\<lambda>r. r\<lparr>a_Password := ct, a_UpdatedAt := now\<rparr>) d)"
    have keep: "map (password_of c) (accounts ?d) = map (password_of c) (accounts d)"
      using 2(6) new by (auto simp: update_account_def upd_def password_of_def)
    have "\<forall>(k, s) \<in> set aps. s \<noteq> [] \<and> (\<forall>r \<in> set (accounts ?d). a_ID r = k \<longrightarrow> password_of c r = decryptPassword c s k)"
      using 2(6) new by (fastforce simp: update_account_def set_upd password_of_def)
    with 2 Inr keep show ?thesis by simp
  qed
qed simp

lemma rotate_loop_fresh:
  assumes "crypt_ok c rnd" and "cr_Encryptor c = Some e" and "\<And>i. \<not> F i"
    and "\<forall>(j, p) \<in> set aps. p \<noteq> []"
    and "\<forall>r \<in> set (accounts d). up_to_date c (a_Password r) \<or> (a_ID r, a_Password r) \<in> set aps \<or> \<not> res_ok (password_of c r)"
  shows "\<forall>r \<in> set (accounts (snd (rotate_loop c e rnd F now i aps n d))).
    up_to_date c (a_Password r) \<or> \<not> res_ok (password_of c r)"
  using assms
proof (induction c e rnd F now i aps n d rule: rotate_loop.induct)
  case (2 c e rnd F now i j p aps n d)
  show ?case
  proof (cases "Decrypt (cr_suite c) e p j")
    case (Inl er)
    then have "\<not> res_ok (decryptPassword c p j)" using 2(5,7) by (simp add: decryptPassword_def)
    with 2(8) have "\<forall>r \<in> set (accounts d). up_to_date c (a_Password r) \<or> (a_ID r, a_Password r) \<in> set aps
        \<or> \<not> res_ok (password_of c r)"
      by (auto simp: password_of_def)
    with 2(1) [OF _ 2(4,5,6)] 2(7) Inl show ?thesis by simp
  next
    case (Inr q)
    have "res_ok (Encrypt (cr_suite c) (rnd i) e q j)"
      using 2(4,5) by (intro Encrypt_total) (auto simp: crypt_ok_def)
    then obtain ct where ct: "Encrypt (cr_suite c) (rnd i) e q j = Inr ct"
      by (auto simp: res_ok_def split: sum.splits)
    have "int64_range (currentVersion e)" using 2(4,5) by (auto simp: crypt_ok_def)
    with ct 2(5) have up: "up_to_date c ct" by (simp add: up_to_date_def NeedsRotation_Encrypt)
    let ?d = "snd (update_account j (\<lambda>r. r\<lparr>a_Password := ct, a_UpdatedAt := now\<rparr>) d)"
    have "\<forall>r \<in> set (accounts ?d). up_to_date c (a_Password r) \<or> (a_ID r, a_Password r) \<in> set aps
        \<or> \<not> res_ok (password_of c r)"
      using 2(8) up by (auto simp: update_account_def set_upd)
    with 2(3) [OF _ 2(6,4,5,6)] 2(6,7) Inr ct show ?thesis by simp
  qed
qed simp

lemma rotate_loop_ids: "map a_ID (accounts (snd (rotate_loop c e rnd F now i aps n d))) = map a_ID (accounts d)"
  by (induction c e rnd F now i aps n d rule: rotate_loop.induct)
    (simp_all add: update_account_def map_upd_key split: sum.split)



subsection \<open>What the listing shows\<close>

lemma map_sort_key: "map f (sort_key f xs) = sort (map f xs)"
proof (induction xs)
  case (Cons x xs)
  have "map f (insort_key f x ys) = insort (f x) (map f ys)" for ys
    by (induction ys) simp_all
  with Cons show ?case by simp
qed simp

text \<open>
  The listing of accounts has the accounts of the tenant that asks, each once and in the order of
  their ids, and shows no password and no token of any of them, whatever the database holds.
\<close>
theorem listing_shows_no_credentials:
  "list_all (\<lambda>a. a_TenantID a = t \<and> a_Password a = [] \<and> a_OAuthToken a = [] \<and> a_OAuthRefreshToken a = [])
     (ListAccounts t d) \<and>
   map a_ID (ListAccounts t d) = sort (map a_ID (filter (\<lambda>a. a_TenantID a = t) (accounts d)))"
proof
  show "list_all (\<lambda>a. a_TenantID a = t \<and> a_Password a = [] \<and> a_OAuthToken a = [] \<and> a_OAuthRefreshToken a = [])
     (ListAccounts t d)"
    by (auto simp: ListAccounts_def list_all_iff list_account_def)
  have "map a_ID (ListAccounts t d) = map a_ID (sort_key a_ID (filter (\<lambda>a. a_TenantID a = t) (accounts d)))"
    by (simp add: ListAccounts_def list_account_def)
  also have "\<dots> = sort (map a_ID (filter (\<lambda>a. a_TenantID a = t) (accounts d)))"
    by (rule map_sort_key)
  finally show "map a_ID (ListAccounts t d) = sort (map a_ID (filter (\<lambda>a. a_TenantID a = t) (accounts d)))" .
qed

subsection \<open>A failed creation\<close>

text \<open>
  When the encryption of the password fails, creating the account reports an error although the row
  exists: it stays in the table with the password in clear, and a later read of it returns that password.
\<close>
theorem failed_creation_leaves_clear_password:
  assumes "cr_Encryptor c = Some e" and "a_Password a \<noteq> []" and "\<not> F 0"
    and "int4 (a_IMAPPort a)" and "has_key t_ID (a_TenantID a) (tenants d)"
    and "Encrypt (cr_suite c) (rnd 0) e (a_Password a) (seqs d Accounts) = Inl er"
  shows "fst (CreateAccount c rnd F now a d) = Inl (EncryptErr er) \<and>
    (\<exists>r. accounts (snd (CreateAccount c rnd F now a d)) = accounts d @ [r] \<and>
       a_ID r = seqs d Accounts \<and> a_TenantID r = a_TenantID a \<and> a_Password r = a_Password a)"
  using assms by (simp add: CreateAccount_def stmt_def insert_account_def Let_def bump_def encryptPassword_def)

theorem failed_creation_leaves_clear_password_witness:
  "fst (CreateAccount sample_crypt (\<lambda>_. None) (\<lambda>_. False) 9 sample_account (sample_db ''skip'')) = Inl (EncryptErr NonceFailed) \<and>
   a_Password (last (accounts (snd (CreateAccount sample_crypt (\<lambda>_. None) (\<lambda>_. False) 9 sample_account (sample_db ''skip''))))) = ''pw''"
  using failed_creation_leaves_clear_password [of sample_crypt _ sample_account "\<lambda>_. False" "sample_db ''skip''" "\<lambda>_. None" NonceFailed 9]
  by (auto simp: sample_crypt_def sample_db_def sample_account_def sample_tenant_def sample_suite_def int4_def
      Encrypt_def deriveKey_def NewGCM_def)

end
