(* ===== verification/Tables.thy ===== *)
theory Tables
  imports Secrets
begin

text \<open>
  Properties of the data access layer as a whole: the invariant of every reachable database, the
  isolation of tenants, the order of rules after a reordering, and the laws of the settings and the
  metadata, which are stated once as the locales \<open>attribute\<close> and \<open>kv_store\<close>.
\<close>

subsection \<open>The database as a state machine\<close>

text \<open>One rule per statement of \<^verbatim>\<open>internal/db\<close> that writes, with every argument it can get.\<close>

inductive db_step :: "db \<Rightarrow> db \<Rightarrow> bool" where
  s_CreateTenant: "db_step d (snd (CreateTenant now t d))"
| s_AddExemptFolder: "db_step d (snd (AddExemptFolder U F now a f d))"
| s_SetExemptFolders: "db_step d (snd (SetExemptFolders now a fs d))"
| s_RemoveExemptFolder: "db_step d (snd (RemoveExemptFolder U F now a f d))"
| s_CreateAccount: "db_step d (snd (CreateAccount c rnd F now acc d))"
| s_UpdateAccount: "db_step d (snd (UpdateAccount c rnd now acc d))"
| s_DeleteAccount: "db_step d (snd (DeleteAccount tid i d))"
| s_OAuthTokens: "db_step d (snd (UpdateAccountOAuthTokens c rnd now i tok rtok ex d))"
| s_SyncTime: "db_step d (snd (UpdateAccountSyncTime now i d))"
| s_LastUID: "db_step d (snd (UpdateLastUIDProcessed now i u d))"
| s_ConnectionTest: "db_step d (snd (UpdateConnectionTestResult now i st er d))"
| s_CreateRule: "db_step d (snd (CreateRule now r d))"
| s_UpdateRule: "db_step d (snd (UpdateRule now r d))"
| s_DeleteRule: "db_step d (snd (DeleteRule tid i d))"
| s_ApproveRule: "db_step d (snd (ApproveRule now tid i d))"
| s_ReorderRules: "db_step d (snd (ReorderRules F now tid ids d))"
| s_BulkDeleteRules: "db_step d (snd (BulkDeleteRules F tid ids d))"
| s_LogExecution: "db_step d (snd (LogExecution now l d))"
| s_CreateDeferredAction: "db_step d (snd (CreateDeferredAction now da d))"
| s_MarkDeferredActionDone: "db_step d (snd (MarkDeferredActionDone now i er d))"
| s_CancelDeferredAction: "db_step d (snd (CancelDeferredAction tid i d))"
| s_MarkMessageProcessed: "db_step d (snd (MarkMessageProcessed now a mu ru ac d))"
| s_UpsertMessageLocation: "db_step d (snd (UpsertMessageLocation now loc d))"
| s_RecordDetectedMove: "db_step d (snd (RecordDetectedMove now mv d))"
| s_CleanLocations: "db_step d (snd (CleanOldMessageLocations now age d))"
| s_RecordRuleAppliedMove: "db_step d (snd (RecordRuleAppliedMove now ru a mid f d))"
| s_CleanApplied: "db_step d (snd (CleanOldRuleAppliedMoves now d))"
| s_Rotate: "db_step d (snd (RotateEncryptionKeys c rnd F now d))"
| s_AttachMetadata: "db_step d (snd (AttachMetadata now tid mid k v d))"
| s_UpdateMetadata: "db_step d (snd (UpdateMetadata now tid mid k v d))"
| s_RemoveMetadata: "db_step d (snd (RemoveMetadata tid mid k d))"
| s_BatchAttach: "db_step d (snd (BatchAttachMetadata F now tid mids k v d))"
| s_CreateUser: "db_step d (snd (CreateUser now us d))"
| s_UserPassword: "db_step d (snd (UpdateUserPassword now i h d))"
| s_UserTOTP: "db_step d (snd (UpdateUserTOTP now i sec en d))"
| s_UserRole: "db_step d (snd (UpdateUserRole now i ro d))"
| s_UserAI: "db_step d (snd (UpdateUserAIEnabled now i ai d))"
| s_CreatePasskey: "db_step d (snd (CreatePasskey now pk d))"
| s_SignCount: "db_step d (snd (UpdatePasskeySignCount now i n d))"
| s_DeletePasskey: "db_step d (snd (DeletePasskey i us_id d))"
| s_CreateAPIKey: "db_step d (snd (CreateAPIKey now key d))"
| s_UseAPIKey: "db_step d (snd (GetUserByAPIKeyHash F now h d))"
| s_DeleteAPIKey: "db_step d (snd (DeleteAPIKey i us_id d))"
| s_BlacklistToken: "db_step d (snd (BlacklistToken h t_exp d))"
| s_CleanTokens: "db_step d (snd (CleanExpiredTokens now d))"
| s_LoginAttempt: "db_step d (snd (RecordLoginAttempt now un ip su d))"
| s_AssignTenant: "db_step d (snd (AssignTenantToUser tid us_id d))"
| s_TenantForUser: "db_step d (snd (CreateTenantForUser now us_id un d))"

lemma db_step_inv: "db_step d d' \<Longrightarrow> db_inv d \<Longrightarrow> db_inv d'"
  by (induction rule: db_step.induct) (simp_all add: db_inv_intros)

lemma db_steps_inv: "db_step\<^sup>*\<^sup>* d d' \<Longrightarrow> db_inv d \<Longrightarrow> db_inv d'"
  by (induction rule: rtranclp_induct) (simp_all add: db_step_inv)

text \<open>
  C7. Every database that the service can reach from the empty one, by any sequence of the statements of
  the data access layer with any arguments and any failures, has unique keys, identifiers below its
  sequences, no dangling reference, and only deferred actions that are pending, executed, or failed
  with an error.
\<close>
theorem reachable_db_inv:
  assumes "db_step\<^sup>*\<^sup>* empty_db d"
  shows "keys_ok d \<and> seqs_ok d \<and> refs_ok d \<and> list_all status_ok (deferred d)"
  using db_steps_inv [OF assms db_inv_empty] by (simp add: db_inv_def)

theorem reachable_db_inv_witness:
  "refs_ok (snd (CreateRule 2 (sample_rule ''skip'') (snd (CreateTenant 1 sample_tenant empty_db))))"
proof -
  have "db_step\<^sup>*\<^sup>* empty_db (snd (CreateRule 2 (sample_rule ''skip'') (snd (CreateTenant 1 sample_tenant empty_db))))"
    by (rule rtranclp_trans [of _ _ "snd (CreateTenant 1 sample_tenant empty_db)"];
        rule r_into_rtranclp) (rule s_CreateTenant s_CreateRule)+
  from reachable_db_inv [OF this] show ?thesis by blast
qed

subsection \<open>Isolation of tenants\<close>

text \<open>The calls of the API that act for one tenant, and what another tenant sees of the tables.\<close>

inductive tenant_step :: "int \<Rightarrow> db \<Rightarrow> db \<Rightarrow> bool" for T where
  t_CreateAccount: "a_TenantID acc = T \<Longrightarrow> tenant_step T d (snd (CreateAccount c rnd F now acc d))"
| t_UpdateAccount: "a_TenantID acc = T \<Longrightarrow> tenant_step T d (snd (UpdateAccount c rnd now acc d))"
| t_DeleteAccount: "tenant_step T d (snd (DeleteAccount T i d))"
| t_CreateRule: "r_TenantID r = T \<Longrightarrow> tenant_step T d (snd (CreateRule now r d))"
| t_UpdateRule: "r_TenantID r = T \<Longrightarrow> tenant_step T d (snd (UpdateRule now r d))"
| t_DeleteRule: "tenant_step T d (snd (DeleteRule T i d))"
| t_ApproveRule: "tenant_step T d (snd (ApproveRule now T i d))"
| t_ReorderRules: "tenant_step T d (snd (ReorderRules F now T ids d))"
| t_BulkDeleteRules: "tenant_step T d (snd (BulkDeleteRules F T ids d))"
| t_CancelDeferredAction: "tenant_step T d (snd (CancelDeferredAction T i d))"
| t_AttachMetadata: "tenant_step T d (snd (AttachMetadata now T mid k v d))"
| t_UpdateMetadata: "tenant_step T d (snd (UpdateMetadata now T mid k v d))"
| t_RemoveMetadata: "tenant_step T d (snd (RemoveMetadata T mid k d))"
| t_BatchAttach: "tenant_step T d (snd (BatchAttachMetadata F now T mids k v d))"

lemma tenant_step_db_step: "tenant_step T d d' \<Longrightarrow> db_step d d'"
  by (induction rule: tenant_step.induct) (rule db_step.intros)+

definition tenant_view :: "int \<Rightarrow> db \<Rightarrow> account list \<times> rule list \<times> metadata_record list" where
  "tenant_view T d = (filter (\<lambda>a. a_TenantID a = T) (accounts d), filter (\<lambda>r. r_TenantID r = T) (rules d),
     filter (\<lambda>m. md_TenantID m = T) (metadata d))"

lemma view_bump [simp]: "tenant_view T (bump t d) = tenant_view T d"
  by (simp add: tenant_view_def bump_def)

lemma view_rollback [simp]: "tenant_view T (rollback d d') = tenant_view T d"
  by (simp add: tenant_view_def rollback_def)

lemma filter_filter_other:
  assumes "\<And>x. x \<in> set xs \<Longrightarrow> Q x \<Longrightarrow> P x"
  shows "filter Q (filter P xs) = filter Q xs"
  using assms by (induction xs) auto

lemma view_update_account:
  assumes "\<And>r. r \<in> set (accounts d) \<Longrightarrow> a_ID r = i \<Longrightarrow> a_TenantID r = T" and "\<And>r. a_TenantID (g r) = a_TenantID r" and "T' \<noteq> T"
  shows "tenant_view T' (snd (update_account i g d)) = tenant_view T' d"
proof -
  have "filter (\<lambda>a. a_TenantID a = T') (upd (\<lambda>a. a_ID a = i) g xs) = filter (\<lambda>a. a_TenantID a = T') xs"
    if "\<And>r. r \<in> set xs \<Longrightarrow> a_ID r = i \<Longrightarrow> a_TenantID r = T" for xs
    using that assms(2,3) by (induction xs) (auto simp: upd_def)
  with assms(1) show ?thesis by (simp add: tenant_view_def update_account_def)
qed

text \<open>\<open>kept T T' i d d'\<close>: what \<open>T'\<close> sees is the same, and the account \<open>i\<close>, if any, still belongs to \<open>T\<close>.\<close>

definition account_of :: "int \<Rightarrow> int \<Rightarrow> db \<Rightarrow> bool" where
  "account_of T i d \<longleftrightarrow> (\<forall>r \<in> set (accounts d). a_ID r = i \<longrightarrow> a_TenantID r = T)"

lemma update_account_kept:
  assumes "account_of T i d" and "T' \<noteq> T" and "\<And>r. a_ID (g r) = a_ID r" and "\<And>r. a_TenantID (g r) = a_TenantID r"
  shows "account_of T i (snd (stmt f (update_account i g) d)) \<and>
    tenant_view T' (snd (stmt f (update_account i g) d)) = tenant_view T' d"
  using assms view_update_account [of d i T g T']
  by (auto simp: account_of_def stmt_def) (auto simp: update_account_def set_upd split: if_splits)

lemma encrypt_column_kept:
  assumes "account_of T i d" and "T' \<noteq> T" and "\<And>v r. a_ID (s v r) = a_ID r" and "\<And>v r. a_TenantID (s v r) = a_TenantID r"
  shows "account_of T i (encrypt_column c f rnd tok i s d) \<and> tenant_view T' (encrypt_column c f rnd tok i s d) = tenant_view T' d"
  using assms update_account_kept [OF assms(1,2)] by (simp add: encrypt_column_def split: sum.split)

lemma CreateAccount_view:
  assumes "db_inv d" and "T' \<noteq> a_TenantID a"
  shows "tenant_view T' (snd (CreateAccount c rnd F now a d)) = tenant_view T' d"
proof (cases "stmt (F 0) (insert_account now a) d")
  case (Pair r d1)
  show ?thesis
  proof (cases r)
    case (Inl e)
    with Pair show ?thesis
      by (auto simp: CreateAccount_def stmt_def insert_account_def Let_def split: if_splits)
  next
    case (Inr a')
    let ?i = "a_ID a'"
    have fresh: "\<forall>r \<in> set (accounts d). a_ID r \<noteq> seqs d Accounts"
      using assms(1) by (auto simp: inv_defs below_iff)
    have d1: "account_of (a_TenantID a) ?i d1" "tenant_view T' d1 = tenant_view T' d"
      using Pair Inr assms(2) fresh
      by (auto simp: stmt_def insert_account_def Let_def account_of_def bump_def tenant_view_def
          split: if_splits)
    note col = encrypt_column_kept [OF _ assms(2)]
    define w where "w = (if cr_Encryptor c \<noteq> None \<and> a_Password a \<noteq> [] then
        (case encryptPassword c (rnd 0) (a_Password a) ?i of
           Inl e \<Rightarrow> (Inl (EncryptErr e), d1)
         | Inr enc \<Rightarrow> stmt (F 1) (update_account ?i (\<lambda>r. r\<lparr>a_Password := enc\<rparr>)) d1) else (Inr (), d1))"
    have w: "account_of (a_TenantID a) ?i (snd w)" "tenant_view T' (snd w) = tenant_view T' d"
      unfolding w_def using d1 update_account_kept [OF d1(1) assms(2)] by (simp_all split: sum.split)
    have "snd (CreateAccount c rnd F now a d) = snd w \<or>
        snd (CreateAccount c rnd F now a d) = encrypt_column c (F 3) (rnd 2) (a_OAuthRefreshToken a) ?i
          (\<lambda>v r. r\<lparr>a_OAuthRefreshToken := v\<rparr>) (encrypt_column c (F 2) (rnd 1) (a_OAuthToken a) ?i
          (\<lambda>v r. r\<lparr>a_OAuthToken := v\<rparr>) (snd w))"
      unfolding CreateAccount_def Pair Inr prod.case sum.case w_def [symmetric]
      by (cases w) (auto simp: Let_def split: sum.split)
    then show ?thesis using w col by fastforce
  qed
qed

lemma drop_rule_view:
  assumes "db_inv d" and "list_ex (\<lambda>r. r_ID r = i \<and> r_TenantID r = T) (rules d)" and "T' \<noteq> T"
  shows "tenant_view T' (drop_rule i d) = tenant_view T' d"
proof -
  have "filter (\<lambda>r. r_TenantID r = T') (filter (\<lambda>r. r_ID r \<noteq> i) (rules d)) = filter (\<lambda>r. r_TenantID r = T') (rules d)"
    using assms by (intro filter_filter_other)
      (auto simp: inv_defs uniq_def distinct_map list_ex_iff dest: inj_onD)
  then show ?thesis by (simp add: tenant_view_def drop_rule_def)
qed

lemma delete_rule_view: "db_inv d \<Longrightarrow> T' \<noteq> T \<Longrightarrow> tenant_view T' (snd (delete_rule T i d)) = tenant_view T' d"
  using rows_affected_pos [of "\<lambda>r. r_ID r = i \<and> r_TenantID r = T" "rules d"]
  by (auto simp: delete_rule_def Let_def list_ex_iff intro!: drop_rule_view)

lemma upd_rules_view:
  assumes "\<And>r. P r \<Longrightarrow> r_TenantID r = T" and "\<And>r. r_TenantID (g r) = r_TenantID r" and "T' \<noteq> T"
  shows "tenant_view T' (d\<lparr>rules := upd P g (rules d)\<rparr>) = tenant_view T' d"
  using assms by (auto simp: tenant_view_def intro!: filter_upd_other)

lemma reorder_loop_view: "T' \<noteq> T \<Longrightarrow> tenant_view T' (snd (reorder_loop F now T i ids d)) = tenant_view T' d"
proof (induction F now T i ids d rule: reorder_loop.induct)
  case (2 F now T i ident ids d)
  have "tenant_view T' (d\<lparr>rules := upd (\<lambda>r. r_ID r = ident \<and> r_TenantID r = T)
      (\<lambda>r. r\<lparr>r_Priority := p, r_UpdatedAt := now\<rparr>) (rules d)\<rparr>) = tenant_view T' d" for p
    using 2(2) by (intro upd_rules_view) auto
  with 2 show ?case by (simp add: Let_def)
qed simp

lemma bulk_delete_loop_view:
  "db_inv d \<Longrightarrow> T' \<noteq> T \<Longrightarrow> tenant_view T' (snd (bulk_delete_loop F T i ids n d)) = tenant_view T' d"
proof (induction ids arbitrary: i n d)
  case (Cons x ids)
  obtain m d' where m: "delete_rule T x d = (m, d')" by fastforce
  with Cons.prems have "db_inv d'" "tenant_view T' d' = tenant_view T' d"
    using delete_rule_inv [of d T x] delete_rule_view [of d T' T x] by simp_all
  with Cons m show ?case by simp
qed simp

lemma AttachMetadata_view: "T' \<noteq> T \<Longrightarrow> tenant_view T' (snd (AttachMetadata now T m k v d)) = tenant_view T' d"
  by (auto simp: AttachMetadata_def Let_def tenant_view_def bump_def split: option.split intro!: filter_upd_other)

lemma batch_attach_loop_view:
  "T' \<noteq> T \<Longrightarrow> tenant_view T' (snd (batch_attach_loop F now T k v i ms rs d)) = tenant_view T' d"
proof (induction ms arbitrary: i rs d)
  case (Cons m ms)
  obtain r d' where s: "stmt (F (i + 1)) (AttachMetadata now T m k v) d = (r, d')" by fastforce
  with Cons.prems have "tenant_view T' d' = tenant_view T' d"
    using AttachMetadata_view [of T' T now m k v d] by (auto simp: stmt_def split: if_splits)
  with Cons s show ?case by (cases r) simp_all
qed simp

lemma tenant_step_view:
  assumes "tenant_step T d d'" and "db_inv d" and "T' \<noteq> T"
  shows "tenant_view T' d' = tenant_view T' d"
  using assms
proof (induction rule: tenant_step.induct)
  case (t_UpdateAccount acc d c rnd now)
  then show ?case by (auto simp: UpdateAccount_def Let_def tenant_view_def intro!: filter_upd_other)
next
  case (t_DeleteAccount d i)
  have "filter (\<lambda>a. a_TenantID a = T') (filter (\<lambda>a. a_ID a \<noteq> i) (accounts d)) = filter (\<lambda>a. a_TenantID a = T') (accounts d)"
    if "list_ex (\<lambda>a. a_ID a = i \<and> a_TenantID a = T) (accounts d)"
    using t_DeleteAccount that by (intro filter_filter_other)
      (auto simp: inv_defs uniq_def distinct_map list_ex_iff dest: inj_onD)
  then show ?case by (simp add: DeleteAccount_def tenant_view_def)
next
  case (t_CreateRule r d now)
  then show ?case by (auto simp: CreateRule_def insert_rule_def Let_def tenant_view_def bump_def)
next
  case (t_ReorderRules d F now ids)
  then show ?case
    using reorder_loop_view [of T' T F now 0 ids d] by (auto simp: ReorderRules_def split: prod.split sum.split)
next
  case (t_BulkDeleteRules d F ids)
  then show ?case
    using bulk_delete_loop_view [of d T' T F 0 ids 0] by (auto simp: BulkDeleteRules_def split: prod.split sum.split)
next
  case (t_UpdateMetadata d now mid k v)
  then show ?case
    by (auto simp: UpdateMetadata_def tenant_view_def split: option.split intro!: filter_upd_other)
next
  case (t_RemoveMetadata d mid k)
  then show ?case
    by (auto simp: RemoveMetadata_def Let_def tenant_view_def simp del: filter_filter intro!: filter_filter_other)
next
  case (t_BatchAttach d F now mids k v)
  then show ?case
    using batch_attach_loop_view [of T' T F now k v 0 mids "[]" d]
    by (auto simp: BatchAttachMetadata_def split: prod.split sum.split)
next
  case (t_CancelDeferredAction d i)
  then show ?case by (simp add: CancelDeferredAction_def Let_def tenant_view_def)
qed (auto simp: CreateAccount_view UpdateRule_def DeleteRule_def ApproveRule_def delete_rule_view AttachMetadata_view
    intro!: upd_rules_view)

lemma tenant_steps_view:
  assumes "(tenant_step T)\<^sup>*\<^sup>* d d'" and "db_inv d" and "T' \<noteq> T"
  shows "tenant_view T' d' = tenant_view T' d \<and> db_inv d'"
  using assms
  by (induction rule: rtranclp_induct) (auto simp: tenant_step_view intro: db_step_inv tenant_step_db_step)

lemma find_filter_conj: "find (\<lambda>x. P x \<and> Q x) xs = find P (filter Q xs)"
  by (induction xs) auto



subsection \<open>Reordering rules\<close>

text \<open>The row that a successful reordering leaves: a rule of the tenant at position \<open>k\<close> gets priority \<open>(k + 1) * 10\<close>.\<close>

definition reordered :: "time \<Rightarrow> int \<Rightarrow> nat \<Rightarrow> int list \<Rightarrow> rule \<Rightarrow> rule" where
  "reordered now T i ids r =
     (if r_TenantID r \<noteq> T then r
      else case map_of (zip ids [i..<i + length ids]) (r_ID r) of
        None \<Rightarrow> r | Some k \<Rightarrow> r\<lparr>r_Priority := (int k + 1) * 10, r_UpdatedAt := now\<rparr>)"

lemma reordered_keys [simp]: "r_ID (reordered now T i ids r) = r_ID r" "r_TenantID (reordered now T i ids r) = r_TenantID r"
  by (simp_all add: reordered_def split: option.split)

lemma reordered_Cons:
  assumes "distinct (x # ids)"
  shows "reordered now T i (x # ids) r = reordered now T (Suc i) ids
    (if r_ID r = x \<and> r_TenantID r = T then r\<lparr>r_Priority := (int i + 1) * 10, r_UpdatedAt := now\<rparr> else r)"
proof -
  have up: "[i..<i + length (x # ids)] = i # [Suc i..<Suc i + length ids]" by (subst upt_conv_Cons) simp_all
  have "map_of (zip ids [Suc i..<Suc i + length ids]) x = None"
    using assms by (auto simp: map_of_eq_None_iff dest: set_zip_leftD)
  then show ?thesis unfolding reordered_def up by simp
qed

lemma reorder_loop_rules:
  assumes "fst (reorder_loop F now T i ids d) = Inr ()" and "distinct ids"
  shows "rules (snd (reorder_loop F now T i ids d)) = map (reordered now T i ids) (rules d)"
  using assms
proof (induction F now T i ids d rule: reorder_loop.induct)
  case (1 F now T i d)
  have "reordered now T i [] r = r" for r by (simp add: reordered_def)
  then show ?case by (simp add: map_idI)
next
  case (2 F now T i x ids d)
  then show ?case
    by (auto simp: Let_def upd_def reordered_Cons split: if_splits)
qed

lemma reordered_priority:
  assumes "distinct ids" and "k < length ids" and "r_ID r = ids ! k" and "r_TenantID r = T"
  shows "r_Priority (reordered now T 0 ids r) = (int k + 1) * 10"
proof -
  have "map_of (zip ids [0..<length ids]) (ids ! k) = Some ([0..<length ids] ! k)"
    using assms(1,2) by (intro map_of_zip_nth) simp_all
  with assms show ?thesis by (simp add: reordered_def)
qed

lemma ReorderRules_Inr:
  assumes "ReorderRules F now T ids d = (Inr (), d')" and "distinct ids"
  shows "rules d' = map (reordered now T 0 ids) (rules d)"
proof -
  have "reorder_loop F now T 0 ids d = (Inr (), d')"
    using assms(1) by (auto simp: ReorderRules_def split: if_splits prod.splits sum.splits)
  with assms(2) reorder_loop_rules [of F now T 0 ids d] show ?thesis by simp
qed

text \<open>Rows whose sort key grows along a list of their identifiers are sorted in the order of that list.\<close>

lemma sort_key_positions:
  fixes f :: "'r \<Rightarrow> 'k" and key :: "'r \<Rightarrow> 'o::linorder"
  assumes u: "distinct (map f rs)" and dis: "distinct ids" and ids: "set ids = f ` set rs" and inj: "inj_on key (set rs)"
    and mono: "\<And>r s i j. r \<in> set rs \<Longrightarrow> s \<in> set rs \<Longrightarrow> i < j \<Longrightarrow> j < length ids \<Longrightarrow>
      f r = ids ! i \<Longrightarrow> f s = ids ! j \<Longrightarrow> key r \<le> key s"
  shows "map f (sort_key key rs) = ids"
proof -
  define g where "g = (\<lambda>k. the (find (\<lambda>r. f r = k) rs))"
  have gf: "g (f r) = r" if "r \<in> set rs" for r
    using u that by (simp add: g_def find_uniq uniq_def)
  then have g: "g k \<in> set rs \<and> f (g k) = k" if "k \<in> set ids" for k
    using that ids by auto
  have "sorted (map key (map g ids))"
    unfolding sorted_iff_nth_mono_less using g mono by simp
  moreover have "set (map g ids) = set rs"
    using g gf ids by (auto simp: image_image)
  moreover have "distinct (map g ids)"
    using dis g by (auto simp: distinct_map inj_on_def) metis
  ultimately have "sort_key key rs = map g ids"
    using u inj by (intro map_sorted_distinct_set_unique [where f = key])
      (auto simp: distinct_map intro: comp_inj_on)
  with g show ?thesis by (simp add: map_idI)
qed

text \<open>
  When a tenant reorders all its rules and the call succeeds, its rules are listed, and therefore
  evaluated, exactly in the order that was given.
\<close>
theorem reorder_sets_order:
  assumes "db_inv d" and ok: "ReorderRules F now T ids d = (Inr (), d')" and dis: "distinct ids"
    and all: "set ids = r_ID ` set (ListRules T d)"
  shows "map r_ID (ListRules T d') = ids"
  unfolding ListRules_def
proof (rule sort_key_positions)
  let ?rs = "filter (\<lambda>r. r_TenantID r = T) (rules d')"
  have rs: "?rs = map (reordered now T 0 ids) (filter (\<lambda>r. r_TenantID r = T) (rules d))"
    using ReorderRules_Inr [OF ok dis] by (simp add: filter_map comp_def)
  show u: "distinct (map r_ID ?rs)"
    using \<open>db_inv d\<close> unfolding rs by (simp add: inv_defs uniq_def comp_def distinct_map_filter)
  show "set ids = r_ID ` set ?rs"
    using all unfolding rs by (simp add: ListRules_def image_image)
  show "inj_on rule_order (set ?rs)"
    using u by (auto simp: rule_order_def distinct_map inj_on_def)
  show "rule_order r \<le> rule_order s" if "r \<in> set ?rs" "s \<in> set ?rs" "i < j" "j < length ids"
    "r_ID r = ids ! i" "r_ID s = ids ! j" for r s i j
  proof -
    from that(1,2) obtain r' s' where "r = reordered now T 0 ids r'" "r_TenantID r' = T"
      "s = reordered now T 0 ids s'" "r_TenantID s' = T"
      unfolding rs by auto
    with that(3-6) have "r_Priority r = (int i + 1) * 10" "r_Priority s = (int j + 1) * 10"
      using reordered_priority [OF dis, of i] reordered_priority [OF dis, of j] by auto
    with \<open>i < j\<close> show ?thesis by (simp add: rule_order_def)
  qed
qed (rule dis)

definition two_rules_db :: db where
  "two_rules_db = (sample_db ''skip'')\<lparr>rules := [sample_rule ''skip'', (sample_rule ''move'')\<lparr>r_ID := 2\<rparr>],
     seqs := (\<lambda>_. 3)\<rparr>"

theorem reorder_sets_order_witness:
  "map r_ID (ListRules 1 (snd (ReorderRules (\<lambda>_. False) 9 1 [2, 1] two_rules_db))) = [2, 1]"
  by (rule reorder_sets_order [where d = two_rules_db and F = "\<lambda>_. False" and now = 9])
    (simp_all add: two_rules_db_def sample_defs inv_defs uniq_def below_def refs_def orefs_def
      ReorderRules_def Let_def int4_def rows_affected_def ListRules_def rule_order_def upd_def insert_commute)

subsection \<open>Settings and metadata\<close>

text \<open>
  \<open>attribute\<close>: a value per key that is written and read back. \<open>ok s k v\<close> says that the statement can
  store \<open>v\<close> under \<open>k\<close> (the row exists, the text fits the column). \<open>kv_store\<close> adds removal.
\<close>

locale attribute =
  fixes ok :: "'s \<Rightarrow> 'k \<Rightarrow> 'v \<Rightarrow> bool" and look :: "'s \<Rightarrow> 'k \<Rightarrow> 'v option" and put :: "'k \<Rightarrow> 'v \<Rightarrow> 's \<Rightarrow> 's"
  assumes look_put: "ok s k v \<Longrightarrow> look (put k v s) k' = (if k' = k then Some v else look s k')"
    and ok_put: "ok (put k v s) k' v' = ok s k' v'"
begin

text \<open>What remains of a sequence of writes is the last value of each key.\<close>

lemma look_puts:
  assumes "\<forall>(k, v) \<in> set kvs. ok s k v"
  shows "look (fold (\<lambda>(k, v). put k v) kvs s) k' = (case map_of (rev kvs) k' of None \<Rightarrow> look s k' | Some v \<Rightarrow> Some v)"
  using assms
proof (induction kvs arbitrary: s)
  case (Cons kv kvs)
  obtain k v where kv: "kv = (k, v)" by fastforce
  with Cons show ?case by (simp add: ok_put look_put map_add_def split: option.split)
qed simp

end

locale kv_store = attribute ok look put
  for ok :: "'s \<Rightarrow> 'k \<Rightarrow> 'v \<Rightarrow> bool" and look :: "'s \<Rightarrow> 'k \<Rightarrow> 'v option" and put :: "'k \<Rightarrow> 'v \<Rightarrow> 's \<Rightarrow> 's" +
  fixes del :: "'k \<Rightarrow> 's \<Rightarrow> 's"
  assumes look_del: "look (del k s) k' = (if k' = k then None else look s k')"
    and ok_del: "ok (del k s) k' v' = ok s k' v'"
begin

text \<open>A sequence of writes and removals: \<open>(k, None)\<close> removes \<open>k\<close>. The last entry of a key decides.\<close>

definition act :: "'k \<times> 'v option \<Rightarrow> 's \<Rightarrow> 's" where
  "act c s = (case c of (k, Some v) \<Rightarrow> put k v s | (k, None) \<Rightarrow> del k s)"

lemma look_acts:
  assumes "\<forall>k v. (k, Some v) \<in> set cs \<longrightarrow> ok s k v"
  shows "look (fold act cs s) k' = (case map_of (rev cs) k' of None \<Rightarrow> look s k' | Some r \<Rightarrow> r)"
  using assms
proof (induction cs arbitrary: s)
  case (Cons c cs)
  obtain k r where c: "c = (k, r)" by fastforce
  have "\<forall>k v. (k, Some v) \<in> set cs \<longrightarrow> ok (act c s) k v"
    using Cons.prems by (auto simp: c act_def ok_put ok_del split: option.split)
  with Cons.IH [of "act c s"] Cons.prems show ?case
    by (auto simp: c act_def look_put look_del map_add_def split: option.splits)
qed simp

end

definition md_look :: "db \<Rightarrow> int \<times> string \<times> string \<Rightarrow> (time \<times> string) option" where
  "md_look d k = map_option (\<lambda>m. (md_UpdatedAt m, md_Value m)) (find (\<lambda>m. md_key m = k) (metadata d))"

definition md_put :: "int \<times> string \<times> string \<Rightarrow> time \<times> string \<Rightarrow> db \<Rightarrow> db" where
  "md_put k v d = snd (AttachMetadata (fst v) (fst k) (fst (snd k)) (snd (snd k)) (snd v) d)"

definition md_del :: "int \<times> string \<times> string \<Rightarrow> db \<Rightarrow> db" where
  "md_del k d = snd (RemoveMetadata (fst k) (fst (snd k)) (snd (snd k)) d)"

definition md_ok :: "db \<Rightarrow> int \<times> string \<times> string \<Rightarrow> time \<times> string \<Rightarrow> bool" where
  "md_ok d k v \<longleftrightarrow> char_length (snd (snd k)) \<le> 255 \<and> has_key t_ID (fst k) (tenants d)"

lemma find_upd_key:
  assumes "\<And>r. f (g r) = f r"
  shows "find (\<lambda>r. f r = k) (upd (\<lambda>r. f r = k') g t) = (if k = k' then map_option g (find (\<lambda>r. f r = k) t) else find (\<lambda>r. f r = k) t)"
  using assms by (induction t) (auto simp: upd_def)

lemma find_append: "find P (xs @ ys) = (case find P xs of None \<Rightarrow> find P ys | Some x \<Rightarrow> Some x)"
  by (induction xs) simp_all

lemma find_filter_key: "find (\<lambda>r. f r = k) (filter (\<lambda>r. \<not> f r = k') t) = (if k = k' then None else find (\<lambda>r. f r = k) t)"
  by (induction t) (auto split: if_splits)

lemma md_look_put:
  assumes "md_ok d k v"
  shows "md_look (md_put k v d) k' = (if k' = k then Some v else md_look d k')"
proof (cases "find (\<lambda>x. md_key x = k) (metadata d)")
  case None
  with assms show ?thesis
    by (auto simp: md_ok_def md_put_def md_look_def AttachMetadata_def Let_def bump_def find_append
        simp del: prod.inject split: option.split)
next
  case (Some m)
  with assms show ?thesis
    by (simp add: md_ok_def md_put_def md_look_def AttachMetadata_def Let_def bump_def
        find_upd_key [where f = md_key] option.map_comp comp_def del: prod.inject)
qed

lemma md_look_del: "md_look (md_del k d) k' = (if k' = k then None else md_look d k')"
proof -
  obtain t m key where k: "k = (t, m, key)" by (cases k) auto
  show ?thesis
  proof (cases "rows_affected (\<lambda>x. md_key x = k) (metadata d) = 0")
    case True
    then have "find (\<lambda>x. md_key x = k) (metadata d) = None"
      by (auto simp: rows_affected_def filter_empty_conv find_None_iff)
    with True show ?thesis by (auto simp: k md_look_def md_del_def RemoveMetadata_def Let_def)
  next
    case False
    then show ?thesis
      using find_filter_key [of md_key k' k "metadata d"]
      by (simp add: k md_look_def md_del_def RemoveMetadata_def Let_def)
  qed
qed

lemma md_tenants: "tenants (md_put k v d) = tenants d" "tenants (md_del k d) = tenants d"
  by (simp_all add: md_put_def md_del_def AttachMetadata_def RemoveMetadata_def Let_def bump_def split: option.split)

interpretation md: kv_store md_ok md_look md_put md_del
  by unfold_locales (simp_all add: md_look_put md_look_del, simp_all add: md_ok_def md_tenants)

text \<open>A sequence of calls: \<open>(k, Some (now, v))\<close> attaches \<open>v\<close> at \<open>now\<close>, \<open>(k, None)\<close> removes.\<close>

fun md_run :: "((int \<times> string \<times> string) \<times> (time \<times> string) option) list \<Rightarrow> db \<Rightarrow> db" where
  "md_run [] d = d"
| "md_run (((t, m, k), Some (now, v)) # cs) d = md_run cs (snd (AttachMetadata now t m k v d))"
| "md_run (((t, m, k), None) # cs) d = md_run cs (snd (RemoveMetadata t m k d))"

lemma md_run_fold: "md_run cs d = fold md.act cs d"
proof -
  have "md.act ((t, m, k), Some (now, v)) d = snd (AttachMetadata now t m k v d)"
    "md.act ((t, m, k), None) d = snd (RemoveMetadata t m k d)" for t m k now v d
    by (simp_all add: md.act_def md_put_def md_del_def)
  then show ?thesis by (induction cs d rule: md_run.induct) simp_all
qed

lemma md_run_inv: "db_inv d \<Longrightarrow> db_inv (md_run cs d)"
  by (induction cs d rule: md_run.induct) (simp_all add: db_inv_intros)

lemma find_key_iff: "uniq f t \<Longrightarrow> find (\<lambda>r. f r = k) t = Some r \<longleftrightarrow> r \<in> set t \<and> f r = k"
  using find_uniq [of f t r] find_Some_mem [of "\<lambda>r. f r = k" t r] by auto

lemma option_eqI: "(\<And>v. a = Some v \<longleftrightarrow> b = Some v) \<Longrightarrow> a = b"
  by (cases a; cases b) auto

lemma find_has_key: "has_key f k t \<Longrightarrow> \<exists>r. find (\<lambda>r. f r = k) t = Some r"
  by (induction t) auto

lemma GetMetadata_look:
  assumes "db_inv d"
  shows "map_of (map (\<lambda>r. (md_Key r, (md_UpdatedAt r, md_Value r))) (GetMetadataForMessage coll t m d)) k = md_look d (t, m, k)"
proof -
  let ?h = "\<lambda>r. (md_Key r, (md_UpdatedAt r, md_Value r))"
  let ?ms = "filter (\<lambda>r. md_TenantID r = t \<and> md_MessageID r = m) (metadata d)"
  have u: "uniq md_key (metadata d)" using assms by (simp add: inv_defs)
  then have "inj_on md_Key (set ?ms)" and "distinct ?ms"
    by (auto simp: uniq_def distinct_map inj_on_def)
  then have dis: "distinct (map fst (map ?h (GetMetadataForMessage coll t m d)))"
    by (simp add: GetMetadataForMessage_def comp_def distinct_map)
  have "map_of (map ?h (GetMetadataForMessage coll t m d)) k = Some v \<longleftrightarrow> md_look d (t, m, k) = Some v" for v
    unfolding map_of_eq_Some_iff [OF dis] md_look_def map_option_eq_Some find_key_iff [OF u]
    by (auto simp: GetMetadataForMessage_def)
  then show ?thesis by (rule option_eqI)
qed

text \<open>
  After any sequence of attachments and removals, the metadata of a message is read back as its last
  change left it: the value (with its time) of the last attachment under that tenant, message and key,
  nothing when the last change was a removal, and the old value when none of them named that key.
\<close>
theorem metadata_last_change:
  assumes "db_inv d" and "\<forall>t m k v. ((t, m, k), Some v) \<in> set cs \<longrightarrow> char_length k \<le> 255 \<and> has_key t_ID t (tenants d)"
  shows "map_of (map (\<lambda>r. (md_Key r, (md_UpdatedAt r, md_Value r))) (GetMetadataForMessage coll t m (md_run cs d))) k
    = (case map_of (rev cs) (t, m, k) of
         None \<Rightarrow> map_of (map (\<lambda>r. (md_Key r, (md_UpdatedAt r, md_Value r))) (GetMetadataForMessage coll t m d)) k
       | Some r \<Rightarrow> r)"
proof -
  have "\<forall>k v. (k, Some v) \<in> set cs \<longrightarrow> md_ok d k v" using assms(2) by (auto simp: md_ok_def)
  from md.look_acts [OF this, of "(t, m, k)"] show ?thesis
    unfolding GetMetadata_look [OF md_run_inv [OF assms(1)]] unfolding GetMetadata_look [OF assms(1)] md_run_fold .
qed

theorem metadata_last_change_witness:
  "map_of (map (\<lambda>r. (md_Key r, (md_UpdatedAt r, md_Value r))) (GetMetadataForMessage (map byte) 1 ''<1@x>''
     (md_run [((1, ''<1@x>'', ''k''), Some (3, ''a'')), ((1, ''<1@x>'', ''j''), None), ((1, ''<1@x>'', ''k''), Some (4, ''b''))]
       (sample_db ''skip'')))) ''k'' = Some (4, ''b'')"
  using metadata_last_change [OF sample_db_inv, of "[((1, ''<1@x>'', ''k''), Some (3, ''a'')), ((1, ''<1@x>'', ''j''), None), ((1, ''<1@x>'', ''k''), Some (4, ''b''))]"
    "''skip''" "map byte" 1 "''<1@x>''" "''k''"]
  by (auto simp: sample_db_def sample_tenant_def char_length_def)

subsection \<open>Exempt folders\<close>

interpretation exempt: attribute "\<lambda>d i v. has_key a_ID i (accounts d)"
  "\<lambda>d i. map_option a_ExemptFolders (find (\<lambda>a. a_ID a = i) (accounts d))" "\<lambda>i fs d. snd (SetExemptFolders now i fs d)" for now
proof
  show "map_option a_ExemptFolders (find (\<lambda>a. a_ID a = k') (accounts (snd (SetExemptFolders now k v s))))
      = (if k' = k then Some v else map_option a_ExemptFolders (find (\<lambda>a. a_ID a = k') (accounts s)))"
    if "has_key a_ID k (accounts s)" for k k' v s
    using find_has_key [OF that] by (auto simp: SetExemptFolders_def find_upd_key [where f = a_ID])
  show "has_key a_ID k' (accounts (snd (SetExemptFolders now k v s))) = has_key a_ID k' (accounts s)" for k k' v s
    by (simp add: SetExemptFolders_def has_key_iff image_upd)
qed

lemma GetExemptFolders_look:
  "GetExemptFolders i d = (case map_option a_ExemptFolders (find (\<lambda>a. a_ID a = i) (accounts d)) of None \<Rightarrow> Inl NoRows | Some fs \<Rightarrow> Inr fs)"
  by (simp add: GetExemptFolders_def get_row_def split: option.split)

lemma GetExemptFolders_ok: "GetExemptFolders i d = Inr fs \<Longrightarrow> has_key a_ID i (accounts d)"
  by (auto simp: GetExemptFolders_def get_row_def has_key_iff dest!: find_Some_mem split: option.splits)

lemma GetExemptFolders_Set:
  assumes "GetExemptFolders i d = Inr fs"
  shows "GetExemptFolders i (snd (SetExemptFolders now i gs d)) = Inr gs"
  using exempt.look_put [of i d, OF GetExemptFolders_ok [OF assms]] by (simp add: GetExemptFolders_look)

text \<open>
  The exempt folders of an account behave as a set up to case folding: after a successful addition
  the folder is exempt, after a successful removal it is not, and the result that is returned is the
  list that is stored. Adding what is already exempt changes nothing, and removing what is not is an
  error that changes nothing.
\<close>
theorem exempt_folder_set:
  assumes "\<And>f. EqualFold U f f"
  shows "(AddExemptFolder U F now i f d = (Inr fs, d') \<longrightarrow>
      IsFolderExempt U i f d' = Inr True \<and> GetExemptFolders i d' = Inr fs \<and>
      (IsFolderExempt U i f d = Inr True \<longrightarrow> d' = d)) \<and>
    (RemoveExemptFolder U F now i f d = (Inr fs, d') \<longrightarrow>
      IsFolderExempt U i f d' = Inr False \<and> GetExemptFolders i d' = Inr fs) \<and>
    (\<not> F 0 \<and> IsFolderExempt U i f d = Inr False \<longrightarrow>
      RemoveExemptFolder U F now i f d = (Inl (FolderNotExempt f), d))"
proof (cases "GetExemptFolders i d")
  case (Inl e)
  then show ?thesis by (auto simp: AddExemptFolder_def RemoveExemptFolder_def IsFolderExempt_def query_def)
next
  case (Inr gs)
  have same: "length (filter (\<lambda>g. \<not> EqualFold U g f) gs) = length gs \<longleftrightarrow> \<not> list_ex (\<lambda>g. EqualFold U g f) gs"
    using length_filter_less [of _ gs "\<lambda>g. \<not> EqualFold U g f"] by (auto simp: list_ex_iff)
  note Set = GetExemptFolders_Set [OF Inr, of now]
  have add: "IsFolderExempt U i f d' = Inr True \<and> GetExemptFolders i d' = Inr fs \<and>
      (IsFolderExempt U i f d = Inr True \<longrightarrow> d' = d)" if "AddExemptFolder U F now i f d = (Inr fs, d')"
    using that Inr assms Set [of "gs @ [f]"]
    by (auto simp: AddExemptFolder_def IsFolderExempt_def query_def stmt_def split: if_splits prod.splits sum.splits)
  have del: "IsFolderExempt U i f d' = Inr False \<and> GetExemptFolders i d' = Inr fs"
    if "RemoveExemptFolder U F now i f d = (Inr fs, d')"
    using that Inr Set [of "filter (\<lambda>g. \<not> EqualFold U g f) gs"]
    by (auto simp: RemoveExemptFolder_def IsFolderExempt_def query_def stmt_def Let_def list_ex_iff
        split: if_splits prod.splits sum.splits)
  have "RemoveExemptFolder U F now i f d = (Inl (FolderNotExempt f), d)" if "\<not> F 0" "IsFolderExempt U i f d = Inr False"
    using that Inr same by (simp add: RemoveExemptFolder_def IsFolderExempt_def query_def Let_def)
  with add del show ?thesis by blast
qed

theorem exempt_folder_set_witness:
  "IsFolderExempt sample_unicode 1 ''Work'' (snd (AddExemptFolder sample_unicode (\<lambda>_. False) 5 1 ''Work'' (sample_db ''skip''))) = Inr True"
  using exempt_folder_set [of sample_unicode "\<lambda>_. False" 5 1 "''Work''" "sample_db ''skip''" "[''Work'']"
      "snd (AddExemptFolder sample_unicode (\<lambda>_. False) 5 1 ''Work'' (sample_db ''skip''))"]
  by (simp add: sample_defs EqualFold_def AddExemptFolder_def query_def stmt_def GetExemptFolders_def get_row_def
      SetExemptFolders_def upd_def)

end
