(* ===== verification/Workers.thy ===== *)
theory Workers
  imports OAuth Tables
begin

text \<open>
  The pools of workers, one worker per active account: \<^verbatim>\<open>refreshWorkers\<close> of
  \<^verbatim>\<open>internal/imaplistener/listener.go\<close>, \<^verbatim>\<open>internal/movedetect/movedetect.go\<close> and
  \<^verbatim>\<open>internal/imap/worker.go\<close>; and how a worker connects, with the refresh of OAuth2 tokens. A pool
  has the account each worker was started with, and the log of the workers started and stopped.
  The workers are an association list: its order is the iteration order of the Go map.
\<close>

subsection \<open>Pools\<close>

datatype pool_event = Started int | Stopped int

record pool =
  po_workers :: "(int \<times> account) list"
  po_log :: "pool_event list"

definition empty_pool :: pool where "empty_pool = \<lparr>po_workers = [], po_log = []\<rparr>"

definition start_worker :: "account \<Rightarrow> pool \<Rightarrow> pool" where
  "start_worker acc p = p\<lparr>po_workers := AList.update (a_ID acc) acc (po_workers p), po_log := po_log p @ [Started (a_ID acc)]\<rparr>"

definition stop_worker :: "int \<Rightarrow> pool \<Rightarrow> pool" where
  "stop_worker i p = p\<lparr>po_workers := AList.delete i (po_workers p), po_log := po_log p @ [Stopped i]\<rparr>"

definition credentialsChanged :: "account \<Rightarrow> account \<Rightarrow> bool" where
  "credentialsChanged cached fresh =
     (if a_Password cached \<noteq> a_Password fresh then True
      else if a_OAuthRefreshToken cached \<noteq> a_OAuthRefreshToken fresh then True
      else if a_Username cached \<noteq> a_Username fresh then True
      else if a_IMAPHost cached \<noteq> a_IMAPHost fresh \<or> a_IMAPPort cached \<noteq> a_IMAPPort fresh then True
      else False)"

definition moveCredentialsChanged :: "account \<Rightarrow> account \<Rightarrow> bool" where
  "moveCredentialsChanged cached fresh =
     (if a_Password cached \<noteq> a_Password fresh then True
      else if a_OAuthRefreshToken cached \<noteq> a_OAuthRefreshToken fresh then True
      else if a_Username cached \<noteq> a_Username fresh then True
      else if a_IMAPHost cached \<noteq> a_IMAPHost fresh \<or> a_IMAPPort cached \<noteq> a_IMAPPort fresh then True
      else False)"

definition idle_refresh_account :: "account \<Rightarrow> pool \<Rightarrow> pool" where
  "idle_refresh_account acc p =
     (case map_of (po_workers p) (a_ID acc) of
        Some w \<Rightarrow> if credentialsChanged w acc then start_worker acc (stop_worker (a_ID acc) p) else p
      | None \<Rightarrow> start_worker acc p)"

definition move_refresh_account :: "account \<Rightarrow> pool \<Rightarrow> pool" where
  "move_refresh_account acc p =
     (case map_of (po_workers p) (a_ID acc) of
        Some w \<Rightarrow> if moveCredentialsChanged w acc then start_worker acc (stop_worker (a_ID acc) p) else p
      | None \<Rightarrow> start_worker acc p)"

definition pool_refresh_account :: "account \<Rightarrow> pool \<Rightarrow> pool" where
  "pool_refresh_account acc p = (if map_of (po_workers p) (a_ID acc) = None then start_worker acc p else p)"

text \<open>The second loop: workers of accounts that are not active are stopped.\<close>

definition drop_inactive :: "account list \<Rightarrow> pool \<Rightarrow> pool" where
  "drop_inactive accs p =
     fold (\<lambda>i p. if i \<in> set (map a_ID accs) then p else stop_worker i p) (map fst (po_workers p)) p"

definition refresh_pool :: "(account \<Rightarrow> pool \<Rightarrow> pool) \<Rightarrow> env \<Rightarrow> db \<Rightarrow> pool \<Rightarrow> (dberr + unit) \<times> pool" where
  "refresh_pool step N d p =
     (case query (en_fault N S_ListAccounts) (Inr (ListActiveAccounts (en_crypt N) d)) of
        Inl e \<Rightarrow> (Inl e, p)
      | Inr accs \<Rightarrow> (Inr (), drop_inactive accs (fold step accs p)))"

definition idle_refreshWorkers where "idle_refreshWorkers = refresh_pool idle_refresh_account"
definition move_refreshWorkers where "move_refreshWorkers = refresh_pool move_refresh_account"
definition pool_refreshWorkers where "pool_refreshWorkers = refresh_pool pool_refresh_account"

definition stop_pool :: "pool \<Rightarrow> pool" where
  "stop_pool p = fold stop_worker (map fst (po_workers p)) p"

subsection \<open>The contract of a pool\<close>

text \<open>The accounts with a running worker, from the log; \<open>None\<close> when a worker was started twice or stopped twice.\<close>

fun apply_event :: "pool_event \<Rightarrow> int set option \<Rightarrow> int set option" where
  "apply_event e None = None"
| "apply_event (Started i) (Some S) = (if i \<in> S then None else Some (insert i S))"
| "apply_event (Stopped i) (Some S) = (if i \<in> S then Some (S - {i}) else None)"

definition running :: "pool_event list \<Rightarrow> int set option" where
  "running es = fold apply_event es (Some {})"

definition pool_ok :: "pool \<Rightarrow> bool" where
  "pool_ok p \<longleftrightarrow> distinct (map fst (po_workers p)) \<and> running (po_log p) = Some (fst ` set (po_workers p))"

lemma running_snoc: "running (es @ [e]) = apply_event e (running es)"
  by (simp add: running_def)

lemma keys_update: "fst ` set (AList.update k v xs) = insert k (fst ` set xs)"
  using dom_update [of k v xs] by simp

lemma keys_delete: "fst ` set (AList.delete k xs) = fst ` set xs - {k}"
  by (metis AList.delete_keys list.set_map set_removeAll)

lemma start_worker_ok:
  assumes "pool_ok p" and "map_of (po_workers p) (a_ID acc) = None"
  shows "pool_ok (start_worker acc p)"
  using assms by (auto simp: pool_ok_def start_worker_def running_snoc keys_update AList.distinct_update map_of_eq_None_iff)

lemma stop_worker_ok:
  assumes "pool_ok p" and "i \<in> fst ` set (po_workers p)"
  shows "pool_ok (stop_worker i p)"
  using assms by (simp add: pool_ok_def stop_worker_def running_snoc keys_delete AList.distinct_delete)

lemma worker_lookup:
  "map_of (po_workers (start_worker acc p)) i = (if i = a_ID acc then Some acc else map_of (po_workers p) i)"
  "map_of (po_workers (stop_worker j p)) i = (if i = j then None else map_of (po_workers p) i)"
  by (simp_all add: start_worker_def stop_worker_def AList.update_conv' AList.delete_conv')

text \<open>
  What every pool promises of the step for one account: no worker is lost or doubled, and the account
  has a worker that was started with this account unless its old one need not be replaced.
\<close>

locale worker_pool =
  fixes changed :: "account \<Rightarrow> account \<Rightarrow> bool" and step :: "account \<Rightarrow> pool \<Rightarrow> pool"
  assumes step_ok: "pool_ok p \<Longrightarrow> pool_ok (step acc p)"
    and step_lookup: "map_of (po_workers (step acc p)) i =
      (if i = a_ID acc
       then (case map_of (po_workers p) i of Some w \<Rightarrow> if changed w acc then Some acc else Some w | None \<Rightarrow> Some acc)
       else map_of (po_workers p) i)"
    and step_fresh: "\<not> changed acc acc"
begin

lemma steps_ok: "pool_ok p \<Longrightarrow> pool_ok (fold step accs p)"
  by (induction accs arbitrary: p) (simp_all add: step_ok)

lemma steps_other: "i \<notin> a_ID ` set accs \<Longrightarrow> map_of (po_workers (fold step accs p)) i = map_of (po_workers p) i"
  by (induction accs arbitrary: p) (simp_all add: step_lookup)

lemma steps_lookup:
  assumes "distinct (map a_ID accs)" and "acc \<in> set accs"
  shows "\<exists>w. map_of (po_workers (fold step accs p)) (a_ID acc) = Some w \<and> \<not> changed w acc"
  using assms
proof (induction accs arbitrary: p)
  case (Cons a accs)
  show ?case
  proof (cases "acc = a")
    case True
    with Cons.prems have "map_of (po_workers (fold step (a # accs) p)) (a_ID acc) = map_of (po_workers (step a p)) (a_ID acc)"
      by (simp add: steps_other)
    with True show ?thesis by (auto simp: step_lookup step_fresh split: option.split)
  next
    case False
    with Cons show ?thesis by simp
  qed
qed simp

end

lemma drop_loop:
  assumes "distinct is" and "set is \<subseteq> fst ` set (po_workers p)" and "pool_ok p"
  shows "pool_ok (fold (\<lambda>i p. if i \<in> A then p else stop_worker i p) is p) \<and>
    map_of (po_workers (fold (\<lambda>i p. if i \<in> A then p else stop_worker i p) is p)) j
      = (if j \<in> set is \<and> j \<notin> A then None else map_of (po_workers p) j)"
  using assms
proof (induction "is" arbitrary: p)
  case (Cons i "is")
  show ?case
  proof (cases "i \<in> A")
    case False
    have "set is \<subseteq> fst ` set (po_workers (stop_worker i p))"
      using Cons.prems by (auto simp: stop_worker_def keys_delete)
    with Cons False stop_worker_ok show ?thesis by (auto simp: worker_lookup)
  qed (use Cons in auto)
qed simp

lemma drop_inactive_spec:
  assumes "pool_ok p"
  shows "pool_ok (drop_inactive accs p)"
    and "map_of (po_workers (drop_inactive accs p)) j = (if j \<in> a_ID ` set accs then map_of (po_workers p) j else None)"
proof -
  have d: "distinct (map fst (po_workers p))" using assms by (simp add: pool_ok_def)
  note l = drop_loop [OF d _ assms, of "set (map a_ID accs)"]
  show "pool_ok (drop_inactive accs p)" using l by (simp add: drop_inactive_def)
  show "map_of (po_workers (drop_inactive accs p)) j = (if j \<in> a_ID ` set accs then map_of (po_workers p) j else None)"
    using l [of j] map_of_eq_None_iff [of "po_workers p" j] by (auto simp: drop_inactive_def)
qed

context worker_pool
begin

lemma refresh_ok: "pool_ok p \<Longrightarrow> pool_ok (snd (refresh_pool step N d p))"
  by (simp add: refresh_pool_def query_def steps_ok drop_inactive_spec)

text \<open>After a refresh that reached the database, the pool follows the active accounts.\<close>

lemma refresh_follows:
  assumes "pool_ok p" and "db_inv d" and "\<not> en_fault N S_ListAccounts"
  shows "fst ` set (po_workers (snd (refresh_pool step N d p))) = a_ID ` {a \<in> set (accounts d). a_Active a}"
    and "acc \<in> set (ListActiveAccounts (en_crypt N) d) \<Longrightarrow>
      \<exists>w. map_of (po_workers (snd (refresh_pool step N d p))) (a_ID acc) = Some w \<and> \<not> changed w acc"
proof -
  let ?accs = "ListActiveAccounts (en_crypt N) d"
  have r: "snd (refresh_pool step N d p) = drop_inactive ?accs (fold step ?accs p)"
    using assms(3) by (simp add: refresh_pool_def query_def)
  have idk: "a_ID (decrypt_account c (select_account a)) = a_ID a" for c a
    by (simp add: decrypt_account_def select_account_def Let_def)
  have ids: "a_ID ` set ?accs = a_ID ` {a \<in> set (accounts d). a_Active a}"
    by (simp add: ListActiveAccounts_def image_image idk)
  have "distinct (map a_ID (filter a_Active (accounts d)))"
    using assms(2) by (simp add: inv_defs uniq_def distinct_map_filter)
  then have dis: "distinct (map a_ID ?accs)"
    by (simp add: ListActiveAccounts_def comp_def idk distinct_map distinct_sort)
  note drop = drop_inactive_spec [OF steps_ok [OF assms(1)], of ?accs ?accs]
  show look: "\<exists>w. map_of (po_workers (snd (refresh_pool step N d p))) (a_ID acc) = Some w \<and> \<not> changed w acc"
    if "acc \<in> set ?accs" for acc
    using steps_lookup [OF dis that, of p] that unfolding r drop(2) by auto
  have mem: "j \<in> fst ` set ws \<longleftrightarrow> map_of ws j \<noteq> None" for j and ws :: "(int \<times> account) list"
    by (simp add: map_of_eq_None_iff)
  have "j \<in> fst ` set (po_workers (snd (refresh_pool step N d p))) \<longleftrightarrow> j \<in> a_ID ` set ?accs" for j
    using steps_lookup [OF dis, of _ p] unfolding mem r drop(2) by auto
  then show "fst ` set (po_workers (snd (refresh_pool step N d p))) = a_ID ` {a \<in> set (accounts d). a_Active a}"
    unfolding ids by blast
qed

end

lemma pool_mem_lookup: "map_of (po_workers p) i = Some w \<Longrightarrow> i \<in> fst ` set (po_workers p)"
  by (metis map_of_eq_None_iff option.distinct(1))

lemma restart_ok:
  assumes "pool_ok p" and "map_of (po_workers p) (a_ID acc) = Some w"
  shows "pool_ok (start_worker acc (stop_worker (a_ID acc) p))"
  using assms by (intro start_worker_ok stop_worker_ok) (simp_all add: worker_lookup pool_mem_lookup)

interpretation idle: worker_pool credentialsChanged idle_refresh_account
  by unfold_locales (auto simp: idle_refresh_account_def start_worker_ok restart_ok worker_lookup credentialsChanged_def
      split: option.split)

interpretation move: worker_pool moveCredentialsChanged move_refresh_account
  by unfold_locales (auto simp: move_refresh_account_def start_worker_ok restart_ok worker_lookup moveCredentialsChanged_def
      split: option.split)

interpretation legacy: worker_pool "\<lambda>_ _. False" pool_refresh_account
  by unfold_locales (auto simp: pool_refresh_account_def start_worker_ok worker_lookup split: option.split)

text \<open>A run of a pool: the refreshes of its ticker, each on the database of that moment, and the final stop.\<close>

fun pool_run :: "(env \<Rightarrow> db \<Rightarrow> pool \<Rightarrow> (dberr + unit) \<times> pool) \<Rightarrow> (env \<times> db) list \<Rightarrow> pool \<Rightarrow> pool" where
  "pool_run refresh [] p = p"
| "pool_run refresh ((N, d) # rs) p = pool_run refresh rs (snd (refresh N d p))"

lemma pool_run_ok:
  assumes "\<And>N d p. pool_ok p \<Longrightarrow> pool_ok (snd (refresh N d p))" and "pool_ok p"
  shows "pool_ok (pool_run refresh rs p)"
  using assms by (induction refresh rs p rule: pool_run.induct) simp_all

lemma empty_pool_ok: "pool_ok empty_pool"
  by (simp add: pool_ok_def empty_pool_def running_def)

lemma stop_pool_ok:
  assumes "pool_ok p"
  shows "pool_ok (stop_pool p) \<and> po_workers (stop_pool p) = []"
proof -
  have d: "distinct (map fst (po_workers p))" using assms by (simp add: pool_ok_def)
  have s: "stop_pool p = fold (\<lambda>i p. if i \<in> {} then p else stop_worker i p) (map fst (po_workers p)) p"
    by (simp add: stop_pool_def)
  note l = drop_loop [OF d _ assms, of "{}", folded s]
  have "map_of (po_workers (stop_pool p)) j = None" for j
    using l [of j] map_of_eq_None_iff [of "po_workers p" j] by auto
  then have "fst ` set (po_workers (stop_pool p)) = {}" by (metis map_of_eq_None_iff ex_in_conv)
  with l show ?thesis by simp
qed

text \<open>
  C39. A pool never has two workers for one account, and loses none: however its refreshes succeed or fail,
  the log never starts an account that runs nor stops one that does not, the workers are exactly the
  running ones, and none runs after the pool was stopped. This holds of all three pools.
\<close>
theorem one_worker_per_account:
  assumes "refresh \<in> {idle_refreshWorkers, move_refreshWorkers, pool_refreshWorkers}"
  shows "running (po_log (pool_run refresh rs empty_pool)) = Some (fst ` set (po_workers (pool_run refresh rs empty_pool))) \<and>
    distinct (map fst (po_workers (pool_run refresh rs empty_pool))) \<and>
    running (po_log (stop_pool (pool_run refresh rs empty_pool))) = Some {}"
proof -
  have "pool_ok (pool_run refresh rs empty_pool)"
    using assms empty_pool_ok idle.refresh_ok move.refresh_ok legacy.refresh_ok
    by (auto simp: idle_refreshWorkers_def move_refreshWorkers_def pool_refreshWorkers_def intro!: pool_run_ok)
  from stop_pool_ok [OF this] this show ?thesis by (simp add: pool_ok_def)
qed

theorem one_worker_per_account_witness:
  "running (po_log (stop_pool (pool_run idle_refreshWorkers [(sample_env R_OK, sample_db ''skip''), (sample_env R_OK, empty_db)] empty_pool))) = Some {}"
  using one_worker_per_account [of idle_refreshWorkers "[(sample_env R_OK, sample_db ''skip''), (sample_env R_OK, empty_db)]"] by simp

text \<open>
  After a refresh of the listener or of the move detector that reached the database, exactly the active
  accounts have a worker, and each worker was started with the password, refresh token, user name, host
  and port that the account has now.
\<close>
theorem workers_follow_accounts:
  assumes "pool_ok p" and "db_inv d" and "\<not> en_fault N S_ListAccounts"
    and "refresh \<in> {idle_refreshWorkers, move_refreshWorkers}"
  shows "fst ` set (po_workers (snd (refresh N d p))) = a_ID ` {a \<in> set (accounts d). a_Active a} \<and>
    (\<forall>acc \<in> set (ListActiveAccounts (en_crypt N) d). \<exists>w. map_of (po_workers (snd (refresh N d p))) (a_ID acc) = Some w \<and>
       a_Password w = a_Password acc \<and> a_OAuthRefreshToken w = a_OAuthRefreshToken acc \<and> a_Username w = a_Username acc \<and>
       a_IMAPHost w = a_IMAPHost acc \<and> a_IMAPPort w = a_IMAPPort acc)"
proof -
  have "\<not> credentialsChanged w acc \<longleftrightarrow> a_Password w = a_Password acc \<and> a_OAuthRefreshToken w = a_OAuthRefreshToken acc \<and>
      a_Username w = a_Username acc \<and> a_IMAPHost w = a_IMAPHost acc \<and> a_IMAPPort w = a_IMAPPort acc" for w acc
    by (auto simp: credentialsChanged_def)
  moreover have "moveCredentialsChanged = credentialsChanged"
    by (simp add: fun_eq_iff moveCredentialsChanged_def credentialsChanged_def)
  ultimately show ?thesis
    using assms(4) idle.refresh_follows [OF assms(1-3)] move.refresh_follows [OF assms(1-3)]
    by (auto simp: idle_refreshWorkers_def move_refreshWorkers_def)
qed

theorem workers_follow_accounts_witness:
  "fst ` set (po_workers (snd (idle_refreshWorkers (sample_env R_OK) (sample_db ''skip'') empty_pool))) = {1}"
proof -
  have f: "\<not> en_fault (sample_env R_OK) S_ListAccounts" by (simp add: sample_env_def)
  have "a_Active sample_account" "a_ID sample_account = 1" by (simp_all add: sample_account_def)
  then have acc: "a_ID ` {a \<in> set (accounts (sample_db ''skip'')). a_Active a} = {1}"
    by (simp add: sample_db_def Collect_conv_if)
  have "fst ` set (po_workers (snd (idle_refreshWorkers (sample_env R_OK) (sample_db ''skip'') empty_pool)))
      = a_ID ` {a \<in> set (accounts (sample_db ''skip'')). a_Active a}"
    by (rule conjunct1, rule workers_follow_accounts) (rule empty_pool_ok sample_db_inv f insertI1)+
  then show ?thesis by (simp only: acc)
qed

subsection \<open>Connecting with OAuth2\<close>

text \<open>
  What the network answers during one attempt to connect (\<open>None\<close>: success, \<open>Some\<close> the error), and the
  configured providers.
\<close>

record conn_env =
  cn_Dial :: "string \<Rightarrow> string option"
  cn_Greeting :: "string option"
  cn_Authenticate :: "string \<Rightarrow> string option"
  cn_Login :: "string \<Rightarrow> string \<Rightarrow> string option"
  cn_Providers :: "(string \<times> (string \<Rightarrow> string + TokenResponse)) list"

definition refreshOAuthToken ::
  "conn_env \<Rightarrow> env \<Rightarrow> (nat \<Rightarrow> string option) \<Rightarrow> time \<Rightarrow> account \<Rightarrow> world \<Rightarrow> ((string + unit) \<times> account) \<times> world" where
  "refreshOAuthToken C N rnd now acc w =
     (case map_of (cn_Providers C) (a_OAuthProvider acc) of
        None \<Rightarrow> ((Inl (''OAuth2 provider '' @ a_OAuthProvider acc @ '' not configured''), acc), w)
      | Some provider \<Rightarrow>
          if a_OAuthRefreshToken acc = [] then
            ((Inl (''no refresh token available for account '' @ FormatInt (a_ID acc)), acc), w)
          else (case provider (a_OAuthRefreshToken acc) of
            Inl e \<Rightarrow> ((Inl (''refresh token: '' @ e), acc), w)
          | Inr tokenResp \<Rightarrow>
              (let expiry = now + wrap64 (tr_ExpiresIn tokenResp * Second);
                   acc1 = acc\<lparr>a_OAuthToken := tr_AccessToken tokenResp, a_OAuthTokenExpiry := Some expiry\<rparr>;
                   acc2 = (if tr_RefreshToken tokenResp \<noteq> [] then acc1\<lparr>a_OAuthRefreshToken := tr_RefreshToken tokenResp\<rparr> else acc1);
                   refreshToken = (if tr_RefreshToken tokenResp = [] then a_OAuthRefreshToken acc2 else tr_RefreshToken tokenResp)
               in ((Inr (), acc2),
                   snd (io_try (db_do N S_OAuthTokens (UpdateAccountOAuthTokens (en_crypt N) rnd now (a_ID acc)
                          (tr_AccessToken tokenResp) refreshToken (Some expiry))) w)))))"

definition authenticate ::
  "conn_env \<Rightarrow> env \<Rightarrow> (nat \<Rightarrow> string option) \<Rightarrow> time \<Rightarrow> account \<Rightarrow> world \<Rightarrow> ((string + unit) \<times> account) \<times> world" where
  "authenticate C N rnd now acc w =
     (if a_OAuthProvider acc \<noteq> [] \<and> a_OAuthToken acc \<noteq> [] then
        (case (if IsTokenExpired now (a_OAuthTokenExpiry acc) then refreshOAuthToken C N rnd now acc w else ((Inr (), acc), w)) of
           ((Inl e, acc1), w1) \<Rightarrow> ((Inl (''refresh OAuth2 token: '' @ e), acc1), w1)
         | ((Inr _, acc1), w1) \<Rightarrow>
             (case cn_Authenticate C (BuildXOAuth2String (login_name acc1) (a_OAuthToken acc1)) of
                None \<Rightarrow> ((Inr (), acc1), w1)
              | Some err \<Rightarrow>
                  (case refreshOAuthToken C N (\<lambda>i. rnd (i + 2)) now acc1 w1 of
                     ((Inl re, acc2), w2) \<Rightarrow>
                       ((Inl (''XOAUTH2 auth failed and refresh failed: auth='' @ err @ '', refresh='' @ re), acc2), w2)
                   | ((Inr _, acc2), w2) \<Rightarrow>
                       ((Inl (''XOAUTH2 auth failed, token refreshed, will reconnect: '' @ err), acc2), w2))))
      else
        (case cn_Login C (login_name acc) (a_Password acc) of
           None \<Rightarrow> ((Inr (), acc), w)
         | Some e \<Rightarrow> ((Inl (''login to '' @ conn_addr acc @ '': '' @ e), acc), w)))"

definition worker_connect ::
  "conn_env \<Rightarrow> env \<Rightarrow> (nat \<Rightarrow> string option) \<Rightarrow> time \<Rightarrow> account \<Rightarrow> world \<Rightarrow> ((string + unit) \<times> account) \<times> world" where
  "worker_connect C N rnd now acc w =
     (case cn_Dial C (conn_addr acc) of
        Some e \<Rightarrow> ((Inl ((if a_IMAPTLS acc then ''connect to '' else ''dial '') @ conn_addr acc @ '': '' @ e), acc), w)
      | None \<Rightarrow>
          (case cn_Greeting C of
             Some e \<Rightarrow> ((Inl (''greeting from '' @ conn_addr acc @ '': '' @ e), acc), w)
           | None \<Rightarrow> authenticate C N rnd now acc w))"

lemma refreshOAuthToken_Inr:
  assumes "refreshOAuthToken C N rnd now acc w = ((Inr (), acc'), w')"
  obtains provider t expiry where "map_of (cn_Providers C) (a_OAuthProvider acc) = Some provider"
    and "provider (a_OAuthRefreshToken acc) = Inr t"
    and "expiry = now + wrap64 (tr_ExpiresIn t * Second)"
    and "acc' = acc\<lparr>a_OAuthToken := tr_AccessToken t, a_OAuthTokenExpiry := Some expiry,
           a_OAuthRefreshToken := (if tr_RefreshToken t \<noteq> [] then tr_RefreshToken t else a_OAuthRefreshToken acc)\<rparr>"
    and "w' = snd (db_do N S_OAuthTokens (UpdateAccountOAuthTokens (en_crypt N) rnd now (a_ID acc)
           (a_OAuthToken acc') (a_OAuthRefreshToken acc') (Some expiry)) w)"
  using assms
  by (auto simp: refreshOAuthToken_def Let_def io_try_def split: option.splits if_splits sum.splits)

text \<open>
  When a worker refreshes its access token and the database takes the update, the database and the
  worker agree: reading the account gives the token, the refresh token and the expiry that the worker now
  holds, so the next refresh of the pool does not see changed credentials and leaves the worker alone.
\<close>
theorem token_refresh_stays_in_sync:
  assumes c: "crypt_ok (en_crypt N) rnd" and f: "\<not> en_fault N S_OAuthTokens"
    and before: "GetActiveAccountByID (en_crypt N) (a_ID acc) (w_db w) = Inr row" and same: "\<not> credentialsChanged acc row"
    and ok: "refreshOAuthToken C N rnd now acc w = ((Inr (), acc'), w')"
  shows "\<exists>row'. GetActiveAccountByID (en_crypt N) (a_ID acc) (w_db w') = Inr row' \<and> \<not> credentialsChanged acc' row' \<and>
    a_OAuthToken row' = a_OAuthToken acc' \<and> a_OAuthTokenExpiry row' = a_OAuthTokenExpiry acc'"
proof -
  from ok obtain provider t expiry where
    "map_of (cn_Providers C) (a_OAuthProvider acc) = Some provider" "provider (a_OAuthRefreshToken acc) = Inr t"
    "expiry = now + wrap64 (tr_ExpiresIn t * Second)" and
    acc': "acc' = acc\<lparr>a_OAuthToken := tr_AccessToken t, a_OAuthTokenExpiry := Some expiry,
           a_OAuthRefreshToken := (if tr_RefreshToken t \<noteq> [] then tr_RefreshToken t else a_OAuthRefreshToken acc)\<rparr>"
    and w': "w' = snd (db_do N S_OAuthTokens (UpdateAccountOAuthTokens (en_crypt N) rnd now (a_ID acc)
           (a_OAuthToken acc') (a_OAuthRefreshToken acc') (Some expiry)) w)"
    by (rule refreshOAuthToken_Inr)
  obtain x where x: "encryptPassword (en_crypt N) (rnd 0) (a_OAuthToken acc') (a_ID acc) = Inr x"
    "decryptPassword (en_crypt N) x (a_ID acc) = Inr (a_OAuthToken acc')" using c by (rule encryptPassword_ok)
  obtain y where y: "encryptPassword (en_crypt N) (rnd 1) (a_OAuthRefreshToken acc') (a_ID acc) = Inr y"
    "decryptPassword (en_crypt N) y (a_ID acc) = Inr (a_OAuthRefreshToken acc')" using c by (rule encryptPassword_ok)
  let ?g = "\<lambda>r. r\<lparr>a_OAuthToken := x, a_OAuthRefreshToken := y, a_OAuthTokenExpiry := Some expiry, a_UpdatedAt := now\<rparr>"
  have db': "accounts (w_db w') = upd (\<lambda>a. a_ID a = a_ID acc) ?g (accounts (w_db w))"
    using f x(1) y(1) by (simp add: w' db_do_def stmt_def UpdateAccountOAuthTokens_def update_account_def Let_def)
  obtain a where a: "find (\<lambda>a. a_ID a = a_ID acc \<and> a_Active a) (accounts (w_db w)) = Some a"
    and row: "row = decrypt_account (en_crypt N) (select_account a)"
    using before by (auto simp: GetActiveAccountByID_def get_row_def split: option.splits)
  have ida: "a_ID a = a_ID acc" using a by (auto dest: find_Some_mem)
  have "find (\<lambda>a. a_ID a = a_ID acc \<and> a_Active a) (upd (\<lambda>a. a_ID a = a_ID acc) ?g xs)
      = map_option ?g (find (\<lambda>a. a_ID a = a_ID acc \<and> a_Active a) xs)" for xs :: "account list"
    by (induction xs) (auto simp: upd_def)
  with a have "GetActiveAccountByID (en_crypt N) (a_ID acc) (w_db w') = Inr (decrypt_account (en_crypt N) (select_account (?g a)))"
    by (simp add: GetActiveAccountByID_def get_row_def db')
  moreover have "\<not> credentialsChanged acc' (decrypt_account (en_crypt N) (select_account (?g a)))"
    using same y(2) unfolding row
    by (auto simp: credentialsChanged_def decrypt_account_def select_account_def Let_def acc' ida split: if_splits)
  ultimately show ?thesis
    using x(2) by (simp add: decrypt_account_def select_account_def Let_def ida acc')
qed

definition sample_oauth_account :: account where
  "sample_oauth_account = sample_account\<lparr>a_OAuthProvider := ''gmail'', a_OAuthToken := ''old'', a_OAuthRefreshToken := ''r1''\<rparr>"

definition sample_conn :: conn_env where
  "sample_conn = \<lparr>cn_Dial = (\<lambda>_. None), cn_Greeting = None, cn_Authenticate = (\<lambda>_. None), cn_Login = (\<lambda>_ _. None),
     cn_Providers = [(''gmail'', \<lambda>_. Inr \<lparr>tr_AccessToken = ''new'', tr_RefreshToken = ''r2'', tr_TokenType = [],
       tr_ExpiresIn = 3600, tr_Scope = [], tr_IDToken = []\<rparr>)]\<rparr>"

theorem token_refresh_stays_in_sync_witness:
  "\<exists>N w acc' w' row'. refreshOAuthToken sample_conn N sample_nonce 5 sample_oauth_account w = ((Inr (), acc'), w') \<and>
     GetActiveAccountByID (en_crypt N) 1 (w_db w') = Inr row' \<and> a_OAuthToken row' = ''new''"
proof -
  let ?N = "(sample_env R_OK)\<lparr>en_crypt := sample_crypt\<rparr>"
  let ?w = "(sample_world ''skip'')\<lparr>w_db := (sample_db ''skip'')\<lparr>accounts := [sample_oauth_account]\<rparr>\<rparr>"
  have c: "crypt_ok (en_crypt ?N) sample_nonce" by (simp add: sample_crypt_ok)
  have f: "\<not> en_fault ?N S_OAuthTokens" by (simp add: sample_env_def)
  have id: "a_ID sample_oauth_account = 1" by (simp add: sample_oauth_account_def sample_account_def)
  obtain row where row: "GetActiveAccountByID (en_crypt ?N) (a_ID sample_oauth_account) (w_db ?w) = Inr row"
      "\<not> credentialsChanged sample_oauth_account row"
    by (simp add: GetActiveAccountByID_def get_row_def sample_oauth_account_def sample_account_def credentialsChanged_def
        decrypt_account_def select_account_def decryptPassword_def sample_crypt_def Decrypt_def
        parseVersionedCiphertext_def b64_decode_def HasPrefix_Cons Let_def)
  obtain acc' w' where ok: "refreshOAuthToken sample_conn ?N sample_nonce 5 sample_oauth_account ?w = ((Inr (), acc'), w')"
      "a_OAuthToken acc' = ''new''"
    by (simp add: refreshOAuthToken_def sample_conn_def sample_oauth_account_def sample_account_def Let_def)
  from token_refresh_stays_in_sync [OF c f row ok(1)] obtain row' where
    "GetActiveAccountByID (en_crypt ?N) 1 (w_db w') = Inr row'" "a_OAuthToken row' = ''new''"
    using ok(2) id by auto
  with ok(1) show ?thesis by blast
qed

end
