(* ===== verification/Listener.thy ===== *)
theory Listener
  imports Folders Workers
begin

text \<open>
  \<^verbatim>\<open>internal/imaplistener\<close>: the worker that watches one account. It publishes new messages as events,
  keeps the list of the messages of the inbox in the order of their sequence numbers, and turns
  EXPUNGE notifications into detected moves and learned rules. What the IMAP server answers during one
  round is the record \<open>inbox\<close>.
\<close>

record inbox = mail_server +
  ib_SearchAll :: "string + uid list"
  ib_FetchUIDs :: "uid list \<Rightarrow> (string + message_buf) list"
  ib_FetchParts :: "uid \<Rightarrow> nat list list \<Rightarrow> (string + (nat list \<times> string) list) list"
  ib_List :: list_data
  ib_ReadFields :: "string \<Rightarrow> (string \<times> string) list option"

abbreviation FormatUID :: "uid \<Rightarrow> string" where "FormatUID u \<equiv> FormatInt (int u)"

subsection \<open>New messages\<close>

text \<open>\<open>for i := 0; i < len(uids); i += batchSize\<close>: the slices of at most \<open>n\<close> elements.\<close>

function batches :: "nat \<Rightarrow> 'a list \<Rightarrow> 'a list list" where
  "batches n xs = (if xs = [] \<or> n = 0 then [] else take n xs # batches n (drop n xs))"
  by pat_completeness auto
termination
  by (relation "measure (\<lambda>(n, xs). length xs)") auto

declare batches.simps [simp del]

definition attach_images :: "env \<Rightarrow> inbox \<Rightarrow> message_buf \<Rightarrow> incoming_event \<Rightarrow> incoming_event" where
  "attach_images N S buf ev =
     (case mb_BodyStructure buf of
        None \<Rightarrow> ev
      | Some bs \<Rightarrow>
          if ev_HasImages ev then
            (let imageParts = findImageParts (en_unicode N) bs []
             in if 0 < length imageParts
                then ev\<lparr>ev_ImageAttachments := fetchImageAttachments (ib_FetchParts S (mb_UID buf)) imageParts\<rparr> else ev)
          else ev)"

definition publish_message :: "env \<Rightarrow> inbox \<Rightarrow> time \<Rightarrow> account \<Rightarrow> string + message_buf \<Rightarrow> world \<Rightarrow> world" where
  "publish_message N S now acc m w =
     (case m of
        Inl _ \<Rightarrow> w
      | Inr buf \<Rightarrow>
          if res_or (fst (db_read N (S_FetchProcessed (mb_UID buf))
               (\<lambda>d. Inr (IsMessageProcessed (a_ID acc) (FormatUID (mb_UID buf)) d)) w)) False then w
          else (case bufferToEvent (en_unicode N) (ib_ReadFields S) now acc buf of
             None \<Rightarrow> w
           | Some ev \<Rightarrow>
               snd (PublishToStream N (''email.incoming.'' @ FormatInt (a_ID acc)) (Incoming (attach_images N S buf ev)) w)))"

definition publishBatch :: "env \<Rightarrow> inbox \<Rightarrow> time \<Rightarrow> account \<Rightarrow> uid list \<Rightarrow> world \<Rightarrow> world" where
  "publishBatch N S now acc uids w =
     (if length uids = 0 then w else fold (publish_message N S now acc) (ib_FetchUIDs S uids) w)"

definition pollNewMessages :: "env \<Rightarrow> inbox \<Rightarrow> time \<Rightarrow> account \<Rightarrow> unit io" where
  "pollNewMessages N S now acc w =
     (case db_read N S_LastUID (GetLastUIDProcessed (a_ID acc)) w of
        (Inl e, w1) \<Rightarrow> (Inl (''get last UID processed: '' @ e), w1)
      | (Inr lastUID, w1) \<Rightarrow>
          (case ib_SearchAll S of
             Inl e \<Rightarrow> (Inl (''search UIDs: '' @ e), w1)
           | Inr allUIDs \<Rightarrow>
               (let uids = filter (\<lambda>u. lastUID < u) allUIDs
                in if length uids = 0
                   then io_try (db_do N S_SyncTime (UpdateAccountSyncTime now (a_ID acc))) w1
                   else (let w2 = fold (publishBatch N S now acc) (batches 50 uids) w1; maxUID = fold max uids 0
                         in if 0 < maxUID
                            then io_try (db_do N S_UpdateUID (UpdateLastUIDProcessed now (a_ID acc) maxUID)) w2
                            else (Inr (), w2)))))"

subsection \<open>The inbox by sequence number\<close>

text \<open>The loop of \<open>mapSeqNumsToUIDs\<close>: the UIDs found and the list that is left.\<close>

fun map_seq_nums :: "nat list \<Rightarrow> uid list \<Rightarrow> uid list \<Rightarrow> uid list \<times> uid list" where
  "map_seq_nums [] uidsCopy result = (result, uidsCopy)"
| "map_seq_nums (seqNum # ns) uidsCopy result =
     (let idx = int seqNum - 1
      in if idx < 0 \<or> int (length uidsCopy) \<le> idx then map_seq_nums ns uidsCopy result
         else map_seq_nums ns (take (nat idx) uidsCopy @ drop (nat idx + 1) uidsCopy) (result @ [uidsCopy ! nat idx]))"

definition mapSeqNumsToUIDs :: "nat list \<Rightarrow> uid list \<Rightarrow> uid list \<times> uid list" where
  "mapSeqNumsToUIDs seqNums inboxUIDs = map_seq_nums seqNums inboxUIDs []"

subsection \<open>Text from the network\<close>

abbreviation in_range :: "char \<Rightarrow> nat \<Rightarrow> nat \<Rightarrow> bool" where
  "in_range c a b \<equiv> a \<le> byte c \<and> byte c \<le> b"

text \<open>
  \<open>utf8.DecodeRuneInString\<close>: the size of the valid rune at the start, 0 when there is none. The second
  byte of a sequence of three or four has a range that depends on the first.
\<close>

definition start_of_three :: "char \<Rightarrow> char \<Rightarrow> bool" where
  "start_of_three a b \<longleftrightarrow>
     byte a = 0xE0 \<and> in_range b 0xA0 0xBF \<or> in_range a 0xE1 0xEC \<and> in_range b 0x80 0xBF
     \<or> byte a = 0xED \<and> in_range b 0x80 0x9F \<or> in_range a 0xEE 0xEF \<and> in_range b 0x80 0xBF"

definition start_of_four :: "char \<Rightarrow> char \<Rightarrow> bool" where
  "start_of_four a b \<longleftrightarrow>
     byte a = 0xF0 \<and> in_range b 0x90 0xBF \<or> in_range a 0xF1 0xF3 \<and> in_range b 0x80 0xBF
     \<or> byte a = 0xF4 \<and> in_range b 0x80 0x8F"

fun utf8_size :: "string \<Rightarrow> nat" where
  "utf8_size [] = 0"
| "utf8_size (a # s) =
     (if byte a < 0x80 then 1
      else case s of
        [] \<Rightarrow> 0
      | b # t \<Rightarrow>
          if in_range a 0xC2 0xDF then (if in_range b 0x80 0xBF then 2 else 0)
          else (case t of
             [] \<Rightarrow> 0
           | c # u \<Rightarrow>
               if start_of_three a b then (if in_range c 0x80 0xBF then 3 else 0)
               else (case u of
                  [] \<Rightarrow> 0
                | d # v \<Rightarrow>
                    if start_of_four a b \<and> in_range c 0x80 0xBF \<and> in_range d 0x80 0xBF then 4 else 0)))"

lemma utf8_size_le: "utf8_size s \<le> length s"
  by (cases s) (auto split: list.split)

function ValidString :: "string \<Rightarrow> bool" where
  "ValidString s = (if s = [] then True else if utf8_size s = 0 then False else ValidString (drop (utf8_size s) s))"
  by pat_completeness auto
termination
  by (relation "measure length") auto

function sanitize_loop :: "string \<Rightarrow> string" where
  "sanitize_loop s =
     (if s = [] then []
      else if utf8_size s = 0 then [CHR 0xEF, CHR 0xBF, CHR 0xBD] @ sanitize_loop (drop 1 s)
      else take (utf8_size s) s @ sanitize_loop (drop (utf8_size s) s))"
  by pat_completeness auto
termination
  by (relation "measure length") auto

declare ValidString.simps [simp del] sanitize_loop.simps [simp del]

definition sanitizeUTF8 :: "string \<Rightarrow> string" where
  "sanitizeUTF8 s = (if ValidString s then s else sanitize_loop s)"

subsection \<open>Learning from moves\<close>

definition arrow :: string where "arrow = [CHR 0xE2, CHR 0x86, CHR 0x92]"

definition idle_truncate :: "string \<Rightarrow> nat \<Rightarrow> string" where
  "idle_truncate s maxLen = (if length s \<le> maxLen then s else take (maxLen - 3) s @ ''...'')"

definition record_location :: "env \<Rightarrow> time \<Rightarrow> account \<Rightarrow> string + message_buf \<Rightarrow> world \<Rightarrow> world" where
  "record_location N now acc m w =
     (case m of
        Inl _ \<Rightarrow> w
      | Inr buf \<Rightarrow>
          (case mb_Envelope buf of
             None \<Rightarrow> w
           | Some env \<Rightarrow>
               (let senderAddr = (case nv_From env of [] \<Rightarrow> [] | a # _ \<Rightarrow> ad_Addr a);
                    loc = \<lparr>ml_AccountID = a_ID acc, ml_MessageUID = FormatUID (mb_UID buf), ml_Folder = ''INBOX'',
                           ml_MessageID = nv_MessageID env, ml_Sender = sanitizeUTF8 senderAddr,
                           ml_Subject = sanitizeUTF8 (nv_Subject env), ml_SeenAt = 0\<rparr>
                in snd (db_do N (S_Upsert (mb_UID buf)) (UpsertMessageLocation now loc) w))))"

definition recordInboxMessageLocations :: "env \<Rightarrow> inbox \<Rightarrow> time \<Rightarrow> account \<Rightarrow> uid list \<Rightarrow> world \<Rightarrow> world" where
  "recordInboxMessageLocations N S now acc uids w =
     (if length uids = 0 then w
      else fold (\<lambda>batch. fold (record_location N now acc) (ib_FetchUIDs S batch)) (batches 100 uids) w)"

text \<open>\<open>buildUIDMap\<close>: the new list of UIDs, or the old one when the search failed.\<close>

definition buildUIDMap :: "env \<Rightarrow> inbox \<Rightarrow> time \<Rightarrow> account \<Rightarrow> uid list \<Rightarrow> world \<Rightarrow> (string + unit) \<times> uid list \<times> world" where
  "buildUIDMap N S now acc inboxUIDs w =
     (case ib_SearchAll S of
        Inl e \<Rightarrow> (Inl (''search all UIDs: '' @ e), inboxUIDs, w)
      | Inr allUIDs \<Rightarrow> (Inr (), allUIDs, recordInboxMessageLocations N S now acc allUIDs w))"

definition idle_learned_rule :: "env \<Rightarrow> account \<Rightarrow> message_location \<Rightarrow> string \<Rightarrow> rule" where
  "idle_learned_rule N acc loc destFolder =
     \<lparr>r_ID = 0, r_TenantID = a_TenantID acc,
      r_Name = ''Auto: '' @ idle_truncate (ml_Sender loc) 30 @ '' '' @ arrow @ '' '' @ destFolder,
      r_Description = ''Auto-detected via IDLE move: INBOX '' @ arrow @ '' '' @ destFolder @ '' (sender: '' @ ml_Sender loc
        @ '', subject: '' @ idle_truncate (ml_Subject loc) 50 @ '')'',
      r_LuaCode = InferRule (en_unicode N) (ml_Sender loc) (ml_Subject loc) destFolder, r_Priority = 1000, r_Active = True,
      r_Source = ''auto-learned'', r_Approved = True, r_UsesAI = False, r_CreatedAt = 0, r_UpdatedAt = 0\<rparr>"

definition generateAndCreateRuleFromMove :: "env \<Rightarrow> time \<Rightarrow> account \<Rightarrow> message_location \<Rightarrow> string \<Rightarrow> world \<Rightarrow> world" where
  "generateAndCreateRuleFromMove N now acc loc destFolder w =
     (case db_read N (S_SimilarRules (ml_MessageID loc)) (\<lambda>d. Inr (ListRules (a_TenantID acc) d)) w of
        (Inr rs, w1) \<Rightarrow>
          if list_ex (\<lambda>r. Contains (r_LuaCode r) (ml_Sender loc) \<and> Contains (r_LuaCode r) destFolder) rs then w1
          else snd (db_do N (S_CreateRule (ml_MessageID loc)) (CreateRule now (idle_learned_rule N acc loc destFolder)) w1)
      | (Inl _, w1) \<Rightarrow>
          snd (db_do N (S_CreateRule (ml_MessageID loc)) (CreateRule now (idle_learned_rule N acc loc destFolder)) w1))"

text \<open>Phase 1: the expunged messages that have a recorded location with a Message-ID.\<close>

definition expunged_message :: "env \<Rightarrow> account \<Rightarrow> world \<Rightarrow> uid \<Rightarrow> (string \<times> message_location) list" where
  "expunged_message N acc w u =
     (case fst (db_read N (S_Locations u) (\<lambda>d. Inr (GetMessageLocations (a_ID acc) (FormatUID u) d)) w) of
        Inl _ \<Rightarrow> []
      | Inr [] \<Rightarrow> []
      | Inr (loc # _) \<Rightarrow> if ml_MessageID loc = [] then [] else [(FormatUID u, loc)])"

text \<open>Phase 3, for one message.\<close>

definition process_expunged ::
  "env \<Rightarrow> time \<Rightarrow> account \<Rightarrow> (string \<times> folder_info) list \<Rightarrow> string \<times> message_location \<Rightarrow> world \<Rightarrow> world" where
  "process_expunged N now acc found m w =
     (case m of (uidStr, loc) \<Rightarrow>
        case map_of found (ml_MessageID loc) of
          None \<Rightarrow> w
        | Some dest \<Rightarrow>
            let mid = ml_MessageID loc in
            if idle_isSkipFolder (en_unicode N) (fo_Name dest) (fo_Attrs dest) then w
            else if res_or (fst (db_read N (S_Exempt mid) (IsFolderExempt (en_unicode N) (a_ID acc) (fo_Name dest)) w)) False then w
            else (let move = \<lparr>dm_ID = 0, dm_AccountID = a_ID acc, dm_MessageUID = uidStr, dm_MessageID = mid,
                       dm_Sender = ml_Sender loc, dm_Subject = ml_Subject loc, dm_FromFolder = ''INBOX'',
                       dm_ToFolder = fo_Name dest, dm_DetectedAt = 0, dm_RuleID = None\<rparr>
                  in case db_do N (S_DetectedMove mid) (RecordDetectedMove now move) w of
                       (Inl _, w1) \<Rightarrow> w1
                     | (Inr _, w1) \<Rightarrow>
                         if res_or (fst (db_read N (S_IsApplied mid) (\<lambda>d. Inr (IsRuleAppliedMove now (a_ID acc) mid d)) w1)) False then w1
                         else if res_or (fst (db_read N (S_MovedByRule mid) (\<lambda>d. Inr (IsMessageMovedByRule (a_ID acc) uidStr d)) w1)) False then w1
                         else generateAndCreateRuleFromMove N now acc loc (fo_Name dest) w1))"

definition handleExpungedMessages :: "env \<Rightarrow> inbox \<Rightarrow> time \<Rightarrow> account \<Rightarrow> uid list \<Rightarrow> world \<Rightarrow> world" where
  "handleExpungedMessages N S now acc expungedUIDs w =
     (let messages = concat (map (expunged_message N acc w) expungedUIDs);
          messageIDSet = map (\<lambda>m. ml_MessageID (snd m)) messages
      in if messageIDSet = [] then w
         else (let folders = idle_listFolders (en_unicode N) (ib_List S);
                   found = idle_findMessagesInFoldersBatch (mail_server.truncate S) messageIDSet folders
               in fold (process_expunged N now acc found) messages w))"

subsection \<open>The IDLE loop\<close>

text \<open>
  The channel of EXPUNGE notifications holds 64 sequence numbers; a notification that does not fit is
  dropped.
\<close>

definition notify_expunge :: "nat \<Rightarrow> nat list \<Rightarrow> nat list" where
  "notify_expunge seqNum ch = (if length ch < 64 then ch @ [seqNum] else ch)"

text \<open>
  One pass through the loop after IDLE has ended with the sequence numbers collected: the error that
  ends the loop, if any, the list of UIDs and the world.
\<close>

definition idle_round :: "env \<Rightarrow> inbox \<Rightarrow> time \<Rightarrow> account \<Rightarrow> nat list \<Rightarrow> uid list \<Rightarrow> world \<Rightarrow> (string + unit) \<times> uid list \<times> world" where
  "idle_round N S now acc seqNums uids w =
     (let (gone, uids1) = (if 0 < length seqNums then mapSeqNumsToUIDs seqNums uids else ([], uids));
          (reselect, w1) = (if 0 < length gone
             then (case ms_Select S ''INBOX'' of
                     Inl e \<Rightarrow> (Inl (''re-select INBOX after move detection: '' @ e), handleExpungedMessages N S now acc gone w)
                   | Inr _ \<Rightarrow> (Inr (), handleExpungedMessages N S now acc gone w))
             else (Inr (), w))
      in case reselect of
           Inl e \<Rightarrow> (Inl e, uids1, w1)
         | Inr _ \<Rightarrow>
             (case pollNewMessages N S now acc w1 of
                (Inl e, w2) \<Rightarrow> (Inl (''poll after IDLE: '' @ e), uids1, w2)
              | (Inr _, w2) \<Rightarrow> (case buildUIDMap N S now acc uids1 w2 of (_, uids2, w3) \<Rightarrow> (Inr (), uids2, w3))))"

text \<open>The start of \<open>idleLoop\<close> on a new connection, and the passes until an error.\<close>

definition idle_start ::
  "conn_env \<Rightarrow> env \<Rightarrow> (nat \<Rightarrow> string option) \<Rightarrow> inbox \<Rightarrow> time \<Rightarrow> account \<Rightarrow> world \<Rightarrow> (string + uid list) \<times> account \<times> world" where
  "idle_start C N rnd S now acc w =
     (case worker_connect C N rnd now acc w of
        ((Inl e, acc1), w1) \<Rightarrow> (Inl (''connect: '' @ e), acc1, w1)
      | ((Inr _, acc1), w1) \<Rightarrow>
          (case ms_Select S ''INBOX'' of
             Inl e \<Rightarrow> (Inl (''select INBOX: '' @ e), acc1, w1)
           | Inr _ \<Rightarrow>
               (case buildUIDMap N S now acc1 [] w1 of (_, uids, w2) \<Rightarrow>
                  (case pollNewMessages N S now acc1 w2 of
                     (Inl e, w3) \<Rightarrow> (Inl (''initial poll: '' @ e), acc1, w3)
                   | (Inr _, w3) \<Rightarrow> (Inr uids, acc1, w3)))))"

fun idle_rounds :: "account \<Rightarrow> (env \<times> inbox \<times> time \<times> nat list) list \<Rightarrow> uid list \<Rightarrow> world \<Rightarrow> (string + unit) \<times> uid list \<times> world" where
  "idle_rounds acc [] uids w = (Inr (), uids, w)"
| "idle_rounds acc ((N, S, now, seqNums) # rs) uids w =
     (case idle_round N S now acc seqNums uids w of
        (Inl e, uids1, w1) \<Rightarrow> (Inl e, uids1, w1)
      | (Inr _, uids1, w1) \<Rightarrow> idle_rounds acc rs uids1 w1)"

text \<open>
  \<open>idleLoop\<close>: the start and the rounds. It ends without an error only when the worker is stopped. \<open>run\<close>
  starts it anew after an error.
\<close>

type_synonym idle_session = "conn_env \<times> env \<times> (nat \<Rightarrow> string option) \<times> inbox \<times> time \<times> (env \<times> inbox \<times> time \<times> nat list) list"

definition idleLoop :: "idle_session \<Rightarrow> account \<Rightarrow> world \<Rightarrow> (string + unit) \<times> account \<times> world" where
  "idleLoop s acc w =
     (case s of (C, N, rnd, S, now, rounds) \<Rightarrow>
        case idle_start C N rnd S now acc w of
          (Inl e, acc1, w1) \<Rightarrow> (Inl e, acc1, w1)
        | (Inr uids, acc1, w1) \<Rightarrow> (case idle_rounds acc1 rounds uids w1 of (r, _, w2) \<Rightarrow> (r, acc1, w2)))"

fun worker_run :: "idle_session list \<Rightarrow> account \<Rightarrow> world \<Rightarrow> account \<times> world" where
  "worker_run [] acc w = (acc, w)"
| "worker_run (s # ss) acc w =
     (case idleLoop s acc w of
        (Inl _, acc1, w1) \<Rightarrow> worker_run ss acc1 w1
      | (Inr _, acc1, w1) \<Rightarrow> (acc1, w1))"

subsection \<open>Sequence numbers\<close>

text \<open>
  What a server does that removes messages one after the other: each notification carries the position
  of the message in the mailbox at that moment, counting from one.
\<close>

fun expunge_numbers :: "uid list \<Rightarrow> uid list \<Rightarrow> nat list" where
  "expunge_numbers [] box = []"
| "expunge_numbers (u # us) box = (length (takeWhile (\<lambda>x. x \<noteq> u) box) + 1) # expunge_numbers us (remove1 u box)"

lemma position:
  assumes "u \<in> set box"
  shows "length (takeWhile (\<lambda>x. x \<noteq> u) box) < length box"
    and "box ! length (takeWhile (\<lambda>x. x \<noteq> u) box) = u"
    and "take (length (takeWhile (\<lambda>x. x \<noteq> u) box)) box @ drop (length (takeWhile (\<lambda>x. x \<noteq> u) box) + 1) box = remove1 u box"
  using assms by (induction box) auto

lemma map_seq_nums_expunge:
  assumes "distinct us" and "set us \<subseteq> set box" and "distinct box"
  shows "map_seq_nums (expunge_numbers us box) box result = (result @ us, filter (\<lambda>u. u \<notin> set us) box)"
  using assms
proof (induction us arbitrary: box result)
  case (Cons u us)
  have u: "u \<in> set box" using Cons.prems by simp
  have "set us \<subseteq> set (remove1 u box)" using Cons.prems by (auto simp: set_remove1_eq)
  then have "map_seq_nums (expunge_numbers us (remove1 u box)) (remove1 u box) (result @ [u])
      = ((result @ [u]) @ us, filter (\<lambda>x. x \<notin> set us) (remove1 u box))"
    using Cons.prems by (intro Cons.IH) (auto simp: distinct_remove1)
  moreover have "filter (\<lambda>x. x \<notin> set us) (remove1 u box) = filter (\<lambda>x. x \<notin> set (u # us)) box"
    using Cons.prems by (simp add: distinct_remove1_removeAll removeAll_filter_not_eq) (rule filter_cong, auto)
  ultimately show ?case using position [OF u] by (simp add: nat_add_distrib)
qed (simp add: filter_id_conv)

text \<open>
  The listener recovers from EXPUNGE notifications which messages left the inbox: when a server removes
  messages one after the other, with each notification counting in the mailbox as it is by then, the
  sequence numbers are mapped back to exactly the UIDs that were removed, in their order, and the list
  the listener keeps is the inbox without them.
\<close>
theorem expunge_numbers_decoded:
  assumes "distinct box" and "distinct us" and "set us \<subseteq> set box"
  shows "mapSeqNumsToUIDs (expunge_numbers us box) box = (us, filter (\<lambda>u. u \<notin> set us) box)"
  using map_seq_nums_expunge [OF assms(2,3,1), of "[]"] by (simp add: mapSeqNumsToUIDs_def)

theorem expunge_numbers_decoded_witness: "mapSeqNumsToUIDs [2, 2, 1] [10, 11, 12, 13] = ([11, 12, 10], [13])"
  using expunge_numbers_decoded [of "[10, 11, 12, 13]" "[11, 12, 10]"] by (simp add: eval_nat_numeral)

text \<open>A dropped notification shifts all later ones: here the listener takes 12 for the message that left.\<close>

lemma dropped_notification_shifts:
  "expunge_numbers [10, 13] [10, 11, 12, 13] = [1, 3] \<and> mapSeqNumsToUIDs [3] [10, 11, 12, 13] = ([12], [10, 11, 13])"
  by (simp add: mapSeqNumsToUIDs_def Let_def)

subsection \<open>Sanitized text\<close>

lemma utf8_size_prefix: "0 < utf8_size s \<Longrightarrow> utf8_size (take (utf8_size s) s @ t) = utf8_size s"
  by (cases s rule: utf8_size.cases) (auto split: list.split_asm if_split_asm)

lemma ValidString_empty [simp]: "ValidString []"
  by (simp add: ValidString.simps)

lemma ValidString_step: "0 < utf8_size s \<Longrightarrow> ValidString s = ValidString (drop (utf8_size s) s)"
  by (cases "s = []") (simp_all add: ValidString.simps [of s])

lemma ValidString_append:
  assumes "0 < utf8_size s"
  shows "ValidString (take (utf8_size s) s @ t) = ValidString t"
  using ValidString_step [of "take (utf8_size s) s @ t"] assms utf8_size_le [of s] by (simp add: utf8_size_prefix)

lemma utf8_size_replacement: "utf8_size (CHR 0xEF # CHR 0xBF # CHR 0xBD # t) = 3"
  by (simp add: start_of_three_def)

lemma ValidString_replacement: "ValidString (CHR 0xEF # CHR 0xBF # CHR 0xBD # t) = ValidString t"
  using ValidString_step [of "CHR 0xEF # CHR 0xBF # CHR 0xBD # t"] unfolding utf8_size_replacement
  by (simp add: eval_nat_numeral)

lemma sanitize_loop_empty [simp]: "sanitize_loop [] = []"
  by (simp add: sanitize_loop.simps)

lemma ValidString_sanitize_loop: "ValidString (sanitize_loop s)"
proof (induction s rule: sanitize_loop.induct)
  case (1 s)
  show ?case
  proof (cases "s = [] \<or> utf8_size s = 0")
    case True
    with 1 show ?thesis
      by (cases "s = []") (simp_all add: sanitize_loop.simps [of s] ValidString_replacement del: utf8_size.simps)
  next
    case False
    with 1 show ?thesis
      by (simp add: sanitize_loop.simps [of s] ValidString_append del: utf8_size.simps)
  qed
qed

text \<open>
  Text that is stored is valid UTF-8 whatever bytes the server sent; it is stored as it came exactly
  when it was valid, so sanitizing twice changes nothing.
\<close>
theorem sanitized_is_valid:
  "ValidString (sanitizeUTF8 s) \<and> (sanitizeUTF8 s = s) = ValidString s \<and> sanitizeUTF8 (sanitizeUTF8 s) = sanitizeUTF8 s"
  using ValidString_sanitize_loop [of s] by (auto simp: sanitizeUTF8_def)

text \<open>
  Truncation counts bytes and can cut a character in two: the name of a learned rule is then not valid
  UTF-8 although the sender was.
\<close>

lemma truncate_breaks_utf8:
  "ValidString (replicate 26 (CHR ''a'') @ [CHR 0xC3, CHR 0xA9] @ ''bcd'') \<and>
   \<not> ValidString (idle_truncate (replicate 26 (CHR ''a'') @ [CHR 0xC3, CHR 0xA9] @ ''bcd'') 30)"
  by (simp add: idle_truncate_def ValidString.simps numeral_eq_Suc)

end
