(* ===== verification/Web.thy ===== *)
theory Web
  imports Listener StoreAuth
begin

text \<open>
  The ground of the HTTP API: requests and responses, \<^verbatim>\<open>internal/auth\<close> (tokens, passwords, API keys,
  TOTP) and \<^verbatim>\<open>internal/api/middleware/auth.go\<close>. A handler maps a request and the database to a
  response and the database. The value that is encoded as the body of a response is kept as it is
  handed to the encoder. What lies outside the program is the record \<open>api_env\<close>: the JWT library, the
  hashes, the TOTP library, random bytes, and which database calls do not reach the server.
\<close>

subsection \<open>Requests and responses\<close>

datatype json =
    J_Null
  | J_Str string
  | J_Int int
  | J_Bool bool
  | J_Time time
  | J_List "json list"
  | J_Obj "(string \<times> json) list"
  | J_Tenant tenant
  | J_Account account
  | J_Rule rule
  | J_Metadata metadata_record
  | J_Log exec_log
  | J_Deferred deferred_action
  | J_Options string
  | J_Query "string \<rightharpoonup> metadata_record list"
  | J_Raw string

type_synonym response = "int \<times> json"

abbreviation err_response :: "int \<Rightarrow> string \<Rightarrow> response" where
  "err_response code msg \<equiv> (code, J_Obj [(''error'', J_Str msg)])"

abbreviation message_response :: "string \<Rightarrow> response" where
  "message_response msg \<equiv> (200, J_Obj [(''message'', J_Str msg)])"

definition opt_time :: "time option \<Rightarrow> json" where
  "opt_time t = (case t of None \<Rightarrow> J_Null | Some x \<Rightarrow> J_Time x)"

record ctx =
  cx_Path :: string
  cx_Get :: "string \<Rightarrow> string"
  cx_IP :: string
  cx_Params :: "string \<Rightarrow> string"
  cx_Query :: "string \<Rightarrow> string"
  cx_UserID :: "int option"
  cx_Username :: "string option"
  cx_TenantID :: "int option"

record claims =
  cl_UserID :: int
  cl_Username :: string
  cl_ExpiresAt :: "time option"
  cl_IssuedAt :: "time option"
  cl_Issuer :: string

datatype jwt_error = ErrTokenExpired | ErrTokenOther

record api_env =
  ap_now :: time
  ap_fault :: "nat \<Rightarrow> bool"
  ap_dbtext :: "dberr \<Rightarrow> string"
  ap_Sign :: "string \<Rightarrow> claims \<Rightarrow> string option"
  ap_Parse :: "time \<Rightarrow> string \<Rightarrow> (bool \<Rightarrow> string option) \<Rightarrow> jwt_error + claims"
  ap_Sha256 :: "string \<Rightarrow> string"
  ap_Bcrypt :: "string \<Rightarrow> string option"
  ap_Compare :: "string \<Rightarrow> string \<Rightarrow> bool"
  ap_TOTPKey :: "string \<Rightarrow> (string \<times> string) option"
  ap_TOTPImage :: "string \<Rightarrow> string option"
  ap_TOTPValidate :: "time \<Rightarrow> string \<Rightarrow> string \<Rightarrow> bool"
  ap_Random :: "nat \<Rightarrow> string option"
  ap_IsUpper :: "string \<Rightarrow> bool"
  ap_IsLower :: "string \<Rightarrow> bool"
  ap_IsDigit :: "string \<Rightarrow> bool"
  ap_IsSpecial :: "string \<Rightarrow> bool"

text \<open>A read and a statement of the request, at a place in it.\<close>

definition read_at :: "api_env \<Rightarrow> nat \<Rightarrow> dberr + 'a \<Rightarrow> dberr + 'a" where
  "read_at A i r = query (ap_fault A i) r"

definition write_at :: "api_env \<Rightarrow> nat \<Rightarrow> (db \<Rightarrow> 'a dbres) \<Rightarrow> db \<Rightarrow> 'a dbres" where
  "write_at A i op d = stmt (ap_fault A i) op d"

text \<open>
  \<open>c.Locals("user_id").(int64)\<close>: without a user the assertion panics, and the recovery of the server
  answers with its text.
\<close>

definition with_user :: "ctx \<Rightarrow> (int \<Rightarrow> db \<Rightarrow> response \<times> db) \<Rightarrow> db \<Rightarrow> response \<times> db" where
  "with_user c h d =
     (case cx_UserID c of
        None \<Rightarrow> (err_response 500 ''interface conversion: interface {} is nil, not int64'', d)
      | Some u \<Rightarrow> h u d)"

subsection \<open>Hexadecimal and runes\<close>

definition hex_lower :: "nat \<Rightarrow> char" where
  "hex_lower n = (if n < 10 then char_of (48 + n) else char_of (87 + n))"

definition hex_encode :: "string \<Rightarrow> string" where
  "hex_encode s = concat (map (\<lambda>c. [hex_lower (byte c div 16), hex_lower (byte c mod 16)]) s)"

text \<open>The runes that \<open>range\<close> delivers; a byte that does not start a rune counts as U+FFFD.\<close>

function runes :: "string \<Rightarrow> string list" where
  "runes s =
     (if s = [] then []
      else if utf8_size s = 0 then [CHR 0xEF, CHR 0xBF, CHR 0xBD] # runes (drop 1 s)
      else take (utf8_size s) s # runes (drop (utf8_size s) s))"
  by pat_completeness auto
termination
  by (relation "measure length") auto

declare runes.simps [simp del]

text \<open>The classes of a rune, for ASCII written out; punctuation and symbols are one class here.\<close>

definition rune_upper :: "api_env \<Rightarrow> string \<Rightarrow> bool" where
  "rune_upper A r = (case r of [c] \<Rightarrow> in_range c 65 90 | _ \<Rightarrow> ap_IsUpper A r)"

definition rune_lower :: "api_env \<Rightarrow> string \<Rightarrow> bool" where
  "rune_lower A r = (case r of [c] \<Rightarrow> in_range c 97 122 | _ \<Rightarrow> ap_IsLower A r)"

definition rune_digit :: "api_env \<Rightarrow> string \<Rightarrow> bool" where
  "rune_digit A r = (case r of [c] \<Rightarrow> in_range c 48 57 | _ \<Rightarrow> ap_IsDigit A r)"

definition rune_special :: "api_env \<Rightarrow> string \<Rightarrow> bool" where
  "rune_special A r =
     (case r of [c] \<Rightarrow> in_range c 33 47 \<or> in_range c 58 64 \<or> in_range c 91 96 \<or> in_range c 123 126
      | _ \<Rightarrow> ap_IsSpecial A r)"

subsection \<open>Passwords\<close>

datatype password_error = ErrPasswordTooShort | ErrPasswordWeak

definition password_error_text :: "password_error \<Rightarrow> string" where
  "password_error_text e = (case e of
     ErrPasswordTooShort \<Rightarrow> ''password must be at least 12 characters''
   | ErrPasswordWeak \<Rightarrow> ''password must contain uppercase, lowercase, digit, and special character'')"

text \<open>The loop over the runes, whose \<open>switch\<close> takes the first class that fits.\<close>

fun password_classes :: "api_env \<Rightarrow> string list \<Rightarrow> bool \<times> bool \<times> bool \<times> bool \<Rightarrow> bool \<times> bool \<times> bool \<times> bool" where
  "password_classes A [] seen = seen"
| "password_classes A (r # rs) (hasUpper, hasLower, hasDigit, hasSpecial) =
     password_classes A rs
       (if rune_upper A r then (True, hasLower, hasDigit, hasSpecial)
        else if rune_lower A r then (hasUpper, True, hasDigit, hasSpecial)
        else if rune_digit A r then (hasUpper, hasLower, True, hasSpecial)
        else if rune_special A r then (hasUpper, hasLower, hasDigit, True)
        else (hasUpper, hasLower, hasDigit, hasSpecial))"

definition ValidatePassword :: "api_env \<Rightarrow> string \<Rightarrow> password_error option" where
  "ValidatePassword A password =
     (if length password < 12 then Some ErrPasswordTooShort
      else (case password_classes A (runes password) (False, False, False, False) of
              (hasUpper, hasLower, hasDigit, hasSpecial) \<Rightarrow>
                if \<not> hasUpper \<or> \<not> hasLower \<or> \<not> hasDigit \<or> \<not> hasSpecial then Some ErrPasswordWeak else None))"

definition HashPassword :: "api_env \<Rightarrow> string \<Rightarrow> string option" where
  "HashPassword A password = ap_Bcrypt A password"

definition CheckPassword :: "api_env \<Rightarrow> string \<Rightarrow> string \<Rightarrow> bool" where
  "CheckPassword A password hash = ap_Compare A hash password"

subsection \<open>Tokens and keys\<close>

record JWTManager =
  jm_secret :: string
  jm_expiration :: int

text \<open>\<open>jwt.NewNumericDate\<close> keeps whole seconds.\<close>

definition NewNumericDate :: "time \<Rightarrow> time" where
  "NewNumericDate t = t - t mod Second"

definition GenerateToken :: "api_env \<Rightarrow> JWTManager \<Rightarrow> int \<Rightarrow> string \<Rightarrow> (string \<times> time) option" where
  "GenerateToken A m userID username =
     (let expiresAt = ap_now A + jm_expiration m;
          c = \<lparr>cl_UserID = userID, cl_Username = username, cl_ExpiresAt = Some (NewNumericDate expiresAt),
               cl_IssuedAt = Some (NewNumericDate (ap_now A)), cl_Issuer = ''email-automation''\<rparr>
      in map_option (\<lambda>t. (t, expiresAt)) (ap_Sign A (jm_secret m) c))"

datatype token_error = ErrInvalidToken | ErrExpiredToken

definition ValidateToken :: "api_env \<Rightarrow> JWTManager \<Rightarrow> string \<Rightarrow> token_error + claims" where
  "ValidateToken A m tokenString =
     (case ap_Parse A (ap_now A) tokenString (\<lambda>hmac. if hmac then Some (jm_secret m) else None) of
        Inl ErrTokenExpired \<Rightarrow> Inl ErrExpiredToken
      | Inl _ \<Rightarrow> Inl ErrInvalidToken
      | Inr c \<Rightarrow> Inr c)"

definition HashToken :: "api_env \<Rightarrow> string \<Rightarrow> string" where
  "HashToken A token = hex_encode (ap_Sha256 A token)"

definition HashAPIKey :: "api_env \<Rightarrow> string \<Rightarrow> string" where
  "HashAPIKey A key = hex_encode (ap_Sha256 A key)"

definition GenerateAPIKey :: "api_env \<Rightarrow> string option" where
  "GenerateAPIKey A = map_option (\<lambda>b. ''ea_'' @ hex_encode b) (ap_Random A 32)"

record TOTPGenerateResult =
  tg_Secret :: string
  tg_URL :: string
  tg_QRCode :: string

definition GenerateTOTP :: "api_env \<Rightarrow> string \<Rightarrow> TOTPGenerateResult option" where
  "GenerateTOTP A username =
     (case ap_TOTPKey A username of
        None \<Rightarrow> None
      | Some (secret, url) \<Rightarrow>
          map_option (\<lambda>png. \<lparr>tg_Secret = secret, tg_URL = url, tg_QRCode = ''data:image/png;base64,'' @ b64_encode png\<rparr>)
            (ap_TOTPImage A url))"

definition ValidateTOTP :: "api_env \<Rightarrow> string \<Rightarrow> string \<Rightarrow> bool" where
  "ValidateTOTP A token secret = ap_TOTPValidate A (ap_now A) token secret"

subsection \<open>Middleware\<close>

text \<open>A middleware answers the request or passes it on with what it has found out.\<close>

type_synonym pass = "(response + ctx) \<times> db"

definition tryAPIKeyAuth :: "api_env \<Rightarrow> string \<Rightarrow> ctx \<Rightarrow> db \<Rightarrow> pass" where
  "tryAPIKeyAuth A apiKey c d =
     (case read_at A 0 (GetTenantByAPIKey apiKey d) of
        Inl _ \<Rightarrow> (Inl (err_response 401 ''invalid API key''), d)
      | Inr tenant \<Rightarrow> (Inr (c\<lparr>cx_TenantID := Some (t_ID tenant)\<rparr>), d))"

text \<open>The tenant of a user: the first one, or a new one when there is none.\<close>

definition find_tenant :: "api_env \<Rightarrow> int \<Rightarrow> string \<Rightarrow> ctx \<Rightarrow> db \<Rightarrow> pass" where
  "find_tenant A userID username c d =
     (case read_at A 1 (Inr (GetTenantsByUserID userID d)) of
        Inl _ \<Rightarrow> (Inr c, d)
      | Inr (t # ts) \<Rightarrow> (Inr (c\<lparr>cx_TenantID := Some (t_ID t)\<rparr>), d)
      | Inr [] \<Rightarrow>
          (case write_at A 2 (CreateTenantForUser (ap_now A) userID username) d of
             (Inl _, d') \<Rightarrow> (Inr c, d')
           | (Inr newTenant, d') \<Rightarrow> (Inr (c\<lparr>cx_TenantID := Some (t_ID newTenant)\<rparr>), d')))"

definition tryUserAPIKeyAuth :: "api_env \<Rightarrow> string \<Rightarrow> ctx \<Rightarrow> db \<Rightarrow> pass" where
  "tryUserAPIKeyAuth A apiKey c d =
     (case GetUserByAPIKeyHash (\<lambda>i. ap_fault A (3 + i)) (ap_now A) (HashAPIKey A apiKey) d of
        (Inl _, d1) \<Rightarrow> (Inl (err_response 401 ''invalid API key''), d1)
      | (Inr user, d1) \<Rightarrow>
          find_tenant A (u_ID user) (u_Username user)
            (c\<lparr>cx_UserID := Some (u_ID user), cx_Username := Some (u_Username user)\<rparr>) d1)"

definition count_char :: "char \<Rightarrow> string \<Rightarrow> nat" where
  "count_char x s = length (filter (\<lambda>c. c = x) s)"

definition JWTAuthMiddleware :: "api_env \<Rightarrow> JWTManager \<Rightarrow> ctx \<Rightarrow> db \<Rightarrow> pass" where
  "JWTAuthMiddleware A m c d =
     (if cx_Path c = ''/health'' \<or> cx_Path c = ''/ready'' then (Inr c, d)
      else let authHeader = cx_Get c ''Authorization'' in
        if HasPrefix authHeader ''Bearer '' then
          (let tokenString = TrimPrefix authHeader ''Bearer ''
           in if count_char (CHR ''.'') tokenString = 2 then
                (case ValidateToken A m tokenString of
                   Inl _ \<Rightarrow> (Inl (err_response 401 ''invalid or expired token''), d)
                 | Inr cl \<Rightarrow>
                     if read_at A 0 (Inr (IsTokenBlacklisted (ap_now A) (HashToken A tokenString) d)) = Inr True
                     then (Inl (err_response 401 ''token has been revoked''), d)
                     else find_tenant A (cl_UserID cl) (cl_Username cl)
                            (c\<lparr>cx_UserID := Some (cl_UserID cl), cx_Username := Some (cl_Username cl)\<rparr>) d)
              else tryAPIKeyAuth A tokenString c d)
        else let apiKey = cx_Get c ''X-API-Key'' in
          if apiKey \<noteq> [] then
            (if HasPrefix apiKey ''ea_'' then tryUserAPIKeyAuth A apiKey c d else tryAPIKeyAuth A apiKey c d)
          else (Inl (err_response 401 ''authentication required''), d))"

definition RequireAuth :: "ctx \<Rightarrow> db \<Rightarrow> pass" where
  "RequireAuth c d =
     (if cx_UserID c = None then (Inl (err_response 401 ''authentication required''), d) else (Inr c, d))"

definition RequireAdmin :: "api_env \<Rightarrow> ctx \<Rightarrow> db \<Rightarrow> pass" where
  "RequireAdmin A c d =
     (case cx_UserID c of
        None \<Rightarrow> (Inl (err_response 401 ''authentication required''), d)
      | Some userID \<Rightarrow>
          if userID = 0 then (Inl (err_response 401 ''authentication required''), d)
          else (case read_at A 5 (GetUserByID userID d) of
             Inl _ \<Rightarrow> (Inl (err_response 401 ''user not found''), d)
           | Inr user \<Rightarrow>
               if \<not> IsAdmin user then (Inl (err_response 403 ''admin access required''), d) else (Inr c, d)))"

definition AuthMiddleware :: "api_env \<Rightarrow> ctx \<Rightarrow> db \<Rightarrow> pass" where
  "AuthMiddleware A c d =
     (if cx_Path c = ''/health'' \<or> cx_Path c = ''/ready'' then (Inr c, d)
      else let header = cx_Get c ''Authorization'';
               apiKey = (if cx_Get c ''X-API-Key'' = []
                         then (if HasPrefix header ''Bearer '' then TrimPrefix header ''Bearer '' else [])
                         else cx_Get c ''X-API-Key'')
           in if apiKey = [] then (Inl (err_response 401 ''missing API key''), d)
              else tryAPIKeyAuth A apiKey c d)"

text \<open>A handler behind a chain of middleware.\<close>

fun guarded :: "(ctx \<Rightarrow> db \<Rightarrow> pass) list \<Rightarrow> (ctx \<Rightarrow> db \<Rightarrow> response \<times> db) \<Rightarrow> ctx \<Rightarrow> db \<Rightarrow> response \<times> db" where
  "guarded [] h c d = h c d"
| "guarded (m # ms) h c d =
     (case m c d of (Inl r, d1) \<Rightarrow> (r, d1) | (Inr c1, d1) \<Rightarrow> guarded ms h c1 d1)"

end
