(* ===== verification/WebAuth.thy ===== *)
theory WebAuth
  imports Web
begin

text \<open>
  \<^verbatim>\<open>internal/api/handlers\<close>: registration and login with a password (\<^verbatim>\<open>auth.go\<close>, \<^verbatim>\<open>registration.go\<close>),
  TOTP (\<^verbatim>\<open>auth_totp.go\<close>), API keys, password change and profile (\<^verbatim>\<open>auth_apikeys.go\<close>), tenants
  (\<^verbatim>\<open>tenants.go\<close>) and the administration of users (\<^verbatim>\<open>admin_users.go\<close>). A request body is \<open>None\<close> when
  it cannot be parsed.
\<close>

record auth_config =
  cf_RegistrationEnabled :: bool
  cf_RateLimitWindow :: int
  cf_RateLimitMaxFails :: int

subsection \<open>Registration and login\<close>

definition checkRateLimit :: "api_env \<Rightarrow> auth_config \<Rightarrow> ctx \<Rightarrow> string \<Rightarrow> db \<Rightarrow> bool" where
  "checkRateLimit A cfg c username d =
     (case read_at A 10 (Inr (CountRecentFailedAttempts (ap_now A) username (cx_IP c) (cf_RateLimitWindow cfg) d)) of
        Inl _ \<Rightarrow> False
      | Inr count \<Rightarrow> cf_RateLimitMaxFails cfg \<le> int count)"

definition attempt :: "api_env \<Rightarrow> nat \<Rightarrow> string \<Rightarrow> string \<Rightarrow> bool \<Rightarrow> db \<Rightarrow> db" where
  "attempt A i username ip success d = snd (write_at A i (RecordLoginAttempt (ap_now A) username ip success) d)"

definition shown_role :: "user \<Rightarrow> string" where
  "shown_role user = (if u_ID user = 1 then ''admin'' else u_Role user)"

definition generateTokenResponse :: "api_env \<Rightarrow> JWTManager \<Rightarrow> ctx \<Rightarrow> user \<Rightarrow> db \<Rightarrow> response \<times> db" where
  "generateTokenResponse A m c user d =
     (case GenerateToken A m (u_ID user) (u_Username user) of
        None \<Rightarrow> (err_response 500 ''failed to generate token'', d)
      | Some (token, expiresAt) \<Rightarrow>
          ((200, J_Obj [(''token'', J_Str token), (''expires_at'', J_Time expiresAt),
              (''user'', J_Obj [(''id'', J_Int (u_ID user)), (''username'', J_Str (u_Username user)),
                 (''totp_enabled'', J_Bool (u_TOTPEnabled user)), (''role'', J_Str (shown_role user))])]),
           attempt A 11 (u_Username user) (cx_IP c) True d))"

definition new_user :: "string \<Rightarrow> string \<Rightarrow> user" where
  "new_user username hash =
     \<lparr>u_ID = 0, u_Username = username, u_PasswordHash = hash, u_TOTPSecret = None, u_TOTPEnabled = False,
      u_AIEnabled = False, u_Role = [], u_CreatedAt = 0, u_UpdatedAt = 0\<rparr>"

record register_req =
  rq_Username :: string
  rq_Password :: string

definition Register :: "api_env \<Rightarrow> JWTManager \<Rightarrow> auth_config \<Rightarrow> ctx \<Rightarrow> register_req option \<Rightarrow> db \<Rightarrow> response \<times> db" where
  "Register A m cfg c body d =
     (if \<not> cf_RegistrationEnabled cfg then (err_response 403 ''registration is currently disabled'', d)
      else case body of
        None \<Rightarrow> (err_response 400 ''invalid request body'', d)
      | Some req \<Rightarrow>
          if rq_Username req = [] \<or> rq_Password req = [] then (err_response 400 ''username and password are required'', d)
          else if length (rq_Username req) < 3 \<or> 64 < length (rq_Username req)
          then (err_response 400 ''username must be 3-64 characters'', d)
          else (case ValidatePassword A (rq_Password req) of
             Some e \<Rightarrow> (err_response 400 (password_error_text e), d)
           | None \<Rightarrow>
               (case HashPassword A (rq_Password req) of
                  None \<Rightarrow> (err_response 500 ''failed to process registration'', d)
                | Some hash \<Rightarrow>
                    (case write_at A 12 (CreateUser (ap_now A) (new_user (rq_Username req) hash)) d of
                       (Inl _, d1) \<Rightarrow> (err_response 409 ''registration failed'', d1)
                     | (Inr user, d1) \<Rightarrow> generateTokenResponse A m c user d1))))"

record login_req =
  lq_Username :: string
  lq_Password :: string
  lq_TOTPToken :: string

definition Login :: "api_env \<Rightarrow> JWTManager \<Rightarrow> auth_config \<Rightarrow> ctx \<Rightarrow> login_req option \<Rightarrow> db \<Rightarrow> response \<times> db" where
  "Login A m cfg c body d =
     (case body of
        None \<Rightarrow> (err_response 400 ''invalid request body'', d)
      | Some req \<Rightarrow>
          let username = lq_Username req; fail_attempt = attempt A 14 username (cx_IP c) False d in
          if username = [] \<or> lq_Password req = [] then (err_response 400 ''username and password are required'', d)
          else if checkRateLimit A cfg c username d
          then (err_response 429 ''too many failed attempts, please try again later'', d)
          else (case read_at A 13 (GetUserByUsername username d) of
             Inl _ \<Rightarrow> (err_response 401 ''invalid credentials'', fail_attempt)
           | Inr user \<Rightarrow>
               if \<not> CheckPassword A (lq_Password req) (u_PasswordHash user)
               then (err_response 401 ''invalid credentials'', fail_attempt)
               else if u_TOTPEnabled user \<and> lq_TOTPToken req = []
               then ((401, J_Obj [(''error'', J_Str ''TOTP token required''), (''totp_required'', J_Bool True)]), d)
               else if u_TOTPEnabled user \<and>
                 (case u_TOTPSecret user of None \<Rightarrow> True | Some secret \<Rightarrow> \<not> ValidateTOTP A (lq_TOTPToken req) secret)
               then (err_response 401 ''invalid TOTP token'', fail_attempt)
               else generateTokenResponse A m c user d))"

definition extractToken :: "ctx \<Rightarrow> string" where
  "extractToken c =
     (let authHeader = cx_Get c ''Authorization''
      in if 7 < length authHeader \<and> take 7 authHeader = ''Bearer '' then drop 7 authHeader else [])"

text \<open>A token without an expiry would make \<open>Logout\<close> panic.\<close>

definition Logout :: "api_env \<Rightarrow> JWTManager \<Rightarrow> ctx \<Rightarrow> db \<Rightarrow> response \<times> db" where
  "Logout A m c d =
     (let tokenString = extractToken c
      in if tokenString = [] then (err_response 400 ''no token provided'', d)
         else (case ValidateToken A m tokenString of
            Inl _ \<Rightarrow> (message_response ''logged out'', d)
          | Inr cl \<Rightarrow>
              (case cl_ExpiresAt cl of
                 None \<Rightarrow> (err_response 500 ''runtime error: invalid memory address or nil pointer dereference'', d)
               | Some expiresAt \<Rightarrow>
                   (message_response ''logged out'', snd (write_at A 15 (BlacklistToken (HashToken A tokenString) expiresAt) d)))))"

text \<open>The handler of \<^verbatim>\<open>registration.go\<close>, which no route uses.\<close>

record register_user_req =
  ru_Username :: string
  ru_TenantID :: "int option"

definition RegisterUser :: "api_env \<Rightarrow> auth_config \<Rightarrow> register_user_req option \<Rightarrow> db \<Rightarrow> response \<times> db" where
  "RegisterUser A cfg body d =
     (if \<not> cf_RegistrationEnabled cfg then (err_response 403 ''registration is currently disabled'', d)
      else case body of
        None \<Rightarrow> (err_response 400 ''invalid request body'', d)
      | Some req \<Rightarrow>
          if ru_Username req = [] then (err_response 400 ''username is required'', d)
          else if length (ru_Username req) < 3 \<or> 64 < length (ru_Username req)
          then (err_response 400 ''username must be 3-64 characters'', d)
          else (case write_at A 10 (CreateUser (ap_now A) (new_user (ru_Username req) [])) d of
             (Inl _, d1) \<Rightarrow> (err_response 409 ''registration failed'', d1)
           | (Inr user, d1) \<Rightarrow>
               ((201, J_Obj [(''user_id'', J_Int (u_ID user)), (''username'', J_Str (u_Username user))]),
                case ru_TenantID req of
                  None \<Rightarrow> d1
                | Some tid \<Rightarrow> snd (write_at A 11 (AssignTenantToUser tid (u_ID user)) d1))))"

subsection \<open>TOTP\<close>

definition TOTPSetup :: "api_env \<Rightarrow> ctx \<Rightarrow> db \<Rightarrow> response \<times> db" where
  "TOTPSetup A c = with_user c (\<lambda>userID d.
     case read_at A 10 (GetUserByID userID d) of
       Inl _ \<Rightarrow> (err_response 404 ''user not found'', d)
     | Inr user \<Rightarrow>
         if u_TOTPEnabled user then (err_response 409 ''TOTP is already enabled'', d)
         else (case GenerateTOTP A (u_Username user) of
            None \<Rightarrow> (err_response 500 ''failed to generate TOTP'', d)
          | Some result \<Rightarrow>
              (case write_at A 11 (UpdateUserTOTP (ap_now A) userID (Some (tg_Secret result)) False) d of
                 (Inl _, d1) \<Rightarrow> (err_response 500 ''failed to setup TOTP'', d1)
               | (Inr _, d1) \<Rightarrow>
                   ((200, J_Obj [(''secret'', J_Str (tg_Secret result)), (''url'', J_Str (tg_URL result)),
                      (''qr_code'', J_Str (tg_QRCode result))]), d1))))"

definition TOTPVerify :: "api_env \<Rightarrow> ctx \<Rightarrow> string option \<Rightarrow> db \<Rightarrow> response \<times> db" where
  "TOTPVerify A c body = with_user c (\<lambda>userID d.
     case body of
       None \<Rightarrow> (err_response 400 ''invalid request body'', d)
     | Some token \<Rightarrow>
         if token = [] then (err_response 400 ''totp_token is required'', d)
         else (case read_at A 10 (GetUserByID userID d) of
            Inl _ \<Rightarrow> (err_response 404 ''user not found'', d)
          | Inr user \<Rightarrow>
              if u_TOTPEnabled user then (err_response 409 ''TOTP is already enabled'', d)
              else (case u_TOTPSecret user of
                 None \<Rightarrow> (err_response 400 ''TOTP not set up yet, call /auth/totp/setup first'', d)
               | Some secret \<Rightarrow>
                   if \<not> ValidateTOTP A token secret then (err_response 401 ''invalid TOTP token'', d)
                   else (case write_at A 11 (UpdateUserTOTP (ap_now A) userID (Some secret) True) d of
                      (Inl _, d1) \<Rightarrow> (err_response 500 ''failed to enable TOTP'', d1)
                    | (Inr _, d1) \<Rightarrow> (message_response ''TOTP enabled successfully'', d1)))))"

definition TOTPDisable :: "api_env \<Rightarrow> ctx \<Rightarrow> string option \<Rightarrow> db \<Rightarrow> response \<times> db" where
  "TOTPDisable A c body = with_user c (\<lambda>userID d.
     case body of
       None \<Rightarrow> (err_response 400 ''invalid request body'', d)
     | Some password \<Rightarrow>
         if password = [] then (err_response 400 ''password is required'', d)
         else (case read_at A 10 (GetUserByID userID d) of
            Inl _ \<Rightarrow> (err_response 404 ''user not found'', d)
          | Inr user \<Rightarrow>
              if \<not> CheckPassword A password (u_PasswordHash user) then (err_response 401 ''invalid password'', d)
              else (case write_at A 11 (UpdateUserTOTP (ap_now A) userID None False) d of
                 (Inl _, d1) \<Rightarrow> (err_response 500 ''failed to disable TOTP'', d1)
               | (Inr _, d1) \<Rightarrow> (message_response ''TOTP disabled successfully'', d1))))"

subsection \<open>API keys, password and profile\<close>

definition APIKeyCreate :: "api_env \<Rightarrow> ctx \<Rightarrow> string option \<Rightarrow> db \<Rightarrow> response \<times> db" where
  "APIKeyCreate A c body = with_user c (\<lambda>userID d.
     case body of
       None \<Rightarrow> (err_response 400 ''invalid request body'', d)
     | Some name \<Rightarrow>
         if name = [] then (err_response 400 ''name is required'', d)
         else (case GenerateAPIKey A of
            None \<Rightarrow> (err_response 500 ''failed to generate API key'', d)
          | Some rawKey \<Rightarrow>
              (let prefix = take 10 rawKey @ ''...'';
                   rec = \<lparr>k_ID = 0, k_UserID = userID, k_KeyHash = HashAPIKey A rawKey, k_Name = name, k_Prefix = prefix,
                          k_CreatedAt = 0, k_LastUsedAt = None\<rparr>
               in case write_at A 10 (CreateAPIKey (ap_now A) rec) d of
                    (Inl _, d1) \<Rightarrow> (err_response 500 ''failed to create API key'', d1)
                  | (Inr rec1, d1) \<Rightarrow>
                      ((201, J_Obj [(''id'', J_Int (k_ID rec1)), (''name'', J_Str (k_Name rec1)), (''key'', J_Str rawKey),
                         (''prefix'', J_Str prefix), (''message'', J_Str ''Save this key now. It cannot be retrieved later.'')]), d1))))"

definition APIKeyList :: "api_env \<Rightarrow> ctx \<Rightarrow> db \<Rightarrow> response \<times> db" where
  "APIKeyList A c = with_user c (\<lambda>userID d.
     case read_at A 10 (Inr (GetAPIKeysByUserID userID d)) of
       Inl _ \<Rightarrow> (err_response 500 ''failed to list API keys'', d)
     | Inr ks \<Rightarrow>
         ((200, J_List (map (\<lambda>k. J_Obj [(''id'', J_Int (k_ID k)), (''name'', J_Str (k_Name k)), (''prefix'', J_Str (k_Prefix k)),
            (''created_at'', J_Time (k_CreatedAt k)), (''last_used_at'', opt_time (k_LastUsedAt k))]) ks)), d))"

text \<open>\<open>c.ParamsInt\<close> is \<open>strconv.Atoi\<close> of the parameter.\<close>

definition APIKeyDelete :: "api_env \<Rightarrow> ctx \<Rightarrow> db \<Rightarrow> response \<times> db" where
  "APIKeyDelete A c = with_user c (\<lambda>userID d.
     case Atoi (cx_Params c ''id'') of
       None \<Rightarrow> (err_response 400 ''invalid API key ID'', d)
     | Some keyID \<Rightarrow>
         (case write_at A 10 (DeleteAPIKey keyID userID) d of
            (Inl _, d1) \<Rightarrow> (err_response 500 ''failed to delete API key'', d1)
          | (Inr _, d1) \<Rightarrow> (message_response ''API key deleted'', d1)))"

record change_password_req =
  cp_CurrentPassword :: string
  cp_NewPassword :: string

definition ChangePassword :: "api_env \<Rightarrow> ctx \<Rightarrow> change_password_req option \<Rightarrow> db \<Rightarrow> response \<times> db" where
  "ChangePassword A c body = with_user c (\<lambda>userID d.
     case body of
       None \<Rightarrow> (err_response 400 ''invalid request body'', d)
     | Some req \<Rightarrow>
         if cp_CurrentPassword req = [] \<or> cp_NewPassword req = []
         then (err_response 400 ''current_password and new_password are required'', d)
         else (case ValidatePassword A (cp_NewPassword req) of
            Some e \<Rightarrow> (err_response 400 (password_error_text e), d)
          | None \<Rightarrow>
              (case read_at A 10 (GetUserByID userID d) of
                 Inl _ \<Rightarrow> (err_response 404 ''user not found'', d)
               | Inr user \<Rightarrow>
                   if \<not> CheckPassword A (cp_CurrentPassword req) (u_PasswordHash user)
                   then (err_response 401 ''invalid current password'', d)
                   else (case HashPassword A (cp_NewPassword req) of
                      None \<Rightarrow> (err_response 500 ''failed to update password'', d)
                    | Some hash \<Rightarrow>
                        (case write_at A 11 (UpdateUserPassword (ap_now A) userID hash) d of
                           (Inl _, d1) \<Rightarrow> (err_response 500 ''failed to update password'', d1)
                         | (Inr _, d1) \<Rightarrow> (message_response ''password changed successfully'', d1))))))"

definition GetProfile :: "api_env \<Rightarrow> ctx \<Rightarrow> db \<Rightarrow> response \<times> db" where
  "GetProfile A c = with_user c (\<lambda>userID d.
     case read_at A 10 (GetUserByID userID d) of
       Inl _ \<Rightarrow> (err_response 404 ''user not found'', d)
     | Inr user \<Rightarrow>
         let passkeyCount = (case read_at A 11 (Inr (GetPasskeysByUserID userID d)) of Inl _ \<Rightarrow> 0 | Inr ps \<Rightarrow> length ps)
         in ((200, J_Obj [(''id'', J_Int (u_ID user)), (''username'', J_Str (u_Username user)), (''role'', J_Str (shown_role user)),
              (''totp_enabled'', J_Bool (u_TOTPEnabled user)), (''passkey_count'', J_Int (int passkeyCount)),
              (''created_at'', J_Time (u_CreatedAt user))]), d))"

subsection \<open>Tenants\<close>

definition maskKey :: "string \<Rightarrow> string" where
  "maskKey key = (if length key \<le> 8 then ''****'' else take 7 key @ ''...'' @ drop (length key - 4) key)"

definition api_ListTenants :: "api_env \<Rightarrow> db \<Rightarrow> response \<times> db" where
  "api_ListTenants A d =
     (case read_at A 10 (Inr (ListTenants d)) of
        Inl e \<Rightarrow> (err_response 500 (ap_dbtext A e), d)
      | Inr ts \<Rightarrow> ((200, J_List (map (\<lambda>t. J_Tenant (t\<lparr>t_APIKey := maskKey (t_APIKey t)\<rparr>)) ts)), d))"

definition api_CreateTenant :: "api_env \<Rightarrow> tenant option \<Rightarrow> db \<Rightarrow> response \<times> db" where
  "api_CreateTenant A body d =
     (case body of
        None \<Rightarrow> (err_response 400 ''invalid request body'', d)
      | Some t \<Rightarrow>
          if t_Name t = [] \<or> t_Slug t = [] then (err_response 400 ''name and slug are required'', d)
          else (case GenerateAPIKey A of
             None \<Rightarrow> (err_response 500 ''failed to generate API key'', d)
           | Some key \<Rightarrow>
               (case write_at A 10 (CreateTenant (ap_now A) (t\<lparr>t_APIKey := key\<rparr>)) d of
                  (Inl e, d1) \<Rightarrow> (err_response 500 (ap_dbtext A e), d1)
                | (Inr t1, d1) \<Rightarrow> ((201, J_Tenant t1), d1))))"

subsection \<open>Administration of users\<close>

definition AdminUserResponse :: "user \<Rightarrow> json" where
  "AdminUserResponse u = J_Obj [(''id'', J_Int (u_ID u)), (''username'', J_Str (u_Username u)), (''role'', J_Str (u_Role u)),
     (''ai_enabled'', J_Bool (u_AIEnabled u)), (''totp_enabled'', J_Bool (u_TOTPEnabled u)),
     (''created_at'', J_Time (u_CreatedAt u)), (''updated_at'', J_Time (u_UpdatedAt u))]"

definition ListUsers :: "api_env \<Rightarrow> db \<Rightarrow> response \<times> db" where
  "ListUsers A d =
     (case read_at A 10 (Inr (ListAllUsers d)) of
        Inl e \<Rightarrow> (err_response 500 (ap_dbtext A e), d)
      | Inr us \<Rightarrow> ((200, J_Obj [(''users'', J_List (map AdminUserResponse us))]), d))"

definition GetUser :: "api_env \<Rightarrow> ctx \<Rightarrow> db \<Rightarrow> response \<times> db" where
  "GetUser A c d =
     (case Atoi (cx_Params c ''userId'') of
        None \<Rightarrow> (err_response 400 ''invalid user ID'', d)
      | Some userID \<Rightarrow>
          (case read_at A 10 (GetUserByID userID d) of
             Inl _ \<Rightarrow> (err_response 404 ''user not found'', d)
           | Inr user \<Rightarrow> ((200, AdminUserResponse user), d)))"

text \<open>The answer to an update of a user that failed; \<open>UserNotFound\<close> is the error with the text \<open>user not found\<close>.\<close>

definition update_error :: "api_env \<Rightarrow> dberr \<Rightarrow> response" where
  "update_error A e = (if e = UserNotFound then err_response 404 ''user not found'' else err_response 500 (ap_dbtext A e))"

definition UpdateAIEnabled :: "api_env \<Rightarrow> ctx \<Rightarrow> bool option \<Rightarrow> db \<Rightarrow> response \<times> db" where
  "UpdateAIEnabled A c body d =
     (case Atoi (cx_Params c ''userId'') of
        None \<Rightarrow> (err_response 400 ''invalid user ID'', d)
      | Some userID \<Rightarrow>
          (case body of
             None \<Rightarrow> (err_response 400 ''invalid request body'', d)
           | Some aiEnabled \<Rightarrow>
               (case write_at A 10 (UpdateUserAIEnabled (ap_now A) userID aiEnabled) d of
                  (Inl e, d1) \<Rightarrow> (update_error A e, d1)
                | (Inr _, d1) \<Rightarrow>
                    ((200, J_Obj [(''message'', J_Str ''AI permission updated''), (''user_id'', J_Int userID),
                       (''ai_enabled'', J_Bool aiEnabled)]), d1))))"

definition PromoteUser :: "api_env \<Rightarrow> ctx \<Rightarrow> db \<Rightarrow> response \<times> db" where
  "PromoteUser A c d =
     (case Atoi (cx_Params c ''userId'') of
        None \<Rightarrow> (err_response 400 ''invalid user ID'', d)
      | Some userID \<Rightarrow>
          (case write_at A 10 (UpdateUserRole (ap_now A) userID ''admin'') d of
             (Inl e, d1) \<Rightarrow> (update_error A e, d1)
           | (Inr _, d1) \<Rightarrow>
               ((200, J_Obj [(''message'', J_Str ''user promoted to admin''), (''user_id'', J_Int userID),
                  (''role'', J_Str ''admin'')]), d1)))"

definition DemoteUser :: "api_env \<Rightarrow> ctx \<Rightarrow> db \<Rightarrow> response \<times> db" where
  "DemoteUser A c d =
     (case Atoi (cx_Params c ''userId'') of
        None \<Rightarrow> (err_response 400 ''invalid user ID'', d)
      | Some userID \<Rightarrow>
          if userID = 1 then (err_response 403 ''cannot demote the primary admin (user #1)'', d)
          else (case write_at A 10 (UpdateUserRole (ap_now A) userID ''user'') d of
             (Inl e, d1) \<Rightarrow> (update_error A e, d1)
           | (Inr _, d1) \<Rightarrow>
               ((200, J_Obj [(''message'', J_Str ''user demoted to regular user''), (''user_id'', J_Int userID),
                  (''role'', J_Str ''user'')]), d1)))"

end
