(* ===== verification/Access.thy ===== *)
theory Access
  imports WebAuth Samples
begin

text \<open>
  Who gets in: the properties of login, tokens, API keys and the middleware of the HTTP API.
\<close>

subsection \<open>Login\<close>

lemma attempt_users [simp]: "users (attempt A i un ip s d) = users d" "tenants (attempt A i un ip s d) = tenants d"
  "apiKeys (attempt A i un ip s d) = apiKeys d" "blacklist (attempt A i un ip s d) = blacklist d"
  by (simp_all add: attempt_def write_at_def stmt_def RecordLoginAttempt_def bump_def)

text \<open>The second factor that a user who switched it on has to give.\<close>

definition second_factor :: "api_env \<Rightarrow> user \<Rightarrow> string \<Rightarrow> bool" where
  "second_factor A user token \<longleftrightarrow> \<not> u_TOTPEnabled user \<or>
     token \<noteq> [] \<and> (\<exists>secret. u_TOTPSecret user = Some secret \<and> ap_TOTPValidate A (ap_now A) token secret)"

definition token_for :: "api_env \<Rightarrow> JWTManager \<Rightarrow> user \<Rightarrow> json \<Rightarrow> bool" where
  "token_for A m user b \<longleftrightarrow> (\<exists>token rest. b = J_Obj ((''token'', J_Str token) # rest) \<and>
     ap_Sign A (jm_secret m) \<lparr>cl_UserID = u_ID user, cl_Username = u_Username user,
       cl_ExpiresAt = Some (NewNumericDate (ap_now A + jm_expiration m)), cl_IssuedAt = Some (NewNumericDate (ap_now A)),
       cl_Issuer = ''email-automation''\<rparr> = Some token)"

lemma generateTokenResponse_200:
  "fst (generateTokenResponse A m c user d) = (200, b) \<Longrightarrow> token_for A m user b"
  by (auto simp: generateTokenResponse_def GenerateToken_def token_for_def Let_def split: option.splits)

text \<open>
  C26. A login hands out a token only to who knows the credentials: the answer 200 means that the user exists,
  that the password matches the stored hash, that the second factor, if switched on, is valid, that the
  number of recent failures of this name and address is below the limit (unless it could not be read),
  and the token is signed for this very user.
\<close>
theorem login_needs_credentials:
  assumes "Login A m cfg c body d = ((200, b), d')"
  shows "\<exists>req user. body = Some req \<and> user \<in> set (users d) \<and> u_Username user = lq_Username req \<and> u_Username user \<noteq> [] \<and>
    ap_Compare A (u_PasswordHash user) (lq_Password req) \<and> second_factor A user (lq_TOTPToken req) \<and>
    (\<not> ap_fault A 10 \<longrightarrow>
       int (CountRecentFailedAttempts (ap_now A) (lq_Username req) (cx_IP c) (cf_RateLimitWindow cfg) d) < cf_RateLimitMaxFails cfg) \<and>
    token_for A m user b"
proof -
  from assms obtain req where req: "body = Some req" by (auto simp: Login_def split: option.splits)
  from assms req have ne: "lq_Username req \<noteq> []" and lim: "\<not> checkRateLimit A cfg c (lq_Username req) d"
    by (auto simp: Login_def Let_def split: if_splits)
  from assms req ne lim obtain user where user: "read_at A 13 (GetUserByUsername (lq_Username req) d) = Inr user"
    by (auto simp: Login_def Let_def split: if_splits sum.splits)
  have ok: "CheckPassword A (lq_Password req) (u_PasswordHash user)" "second_factor A user (lq_TOTPToken req)"
    "generateTokenResponse A m c user d = ((200, b), d')"
    using assms req ne lim user
    by (auto simp: Login_def Let_def second_factor_def ValidateTOTP_def split: if_splits option.splits)
  have "user \<in> set (users d)" "u_Username user = lq_Username req"
    using user by (auto simp: read_at_def query_def GetUserByUsername_def get_row_def find_Some_iff split: if_splits option.splits)
  moreover have "token_for A m user b" using generateTokenResponse_200 [of A m c user d b] ok(3) by simp
  ultimately show ?thesis
    using req ne lim ok(1,2)
    by (intro exI [of _ req] exI [of _ user])
      (auto simp: CheckPassword_def checkRateLimit_def read_at_def query_def not_le)
qed

subsection \<open>The rate limit\<close>

text \<open>A series of requests, each in its own environment.\<close>

fun logins :: "JWTManager \<Rightarrow> auth_config \<Rightarrow> (api_env \<times> ctx \<times> login_req) list \<Rightarrow> db \<Rightarrow> response list \<times> db" where
  "logins m cfg [] d = ([], d)"
| "logins m cfg ((A, c, req) # rs) d =
     (case Login A m cfg c (Some req) d of (r, d1) \<Rightarrow> (case logins m cfg rs d1 of (out, d2) \<Rightarrow> (r # out, d2)))"

abbreviation bad_credentials :: response where
  "bad_credentials \<equiv> err_response 401 ''invalid credentials''"

text \<open>The failures of a name that count at an instant.\<close>

definition failures :: "time \<Rightarrow> string \<Rightarrow> int \<Rightarrow> db \<Rightarrow> nat" where
  "failures now un window d =
     length (filter (\<lambda>a. at_Username a = un \<and> \<not> at_Success a \<and> now - window < at_AttemptedAt a) (attempts d))"

lemma filter_length_mono: "(\<And>x. P x \<Longrightarrow> Q x) \<Longrightarrow> length (filter P xs) \<le> length (filter Q xs)"
  by (induction xs) auto

lemma failures_le_count: "failures now un window d \<le> CountRecentFailedAttempts now un ip window d"
  unfolding failures_def CountRecentFailedAttempts_def rows_affected_def by (rule filter_length_mono) blast

lemma generateTokenResponse_code: "fst (fst (generateTokenResponse A m c user d)) \<noteq> 401"
  by (simp add: generateTokenResponse_def split: option.split)

lemma failed_login_recorded:
  assumes "Login A m cfg c (Some req) d = (bad_credentials, d')" and "\<not> ap_fault A 14"
  shows "d' = attempt A 14 (lq_Username req) (cx_IP c) False d"
  using assms(1) generateTokenResponse_code [of A m c _ d]
  by (auto simp: Login_def Let_def split: if_splits sum.splits) (metis fst_conv)+

lemma attempt_failures:
  assumes "\<not> ap_fault A i" and "now - window < ap_now A"
  shows "failures now un window (attempt A i un ip False d) = failures now un window d + 1"
  using assms by (simp add: failures_def attempt_def write_at_def stmt_def RecordLoginAttempt_def bump_def)

lemma logins_failures:
  assumes "logins m cfg rs d = (replicate (length rs) bad_credentials, d')"
    and "\<forall>(A, c, req) \<in> set rs. lq_Username req = un \<and> \<not> ap_fault A 14 \<and> now - window < ap_now A"
  shows "failures now un window d' = failures now un window d + length rs"
  using assms
proof (induction rs arbitrary: d)
  case (Cons r rs)
  obtain A c req where r: "r = (A, c, req)" by (cases r) auto
  obtain x d1 where x: "Login A m cfg c (Some req) d = (x, d1)" by fastforce
  obtain out d2 where l: "logins m cfg rs d1 = (out, d2)" by fastforce
  have *: "x = bad_credentials" "out = replicate (length rs) bad_credentials" "d2 = d'"
    using Cons.prems(1) by (simp_all add: r x l)
  have "d1 = attempt A 14 (lq_Username req) (cx_IP c) False d"
    using failed_login_recorded [of A m cfg c req d d1] x Cons.prems(2) by (simp add: * r)
  then have "failures now un window d1 = failures now un window d + 1"
    using Cons.prems(2) attempt_failures [of A 14 now window un "cx_IP c" d] by (simp add: r)
  moreover have "failures now un window d' = failures now un window d1 + length rs"
    using Cons.prems(2) l by (intro Cons.IH) (simp_all add: * r)
  ultimately show ?case by simp
qed simp

text \<open>
  C27. Guessing is limited: when as many logins of a name as the limit allows have been answered with invalid
  credentials within the window, from whatever addresses, every further login of that name within the
  window is refused with 429, the one with the right password included.
\<close>
theorem guessing_is_limited:
  assumes "logins m cfg rs d = (replicate (length rs) bad_credentials, d')"
    and "cf_RateLimitMaxFails cfg \<le> int (length rs)"
    and "\<forall>(A, c, req) \<in> set rs. lq_Username req = lq_Username req' \<and> \<not> ap_fault A 14 \<and> ap_now A' - cf_RateLimitWindow cfg < ap_now A"
    and "lq_Username req' \<noteq> []" and "lq_Password req' \<noteq> []" and "\<not> ap_fault A' 10"
  shows "Login A' m cfg c' (Some req') d' = (err_response 429 ''too many failed attempts, please try again later'', d')"
proof -
  let ?fs = "failures (ap_now A') (lq_Username req') (cf_RateLimitWindow cfg) d'"
  have "cf_RateLimitMaxFails cfg \<le> int ?fs"
    using logins_failures [OF assms(1,3)] assms(2) by simp
  also have "\<dots> \<le> int (CountRecentFailedAttempts (ap_now A') (lq_Username req') (cx_IP c') (cf_RateLimitWindow cfg) d')"
    using failures_le_count by simp
  finally show ?thesis
    using assms(4-6) by (simp add: Login_def Let_def checkRateLimit_def read_at_def query_def)
qed

subsection \<open>Logout\<close>

text \<open>What the JWT library promises of a token it accepts: its expiry, if it has one, is in the future.\<close>

definition checks_expiry :: "api_env \<Rightarrow> bool" where
  "checks_expiry A \<longleftrightarrow> (\<forall>now tok kf cl t. ap_Parse A now tok kf = Inr cl \<longrightarrow> cl_ExpiresAt cl = Some t \<longrightarrow> now < t)"

text \<open>The same library and secrets at another instant: what a token says does not depend on the time.\<close>

definition same_tokens :: "api_env \<Rightarrow> api_env \<Rightarrow> bool" where
  "same_tokens A A' \<longleftrightarrow> ap_Sha256 A' = ap_Sha256 A \<and> ap_Parse A' = ap_Parse A \<and>
     (\<forall>t t' tok kf cl cl'. ap_Parse A t tok kf = Inr cl \<longrightarrow> ap_Parse A t' tok kf = Inr cl' \<longrightarrow> cl' = cl)"

lemma bearer_token:
  assumes "7 < length h" and "take 7 h = ''Bearer ''"
  shows "HasPrefix h ''Bearer ''" and "TrimPrefix h ''Bearer '' = drop 7 h"
  using assms by (simp_all add: HasPrefix_def TrimPrefix_def eval_nat_numeral)

lemma ValidateToken_Inr:
  "ValidateToken A m tok = Inr cl \<longleftrightarrow> ap_Parse A (ap_now A) tok (\<lambda>hmac. if hmac then Some (jm_secret m) else None) = Inr cl"
  by (simp add: ValidateToken_def split: sum.split jwt_error.split)

text \<open>
  C28. A logged out token is dead: once \<open>Logout\<close> has revoked the token of a request and the revocation is still
  on the list (rows that have expired may have been removed), the middleware refuses every later request
  with that token, at whatever time, and passes nothing on.
\<close>
theorem logout_revokes:
  assumes "ValidateToken A m (extractToken c) = Inr cl" and "cl_ExpiresAt cl = Some t"
    and "Logout A m c d = (r, d')" and "\<not> ap_fault A 15"
    and tok: "count_char (CHR ''.'') (extractToken c) = 2"
    and lib: "checks_expiry A" "same_tokens A A'"
    and kept: "\<forall>b \<in> set (blacklist d'). ap_now A' < b_ExpiresAt b \<longrightarrow> b \<in> set (blacklist d'')"
    and new: "\<not> has_key b_TokenHash (HashToken A (extractToken c)) (blacklist d)"
    and later: "cx_Get c' ''Authorization'' = cx_Get c ''Authorization''" "cx_Path c' \<notin> {''/health'', ''/ready''}" "\<not> ap_fault A' 0"
  shows "\<exists>msg. JWTAuthMiddleware A' m c' d'' = (Inl (err_response 401 msg), d'')"
proof -
  let ?h = "cx_Get c ''Authorization''" and ?tok = "extractToken c"
  have ne: "?tok \<noteq> []" using tok by (auto simp: count_char_def)
  then have h: "7 < length ?h" "take 7 ?h = ''Bearer ''" "?tok = drop 7 ?h"
    by (auto simp: extractToken_def Let_def split: if_splits)
  have d': "\<lparr>b_TokenHash = HashToken A ?tok, b_ExpiresAt = t\<rparr> \<in> set (blacklist d')"
    using assms(1-4) ne new by (auto simp: Logout_def Let_def write_at_def stmt_def BlacklistToken_def)
  have hash: "HashToken A' ?tok = HashToken A ?tok" using lib(2) by (simp add: HashToken_def same_tokens_def)
  have read: "read_at A' 0 (Inr b) = Inr b" for b :: bool using later(3) by (simp add: read_at_def query_def)
  have *: "JWTAuthMiddleware A' m c' d'' =
      (case ValidateToken A' m ?tok of
         Inl _ \<Rightarrow> (Inl (err_response 401 ''invalid or expired token''), d'')
       | Inr cl \<Rightarrow>
           if IsTokenBlacklisted (ap_now A') (HashToken A' ?tok) d'' then (Inl (err_response 401 ''token has been revoked''), d'')
           else find_tenant A' (cl_UserID cl) (cl_Username cl)
                  (c'\<lparr>cx_UserID := Some (cl_UserID cl), cx_Username := Some (cl_Username cl)\<rparr>) d'')"
    using later tok bearer_token [OF h(1,2)]
    by (cases "ValidateToken A' m ?tok") (simp_all add: JWTAuthMiddleware_def Let_def h(3) [symmetric] read)
  show ?thesis
  proof (cases "ValidateToken A' m ?tok")
    case (Inr cl')
    have "cl' = cl"
      using assms(1) Inr lib(2) unfolding ValidateToken_Inr same_tokens_def by metis
    then have "ap_now A' < t"
      using Inr lib assms(2) unfolding ValidateToken_Inr checks_expiry_def same_tokens_def by metis
    then have "IsTokenBlacklisted (ap_now A') (HashToken A' ?tok) d''"
      using d' kept unfolding hash IsTokenBlacklisted_def rows_affected_pos by force
    with * Inr show ?thesis by simp
  qed (use * in simp)
qed

subsection \<open>The middleware\<close>

lemma get_row_Inr: "get_row P xs = Inr x \<Longrightarrow> x \<in> set xs \<and> P x"
  by (auto simp: get_row_def find_Some_iff split: option.splits)

lemma read_at_Inr: "read_at A i r = Inr x \<Longrightarrow> r = Inr x"
  by (auto simp: read_at_def query_def split: if_splits)

lemma find_tenant_owner:
  assumes "find_tenant A u un c d = (Inr c', d')" and "cx_TenantID c = None" and "cx_TenantID c' = Some T"
  shows "cx_UserID c' = cx_UserID c \<and> (\<exists>t \<in> set (tenants d'). t_ID t = T \<and> t_UserID t = Some u)"
proof -
  have "t \<in> set (tenants d) \<and> t_UserID t = Some u" if "GetTenantsByUserID u d = t # ts" for t ts
  proof -
    have "set (t # ts) = set (filter (\<lambda>t. t_UserID t = Some u) (tenants d))"
      using that [symmetric] by (simp only: GetTenantsByUserID_def set_sort)
    then show ?thesis by auto
  qed
  moreover have "t \<in> set (tenants d1) \<and> t_UserID t = Some u"
    if "CreateTenantForUser now u un d = (Inr t, d1)" for now t d1
    using that by (auto simp: CreateTenantForUser_def insert_tenant_def Let_def split: if_splits)
  ultimately show ?thesis
    using assms by (auto simp: find_tenant_def write_at_def stmt_def split: sum.splits list.splits prod.splits if_splits
        dest!: read_at_Inr)
qed

text \<open>The key a request presents.\<close>

definition presented_key :: "ctx \<Rightarrow> string \<Rightarrow> bool" where
  "presented_key c k \<longleftrightarrow> cx_Get c ''X-API-Key'' = k \<or> cx_Get c ''Authorization'' = ''Bearer '' @ k"

lemma tryAPIKeyAuth_tenant:
  assumes "tryAPIKeyAuth A k c d = (Inr c', d')" and "cx_TenantID c' = Some T" and "cx_TenantID c = None"
  shows "d' = d \<and> cx_UserID c' = cx_UserID c \<and> (\<exists>t \<in> set (tenants d). t_ID t = T \<and> t_APIKey t = k)"
  using assms by (auto simp: tryAPIKeyAuth_def GetTenantByAPIKey_def split: sum.splits dest!: read_at_Inr get_row_Inr)

text \<open>
  C29. The middleware admits a request only into a tenant that is its own: when it sets a tenant, either the
  request carries a valid token or a user's API key and the tenant belongs to that user, or it carries
  the API key of the tenant itself.
\<close>
theorem request_tenant_is_own:
  assumes "JWTAuthMiddleware A m c d = (Inr c', d')" and "cx_UserID c = None" and "cx_TenantID c = None"
    and "cx_TenantID c' = Some T"
  shows "\<exists>t \<in> set (tenants d'). t_ID t = T \<and>
    (case cx_UserID c' of
       Some u \<Rightarrow> t_UserID t = Some u \<and>
         ((\<exists>tok cl. cx_Get c ''Authorization'' = ''Bearer '' @ tok \<and> ValidateToken A m tok = Inr cl \<and> cl_UserID cl = u) \<or>
          (\<exists>k \<in> set (apiKeys d). k_UserID k = u \<and> k_KeyHash k = HashAPIKey A (cx_Get c ''X-API-Key'')))
     | None \<Rightarrow> presented_key c (t_APIKey t))"
proof -
  let ?h = "cx_Get c ''Authorization''" and ?k = "cx_Get c ''X-API-Key''"
  have path: "\<not> (cx_Path c = ''/health'' \<or> cx_Path c = ''/ready'')"
    using assms by (auto simp: JWTAuthMiddleware_def)
  have bearer: "?h = ''Bearer '' @ TrimPrefix ?h ''Bearer ''" if "HasPrefix ?h ''Bearer ''"
    using that by (auto simp: HasPrefix_def TrimPrefix_def) (metis append_take_drop_id append_Cons append_Nil)
  consider (jwt) "HasPrefix ?h ''Bearer ''" "count_char (CHR ''.'') (TrimPrefix ?h ''Bearer '') = 2"
    | (key) k where "tryAPIKeyAuth A k c d = (Inr c', d')" "presented_key c k"
    | (userkey) "\<not> HasPrefix ?h ''Bearer ''" "tryUserAPIKeyAuth A ?k c d = (Inr c', d')"
    using assms(1) path bearer
    by (auto simp: JWTAuthMiddleware_def Let_def presented_key_def split: if_splits)
  then show ?thesis
  proof cases
    case jwt
    let ?tok = "TrimPrefix ?h ''Bearer ''"
    obtain cl where cl: "ValidateToken A m ?tok = Inr cl"
      and f: "find_tenant A (cl_UserID cl) (cl_Username cl)
            (c\<lparr>cx_UserID := Some (cl_UserID cl), cx_Username := Some (cl_Username cl)\<rparr>) d = (Inr c', d')"
      using assms(1) path jwt by (auto simp: JWTAuthMiddleware_def Let_def split: sum.splits if_splits)
    from find_tenant_owner [OF f _ assms(4)] assms(3) obtain t
      where "t \<in> set (tenants d')" "t_ID t = T" "t_UserID t = Some (cl_UserID cl)" "cx_UserID c' = Some (cl_UserID cl)" by auto
    with cl bearer [OF jwt(1)] show ?thesis by (intro bexI [of _ t]) auto
  next
    case key
    then show ?thesis using tryAPIKeyAuth_tenant [OF key(1) assms(4,3)] assms(2) by auto
  next
    case userkey
    obtain user d1 where g: "GetUserByAPIKeyHash (\<lambda>i. ap_fault A (3 + i)) (ap_now A) (HashAPIKey A ?k) d = (Inr user, d1)"
      and f: "find_tenant A (u_ID user) (u_Username user)
            (c\<lparr>cx_UserID := Some (u_ID user), cx_Username := Some (u_Username user)\<rparr>) d1 = (Inr c', d')"
      using userkey(2) by (auto simp: tryUserAPIKeyAuth_def split: prod.splits sum.splits)
    obtain k where "k \<in> set (apiKeys d)" "k_KeyHash k = HashAPIKey A ?k" "k_UserID k = u_ID user"
      using g by (auto simp: GetUserByAPIKeyHash_def query_def res_bind_def split: sum.splits if_splits dest!: get_row_Inr)
    moreover from find_tenant_owner [OF f _ assms(4)] assms(3) obtain t
      where "t \<in> set (tenants d')" "t_ID t = T" "t_UserID t = Some (u_ID user)" "cx_UserID c' = Some (u_ID user)" by auto
    ultimately show ?thesis by (intro bexI [of _ t]) auto
  qed
qed

subsection \<open>Registration\<close>

definition hashes_ok :: "api_env \<Rightarrow> bool" where
  "hashes_ok A \<longleftrightarrow> (\<forall>p h. ap_Bcrypt A p = Some h \<longrightarrow> ap_Compare A h p)"

lemma generateTokenResponse_ok:
  "fst (fst (generateTokenResponse A m c user d)) = 200 \<longleftrightarrow>
     (\<exists>t. GenerateToken A m (u_ID user) (u_Username user) = Some t)"
  by (auto simp: generateTokenResponse_def split: option.split)

lemma Register_200:
  assumes "Register A m cfg c (Some req) d = ((200, b), d')"
  obtains hash user d1 where "ap_Bcrypt A (rq_Password req) = Some hash"
    and "CreateUser (ap_now A) (new_user (rq_Username req) hash) d = (Inr user, d1)"
    and "generateTokenResponse A m c user d1 = ((200, b), d')"
    and "rq_Username req \<noteq> []" and "rq_Password req \<noteq> []"
  using assms by (auto simp: Register_def HashPassword_def write_at_def stmt_def
      split: if_splits option.splits prod.splits sum.splits)

lemma find_appended: "find P xs = None \<Longrightarrow> P x \<Longrightarrow> find P (xs @ [x]) = Some x"
  by (induction xs) (auto split: if_splits)

text \<open>
  Who registers can log in: after a registration was accepted, a login with the same name and password is
  answered with a token for the new user, as long as the name and the address are below the rate limit.
\<close>
theorem registered_user_logs_in:
  assumes "Register A m cfg c (Some req) d = ((200, b), d')" and "hashes_ok A"
    and "lq_Username lreq = rq_Username req" and "lq_Password lreq = rq_Password req"
    and same: "ap_Compare A' = ap_Compare A" and "\<not> ap_fault A' 13"
    and lim: "\<not> checkRateLimit A' cfg c' (rq_Username req) d'"
    and sign: "\<And>s cl. ap_Sign A' s cl \<noteq> None"
  shows "\<exists>user b'. user \<in> set (users d') \<and> u_Username user = rq_Username req \<and>
    fst (Login A' m cfg c' (Some lreq) d') = (200, b') \<and> token_for A' m user b'"
proof -
  obtain hash user d1 where r: "ap_Bcrypt A (rq_Password req) = Some hash"
    "CreateUser (ap_now A) (new_user (rq_Username req) hash) d = (Inr user, d1)"
    "generateTokenResponse A m c user d1 = ((200, b), d')" "rq_Username req \<noteq> []" "rq_Password req \<noteq> []"
    using assms(1) by (rule Register_200)
  have user: "u_Username user = rq_Username req" "u_PasswordHash user = hash" "\<not> u_TOTPEnabled user"
    and d1: "users d1 = users d @ [user]" "\<not> has_key u_Username (rq_Username req) (users d)"
    using r(2) by (auto simp: CreateUser_def Let_def new_user_def bump_def split: if_splits)
  have d': "users d' = users d @ [user]"
    using r(3) d1(1) by (auto simp: generateTokenResponse_def split: option.splits)
  have "find (\<lambda>u. u_Username u = rq_Username req) (users d) = None"
    using d1(2) by (auto simp: find_None_iff has_key_def list_ex_iff)
  from find_appended [OF this, of user] have "GetUserByUsername (rq_Username req) d' = Inr user"
    by (simp add: GetUserByUsername_def get_row_def d' user)
  then have "Login A' m cfg c' (Some lreq) d' = generateTokenResponse A' m c' user d'"
    using assms(2-7) r user
    by (simp add: Login_def Let_def read_at_def query_def CheckPassword_def hashes_ok_def)
  moreover have "\<exists>t. GenerateToken A' m (u_ID user) (u_Username user) = Some t"
    using sign by (auto simp: GenerateToken_def Let_def)
  then obtain b' where "fst (generateTokenResponse A' m c' user d') = (200, b')"
    unfolding generateTokenResponse_ok [of A' m c' user d', symmetric] by (metis prod.collapse)
  moreover from this have "token_for A' m user b'" by (rule generateTokenResponse_200)
  ultimately show ?thesis using user d' by (intro exI [of _ user] exI [of _ b']) simp
qed

subsection \<open>Which key goes where\<close>

lemma hex_encode_no_dot: "count_char (CHR ''.'') (hex_encode s) = 0"
proof (induction s)
  case (Cons c s)
  have "hex_lower n \<noteq> CHR ''.''" if "n < 16" for n
  proof
    assume "hex_lower n = CHR ''.''"
    then have "byte (hex_lower n) = 46" by simp
    with that show False by (simp add: hex_lower_def split: if_splits)
  qed
  moreover have "byte c div 16 < 16" "byte c mod 16 < 16" using byte_less_256 [of c] by (simp_all add: less_mult_imp_div_less)
  ultimately show ?case using Cons by (simp add: hex_encode_def count_char_def)
qed (simp add: hex_encode_def count_char_def)

lemma GenerateAPIKey_shape:
  "GenerateAPIKey A = Some k \<Longrightarrow> HasPrefix k ''ea_'' \<and> k \<noteq> [] \<and> count_char (CHR ''.'') k = 0"
  using hex_encode_no_dot by (auto simp: GenerateAPIKey_def HasPrefix_def count_char_def)

lemma middleware_key:
  assumes "cx_Path c = p" and "p \<notin> {''/health'', ''/ready''}"
  shows "\<not> HasPrefix (cx_Get c ''Authorization'') ''Bearer '' \<Longrightarrow> cx_Get c ''X-API-Key'' = k \<Longrightarrow> HasPrefix k ''ea_'' \<Longrightarrow> k \<noteq> []
      \<Longrightarrow> JWTAuthMiddleware A m c d = tryUserAPIKeyAuth A k c d"
    and "cx_Get c ''Authorization'' = ''Bearer '' @ k \<Longrightarrow> count_char (CHR ''.'') k = 0
      \<Longrightarrow> JWTAuthMiddleware A m c d = tryAPIKeyAuth A k c d"
  using assms by (simp_all add: JWTAuthMiddleware_def Let_def HasPrefix_def TrimPrefix_def)

text \<open>
  The API key of a tenant works only as a bearer token: with a key that \<open>CreateTenant\<close> has generated, a
  request that sends it in \<^verbatim>\<open>Authorization\<close> is admitted into the tenant, but one that sends it in
  \<^verbatim>\<open>X-API-Key\<close> is refused (unless some user has an API key with the same hash), since keys of both kinds
  begin with \<^verbatim>\<open>ea_\<close> and the header is taken to hold the key of a user.
\<close>
theorem tenant_key_only_as_bearer:
  assumes "api_CreateTenant A body d = ((201, J_Tenant t), d')" and "\<And>i. \<not> ap_fault A' i"
    and "\<not> has_key k_KeyHash (HashAPIKey A' (t_APIKey t)) (apiKeys d')"
    and "cx_Path c \<notin> {''/health'', ''/ready''}" and "cx_Path c' \<notin> {''/health'', ''/ready''}"
    and "cx_Get c ''Authorization'' = ''Bearer '' @ t_APIKey t"
    and "cx_Get c' ''X-API-Key'' = t_APIKey t" and "\<not> HasPrefix (cx_Get c' ''Authorization'') ''Bearer ''"
  shows "JWTAuthMiddleware A' m c d' = (Inr (c\<lparr>cx_TenantID := Some (t_ID t)\<rparr>), d') \<and>
    JWTAuthMiddleware A' m c' d' = (Inl (err_response 401 ''invalid API key''), d')"
proof
  obtain t0 key where key: "GenerateAPIKey A = Some key" and c: "CreateTenant (ap_now A) (t0\<lparr>t_APIKey := key\<rparr>) d = (Inr t, d')"
    using assms(1) by (auto simp: api_CreateTenant_def write_at_def stmt_def split: option.splits if_splits prod.splits sum.splits)
  have t: "t_APIKey t = key" "tenants d' = tenants d @ [t]" "\<not> has_key t_APIKey key (tenants d)" "apiKeys d' = apiKeys d"
    using c by (auto simp: CreateTenant_def insert_tenant_def Let_def bump_def split: if_splits)
  have "find (\<lambda>x. t_APIKey x = key) (tenants d) = None"
    using t(3) by (auto simp: find_None_iff has_key_def list_ex_iff)
  from find_appended [OF this, of t] have get: "GetTenantByAPIKey key d' = Inr t"
    by (simp add: GetTenantByAPIKey_def get_row_def t)
  note shape = GenerateAPIKey_shape [OF key]
  show "JWTAuthMiddleware A' m c d' = (Inr (c\<lparr>cx_TenantID := Some (t_ID t)\<rparr>), d')"
    using middleware_key(2) [OF refl assms(4), of key A' m d'] assms(2,6) shape get
    by (simp add: t(1) tryAPIKeyAuth_def read_at_def query_def)
  have "find (\<lambda>k. k_KeyHash k = HashAPIKey A' key) (apiKeys d') = None"
    using assms(3) by (auto simp: find_None_iff has_key_def list_ex_iff t(1))
  then have "tryUserAPIKeyAuth A' key c' d' = (Inl (err_response 401 ''invalid API key''), d')"
    using assms(2) by (simp add: tryUserAPIKeyAuth_def GetUserByAPIKeyHash_def get_row_def query_def res_bind_def)
  then show "JWTAuthMiddleware A' m c' d' = (Inl (err_response 401 ''invalid API key''), d')"
    using middleware_key(1) [OF refl assms(5,8,7), of A' m d'] shape by (simp add: t(1))
qed

subsection \<open>The first user\<close>

text \<open>
  The first user is shown as an administrator but is not one: who registers in an empty installation is
  told to have the role \<^verbatim>\<open>admin\<close>, and the administration refuses this user.
\<close>
theorem first_user_shown_as_admin:
  assumes "Register A m cfg c (Some req) d = ((200, b), d')" and "users d = []" and "seqs d Users = 1"
    and "cx_UserID c' = Some 1" and "\<not> ap_fault A' 5"
  shows "(\<exists>tok ex un totp. b = J_Obj [(''token'', tok), (''expires_at'', ex), (''user'', J_Obj [(''id'', J_Int 1),
        (''username'', un), (''totp_enabled'', totp), (''role'', J_Str ''admin'')])]) \<and>
    RequireAdmin A' c' d' = (Inl (err_response 403 ''admin access required''), d')"
proof -
  obtain hash user d1 where r: "CreateUser (ap_now A) (new_user (rq_Username req) hash) d = (Inr user, d1)"
    "generateTokenResponse A m c user d1 = ((200, b), d')"
    using assms(1) by (rule Register_200)
  have user: "u_ID user = 1" "u_Role user = ''user''" "users d1 = [user]"
    using r(1) assms(2,3) by (auto simp: CreateUser_def Let_def new_user_def bump_def split: if_splits)
  then have "users d' = [user]"
    using r(2) by (auto simp: generateTokenResponse_def split: option.splits)
  with user have "RequireAdmin A' c' d' = (Inl (err_response 403 ''admin access required''), d')"
    using assms(4,5) by (simp add: RequireAdmin_def read_at_def query_def GetUserByID_def get_row_def IsAdmin_def)
  with r(2) user show ?thesis by (auto simp: generateTokenResponse_def shown_role_def split: option.splits)
qed

subsection \<open>Instances\<close>

text \<open>Toy libraries: one token, reversed texts as hashes.\<close>

definition sample_claims :: claims where
  "sample_claims = \<lparr>cl_UserID = 1, cl_Username = ''ann'', cl_ExpiresAt = Some (100 * Second), cl_IssuedAt = Some 0,
     cl_Issuer = ''email-automation''\<rparr>"

definition sample_api :: "time \<Rightarrow> api_env" where
  "sample_api now = \<lparr>ap_now = now, ap_fault = (\<lambda>_. False), ap_dbtext = (\<lambda>_. ''error''),
     ap_Sign = (\<lambda>_ _. Some ''a.b.c''),
     ap_Parse = (\<lambda>t tok kf. if tok = ''a.b.c'' \<and> t < 100 * Second then Inr sample_claims else Inl ErrTokenExpired),
     ap_Sha256 = rev, ap_Bcrypt = (\<lambda>p. Some (rev p)), ap_Compare = (\<lambda>h p. h = rev p), ap_TOTPKey = (\<lambda>_. None),
     ap_TOTPImage = (\<lambda>_. None), ap_TOTPValidate = (\<lambda>_ _ _. False), ap_Random = (\<lambda>_. Some ''xy''),
     ap_IsUpper = (\<lambda>_. False), ap_IsLower = (\<lambda>_. False), ap_IsDigit = (\<lambda>_. False), ap_IsSpecial = (\<lambda>_. False)\<rparr>"

definition sample_jwt :: JWTManager where "sample_jwt = \<lparr>jm_secret = ''s'', jm_expiration = 100 * Second\<rparr>"

definition sample_config :: auth_config where
  "sample_config = \<lparr>cf_RegistrationEnabled = True, cf_RateLimitWindow = 1000, cf_RateLimitMaxFails = 1\<rparr>"

definition sample_ctx :: "string \<Rightarrow> string \<Rightarrow> ctx" where
  "sample_ctx bearer key = \<lparr>cx_Path = ''/x'', cx_Get = (\<lambda>h. if h = ''Authorization'' then bearer else if h = ''X-API-Key'' then key else []),
     cx_IP = ''1.2.3.4'', cx_Params = (\<lambda>_. []), cx_Query = (\<lambda>_. []), cx_UserID = None, cx_Username = None, cx_TenantID = None\<rparr>"

definition sample_registration :: register_req where
  "sample_registration = \<lparr>rq_Username = ''ann'', rq_Password = ''Secret-pass-1''\<rparr>"

definition sample_login :: "string \<Rightarrow> login_req" where
  "sample_login p = \<lparr>lq_Username = ''ann'', lq_Password = p, lq_TOTPToken = []\<rparr>"

definition sample_registered :: db where
  "sample_registered = snd (Register (sample_api 5) sample_jwt sample_config (sample_ctx [] []) (Some sample_registration) empty_db)"

lemma sample_api_sel [simp]:
  "ap_now (sample_api t) = t" "ap_fault (sample_api t) = (\<lambda>_. False)" "ap_Sign (sample_api t) = (\<lambda>_ _. Some ''a.b.c'')"
  "ap_Parse (sample_api t) = (\<lambda>t tok kf. if tok = ''a.b.c'' \<and> t < 100 * Second then Inr sample_claims else Inl ErrTokenExpired)"
  "ap_Sha256 (sample_api t) = rev" "ap_Bcrypt (sample_api t) = (\<lambda>p. Some (rev p))" "ap_Compare (sample_api t) = (\<lambda>h p. h = rev p)"
  "ap_Random (sample_api t) = (\<lambda>_. Some ''xy'')"
  by (simp_all add: sample_api_def)

lemmas web_samples = sample_claims_def sample_jwt_def sample_config_def sample_ctx_def sample_registration_def sample_login_def

lemma runes_ascii: "list_all (\<lambda>c. byte c < 128) s \<Longrightarrow> runes s = map (\<lambda>c. [c]) s"
  by (induction s) (simp_all add: runes.simps)

lemma sample_password_ok: "ValidatePassword (sample_api t) ''Secret-pass-1'' = None"
proof -
  have "runes ''Secret-pass-1'' = map (\<lambda>c. [c]) ''Secret-pass-1''" by (rule runes_ascii) simp
  then show ?thesis
    by (simp add: ValidatePassword_def rune_upper_def rune_lower_def rune_digit_def rune_special_def)
qed

lemmas web_eval = Register_def Login_def Let_def HashPassword_def write_at_def read_at_def query_def stmt_def CreateUser_def
  new_user_def empty_db_def has_key_def bump_def generateTokenResponse_def GenerateToken_def attempt_def RecordLoginAttempt_def
  CountRecentFailedAttempts_def rows_affected_def GetUserByUsername_def get_row_def CheckPassword_def checkRateLimit_def

lemma sample_register:
  "Register (sample_api 5) sample_jwt sample_config (sample_ctx [] []) (Some sample_registration) empty_db
     = ((200, J_Obj [(''token'', J_Str ''a.b.c''), (''expires_at'', J_Time (5 + 100 * Second)), (''user'', J_Obj [(''id'', J_Int 1),
         (''username'', J_Str ''ann''), (''totp_enabled'', J_Bool False), (''role'', J_Str ''admin'')])]), sample_registered)"
  unfolding sample_registered_def
  by (simp add: web_eval web_samples sample_password_ok shown_role_def)

lemma sample_user: "users sample_registered = [\<lparr>u_ID = 1, u_Username = ''ann'', u_PasswordHash = rev ''Secret-pass-1'', u_TOTPSecret = None,
    u_TOTPEnabled = False, u_AIEnabled = True, u_Role = ''user'', u_CreatedAt = 5, u_UpdatedAt = 5\<rparr>]"
  and sample_attempts: "attempts sample_registered = [\<lparr>at_ID = 1, at_Username = ''ann'', at_IPAddress = ''1.2.3.4'', at_Success = True,
    at_AttemptedAt = 5\<rparr>]"
  and sample_blacklist: "blacklist sample_registered = []"
  unfolding sample_registered_def
  by (simp_all add: web_eval web_samples sample_password_ok)

theorem first_user_shown_as_admin_witness:
  "RequireAdmin (sample_api 7) ((sample_ctx [] [])\<lparr>cx_UserID := Some 1\<rparr>) sample_registered
     = (Inl (err_response 403 ''admin access required''), sample_registered)"
proof -
  have "users empty_db = []" "seqs empty_db Users = 1" by (simp_all add: empty_db_def)
  from first_user_shown_as_admin [OF sample_register this, of "(sample_ctx [] [])\<lparr>cx_UserID := Some 1\<rparr>" "sample_api 7"]
  show ?thesis by simp
qed

theorem registered_user_logs_in_witness:
  "\<exists>user b. user \<in> set (users sample_registered) \<and> u_Username user = ''ann'' \<and>
     fst (Login (sample_api 9) sample_jwt sample_config (sample_ctx [] []) (Some (sample_login ''Secret-pass-1'')) sample_registered) = (200, b) \<and>
     token_for (sample_api 9) sample_jwt user b"
proof -
  have "\<exists>user b'. user \<in> set (users sample_registered) \<and> u_Username user = rq_Username sample_registration \<and>
    fst (Login (sample_api 9) sample_jwt sample_config (sample_ctx [] []) (Some (sample_login ''Secret-pass-1'')) sample_registered) = (200, b') \<and>
    token_for (sample_api 9) sample_jwt user b'"
    by (rule registered_user_logs_in [OF sample_register])
      (simp_all add: hashes_ok_def web_samples checkRateLimit_def read_at_def query_def CountRecentFailedAttempts_def
        rows_affected_def sample_attempts)
  then show ?thesis by (simp add: sample_registration_def)
qed

lemma sample_login_ok:
  "Login (sample_api 9) sample_jwt sample_config (sample_ctx [] []) (Some (sample_login ''Secret-pass-1'')) sample_registered
     = ((200, J_Obj [(''token'', J_Str ''a.b.c''), (''expires_at'', J_Time (9 + 100 * Second)), (''user'', J_Obj [(''id'', J_Int 1),
         (''username'', J_Str ''ann''), (''totp_enabled'', J_Bool False), (''role'', J_Str ''admin'')])]),
        attempt (sample_api 9) 11 ''ann'' ''1.2.3.4'' True sample_registered)"
  by (simp add: Login_def Let_def checkRateLimit_def read_at_def query_def CountRecentFailedAttempts_def rows_affected_def
      sample_attempts GetUserByUsername_def get_row_def sample_user CheckPassword_def web_samples
      generateTokenResponse_def GenerateToken_def shown_role_def)

theorem login_needs_credentials_witness:
  "\<exists>user. user \<in> set (users sample_registered) \<and> ap_Compare (sample_api 9) (u_PasswordHash user) ''Secret-pass-1''"
  using login_needs_credentials [OF sample_login_ok] by (auto simp: web_samples)

definition sample_wrong :: db where
  "sample_wrong = attempt (sample_api 8) 14 ''ann'' ''1.2.3.4'' False sample_registered"

lemma sample_wrong_login:
  "logins sample_jwt sample_config [(sample_api 8, sample_ctx [] [], sample_login ''guess'')] sample_registered = ([bad_credentials], sample_wrong)"
  by (simp add: Login_def Let_def checkRateLimit_def read_at_def query_def CountRecentFailedAttempts_def rows_affected_def
      sample_attempts GetUserByUsername_def get_row_def sample_user CheckPassword_def web_samples sample_wrong_def)

theorem guessing_is_limited_witness:
  "Login (sample_api 9) sample_jwt sample_config (sample_ctx [] []) (Some (sample_login ''Secret-pass-1'')) sample_wrong
     = (err_response 429 ''too many failed attempts, please try again later'', sample_wrong)"
  by (rule guessing_is_limited [where rs = "[(sample_api 8, sample_ctx [] [], sample_login ''guess'')]" and d = sample_registered])
    (simp_all only: sample_wrong_login length_Cons list.size replicate.simps, simp_all add: web_samples)

theorem logout_revokes_witness:
  "\<exists>msg. JWTAuthMiddleware (sample_api 50) sample_jwt (sample_ctx ''Bearer a.b.c'' [])
      (snd (Logout (sample_api 40) sample_jwt (sample_ctx ''Bearer a.b.c'' []) sample_registered))
    = (Inl (err_response 401 msg), snd (Logout (sample_api 40) sample_jwt (sample_ctx ''Bearer a.b.c'' []) sample_registered))"
proof -
  let ?c = "sample_ctx ''Bearer a.b.c'' []"
  have tok: "extractToken ?c = ''a.b.c''" by (simp add: extractToken_def sample_ctx_def Let_def)
  have cnt: "count_char (CHR ''.'') (extractToken ?c) = 2" by (simp add: tok count_char_def)
  have v: "ValidateToken (sample_api 40) sample_jwt (extractToken ?c) = Inr sample_claims"
    by (simp add: tok ValidateToken_def Second_def)
  have t: "cl_ExpiresAt sample_claims = Some (100 * Second)" by (simp add: sample_claims_def)
  have l: "Logout (sample_api 40) sample_jwt ?c sample_registered
    = (fst (Logout (sample_api 40) sample_jwt ?c sample_registered), snd (Logout (sample_api 40) sample_jwt ?c sample_registered))" by simp
  show ?thesis
    by (rule logout_revokes [OF v t l _ cnt])
      (auto simp: checks_expiry_def same_tokens_def sample_claims_def sample_ctx_def
        has_key_def sample_blacklist split: if_splits)
qed

theorem request_tenant_is_own_witness:
  "\<exists>t \<in> set (tenants (sample_db ''skip'')). t_ID t = 1 \<and> presented_key (sample_ctx ''Bearer key'' []) (t_APIKey t)"
proof -
  let ?c = "sample_ctx (''Bearer '' @ t_APIKey sample_tenant) []"
  have "JWTAuthMiddleware (sample_api 5) sample_jwt ?c (sample_db ''skip'') = (Inr (?c\<lparr>cx_TenantID := Some 1\<rparr>), sample_db ''skip'')"
    by (simp add: JWTAuthMiddleware_def Let_def sample_ctx_def sample_defs HasPrefix_def TrimPrefix_def count_char_def
        tryAPIKeyAuth_def read_at_def query_def GetTenantByAPIKey_def get_row_def)
  from request_tenant_is_own [OF this] show ?thesis by (simp add: sample_ctx_def sample_defs)
qed

theorem tenant_key_only_as_bearer_witness:
  "\<exists>t d'. api_CreateTenant (sample_api 5) (Some sample_tenant) empty_db = ((201, J_Tenant t), d') \<and>
     JWTAuthMiddleware (sample_api 6) sample_jwt (sample_ctx [] (t_APIKey t)) d' = (Inl (err_response 401 ''invalid API key''), d')"
proof -
  let ?r = "api_CreateTenant (sample_api 5) (Some sample_tenant) empty_db"
  obtain t d' where r: "?r = ((201, J_Tenant t), d')" and k: "apiKeys d' = []"
    by (auto simp: api_CreateTenant_def GenerateAPIKey_def write_at_def stmt_def CreateTenant_def insert_tenant_def Let_def
        sample_tenant_def empty_db_def has_key_def bump_def)
  have "JWTAuthMiddleware (sample_api 6) sample_jwt (sample_ctx (''Bearer '' @ t_APIKey t) []) d' =
      (Inr ((sample_ctx (''Bearer '' @ t_APIKey t) [])\<lparr>cx_TenantID := Some (t_ID t)\<rparr>), d') \<and>
    JWTAuthMiddleware (sample_api 6) sample_jwt (sample_ctx [] (t_APIKey t)) d' = (Inl (err_response 401 ''invalid API key''), d')"
    by (rule tenant_key_only_as_bearer [OF r]) (simp_all add: sample_ctx_def has_key_def k HasPrefix_def)
  with r show ?thesis by blast
qed

end
