(* ===== verification/Routes.thy ===== *)
theory Routes
  imports Access
begin

text \<open>
  \<^verbatim>\<open>internal/api/server.go\<close>: the middleware and the routes in the order in which they are registered, and
  the error handler. The matching of a path against a pattern belongs to the router that the server
  uses; it is the record \<open>fiber\<close>. A request goes through the table from the front: a middleware whose
  prefix matches answers or passes the request on, the first route that matches handles it.
\<close>

subsection \<open>The table\<close>

datatype mw = M_Recover | M_Logger | M_CORS | M_JWTAuth | M_RequireAuth | M_RequireAdmin

text \<open>The handlers, by the parts of the table.\<close>

datatype public_endpoint = E_HealthCheck | E_ReadyCheck | E_Config | E_Register | E_Login | E_Logout
  | E_PasskeyAuthenticateBegin | E_PasskeyAuthenticateComplete | E_RegisterUserWithPasskey
  | E_PasskeyEnrollBegin | E_PasskeyEnrollFinish

datatype own_endpoint = E_GetProfile | E_ChangePassword | E_TOTPSetup | E_TOTPVerify | E_TOTPDisable
  | E_PasskeyRegisterBegin | E_PasskeyRegisterComplete | E_PasskeyList | E_PasskeyDelete | E_APIKeyCreate
  | E_APIKeyList | E_APIKeyDelete

datatype ai_endpoint = E_Proxy | E_TranslateEnglishToLua | E_TranslateLuaToEnglish

datatype admin_endpoint = E_ListTenants | E_CreateTenant | E_RotateEncryptionKeys | E_ListUsers | E_GetUser
  | E_UpdateAIEnabled | E_PromoteUser | E_DemoteUser

datatype rule_endpoint = E_ListRules | E_GetRule | E_CreateRule | E_UpdateRule | E_DeleteRule | E_TestRule
  | E_ValidateRule | E_DryRunAdHoc | E_CancelAdHocOperation | E_ListExecutionLogs | E_ListSuggestedRules
  | E_ApproveRule | E_DryRunRule | E_ExecuteRule | E_CancelOperation | E_BulkDeleteRules
  | E_ListDeferredActions | E_CancelDeferredAction | E_ReorderRules

datatype mail_endpoint = E_ListAccounts | E_GetAccount | E_CreateAccount | E_UpdateAccount | E_DeleteAccount
  | E_TestConnection | E_AttachMetadata | E_GetMetadata | E_UpdateMetadata | E_DeleteMetadata
  | E_SearchByMetadata | E_BatchAttachMetadata | E_BatchQueryMetadata | E_ListExemptFolders
  | E_AddExemptFolder | E_RemoveExemptFolder | E_ListProviders | E_Connect | E_RefreshToken | E_Disconnect

datatype endpoint = Public public_endpoint | Own own_endpoint | AI ai_endpoint | Admin admin_endpoint | Rules rule_endpoint
  | Mail mail_endpoint | E_Callback


datatype route = Use string "mw list" | On string string endpoint

definition setupMiddleware :: "route list" where
  "setupMiddleware = [Use ''/'' [M_Recover], Use ''/'' [M_Logger], Use ''/'' [M_CORS]]"

text \<open>The routes of a group: the prefix is put before each path.\<close>

definition grouped :: "string \<Rightarrow> (string \<times> string \<times> endpoint) list \<Rightarrow> route list" where
  "grouped base rs = map (\<lambda>(m, path, e). On m (base @ path) e) rs"

definition open_routes :: "route list" where
  "open_routes =
     grouped [] [(''GET'', ''/health'', Public E_HealthCheck), (''GET'', ''/ready'', Public E_ReadyCheck), (''GET'', ''/config'', Public E_Config)] @
     grouped ''/auth''
       [(''POST'', ''/register'', Public E_Register),
        (''POST'', ''/login'', Public E_Login),
        (''POST'', ''/logout'', Public E_Logout),
        (''POST'', ''/passkey/authenticate/begin'', Public E_PasskeyAuthenticateBegin),
        (''POST'', ''/passkey/authenticate/complete'', Public E_PasskeyAuthenticateComplete),
        (''POST'', ''/register/passkey'', Public E_RegisterUserWithPasskey),
        (''POST'', ''/passkey/enroll/begin'', Public E_PasskeyEnrollBegin),
        (''POST'', ''/passkey/enroll/finish'', Public E_PasskeyEnrollFinish)]"

definition auth_routes :: "(string \<times> string \<times> endpoint) list" where
  "auth_routes =
     [(''GET'', ''/profile'', Own E_GetProfile),
      (''POST'', ''/password/change'', Own E_ChangePassword),
      (''POST'', ''/totp/setup'', Own E_TOTPSetup),
      (''POST'', ''/totp/verify'', Own E_TOTPVerify),
      (''POST'', ''/totp/disable'', Own E_TOTPDisable),
      (''POST'', ''/passkey/register/begin'', Own E_PasskeyRegisterBegin),
      (''POST'', ''/passkey/register/complete'', Own E_PasskeyRegisterComplete),
      (''POST'', ''/passkey/list'', Own E_PasskeyList),
      (''DELETE'', ''/passkey/:id'', Own E_PasskeyDelete),
      (''POST'', ''/apikeys'', Own E_APIKeyCreate),
      (''GET'', ''/apikeys'', Own E_APIKeyList),
      (''DELETE'', ''/apikeys/:id'', Own E_APIKeyDelete)]"

definition kiro_routes :: "route list" where
  "kiro_routes =
     grouped [] [(''POST'', ''/api/kiro'', AI E_Proxy)] @
     grouped ''/api/kiro''
       [(''POST'', ''/translate/english-to-lua'', AI E_TranslateEnglishToLua),
        (''POST'', ''/translate/lua-to-english'', AI E_TranslateLuaToEnglish)]"

definition admin_routes :: "(string \<times> string \<times> endpoint) list" where
  "admin_routes =
     [(''GET'', ''/tenants'', Admin E_ListTenants),
      (''POST'', ''/tenants'', Admin E_CreateTenant),
      (''POST'', ''/rotate-encryption-keys'', Admin E_RotateEncryptionKeys),
      (''GET'', ''/users'', Admin E_ListUsers),
      (''GET'', ''/users/:userId'', Admin E_GetUser),
      (''PATCH'', ''/users/:userId/ai-enabled'', Admin E_UpdateAIEnabled),
      (''POST'', ''/users/:userId/promote'', Admin E_PromoteUser),
      (''POST'', ''/users/:userId/demote'', Admin E_DemoteUser)]"

definition v1_routes :: "(string \<times> string \<times> endpoint) list" where
  "v1_routes =
     [(''GET'', ''/rules'', Rules E_ListRules),
      (''GET'', ''/rules/:id'', Rules E_GetRule),
      (''POST'', ''/rules'', Rules E_CreateRule),
      (''PUT'', ''/rules/:id'', Rules E_UpdateRule),
      (''DELETE'', ''/rules/:id'', Rules E_DeleteRule),
      (''POST'', ''/rules/test'', Rules E_TestRule),
      (''POST'', ''/rules/validate'', Rules E_ValidateRule),
      (''POST'', ''/rules/dry-run'', Rules E_DryRunAdHoc),
      (''POST'', ''/rules/cancel-adhoc'', Rules E_CancelAdHocOperation),
      (''GET'', ''/logs'', Rules E_ListExecutionLogs),
      (''GET'', ''/rules/suggested'', Rules E_ListSuggestedRules),
      (''POST'', ''/rules/:id/approve'', Rules E_ApproveRule),
      (''POST'', ''/rules/:id/dry-run'', Rules E_DryRunRule),
      (''POST'', ''/rules/:id/execute'', Rules E_ExecuteRule),
      (''POST'', ''/rules/:id/cancel'', Rules E_CancelOperation),
      (''POST'', ''/rules/bulk-delete'', Rules E_BulkDeleteRules),
      (''GET'', ''/deferred-actions'', Rules E_ListDeferredActions),
      (''DELETE'', ''/deferred-actions/:id'', Rules E_CancelDeferredAction),
      (''PATCH'', ''/rules/reorder'', Rules E_ReorderRules),
      (''GET'', ''/accounts'', Mail E_ListAccounts),
      (''GET'', ''/accounts/:id'', Mail E_GetAccount),
      (''POST'', ''/accounts'', Mail E_CreateAccount),
      (''PUT'', ''/accounts/:id'', Mail E_UpdateAccount),
      (''DELETE'', ''/accounts/:id'', Mail E_DeleteAccount),
      (''POST'', ''/accounts/:id/test-connection'', Mail E_TestConnection),
      (''POST'', ''/emails/:messageId/metadata'', Mail E_AttachMetadata),
      (''GET'', ''/emails/:messageId/metadata'', Mail E_GetMetadata),
      (''PATCH'', ''/emails/:messageId/metadata/:key'', Mail E_UpdateMetadata),
      (''DELETE'', ''/emails/:messageId/metadata/:key'', Mail E_DeleteMetadata),
      (''GET'', ''/metadata/search'', Mail E_SearchByMetadata),
      (''POST'', ''/metadata/batch-attach'', Mail E_BatchAttachMetadata),
      (''POST'', ''/metadata/batch-query'', Mail E_BatchQueryMetadata),
      (''GET'', ''/accounts/:accountId/settings/exempt-folders'', Mail E_ListExemptFolders),
      (''POST'', ''/accounts/:accountId/settings/exempt-folders'', Mail E_AddExemptFolder),
      (''DELETE'', ''/accounts/:accountId/settings/exempt-folders/:folder'', Mail E_RemoveExemptFolder),
      (''GET'', ''/oauth2/providers'', Mail E_ListProviders),
      (''GET'', ''/oauth2/connect/:provider'', Mail E_Connect),
      (''POST'', ''/oauth2/refresh/:id'', Mail E_RefreshToken),
      (''POST'', ''/oauth2/disconnect/:id'', Mail E_Disconnect)]"

definition setupRoutes :: "route list" where
  "setupRoutes =
     open_routes @
     Use ''/auth'' [M_JWTAuth, M_RequireAuth] # grouped ''/auth'' auth_routes @
     kiro_routes @
     Use ''/admin'' [M_JWTAuth] # Use ''/admin'' [M_RequireAuth] # Use ''/admin'' [M_RequireAdmin] # grouped ''/admin'' admin_routes @
     Use ''/api/v1'' [M_JWTAuth] # grouped ''/api/v1'' v1_routes @
     [On ''GET'' ''/api/oauth2/callback/:provider'' E_Callback]"

subsection \<open>The way of a request through the table\<close>

datatype fiber_error = FiberError int string | OtherError string

definition errorHandler :: "fiber_error \<Rightarrow> response" where
  "errorHandler err =
     (case err of FiberError code msg \<Rightarrow> err_response code msg | OtherError msg \<Rightarrow> err_response 500 msg)"

text \<open>
  The router: whether the method of a request is served by a route, whether a path lies under a prefix,
  the parameters when a path matches a pattern, the error for a request without a route, and the answer
  of the CORS middleware to a preflight request.
\<close>

record fiber =
  fb_method :: "string \<Rightarrow> string \<Rightarrow> bool"
  fb_use :: "string \<Rightarrow> string \<Rightarrow> bool"
  fb_match :: "string \<Rightarrow> string \<Rightarrow> (string \<Rightarrow> string) option"
  fb_none :: "string \<Rightarrow> string \<Rightarrow> fiber_error"
  fb_cors :: "string \<Rightarrow> ctx \<Rightarrow> response option"

definition middleware :: "fiber \<Rightarrow> api_env \<Rightarrow> JWTManager \<Rightarrow> string \<Rightarrow> mw \<Rightarrow> ctx \<Rightarrow> db \<Rightarrow> pass" where
  "middleware F A jm meth x c d =
     (case x of
        M_Recover \<Rightarrow> (Inr c, d)
      | M_Logger \<Rightarrow> (Inr c, d)
      | M_CORS \<Rightarrow> (case fb_cors F meth c of None \<Rightarrow> (Inr c, d) | Some r \<Rightarrow> (Inl r, d))
      | M_JWTAuth \<Rightarrow> JWTAuthMiddleware A jm c d
      | M_RequireAuth \<Rightarrow> RequireAuth c d
      | M_RequireAdmin \<Rightarrow> RequireAdmin A c d)"

fun chain :: "(mw \<Rightarrow> ctx \<Rightarrow> db \<Rightarrow> pass) \<Rightarrow> mw list \<Rightarrow> ctx \<Rightarrow> db \<Rightarrow> pass" where
  "chain M [] c d = (Inr c, d)"
| "chain M (x # xs) c d = (case M x c d of (Inl r, d1) \<Rightarrow> (Inl r, d1) | (Inr c1, d1) \<Rightarrow> chain M xs c1 d1)"

datatype walked = Answer response | Reached endpoint ctx | Passed ctx

fun walk :: "fiber \<Rightarrow> (mw \<Rightarrow> ctx \<Rightarrow> db \<Rightarrow> pass) \<Rightarrow> string \<Rightarrow> route list \<Rightarrow> ctx \<Rightarrow> db \<Rightarrow> walked \<times> db" where
  "walk F M meth [] c d = (Passed c, d)"
| "walk F M meth (Use p ms # rs) c d =
     (if fb_use F p (cx_Path c)
      then (case chain M ms c d of (Inl r, d1) \<Rightarrow> (Answer r, d1) | (Inr c1, d1) \<Rightarrow> walk F M meth rs c1 d1)
      else walk F M meth rs c d)"
| "walk F M meth (On m p e # rs) c d =
     (case (if fb_method F m meth then fb_match F p (cx_Path c) else None) of
        Some ps \<Rightarrow> (Reached e (c\<lparr>cx_Params := ps\<rparr>), d)
      | None \<Rightarrow> walk F M meth rs c d)"

definition dispatch :: "fiber \<Rightarrow> api_env \<Rightarrow> JWTManager \<Rightarrow> string \<Rightarrow> ctx \<Rightarrow> db \<Rightarrow> (response + endpoint \<times> ctx) \<times> db" where
  "dispatch F A jm meth c d =
     (case walk F (middleware F A jm meth) meth (setupMiddleware @ setupRoutes) c d of
        (Answer r, d1) \<Rightarrow> (Inl r, d1)
      | (Reached e c1, d1) \<Rightarrow> (Inr (e, c1), d1)
      | (Passed c1, d1) \<Rightarrow> (Inl (errorHandler (fb_none F meth (cx_Path c))), d1))"


subsection \<open>What reaches an endpoint\<close>

text \<open>
  The laws of the router that are used: a path that matches a pattern of a group lies under the prefix of the
  group; a path under a prefix begins with it, up to the case of ASCII letters; a parameter matches
  every path that a fixed last segment matches.
\<close>

definition group_law :: "fiber \<Rightarrow> bool" where
  "group_law F \<longleftrightarrow> (\<forall>p q path. CHR '':'' \<notin> set p \<longrightarrow> fb_match F (p @ CHR ''/'' # q) path \<noteq> None \<longrightarrow> fb_use F p path)"

definition prefix_law :: "fiber \<Rightarrow> bool" where
  "prefix_law F \<longleftrightarrow> (\<forall>p path. CHR '':'' \<notin> set p \<longrightarrow> fb_use F p path \<longrightarrow> HasPrefix (map lower_byte path) (map lower_byte p))"

definition param_law :: "fiber \<Rightarrow> bool" where
  "param_law F \<longleftrightarrow> (\<forall>p seg name path. seg \<noteq> [] \<longrightarrow> set seg \<inter> {CHR ''/'', CHR '':''} = {} \<longrightarrow> CHR ''/'' \<notin> set name \<longrightarrow>
     fb_match F (p @ CHR ''/'' # seg) path \<noteq> None \<longrightarrow> fb_match F (p @ CHR ''/'' # CHR '':'' # name) path \<noteq> None)"

fun endpoints :: "route list \<Rightarrow> endpoint list" where
  "endpoints [] = []"
| "endpoints (Use p ms # rs) = endpoints rs"
| "endpoints (On m p e # rs) = e # endpoints rs"

lemma endpoints_append [simp]: "endpoints (rs @ rs') = endpoints rs @ endpoints rs'"
  by (induction rs rule: endpoints.induct) simp_all

lemma endpoints_grouped [simp]: "endpoints (grouped p rs) = map (snd \<circ> snd) rs"
  by (induction rs) (auto simp: grouped_def)

text \<open>The parts of the table by what their endpoints are for.\<close>

datatype access = Open_Access | Own_Login | AI_Service | Administration | Tenant_Data | Redirect

primrec area :: "endpoint \<Rightarrow> access" where
  "area (Public _) = Open_Access"
| "area (Own _) = Own_Login"
| "area (AI _) = AI_Service"
| "area (Admin _) = Administration"
| "area (Rules _) = Tenant_Data"
| "area (Mail _) = Tenant_Data"
| "area E_Callback = Redirect"

text \<open>What a middleware leaves as it is.\<close>

definition same_request :: "ctx \<Rightarrow> ctx \<Rightarrow> bool" where
  "same_request c c' \<longleftrightarrow> cx_Path c' = cx_Path c \<and> cx_Get c' = cx_Get c"

lemma same_request_trans: "same_request c c' \<Longrightarrow> same_request c' c'' \<Longrightarrow> same_request c c''"
  by (simp add: same_request_def)

lemma find_tenant_same: "find_tenant A i n c d = (Inr c1, d1) \<Longrightarrow> same_request c c1"
  by (auto simp: find_tenant_def same_request_def split: sum.splits list.splits prod.splits)

lemma JWTAuth_same: "JWTAuthMiddleware A jm c d = (Inr c1, d1) \<Longrightarrow> same_request c c1"
  by (auto simp: JWTAuthMiddleware_def Let_def tryAPIKeyAuth_def tryUserAPIKeyAuth_def same_request_def
      dest!: find_tenant_same split: if_splits sum.splits prod.splits)

lemma middleware_same: "middleware F A jm meth x c d = (Inr c1, d1) \<Longrightarrow> same_request c c1"
  using JWTAuth_same [of A jm c d c1 d1]
  by (cases x) (auto simp: middleware_def RequireAuth_def RequireAdmin_def same_request_def
      split: option.splits if_splits sum.splits)

lemma chain_same: "chain (middleware F A jm meth) xs c d = (Inr c1, d1) \<Longrightarrow> same_request c c1"
proof (induction xs arbitrary: c d)
  case (Cons x xs)
  then obtain c2 d2 where "middleware F A jm meth x c d = (Inr c2, d2)" "chain (middleware F A jm meth) xs c2 d2 = (Inr c1, d1)"
    by (auto split: prod.splits sum.splits)
  then show ?case using Cons.IH middleware_same same_request_trans by blast
qed (simp add: same_request_def)

lemma walk_append:
  "walk F M meth (rs @ rs') c d = (case walk F M meth rs c d of (Passed c1, d1) \<Rightarrow> walk F M meth rs' c1 d1 | x \<Rightarrow> x)"
  by (induction F M meth rs c d rule: walk.induct) (auto split: prod.split sum.split option.split)

abbreviation go :: "fiber \<Rightarrow> api_env \<Rightarrow> JWTManager \<Rightarrow> string \<Rightarrow> route list \<Rightarrow> ctx \<Rightarrow> db \<Rightarrow> walked \<times> db" where
  "go F A jm meth \<equiv> walk F (middleware F A jm meth) meth"

lemma walk_same: "go F A jm meth rs c d = (Passed c1, d1) \<Longrightarrow> same_request c c1"
proof (induction rs arbitrary: c d rule: endpoints.induct)
  case (2 p ms rs)
  then show ?case
    by (auto split: if_splits prod.splits sum.splits dest: chain_same intro: same_request_trans)
qed (auto simp: same_request_def split: option.splits)

lemma walk_reached:
  assumes "go F A jm meth rs c d = (Reached e c1, d1)"
  obtains m p where "On m p e \<in> set rs" and "fb_method F m meth" and "fb_match F p (cx_Path c) = Some (cx_Params c1)"
proof -
  from assms have "\<exists>m p. On m p e \<in> set rs \<and> fb_method F m meth \<and> fb_match F p (cx_Path c) = Some (cx_Params c1)"
  proof (induction rs arbitrary: c d rule: endpoints.induct)
    case (2 p ms rs)
    then obtain c0 d0 where "go F A jm meth rs c0 d0 = (Reached e c1, d1)" "same_request c c0"
      by (auto split: if_splits prod.splits sum.splits dest: chain_same simp: same_request_def)
    with 2(1) [of c0 d0] show ?case by (auto simp: same_request_def)
  next
    case (3 m p e' rs)
    show ?case
    proof (cases "if fb_method F m meth then fb_match F p (cx_Path c) else None")
      case None
      with 3(1) [of c d] 3(2) show ?thesis by auto
    next
      case (Some ps)
      with 3(2) have "e' = e" "cx_Params c1 = ps" by auto
      with Some show ?thesis by (auto split: if_splits)
    qed
  qed simp
  then show thesis using that by blast
qed

lemma endpoints_On: "On m p e \<in> set rs \<Longrightarrow> e \<in> set (endpoints rs)"
  by (induction rs rule: endpoints.induct) auto

text \<open>The part of the table that an endpoint belongs to: the parts before pass the request on.\<close>

lemma walk_part:
  assumes "go F A jm meth (rs @ part @ rs') c d = (Reached e c1, d1)"
    and "e \<notin> set (endpoints rs)" and "e \<notin> set (endpoints rs')"
  obtains c0 d0 where "same_request c c0" and "go F A jm meth rs c d = (Passed c0, d0)" and "go F A jm meth part c0 d0 = (Reached e c1, d1)"
proof -
  have "\<not> (\<exists>x y. go F A jm meth rs c d = (Reached e x, y))"
    using assms(2) by (metis walk_reached endpoints_On)
  with assms(1) obtain c0 d0 where p: "go F A jm meth rs c d = (Passed c0, d0)" "go F A jm meth (part @ rs') c0 d0 = (Reached e c1, d1)"
    by (auto simp: walk_append split: prod.splits walked.splits)
  have "\<not> (\<exists>x y z w. go F A jm meth part c0 d0 = (Passed x, y) \<and> go F A jm meth rs' x y = (Reached e z, w))"
    using assms(3) by (metis walk_reached endpoints_On)
  with p(2) have "go F A jm meth part c0 d0 = (Reached e c1, d1)"
    by (auto simp: walk_append split: prod.splits walked.splits)
  with p(1) show thesis by (auto intro: that walk_same)
qed

lemma walk_grouped:
  "go F A jm meth (grouped p rs) c d = (Reached e c1, d1) \<Longrightarrow> d1 = d \<and> (\<exists>ps. c1 = c\<lparr>cx_Params := ps\<rparr>)"
  by (induction rs) (auto simp: grouped_def split: option.splits)

lemma walk_guarded:
  assumes "go F A jm meth (gs @ grouped p rs) c d = (Reached e c1, d1)" and "endpoints gs = []"
  obtains c2 where "same_request c c2" and "go F A jm meth gs c d = (Passed c2, d1)"
    and "go F A jm meth (grouped p rs) c2 d1 = (Reached e c1, d1)" and "cx_UserID c1 = cx_UserID c2"
proof -
  from assms(1) have "go F A jm meth (gs @ grouped p rs @ []) c d = (Reached e c1, d1)" by simp
  then obtain c2 d2 where "same_request c c2" "go F A jm meth gs c d = (Passed c2, d2)"
    and r: "go F A jm meth (grouped p rs) c2 d2 = (Reached e c1, d1)"
    by (rule walk_part) (simp_all add: assms(2))
  moreover from walk_grouped [OF r] have "d1 = d2" "cx_UserID c1 = cx_UserID c2" by auto
  ultimately show thesis using that by blast
qed

text \<open>A group behind middleware: the path lies under the prefix, so that the middleware has been passed.\<close>

lemma group_prefix:
  assumes "group_law F" and "go F A jm meth (grouped p rs) c d = (Reached e c1, d1)" and "CHR '':'' \<notin> set p"
    and "list_all (\<lambda>(m, q, e). HasPrefix q ''/'') rs"
  shows "fb_use F p (cx_Path c)"
proof -
  from assms(2) obtain m p' where "On m p' e \<in> set (grouped p rs)" "fb_match F p' (cx_Path c) = Some (cx_Params c1)"
    by (rule walk_reached)
  moreover from this(1) assms(4) obtain q where "p' = p @ q" "HasPrefix q ''/''" by (auto simp: grouped_def list_all_iff)
  moreover from this(2) obtain q' where "q = CHR ''/'' # q'" by (cases q) (auto simp: HasPrefix_def)
  ultimately have "fb_match F (p @ CHR ''/'' # q') (cx_Path c) \<noteq> None" by simp
  with assms(1,3) show ?thesis by (auto simp: group_law_def)
qed

lemma dispatch_reached:
  "dispatch F A jm meth c d = (Inr (e, c1), d1) \<Longrightarrow> go F A jm meth (setupMiddleware @ setupRoutes) c d = (Reached e c1, d1)"
  by (auto simp: dispatch_def split: prod.splits walked.splits)

lemmas tables = setupMiddleware_def open_routes_def auth_routes_def kiro_routes_def admin_routes_def v1_routes_def

lemma slashed: "list_all (\<lambda>(m, q, e). HasPrefix q ''/'') auth_routes" "list_all (\<lambda>(m, q, e). HasPrefix q ''/'') admin_routes"
  "list_all (\<lambda>(m, q, e). HasPrefix q ''/'') v1_routes"
  by (simp_all add: auth_routes_def admin_routes_def v1_routes_def HasPrefix_def)

abbreviation before_admin :: "route list" where
  "before_admin \<equiv> setupMiddleware @ open_routes @ Use ''/auth'' [M_JWTAuth, M_RequireAuth] # grouped ''/auth'' auth_routes @ kiro_routes"

abbreviation admin_guards :: "route list" where
  "admin_guards \<equiv> [Use ''/admin'' [M_JWTAuth], Use ''/admin'' [M_RequireAuth], Use ''/admin'' [M_RequireAdmin]]"

abbreviation admin_part :: "route list" where
  "admin_part \<equiv> admin_guards @ grouped ''/admin'' admin_routes"

abbreviation v1_part :: "route list" where
  "v1_part \<equiv> Use ''/api/v1'' [M_JWTAuth] # grouped ''/api/v1'' v1_routes"

abbreviation after_v1 :: "route list" where
  "after_v1 \<equiv> [On ''GET'' ''/api/oauth2/callback/:provider'' E_Callback]"

lemma parts: "setupMiddleware @ setupRoutes = before_admin @ admin_part @ v1_part @ after_v1"
  by (simp add: setupRoutes_def)

lemma areas:
  "list_all (\<lambda>e. area e \<in> {Open_Access, Own_Login, AI_Service}) (endpoints before_admin)"
  "list_all (\<lambda>e. area e = Administration) (map (snd \<circ> snd) admin_routes)"
  "list_all (\<lambda>e. area e = Tenant_Data) (map (snd \<circ> snd) v1_routes)"
  by (simp_all add: tables)

lemma admin_disjoint:
  assumes "area e = Administration"
  shows "e \<notin> set (endpoints before_admin)" and "e \<notin> set (endpoints (v1_part @ after_v1))"
proof -
  show "e \<notin> set (endpoints before_admin)" using assms areas(1) unfolding list_all_iff by force
  have "e \<notin> set (map (snd \<circ> snd) v1_routes)" using assms areas(3) unfolding list_all_iff by force
  with assms show "e \<notin> set (endpoints (v1_part @ after_v1))" by auto
qed

lemma walk_use:
  assumes "go F A jm meth (Use p ms # rs) c d = (Passed c', d')" and "fb_use F p (cx_Path c)"
  obtains c1 d1 where "chain (middleware F A jm meth) ms c d = (Inr c1, d1)" and "same_request c c1"
    and "go F A jm meth rs c1 d1 = (Passed c', d')"
  using assms by (auto split: prod.splits sum.splits intro: chain_same)

lemma RequireAdmin_Inr:
  assumes "RequireAdmin A c d = (Inr c1, d1)"
  shows "c1 = c \<and> d1 = d \<and> (\<exists>u \<in> set (users d). IsAdmin u \<and> cx_UserID c = Some (u_ID u))"
proof -
  obtain i where i: "cx_UserID c = Some i" using assms by (cases "cx_UserID c") (simp_all add: RequireAdmin_def)
  obtain u where u: "read_at A 5 (GetUserByID i d) = Inr u"
    using assms i by (cases "read_at A 5 (GetUserByID i d)") (simp_all add: RequireAdmin_def split: if_splits)
  from assms have "IsAdmin u" "c1 = c" "d1 = d" by (simp_all add: RequireAdmin_def i u split: if_splits)
  moreover from read_at_Inr [OF u] have "u \<in> set (users d) \<and> u_ID u = i"
    unfolding GetUserByID_def by (rule get_row_Inr)
  ultimately show ?thesis using i by auto
qed

text \<open>
  C24. The administration endpoints, the listing and creation of tenants, the rotation of the encryption
  keys and the management of users, are reached only by a request whose user is an administrator, for
  every router that lets a path of a group pass the middleware of the group.
\<close>
theorem admin_endpoints_need_admin:
  assumes "group_law F" and "dispatch F A jm meth c d = (Inr (e, c1), d1)" and "area e = Administration"
  shows "\<exists>u \<in> set (users d1). IsAdmin u \<and> cx_UserID c1 = Some (u_ID u)"
proof -
  from dispatch_reached [OF assms(2)] have "go F A jm meth (before_admin @ admin_part @ v1_part @ after_v1) c d = (Reached e c1, d1)"
    by (simp only: parts)
  then obtain c0 d0 where part: "go F A jm meth admin_part c0 d0 = (Reached e c1, d1)"
    using admin_disjoint [OF assms(3)] by (rule walk_part)
  from part obtain c2 where same: "same_request c0 c2" and guards: "go F A jm meth admin_guards c0 d0 = (Passed c2, d1)"
    and rest: "go F A jm meth (grouped ''/admin'' admin_routes) c2 d1 = (Reached e c1, d1)" and user: "cx_UserID c1 = cx_UserID c2"
    by (rule walk_guarded) simp
  from group_prefix [OF assms(1) rest _ slashed(2)] same have use: "fb_use F ''/admin'' (cx_Path c0)" by (simp add: same_request_def)
  from guards use obtain c3 d3 where "same_request c0 c3"
    and s3: "go F A jm meth [Use ''/admin'' [M_RequireAuth], Use ''/admin'' [M_RequireAdmin]] c3 d3 = (Passed c2, d1)" by (rule walk_use)
  with use have use3: "fb_use F ''/admin'' (cx_Path c3)" by (simp add: same_request_def)
  from s3 use3 obtain c4 d4 where "same_request c3 c4"
    and s4: "go F A jm meth [Use ''/admin'' [M_RequireAdmin]] c4 d4 = (Passed c2, d1)" by (rule walk_use)
  with use3 have "fb_use F ''/admin'' (cx_Path c4)" by (simp add: same_request_def)
  with s4 have "RequireAdmin A c4 d4 = (Inr c2, d1)" by (auto simp: middleware_def split: prod.splits sum.splits)
  from RequireAdmin_Inr [OF this] user show ?thesis by auto
qed

text \<open>A request without credentials.\<close>

definition anonymous :: "ctx \<Rightarrow> bool" where
  "anonymous c \<longleftrightarrow> \<not> HasPrefix (cx_Get c ''Authorization'') ''Bearer '' \<and> cx_Get c ''X-API-Key'' = []"

lemma anonymous_same: "anonymous c \<Longrightarrow> same_request c c' \<Longrightarrow> anonymous c'"
  by (simp add: anonymous_def same_request_def)

lemma JWT_anonymous:
  "anonymous c \<Longrightarrow> JWTAuthMiddleware A jm c d = (if cx_Path c \<in> {''/health'', ''/ready''} then Inr c
     else Inl (err_response 401 ''authentication required''), d)"
  by (simp add: anonymous_def JWTAuthMiddleware_def)

lemma middleware_anonymous:
  assumes "anonymous c" and "middleware F A jm meth x c d = (r, d1)"
  shows "d1 = d"
proof -
  have "snd (RequireAdmin A c d) = d" by (simp add: RequireAdmin_def split: option.split sum.split)
  with assms show ?thesis
    by (cases x) (auto simp: middleware_def JWT_anonymous RequireAuth_def split: option.splits if_splits)
qed

lemma chain_anonymous: "anonymous c \<Longrightarrow> chain (middleware F A jm meth) xs c d = (r, d1) \<Longrightarrow> d1 = d"
proof (induction xs arbitrary: c d)
  case (Cons x xs)
  show ?case
  proof (cases "middleware F A jm meth x c d")
    case (Pair r2 d2)
    with Cons.prems(1) have "d2 = d" by (rule middleware_anonymous)
    moreover have "anonymous c2" if "r2 = Inr c2" for c2
      using anonymous_same [OF Cons.prems(1) middleware_same] Pair that by blast
    ultimately show ?thesis using Cons.prems(2) Cons.IH Pair by (cases r2) auto
  qed
qed simp

lemma walk_anonymous: "anonymous c \<Longrightarrow> go F A jm meth rs c d = (w, d1) \<Longrightarrow> d1 = d"
proof (induction rs arbitrary: c d rule: endpoints.induct)
  case (2 p ms rs)
  show ?case
  proof (cases "chain (middleware F A jm meth) ms c d")
    case (Pair r2 d2)
    with 2(2) have "d2 = d" by (rule chain_anonymous)
    moreover have "anonymous c2" if "r2 = Inr c2" for c2
      using anonymous_same [OF 2(2) chain_same] Pair that by blast
    ultimately show ?thesis using 2 Pair by (cases r2) (auto split: if_splits)
  qed
qed (auto split: option.splits)

lemma behind_JWT:
  assumes "group_law F" and "prefix_law F" and "anonymous c" and "CHR '':'' \<notin> set p" and "list_all (\<lambda>(m, q, e). HasPrefix q ''/'') rs"
    and "\<not> HasPrefix ''/health'' (map lower_byte p)" and "\<not> HasPrefix ''/ready'' (map lower_byte p)" and "endpoints gs = []"
  shows "go F A jm meth ((Use p (M_JWTAuth # ms) # gs) @ grouped p rs) c d \<noteq> (Reached e c1, d1)"
proof
  assume "go F A jm meth ((Use p (M_JWTAuth # ms) # gs) @ grouped p rs) c d = (Reached e c1, d1)"
  then obtain c2 where same: "same_request c c2" and guards: "go F A jm meth (Use p (M_JWTAuth # ms) # gs) c d = (Passed c2, d1)"
    and rest: "go F A jm meth (grouped p rs) c2 d1 = (Reached e c1, d1)"
    by (rule walk_guarded) (simp add: assms(8))
  from group_prefix [OF assms(1) rest assms(4,5)] same have use: "fb_use F p (cx_Path c)" by (simp add: same_request_def)
  with assms(2,4) have "HasPrefix (map lower_byte (cx_Path c)) (map lower_byte p)" by (simp add: prefix_law_def)
  with assms(6,7) have "cx_Path c \<notin> {''/health'', ''/ready''}" by (auto simp: lower_byte_def)
  with assms(3) have "JWTAuthMiddleware A jm c d = (Inl (err_response 401 ''authentication required''), d)" by (simp add: JWT_anonymous)
  moreover from guards use obtain c3 d3 where "chain (middleware F A jm meth) (M_JWTAuth # ms) c d = (Inr c3, d3)" by (rule walk_use)
  ultimately show False by (simp add: middleware_def)
qed

lemma not_in_part: "list_all (\<lambda>e. area e \<in> S) es \<Longrightarrow> area e \<notin> S \<Longrightarrow> e \<notin> set es"
  by (auto simp: list_all_iff)

lemma part_areas:
  "list_all (\<lambda>e. area e \<in> {Open_Access}) (endpoints (setupMiddleware @ open_routes))"
  "list_all (\<lambda>e. area e \<in> {AI_Service, Administration, Tenant_Data, Redirect}) (endpoints (kiro_routes @ admin_part @ v1_part @ after_v1))"
  "list_all (\<lambda>e. area e \<in> {Open_Access, Own_Login, AI_Service, Administration}) (endpoints (before_admin @ admin_part))"
  "list_all (\<lambda>e. area e \<in> {Redirect}) (endpoints after_v1)"
  by (simp_all add: tables grouped_def)

abbreviation auth_part :: "route list" where
  "auth_part \<equiv> (Use ''/auth'' [M_JWTAuth, M_RequireAuth] # []) @ grouped ''/auth'' auth_routes"

text \<open>The three parts behind the check are closed to a request without credentials.\<close>

lemma closed_parts:
  assumes "group_law F" and "prefix_law F" and "anonymous c"
  shows "go F A jm meth auth_part c d \<noteq> (Reached e c1, d1)" and "go F A jm meth admin_part c d \<noteq> (Reached e c1, d1)"
    and "go F A jm meth ((Use ''/api/v1'' [M_JWTAuth] # []) @ grouped ''/api/v1'' v1_routes) c d \<noteq> (Reached e c1, d1)"
  by (rule behind_JWT [OF assms _ slashed(1)] behind_JWT [OF assms _ slashed(2)] behind_JWT [OF assms _ slashed(3)],
      simp, simp add: HasPrefix_def lower_byte_def, simp add: HasPrefix_def lower_byte_def, simp)+

text \<open>
  C25. A request without credentials reaches only the health checks, the login and registration, the AI
  translation and the OAuth2 callback, and nothing is written before the handler; every other endpoint is
  behind the check of the token.
\<close>
theorem anonymous_reaches_public:
  assumes "group_law F" and "prefix_law F" and "anonymous c" and "dispatch F A jm meth c d = (Inr (e, c1), d1)"
  shows "area e \<in> {Open_Access, AI_Service, Redirect} \<and> d1 = d"
proof -
  from dispatch_reached [OF assms(4)] have reached: "go F A jm meth (setupMiddleware @ setupRoutes) c d = (Reached e c1, d1)" .
  note closed = closed_parts [OF assms(1,2) anonymous_same [OF assms(3)]]
  have "area e \<noteq> Own_Login"
  proof
    assume own: "area e = Own_Login"
    have "e \<notin> set (endpoints (setupMiddleware @ open_routes))" "e \<notin> set (endpoints (kiro_routes @ admin_part @ v1_part @ after_v1))"
      by (rule not_in_part [OF part_areas(1)] not_in_part [OF part_areas(2)], simp add: own)+
    moreover from reached have "go F A jm meth ((setupMiddleware @ open_routes) @ auth_part @ kiro_routes @ admin_part @ v1_part @ after_v1) c d
        = (Reached e c1, d1)" by (simp add: setupRoutes_def)
    ultimately show False using closed(1) by (metis walk_part)
  qed
  moreover have "area e \<noteq> Administration"
    using reached closed(2) unfolding parts by (metis admin_disjoint walk_part)
  moreover have "area e \<noteq> Tenant_Data"
  proof
    assume v1: "area e = Tenant_Data"
    have "e \<notin> set (endpoints (before_admin @ admin_part))" "e \<notin> set (endpoints after_v1)"
      by (rule not_in_part [OF part_areas(3)] not_in_part [OF part_areas(4)], simp add: v1)+
    moreover from reached have "go F A jm meth ((before_admin @ admin_part) @ ((Use ''/api/v1'' [M_JWTAuth] # []) @ grouped ''/api/v1'' v1_routes) @ after_v1) c d
        = (Reached e c1, d1)" by (simp add: setupRoutes_def)
    ultimately show False using closed(3) by (metis walk_part)
  qed
  ultimately show ?thesis using walk_anonymous [OF assms(3) reached] by (cases "area e") simp_all
qed

lemma param_lawD:
  assumes "param_law F" and "fb_match F (p @ CHR ''/'' # seg) path \<noteq> None" and "seg \<noteq> []"
    and "set seg \<inter> {CHR ''/'', CHR '':''} = {}" and "CHR ''/'' \<notin> set name"
  shows "fb_match F (p @ CHR ''/'' # CHR '':'' # name) path \<noteq> None"
  using assms unfolding param_law_def by blast

text \<open>
  No request reaches the listing of the suggested rules: \<^verbatim>\<open>/rules/:id\<close> is registered before
  \<^verbatim>\<open>/rules/suggested\<close> and takes its paths, for every router in which a parameter matches what a fixed segment matches.
\<close>
theorem suggested_rules_unreachable:
  assumes "param_law F"
  shows "dispatch F A jm meth c d \<noteq> (Inr (Rules E_ListSuggestedRules, c1), d1)"
proof
  let ?rs = "before_admin @ admin_part @ [Use ''/api/v1'' [M_JWTAuth], On ''GET'' ''/api/v1/rules'' (Rules E_ListRules)]"
  let ?rs' = "grouped ''/api/v1'' (drop 2 v1_routes) @ after_v1"
  assume "dispatch F A jm meth c d = (Inr (Rules E_ListSuggestedRules, c1), d1)"
  then have "go F A jm meth (?rs @ ([On ''GET'' ''/api/v1/rules/:id'' (Rules E_GetRule)] @ ?rs') @ []) c d = (Reached (Rules E_ListSuggestedRules) c1, d1)"
    using dispatch_reached by (fastforce simp: setupRoutes_def v1_routes_def grouped_def)
  moreover have "Rules E_ListSuggestedRules \<notin> set (endpoints ?rs)"
    using not_in_part [OF part_areas(3), of "Rules E_ListSuggestedRules"] by simp
  ultimately obtain c0 d0 where "go F A jm meth ([On ''GET'' ''/api/v1/rules/:id'' (Rules E_GetRule)] @ ?rs') c0 d0 = (Reached (Rules E_ListSuggestedRules) c1, d1)"
    by (rule walk_part) simp
  then have no: "fb_method F ''GET'' meth \<Longrightarrow> fb_match F ''/api/v1/rules/:id'' (cx_Path c0) = None"
    and yes: "go F A jm meth ?rs' c0 d0 = (Reached (Rules E_ListSuggestedRules) c1, d1)"
    by (auto split: option.splits if_splits)
  from yes obtain m p where "On m p (Rules E_ListSuggestedRules) \<in> set ?rs'" "fb_method F m meth" "fb_match F p (cx_Path c0) \<noteq> None"
    by (rule walk_reached) auto
  then have "fb_method F ''GET'' meth" "fb_match F (''/api/v1/rules'' @ CHR ''/'' # ''suggested'') (cx_Path c0) \<noteq> None"
    by (auto simp: grouped_def v1_routes_def)
  from assms this(2) have "fb_match F (''/api/v1/rules'' @ CHR ''/'' # CHR '':'' # ''id'') (cx_Path c0) \<noteq> None"
    by (rule param_lawD) simp_all
  with no \<open>fb_method F ''GET'' meth\<close> show False by simp
qed


subsection \<open>A router\<close>

text \<open>A router by segments, on which the laws of routers are seen to hold.\<close>

definition seg_match :: "string \<Rightarrow> string \<Rightarrow> bool" where
  "seg_match s t = (if HasPrefix s '':'' then t \<noteq> [] else s = t)"

abbreviation segments :: "string \<Rightarrow> string list" where
  "segments s \<equiv> Split s (CHR ''/'')"

definition sample_fiber :: fiber where
  "sample_fiber = \<lparr>fb_method = (\<lambda>m m'. m = m'),
     fb_use = (\<lambda>p path. list_all2 seg_match (segments p) (take (length (segments p)) (segments path))),
     fb_match = (\<lambda>p path. if list_all2 seg_match (segments p) (segments path)
        then Some (\<lambda>name. case find (\<lambda>(s, t). s = CHR '':'' # name) (zip (segments p) (segments path)) of None \<Rightarrow> [] | Some (s, t) \<Rightarrow> t)
        else None),
     fb_none = (\<lambda>m path. FiberError 404 (''Cannot '' @ m @ '' '' @ path)), fb_cors = (\<lambda>_ _. None)\<rparr>"

lemma segments_append: "Split (s @ c # t) c = Split s c @ Split t c"
  by (induction s) (auto split: list.split)

lemma Split_set: "w \<in> set (Split s c) \<Longrightarrow> set w \<subseteq> set s"
proof (induction s arbitrary: w)
  case (Cons a s)
  obtain v vs where "Split s c = v # vs" using Split_neq_Nil [of s c] by (cases "Split s c") auto
  with Cons show ?case by (fastforce split: if_splits)
qed simp

lemma segments_single: "c \<notin> set s \<Longrightarrow> Split s c = [s]"
  by (induction s) auto

lemma seg_match_static: "CHR '':'' \<notin> set s \<Longrightarrow> seg_match s t \<longleftrightarrow> s = t"
  by (cases s) (auto simp: seg_match_def HasPrefix_def)

lemma static_segments:
  assumes "CHR '':'' \<notin> set p" and "list_all2 seg_match (segments p) ts"
  shows "segments p = ts"
proof -
  have "s = t" if "s \<in> set (segments p)" "seg_match s t" for s t
    using that assms(1) Split_set seg_match_static by blast
  with assms(2) have "list_all2 (=) (segments p) ts" by (auto intro: list.rel_mono_strong)
  then show ?thesis by (simp add: list.rel_eq)
qed

lemma Join_prefix: "xs \<noteq> [] \<Longrightarrow> HasPrefix (Join (xs @ ys) sep) (Join xs sep)"
proof (induction xs sep rule: Join.induct)
  case (2 w sep)
  then show ?case by (cases ys) (auto simp: HasPrefix_def)
qed (auto simp: HasPrefix_def)

lemma sample_router: "group_law sample_fiber" "prefix_law sample_fiber" "param_law sample_fiber"
proof -
  show "group_law sample_fiber"
    by (auto simp: group_law_def sample_fiber_def segments_append list_all2_append1 split: if_splits)
  have "HasPrefix (map lower_byte path) (map lower_byte p)"
    if "CHR '':'' \<notin> set p" "list_all2 seg_match (segments p) (take (length (segments p)) (segments path))" for p path
  proof -
    from that have "segments p = take (length (segments p)) (segments path)" by (rule static_segments)
    then obtain ys where "segments path = segments p @ ys" by (metis append_take_drop_id)
    then have "HasPrefix path p" using Join_prefix [of "segments p" ys "''/''"] Join_Split by (metis Split_neq_Nil)
    then show ?thesis by (simp add: HasPrefix_def take_map)
  qed
  then show "prefix_law sample_fiber" by (simp add: prefix_law_def sample_fiber_def)
  show "param_law sample_fiber"
    by (auto simp: param_law_def sample_fiber_def segments_append segments_single list_all2_append1 list_all2_Cons1 seg_match_static
        split: if_splits) (auto simp: seg_match_def HasPrefix_def)
qed

lemma seg_match_simps [simp]:
  "seg_match [] t \<longleftrightarrow> t = []" "seg_match (CHR '':'' # s) t \<longleftrightarrow> t \<noteq> []" "c \<noteq> CHR '':'' \<Longrightarrow> seg_match (c # s) t \<longleftrightarrow> t = c # s"
  by (auto simp: seg_match_def HasPrefix_def)

definition sample_admin_db :: db where
  "sample_admin_db = (sample_db ''skip'')\<lparr>users := [\<lparr>u_ID = 1, u_Username = ''ann'', u_PasswordHash = [], u_TOTPSecret = None,
     u_TOTPEnabled = False, u_AIEnabled = False, u_Role = ''admin'', u_CreatedAt = 0, u_UpdatedAt = 0\<rparr>],
     tenants := [sample_tenant\<lparr>t_UserID := Some 1\<rparr>]\<rparr>"

definition sample_call :: "string \<Rightarrow> string \<Rightarrow> ctx" where
  "sample_call path bearer = (sample_ctx bearer [])\<lparr>cx_Path := path\<rparr>"

theorem anonymous_reaches_public_witness:
  "\<exists>c1. dispatch sample_fiber (sample_api 5) sample_jwt ''GET'' (sample_call ''/health'' []) empty_db = (Inr (Public E_HealthCheck, c1), empty_db) \<and>
     area (Public E_HealthCheck) \<in> {Open_Access, AI_Service, Redirect}"
proof -
  obtain c1 where r: "dispatch sample_fiber (sample_api 5) sample_jwt ''GET'' (sample_call ''/health'' []) empty_db = (Inr (Public E_HealthCheck, c1), empty_db)"
    by (simp add: dispatch_def setupRoutes_def tables grouped_def middleware_def sample_fiber_def sample_call_def sample_ctx_def)
  have "anonymous (sample_call ''/health'' [])" by (simp add: anonymous_def sample_call_def sample_ctx_def HasPrefix_def)
  with anonymous_reaches_public [OF sample_router(1,2) _ r] r show ?thesis by blast
qed

theorem suggested_rules_unreachable_witness:
  "(\<nexists>c1 d1. dispatch sample_fiber (sample_api 5) sample_jwt ''GET'' (sample_call ''/api/v1/rules/suggested'' ''Bearer key'') (sample_db ''skip'')
     = (Inr (Rules E_ListSuggestedRules, c1), d1)) \<and>
   (\<exists>c1. dispatch sample_fiber (sample_api 5) sample_jwt ''GET'' (sample_call ''/api/v1/rules/suggested'' ''Bearer key'') (sample_db ''skip'')
     = (Inr (Rules E_GetRule, c1), sample_db ''skip'') \<and> cx_Params c1 ''id'' = ''suggested'')"
proof
  show "\<nexists>c1 d1. dispatch sample_fiber (sample_api 5) sample_jwt ''GET'' (sample_call ''/api/v1/rules/suggested'' ''Bearer key'') (sample_db ''skip'')
     = (Inr (Rules E_ListSuggestedRules, c1), d1)" using suggested_rules_unreachable [OF sample_router(3)] by blast
  have "Split ''/api/v1/rules/suggested'' (CHR ''/'') = [[], ''api'', ''v1'', ''rules'', ''suggested'']" by simp
  then show "\<exists>c1. dispatch sample_fiber (sample_api 5) sample_jwt ''GET'' (sample_call ''/api/v1/rules/suggested'' ''Bearer key'') (sample_db ''skip'')
     = (Inr (Rules E_GetRule, c1), sample_db ''skip'') \<and> cx_Params c1 ''id'' = ''suggested''"
    by (simp add: dispatch_def setupRoutes_def tables grouped_def middleware_def sample_fiber_def sample_call_def sample_ctx_def
        JWTAuthMiddleware_def Let_def HasPrefix_def TrimPrefix_def count_char_def tryAPIKeyAuth_def read_at_def query_def
        GetTenantByAPIKey_def get_row_def sample_defs)
qed

lemma sample_admin_call:
  "\<exists>c1. dispatch sample_fiber (sample_api 5) sample_jwt ''GET'' (sample_call ''/admin/users'' ''Bearer a.b.c'') sample_admin_db
     = (Inr (Admin E_ListUsers, c1), sample_admin_db)"
proof -
  have "Split ''/admin/users'' (CHR ''/'') = [[], ''admin'', ''users'']" by simp
  then show ?thesis
    by (simp add: dispatch_def setupRoutes_def tables grouped_def middleware_def sample_fiber_def sample_call_def sample_ctx_def
        JWTAuthMiddleware_def Let_def HasPrefix_def TrimPrefix_def count_char_def ValidateToken_def sample_claims_def sample_jwt_def Second_def
        find_tenant_def read_at_def query_def IsTokenBlacklisted_def GetTenantsByUserID_def RequireAuth_def RequireAdmin_def
        GetUserByID_def get_row_def IsAdmin_def rows_affected_def sample_admin_db_def sample_defs)
qed

theorem admin_endpoints_need_admin_witness:
  "\<exists>c1. dispatch sample_fiber (sample_api 5) sample_jwt ''GET'' (sample_call ''/admin/users'' ''Bearer a.b.c'') sample_admin_db
       = (Inr (Admin E_ListUsers, c1), sample_admin_db) \<and>
     (\<exists>u. u \<in> set (users sample_admin_db) \<and> IsAdmin u \<and> cx_UserID c1 = Some (u_ID u))"
proof -
  obtain c1 where r: "dispatch sample_fiber (sample_api 5) sample_jwt ''GET'' (sample_call ''/admin/users'' ''Bearer a.b.c'') sample_admin_db
     = (Inr (Admin E_ListUsers, c1), sample_admin_db)" using sample_admin_call by blast
  from admin_endpoints_need_admin [OF sample_router(1) r] r show ?thesis by fastforce
qed

end
