(* ===== verification/WebMail.thy ===== *)
theory WebMail
  imports Access Workers Secrets
begin

text \<open>
  \<^verbatim>\<open>internal/api/handlers\<close>: accounts (\<^verbatim>\<open>accounts.go\<close>), exempt folders (\<^verbatim>\<open>exempt_folders.go\<close>), metadata
  (\<^verbatim>\<open>metadata.go\<close>), the connection of accounts through OAuth2 (\<^verbatim>\<open>oauth2.go\<close>) and connection tests
  (\<^verbatim>\<open>connection_testing.go\<close>). \<open>C\<close> holds the encryption keys, \<open>rnd\<close> the nonces.
\<close>

text \<open>Without a tenant in the request the handlers act for tenant 0, which does not exist.\<close>

definition tenantID :: "ctx \<Rightarrow> int" where
  "tenantID c = (case cx_TenantID c of None \<Rightarrow> 0 | Some t \<Rightarrow> t)"

abbreviation faults_from :: "api_env \<Rightarrow> nat \<Rightarrow> nat \<Rightarrow> bool" where
  "faults_from A i \<equiv> \<lambda>j. ap_fault A (i + j)"

definition no_content :: response where
  "no_content = (204, J_Str ''No Content'')"

subsection \<open>Accounts\<close>

definition redact :: "account \<Rightarrow> account" where
  "redact a = a\<lparr>a_Password := [], a_OAuthToken := [], a_OAuthRefreshToken := []\<rparr>"

definition api_ListAccounts :: "api_env \<Rightarrow> ctx \<Rightarrow> db \<Rightarrow> response \<times> db" where
  "api_ListAccounts A c d =
     (case read_at A 10 (Inr (ListAccounts (tenantID c) d)) of
        Inl e \<Rightarrow> (err_response 500 (ap_dbtext A e), d)
      | Inr as \<Rightarrow> ((200, J_List (map (\<lambda>a. J_Account (redact a)) as)), d))"

definition api_GetAccount :: "api_env \<Rightarrow> crypt \<Rightarrow> ctx \<Rightarrow> db \<Rightarrow> response \<times> db" where
  "api_GetAccount A C c d =
     (case Atoi (cx_Params c ''id'') of
        None \<Rightarrow> (err_response 400 ''invalid account ID'', d)
      | Some ident \<Rightarrow>
          (case read_at A 10 (GetAccount C (tenantID c) ident d) of
             Inl _ \<Rightarrow> (err_response 404 ''account not found'', d)
           | Inr a \<Rightarrow> ((200, J_Account (redact a)), d)))"

text \<open>\<open>RETURNING id, created_at, updated_at\<close>: the handler's own struct gets these three fields of the new row.\<close>

definition scanned :: "account \<Rightarrow> account \<Rightarrow> account" where
  "scanned row a = a\<lparr>a_ID := a_ID row, a_CreatedAt := a_CreatedAt row, a_UpdatedAt := a_UpdatedAt row\<rparr>"

definition api_CreateAccount ::
  "api_env \<Rightarrow> crypt \<Rightarrow> (nat \<Rightarrow> string option) \<Rightarrow> ctx \<Rightarrow> account option \<Rightarrow> db \<Rightarrow> response \<times> db" where
  "api_CreateAccount A C rnd c body d =
     (case body of
        None \<Rightarrow> (err_response 400 ''invalid request body'', d)
      | Some a \<Rightarrow>
          (let acc = a\<lparr>a_TenantID := tenantID c, a_Provider := (if a_Provider a = [] then ''imap'' else a_Provider a)\<rparr>
           in case CreateAccount C rnd (faults_from A 10) (ap_now A) acc d of
                (Inl e, d1) \<Rightarrow> (err_response 500 (ap_dbtext A e), d1)
              | (Inr a1, d1) \<Rightarrow> ((201, J_Account (redact (scanned a1 acc))), d1)))"

definition api_UpdateAccount ::
  "api_env \<Rightarrow> crypt \<Rightarrow> (nat \<Rightarrow> string option) \<Rightarrow> ctx \<Rightarrow> account option \<Rightarrow> db \<Rightarrow> response \<times> db" where
  "api_UpdateAccount A C rnd c body d =
     (case Atoi (cx_Params c ''id'') of
        None \<Rightarrow> (err_response 400 ''invalid account ID'', d)
      | Some ident \<Rightarrow>
          (case body of
             None \<Rightarrow> (err_response 400 ''invalid request body'', d)
           | Some a \<Rightarrow>
               (let acc = a\<lparr>a_ID := ident, a_TenantID := tenantID c\<rparr>
                in case write_at A 10 (UpdateAccount C rnd (ap_now A) acc) d of
                     (Inl e, d1) \<Rightarrow> (err_response 500 (ap_dbtext A e), d1)
                   | (Inr _, d1) \<Rightarrow> ((200, J_Account (redact acc)), d1))))"

definition api_DeleteAccount :: "api_env \<Rightarrow> ctx \<Rightarrow> db \<Rightarrow> response \<times> db" where
  "api_DeleteAccount A c d =
     (case Atoi (cx_Params c ''id'') of
        None \<Rightarrow> (err_response 400 ''invalid account ID'', d)
      | Some ident \<Rightarrow>
          (case write_at A 10 (DeleteAccount (tenantID c) ident) d of
             (Inl e, d1) \<Rightarrow> (err_response 500 (ap_dbtext A e), d1)
           | (Inr _, d1) \<Rightarrow> (no_content, d1)))"

subsection \<open>Exempt folders\<close>

text \<open>The check that the account belongs to the tenant, before what follows.\<close>

definition own_account :: "api_env \<Rightarrow> crypt \<Rightarrow> ctx \<Rightarrow> (int \<Rightarrow> db \<Rightarrow> response \<times> db) \<Rightarrow> db \<Rightarrow> response \<times> db" where
  "own_account A C c h d =
     (case Atoi (cx_Params c ''accountId'') of
        None \<Rightarrow> (err_response 400 ''invalid account ID'', d)
      | Some ident \<Rightarrow>
          (case read_at A 10 (GetAccount C (tenantID c) ident d) of
             Inl _ \<Rightarrow> (err_response 404 ''account not found'', d)
           | Inr _ \<Rightarrow> h ident d))"

definition folders_response :: "string list \<Rightarrow> response" where
  "folders_response fs = (200, J_Obj [(''exempt_folders'', J_List (map J_Str fs))])"

definition ListExemptFolders :: "api_env \<Rightarrow> crypt \<Rightarrow> ctx \<Rightarrow> db \<Rightarrow> response \<times> db" where
  "ListExemptFolders A C c = own_account A C c (\<lambda>ident d.
     case read_at A 11 (GetExemptFolders ident d) of
       Inl e \<Rightarrow> (err_response 500 (ap_dbtext A e), d)
     | Inr fs \<Rightarrow> (folders_response fs, d))"

definition api_AddExemptFolder :: "api_env \<Rightarrow> crypt \<Rightarrow> unicode \<Rightarrow> ctx \<Rightarrow> string option \<Rightarrow> db \<Rightarrow> response \<times> db" where
  "api_AddExemptFolder A C U c body = own_account A C c (\<lambda>ident d.
     case body of
       None \<Rightarrow> (err_response 400 ''invalid request body'', d)
     | Some folder \<Rightarrow>
         if folder = [] then (err_response 400 ''folder name is required'', d)
         else (case AddExemptFolder U (faults_from A 11) (ap_now A) ident folder d of
            (Inl e, d1) \<Rightarrow> (err_response 500 (ap_dbtext A e), d1)
          | (Inr fs, d1) \<Rightarrow> (folders_response fs, d1)))"

definition api_RemoveExemptFolder :: "api_env \<Rightarrow> crypt \<Rightarrow> unicode \<Rightarrow> ctx \<Rightarrow> db \<Rightarrow> response \<times> db" where
  "api_RemoveExemptFolder A C U c = own_account A C c (\<lambda>ident d.
     if cx_Params c ''folder'' = [] then (err_response 400 ''folder name is required'', d)
     else (case RemoveExemptFolder U (faults_from A 11) (ap_now A) ident (cx_Params c ''folder'') d of
        (Inl e, d1) \<Rightarrow> (err_response 404 (ap_dbtext A e), d1)
      | (Inr fs, d1) \<Rightarrow> (folders_response fs, d1)))"

subsection \<open>Metadata\<close>

definition api_AttachMetadata :: "api_env \<Rightarrow> ctx \<Rightarrow> (string \<times> string) option \<Rightarrow> db \<Rightarrow> response \<times> db" where
  "api_AttachMetadata A c body d =
     (if cx_Params c ''messageId'' = [] then (err_response 400 ''messageId is required'', d)
      else case body of
        None \<Rightarrow> (err_response 400 ''invalid request body'', d)
      | Some (key, val) \<Rightarrow>
          if key = [] then (err_response 400 ''key is required'', d)
          else (case write_at A 10 (AttachMetadata (ap_now A) (tenantID c) (cx_Params c ''messageId'') key val) d of
             (Inl e, d1) \<Rightarrow> (err_response 500 (ap_dbtext A e), d1)
           | (Inr m, d1) \<Rightarrow> ((201, J_Metadata m), d1)))"

definition GetMetadata :: "api_env \<Rightarrow> (string \<Rightarrow> nat list) \<Rightarrow> ctx \<Rightarrow> db \<Rightarrow> response \<times> db" where
  "GetMetadata A coll c d =
     (if cx_Params c ''messageId'' = [] then (err_response 400 ''messageId is required'', d)
      else case read_at A 10 (Inr (GetMetadataForMessage coll (tenantID c) (cx_Params c ''messageId'') d)) of
        Inl e \<Rightarrow> (err_response 500 (ap_dbtext A e), d)
      | Inr ms \<Rightarrow> ((200, J_Obj [(''metadata'', J_List (map J_Metadata ms))]), d))"

definition api_UpdateMetadata :: "api_env \<Rightarrow> ctx \<Rightarrow> string option \<Rightarrow> db \<Rightarrow> response \<times> db" where
  "api_UpdateMetadata A c body d =
     (if cx_Params c ''messageId'' = [] \<or> cx_Params c ''key'' = [] then (err_response 400 ''messageId and key are required'', d)
      else case body of
        None \<Rightarrow> (err_response 400 ''invalid request body'', d)
      | Some val \<Rightarrow>
          (case write_at A 10 (UpdateMetadata (ap_now A) (tenantID c) (cx_Params c ''messageId'') (cx_Params c ''key'') val) d of
             (Inl _, d1) \<Rightarrow> (err_response 404 ''metadata key not found'', d1)
           | (Inr m, d1) \<Rightarrow> ((200, J_Metadata m), d1)))"

definition DeleteMetadata :: "api_env \<Rightarrow> ctx \<Rightarrow> db \<Rightarrow> response \<times> db" where
  "DeleteMetadata A c d =
     (if cx_Params c ''messageId'' = [] \<or> cx_Params c ''key'' = [] then (err_response 400 ''messageId and key are required'', d)
      else case write_at A 10 (RemoveMetadata (tenantID c) (cx_Params c ''messageId'') (cx_Params c ''key'')) d of
        (Inl e, d1) \<Rightarrow> (err_response 404 (ap_dbtext A e), d1)
      | (Inr _, d1) \<Rightarrow> (no_content, d1))"

definition SearchByMetadata :: "api_env \<Rightarrow> ctx \<Rightarrow> db \<Rightarrow> response \<times> db" where
  "SearchByMetadata A c d =
     (if cx_Query c ''key'' = [] then (err_response 400 ''key query parameter is required'', d)
      else case read_at A 10 (Inr (QueryByMetadata (tenantID c) (cx_Query c ''key'') (cx_Query c ''value'') (cx_Query c ''exclude_id'') d)) of
        Inl e \<Rightarrow> (err_response 500 (ap_dbtext A e), d)
      | Inr ms \<Rightarrow> ((200, J_Obj [(''results'', J_List (map J_Metadata ms)), (''total'', J_Int (int (length ms)))]), d))"

definition api_BatchAttachMetadata :: "api_env \<Rightarrow> ctx \<Rightarrow> (string list \<times> string \<times> string) option \<Rightarrow> db \<Rightarrow> response \<times> db" where
  "api_BatchAttachMetadata A c body d =
     (case body of
        None \<Rightarrow> (err_response 400 ''invalid request body'', d)
      | Some (ids, key, val) \<Rightarrow>
          if key = [] then (err_response 400 ''key is required'', d)
          else if length ids = 0 then (err_response 400 ''message_ids is required'', d)
          else (case BatchAttachMetadata (faults_from A 10) (ap_now A) (tenantID c) ids key val d of
             (Inl e, d1) \<Rightarrow> (err_response 500 (ap_dbtext A e), d1)
           | (Inr ms, d1) \<Rightarrow>
               ((201, J_Obj [(''attached'', J_Int (int (length ms))), (''results'', J_List (map J_Metadata ms))]), d1)))"

fun first_empty_key :: "nat \<Rightarrow> (string \<times> string) list \<Rightarrow> nat option" where
  "first_empty_key i [] = None"
| "first_empty_key i ((key, val) # qs) = (if key = [] then Some i else first_empty_key (i + 1) qs)"

definition api_BatchQueryMetadata :: "api_env \<Rightarrow> ctx \<Rightarrow> (string \<times> string) list option \<Rightarrow> db \<Rightarrow> response \<times> db" where
  "api_BatchQueryMetadata A c body d =
     (case body of
        None \<Rightarrow> (err_response 400 ''invalid request body'', d)
      | Some queries \<Rightarrow>
          if length queries = 0 then (err_response 400 ''queries is required'', d)
          else (case first_empty_key 0 queries of
             Some i \<Rightarrow> (err_response 400 (''query '' @ FormatInt (int i) @ '': key is required''), d)
           | None \<Rightarrow>
               (case BatchQueryMetadata (faults_from A 10) (tenantID c) queries d of
                  Inl e \<Rightarrow> (err_response 500 (ap_dbtext A e), d)
                | Inr results \<Rightarrow> ((200, J_Obj [(''results'', J_Query results)]), d))))"

subsection \<open>Accounts connected through OAuth2\<close>

record oauthState =
  os_TenantID :: int
  os_Provider :: string
  os_CreatedAt :: time

record oauth_config =
  oc_MS365ClientID :: string
  oc_MS365ClientSecret :: string
  oc_MS365TenantID :: string
  oc_GmailClientID :: string
  oc_GmailClientSecret :: string
  oc_RedirectBaseURL :: string

text \<open>
  The HTTP client with the decoders of its answers. A \<open>GET\<close> with a bearer token answers with a status and
  as much of the body as could be read.
\<close>

datatype get_result = GetFailed string | GetBody int string

record user_info =
  ui_Mail :: string
  ui_UserPrincipalName :: string
  ui_Email :: string

record oauth_net =
  on_http :: "string \<Rightarrow> string \<Rightarrow> http_result"
  on_decode :: "string \<Rightarrow> string + TokenResponse"
  on_get :: "string \<Rightarrow> string \<Rightarrow> get_result"
  on_user :: "string \<Rightarrow> string + user_info"

text \<open>\<open>UserEmail\<close> of the two providers, which differ in the address they ask and the field they read.\<close>

fun user_info_url :: "provider \<Rightarrow> string" where
  "user_info_url (Microsoft365Provider cid secret tenant redirect) = ''https://graph.microsoft.com/v1.0/me''"
| "user_info_url (GmailProvider cid secret redirect) = ''https://www.googleapis.com/oauth2/v2/userinfo''"

fun user_info_email :: "provider \<Rightarrow> user_info \<Rightarrow> string" where
  "user_info_email (Microsoft365Provider cid secret tenant redirect) u =
     (if ui_Mail u = [] then ui_UserPrincipalName u else ui_Mail u)"
| "user_info_email (GmailProvider cid secret redirect) u = ui_Email u"

definition UserEmail :: "oauth_net \<Rightarrow> provider \<Rightarrow> string \<Rightarrow> string + string" where
  "UserEmail net p accessToken =
     (case on_get net (user_info_url p) (''Bearer '' @ accessToken) of
        GetFailed e \<Rightarrow> Inl (''request user info: '' @ e)
      | GetBody status body \<Rightarrow>
          if status \<noteq> 200 then Inl (''user info request failed ('' @ FormatInt status @ ''): '' @ body)
          else (case on_user net body of
                  Inl e \<Rightarrow> Inl (''decode user info: '' @ e)
                | Inr u \<Rightarrow> Inr (user_info_email p u)))"

definition oauth_providers :: "oauth_config \<Rightarrow> (string \<times> provider) list" where
  "oauth_providers cfg =
     (if oc_MS365ClientID cfg \<noteq> [] \<and> oc_MS365ClientSecret cfg \<noteq> []
      then [(''microsoft365'', Microsoft365Provider (oc_MS365ClientID cfg) (oc_MS365ClientSecret cfg) (oc_MS365TenantID cfg)
               (oc_RedirectBaseURL cfg @ ''/api/oauth2/callback/microsoft365''))] else []) @
     (if oc_GmailClientID cfg \<noteq> [] \<and> oc_GmailClientSecret cfg \<noteq> []
      then [(''gmail'', GmailProvider (oc_GmailClientID cfg) (oc_GmailClientSecret cfg)
               (oc_RedirectBaseURL cfg @ ''/api/oauth2/callback/gmail''))] else [])"

text \<open>The order of the names is that in which Go iterates over the map; no names are encoded as \<open>null\<close>.\<close>

definition ListProviders :: "((string \<times> provider) list \<Rightarrow> (string \<times> provider) list) \<Rightarrow> oauth_config \<Rightarrow> response" where
  "ListProviders order cfg =
     (let ps = order (oauth_providers cfg)
      in (200, J_Obj [(''providers'', if ps = [] then J_Null else J_List (map (\<lambda>p. J_Obj [(''name'', J_Str (fst p))]) ps))]))"

type_synonym states = "string \<rightharpoonup> oauthState"

definition cleanupStates :: "time \<Rightarrow> states \<Rightarrow> states" where
  "cleanupStates now st = (\<lambda>k. case st k of None \<Rightarrow> None | Some s \<Rightarrow> if os_CreatedAt s < now - 10 * Minute then None else Some s)"

definition generateState :: "api_env \<Rightarrow> string option" where
  "generateState A = map_option hex_encode (ap_Random A 32)"

definition Connect :: "api_env \<Rightarrow> oauth_config \<Rightarrow> ctx \<Rightarrow> states \<Rightarrow> response \<times> states" where
  "Connect A cfg c st =
     (let name = cx_Params c ''provider''
      in case map_of (oauth_providers cfg) name of
           None \<Rightarrow> (err_response 400 (''unsupported OAuth2 provider: '' @ name), st)
         | Some p \<Rightarrow>
             if tenantID c = 0 then (err_response 401 ''unauthorized'', st)
             else (case generateState A of
                None \<Rightarrow> (err_response 500 ''failed to generate state'', st)
              | Some state \<Rightarrow>
                  ((200, J_Obj [(''auth_url'', J_Str (AuthURL p state)), (''state'', J_Str state)]),
                   cleanupStates (ap_now A)
                     (st(state \<mapsto> \<lparr>os_TenantID = tenantID c, os_Provider = name, os_CreatedAt = ap_now A\<rparr>)))))"

definition oauth_account :: "int \<Rightarrow> string \<Rightarrow> provider \<Rightarrow> string \<Rightarrow> TokenResponse \<Rightarrow> time \<Rightarrow> account" where
  "oauth_account tid name p email tok expiry =
     \<lparr>a_ID = 0, a_TenantID = tid, a_Name = email @ '' ('' @ name @ '')'', a_Email = email, a_Provider = name,
      a_IMAPHost = provider_IMAPHost p, a_IMAPPort = provider_IMAPPort p, a_IMAPTLS = True, a_Username = email, a_Password = [],
      a_OAuthToken = tr_AccessToken tok, a_OAuthRefreshToken = tr_RefreshToken tok, a_OAuthTokenExpiry = Some expiry,
      a_OAuthProvider = name, a_Active = True, a_ExemptFolders = [], a_LastSyncAt = None, a_LastConnectionTestAt = None,
      a_LastConnectionStatus = [], a_LastConnectionError = [], a_LastUIDProcessed = 0, a_CreatedAt = 0, a_UpdatedAt = 0\<rparr>"

text \<open>What follows once the state has been accepted.\<close>

definition connect_account ::
  "api_env \<Rightarrow> oauth_net \<Rightarrow> crypt \<Rightarrow> (nat \<Rightarrow> string option) \<Rightarrow> int \<Rightarrow> string \<Rightarrow> provider \<Rightarrow> string \<Rightarrow> db \<Rightarrow> response \<times> db" where
  "connect_account A net C rnd tid name p code d =
     (case ExchangeCode (on_http net) (on_decode net) p code of
        Inl e \<Rightarrow> (err_response 500 (''token exchange failed: '' @ e), d)
      | Inr tok \<Rightarrow>
          (case UserEmail net p (tr_AccessToken tok) of
             Inl e \<Rightarrow> (err_response 500 (''failed to get user email: '' @ e), d)
           | Inr email \<Rightarrow>
               (let expiry = ap_now A + wrap64 (tr_ExpiresIn tok * Second); acc = oauth_account tid name p email tok expiry
                in case CreateAccount C rnd (faults_from A 10) (ap_now A) acc d of
                     (Inl e, d1) \<Rightarrow> (err_response 500 (''failed to create account: '' @ ap_dbtext A e), d1)
                   | (Inr a, d1) \<Rightarrow>
                       ((201, J_Obj [(''message'', J_Str ''account connected successfully''), (''account'', J_Account (redact (scanned a acc)))]), d1))))"

definition Callback ::
  "api_env \<Rightarrow> oauth_config \<Rightarrow> oauth_net \<Rightarrow> crypt \<Rightarrow> (nat \<Rightarrow> string option) \<Rightarrow> ctx \<Rightarrow> states \<Rightarrow> db \<Rightarrow> response \<times> states \<times> db" where
  "Callback A cfg net C rnd c st d =
     (let name = cx_Params c ''provider''; code = cx_Query c ''code''; state = cx_Query c ''state'' in
      case map_of (oauth_providers cfg) name of
        None \<Rightarrow> (err_response 400 (''unsupported OAuth2 provider: '' @ name), st, d)
      | Some p \<Rightarrow>
          if cx_Query c ''error'' \<noteq> [] then
            ((400, J_Obj [(''error'', J_Str (cx_Query c ''error'')), (''description'', J_Str (cx_Query c ''error_description''))]), st, d)
          else if code = [] \<or> state = [] then (err_response 400 ''missing code or state parameter'', st, d)
          else (case st state of
             None \<Rightarrow> (err_response 400 ''invalid or expired state'', st, d)
           | Some s \<Rightarrow>
               (let st1 = st(state := None)
                in if 10 * Minute < Since (ap_now A) (os_CreatedAt s) then (err_response 400 ''state expired'', st1, d)
                   else if os_Provider s \<noteq> name then (err_response 400 ''provider mismatch'', st1, d)
                   else (case connect_account A net C rnd (os_TenantID s) name p code d of (r, d1) \<Rightarrow> (r, st1, d1)))))"

definition api_RefreshToken ::
  "api_env \<Rightarrow> oauth_config \<Rightarrow> oauth_net \<Rightarrow> crypt \<Rightarrow> (nat \<Rightarrow> string option) \<Rightarrow> ctx \<Rightarrow> db \<Rightarrow> response \<times> db" where
  "api_RefreshToken A cfg net C rnd c d =
     (case Atoi (cx_Params c ''id'') of
        None \<Rightarrow> (err_response 400 ''invalid account ID'', d)
      | Some ident \<Rightarrow>
          (case read_at A 10 (GetAccount C (tenantID c) ident d) of
             Inl _ \<Rightarrow> (err_response 404 ''account not found'', d)
           | Inr acc \<Rightarrow>
               if a_OAuthProvider acc = [] then (err_response 400 ''account is not an OAuth2 account'', d)
               else (case map_of (oauth_providers cfg) (a_OAuthProvider acc) of
                  None \<Rightarrow> (err_response 400 (''provider '' @ a_OAuthProvider acc @ '' not configured''), d)
                | Some p \<Rightarrow>
                    if a_OAuthRefreshToken acc = [] then (err_response 400 ''no refresh token available'', d)
                    else (case RefreshToken (on_http net) (on_decode net) p (a_OAuthRefreshToken acc) of
                       Inl e \<Rightarrow> (err_response 500 (''token refresh failed: '' @ e), d)
                     | Inr tok \<Rightarrow>
                         (let expiry = ap_now A + wrap64 (tr_ExpiresIn tok * Second);
                              refreshToken = (if tr_RefreshToken tok = [] then a_OAuthRefreshToken acc else tr_RefreshToken tok)
                          in case write_at A 11 (UpdateAccountOAuthTokens C rnd (ap_now A) ident (tr_AccessToken tok) refreshToken (Some expiry)) d of
                               (Inl e, d1) \<Rightarrow> (err_response 500 (''failed to update tokens: '' @ ap_dbtext A e), d1)
                             | (Inr _, d1) \<Rightarrow>
                                 ((200, J_Obj [(''message'', J_Str ''token refreshed successfully''), (''expires_at'', J_Time expiry),
                                    (''expires_in'', J_Int (tr_ExpiresIn tok))]), d1))))))"

definition Disconnect :: "api_env \<Rightarrow> crypt \<Rightarrow> (nat \<Rightarrow> string option) \<Rightarrow> ctx \<Rightarrow> db \<Rightarrow> response \<times> db" where
  "Disconnect A C rnd c d =
     (case Atoi (cx_Params c ''id'') of
        None \<Rightarrow> (err_response 400 ''invalid account ID'', d)
      | Some ident \<Rightarrow>
          (case read_at A 10 (GetAccount C (tenantID c) ident d) of
             Inl _ \<Rightarrow> (err_response 404 ''account not found'', d)
           | Inr acc \<Rightarrow>
               if a_OAuthProvider acc = [] then (err_response 400 ''account is not an OAuth2 account'', d)
               else (case write_at A 11 (UpdateAccount C rnd (ap_now A)
                       (acc\<lparr>a_OAuthToken := [], a_OAuthRefreshToken := [], a_OAuthTokenExpiry := None, a_Active := False\<rparr>)) d of
                  (Inl e, d1) \<Rightarrow> (err_response 500 (''failed to disconnect account: '' @ ap_dbtext A e), d1)
                | (Inr _, d1) \<Rightarrow> (message_response ''account disconnected'', d1))))"

subsection \<open>Connection tests\<close>

text \<open>The authentication of the test, with the error, if any. A refreshed token is stored.\<close>

definition test_authentication ::
  "api_env \<Rightarrow> conn_env \<Rightarrow> crypt \<Rightarrow> (nat \<Rightarrow> string option) \<Rightarrow> account \<Rightarrow> db \<Rightarrow> string option \<times> db" where
  "test_authentication A K C rnd acc d =
     (let auth = (\<lambda>token. map_option (\<lambda>e. ''XOAUTH2 authentication failed: '' @ e) (cn_Authenticate K (BuildXOAuth2String (login_name acc) token)))
      in if a_OAuthProvider acc \<noteq> [] \<and> a_OAuthToken acc \<noteq> [] then
           (if IsTokenExpired (ap_now A) (a_OAuthTokenExpiry acc) then
              (case map_of (cn_Providers K) (a_OAuthProvider acc) of
                 None \<Rightarrow> (Some (''OAuth2 provider '' @ a_OAuthProvider acc @ '' not configured''), d)
               | Some refresh \<Rightarrow>
                   (case refresh (a_OAuthRefreshToken acc) of
                      Inl e \<Rightarrow> (Some (''refresh OAuth2 token: '' @ e), d)
                    | Inr tok \<Rightarrow>
                        (let expiry = ap_now A + wrap64 (tr_ExpiresIn tok * Second);
                             refreshToken = (if tr_RefreshToken tok = [] then a_OAuthRefreshToken acc else tr_RefreshToken tok)
                         in (auth (tr_AccessToken tok),
                             snd (write_at A 11 (UpdateAccountOAuthTokens C rnd (ap_now A) (a_ID acc) (tr_AccessToken tok) refreshToken (Some expiry)) d)))))
            else (auth (a_OAuthToken acc), d))
         else (map_option (\<lambda>e. ''login failed: '' @ e) (cn_Login K (login_name acc) (a_Password acc)), d))"

definition test_connection ::
  "api_env \<Rightarrow> conn_env \<Rightarrow> crypt \<Rightarrow> (nat \<Rightarrow> string option) \<Rightarrow> account \<Rightarrow> db \<Rightarrow> string option \<times> db" where
  "test_connection A K C rnd acc d =
     (case cn_Dial K (conn_addr acc) of
        Some e \<Rightarrow> (Some (''connect to '' @ conn_addr acc @ '': '' @ e), d)
      | None \<Rightarrow>
          (case cn_Greeting K of
             Some e \<Rightarrow> (Some (''server greeting: '' @ e), d)
           | None \<Rightarrow> test_authentication A K C rnd acc d))"

definition ConnectionTestResult :: "time \<Rightarrow> string option \<Rightarrow> json" where
  "ConnectionTestResult now testErr =
     J_Obj ((''status'', J_Str (if testErr = None then ''connected'' else ''failed'')) #
       (case testErr of None \<Rightarrow> [] | Some e \<Rightarrow> if e = [] then [] else [(''error'', J_Str e)]) @ [(''tested_at'', J_Time now)])"

definition TestConnection ::
  "api_env \<Rightarrow> conn_env \<Rightarrow> crypt \<Rightarrow> (nat \<Rightarrow> string option) \<Rightarrow> ctx \<Rightarrow> db \<Rightarrow> response \<times> db" where
  "TestConnection A K C rnd c d =
     (case Atoi (cx_Params c ''id'') of
        None \<Rightarrow> (err_response 400 ''invalid account ID'', d)
      | Some ident \<Rightarrow>
          (case read_at A 10 (GetAccount C (tenantID c) ident d) of
             Inl _ \<Rightarrow> (err_response 404 ''account not found'', d)
           | Inr acc \<Rightarrow>
               (case test_connection A K C rnd acc d of
                  (testErr, d1) \<Rightarrow>
                    ((200, ConnectionTestResult (ap_now A) testErr),
                     snd (write_at A 12 (UpdateConnectionTestResult (ap_now A) ident
                       (if testErr = None then ''connected'' else ''failed'') (case testErr of None \<Rightarrow> [] | Some e \<Rightarrow> e)) d1)))))"


subsection \<open>Credentials\<close>

text \<open>An answer shows no password and no token.\<close>

definition no_credentials :: "account \<Rightarrow> bool" where
  "no_credentials a \<longleftrightarrow> a_Password a = [] \<and> a_OAuthToken a = [] \<and> a_OAuthRefreshToken a = []"

fun hides :: "json \<Rightarrow> bool" where
  "hides (J_Account a) = no_credentials a"
| "hides (J_List js) = list_all hides js"
| "hides (J_Obj kvs) = list_all (\<lambda>kv. hides (snd kv)) kvs"
| "hides j = True"

lemma no_credentials_redact [simp]: "no_credentials (redact a)"
  by (simp add: no_credentials_def redact_def)

lemma connect_account_hides: "hides (snd (fst (connect_account A net C rnd tid name p code d)))"
  by (simp add: connect_account_def Let_def split: sum.split prod.split)

text \<open>
  C30. The account endpoints and the OAuth2 callback show no credential: whatever the request, the
  database, the encryption keys and the provider, no account within the answer has a password, an
  access token or a refresh token.
\<close>
theorem answers_hide_credentials:
  "hides (snd (fst (api_ListAccounts A c d))) \<and>
   hides (snd (fst (api_GetAccount A C c d))) \<and>
   hides (snd (fst (api_CreateAccount A C rnd c body d))) \<and>
   hides (snd (fst (api_UpdateAccount A C rnd c body d))) \<and>
   hides (snd (fst (Callback A cfg net C rnd c st d)))"
proof (intro conjI)
  show "hides (snd (fst (api_ListAccounts A c d)))"
    by (simp add: api_ListAccounts_def list_all_iff split: sum.split)
  show "hides (snd (fst (api_GetAccount A C c d)))"
    by (simp add: api_GetAccount_def split: option.split sum.split)
  show "hides (snd (fst (api_CreateAccount A C rnd c body d)))"
    by (simp add: api_CreateAccount_def Let_def split: option.split sum.split prod.split)
  show "hides (snd (fst (api_UpdateAccount A C rnd c body d)))"
    by (simp add: api_UpdateAccount_def Let_def split: option.split sum.split prod.split)
  show "hides (snd (fst (Callback A cfg net C rnd c st d)))"
    using connect_account_hides [of A net C rnd _ "cx_Params c ''provider''" _ "cx_Query c ''code''" d]
    by (auto simp: Callback_def Let_def split: option.split prod.split) (metis fst_conv snd_conv)
qed

lemma encryptPassword_nil: "encryptPassword c r [] i = Inr []"
  by (simp add: encryptPassword_def split: option.split)

lemma decryptPassword_nil: "decryptPassword c [] i = Inr []"
  by (simp add: decryptPassword_def split: option.split)

text \<open>
  The form for an account and the switch that deactivates it send back what \<open>GET\<close> has shown, with a
  field changed. As \<open>PUT\<close> stores what it is sent, and \<open>GET\<close> shows no credentials, the password and
  the tokens of the account are gone afterwards: it is read back without them, whatever it had.
\<close>
theorem sending_back_wipes_credentials:
  assumes "api_GetAccount A C c d = ((200, J_Account shown), d)"
    and "int4 (a_IMAPPort shown)" and "\<not> ap_fault A' 10"
  shows "\<exists>g b. fst (api_UpdateAccount A' C rnd c (Some (shown\<lparr>a_Active := act\<rparr>)) d) = (200, b) \<and>
    GetAccount C (tenantID c) (a_ID shown) (snd (api_UpdateAccount A' C rnd c (Some (shown\<lparr>a_Active := act\<rparr>)) d)) = Inr g \<and>
    no_credentials g \<and> a_Active g = act \<and> a_IMAPHost g = a_IMAPHost shown"
proof -
  obtain ident a where i: "Atoi (cx_Params c ''id'') = Some ident" and a: "GetAccount C (tenantID c) ident d = Inr a"
    and s: "shown = redact a"
    using assms(1) by (auto simp: api_GetAccount_def read_at_def query_def split: option.splits sum.splits if_splits)
  let ?P = "\<lambda>r. a_ID r = ident \<and> a_TenantID r = tenantID c"
  obtain row where r: "find ?P (accounts d) = Some row" and ad: "a = decrypt_account C (select_account row)"
    using a by (auto simp: GetAccount_def get_row_def res_bind_Inr_iff split: option.splits)
  have "?P row" using r by (auto simp: find_Some_iff)
  then have sid: "a_ID shown = ident" "a_TenantID shown = tenantID c"
    by (simp_all add: s ad redact_def decrypt_account_def select_account_def Let_def)
  let ?acc = "shown\<lparr>a_Active := act, a_ID := ident, a_TenantID := tenantID c\<rparr>"
  have up: "api_UpdateAccount A' C rnd c (Some (shown\<lparr>a_Active := act\<rparr>)) d
      = ((200, J_Account (redact ?acc)), snd (UpdateAccount C rnd (ap_now A') ?acc d))"
    using assms(2,3) by (simp add: api_UpdateAccount_def i write_at_def stmt_def UpdateAccount_def Let_def)
  have nil: "a_Password shown = []" "a_OAuthToken shown = []" "a_OAuthRefreshToken shown = []"
    by (simp_all add: s redact_def)
  show ?thesis
    unfolding up using assms(2) r
    by (simp add: GetAccount_def get_row_def UpdateAccount_def Let_def find_upd sid nil encryptPassword_nil decryptPassword_nil
        decrypt_account_def select_account_def no_credentials_def)
qed

lemma Atoi_one: "Atoi ''1'' = Some 1"
  by (simp add: Atoi_def HasPrefix_def is_digit_def int64_range_def)

definition sample_request :: ctx where
  "sample_request = (sample_ctx [] [])\<lparr>cx_TenantID := Some 1, cx_Params := (\<lambda>_. ''1'')\<rparr>"

lemma sample_get_account:
  "api_GetAccount (sample_api 5) sample_crypt sample_request (sample_db ''skip'')
    = ((200, J_Account (redact (select_account sample_account))), sample_db ''skip'')"
  by (simp add: api_GetAccount_def sample_request_def tenantID_def Atoi_one read_at_def query_def GetAccount_def get_row_def
      sample_db_def sample_account_def decrypt_account_def select_account_def redact_def Let_def sample_crypt_def decryptPassword_def
      Decrypt_def parseVersionedCiphertext_def b64_decode_def)

theorem sending_back_wipes_credentials_witness:
  "\<exists>g. GetAccount sample_crypt 1 1 (snd (api_UpdateAccount (sample_api 5) sample_crypt sample_nonce sample_request
      (Some (redact (select_account sample_account)\<lparr>a_Active := False\<rparr>)) (sample_db ''skip''))) = Inr g \<and> no_credentials g"
proof -
  have "int4 (a_IMAPPort (redact (select_account sample_account)))"
    by (simp add: sample_account_def int4_def redact_def select_account_def)
  then have "\<exists>g b. fst (api_UpdateAccount (sample_api 5) sample_crypt sample_nonce sample_request
      (Some (redact (select_account sample_account)\<lparr>a_Active := False\<rparr>)) (sample_db ''skip'')) = (200, b) \<and>
    GetAccount sample_crypt (tenantID sample_request) (a_ID (redact (select_account sample_account))) (snd (api_UpdateAccount (sample_api 5)
      sample_crypt sample_nonce sample_request (Some (redact (select_account sample_account)\<lparr>a_Active := False\<rparr>)) (sample_db ''skip''))) = Inr g \<and>
    no_credentials g \<and> a_Active g = False \<and> a_IMAPHost g = a_IMAPHost (redact (select_account sample_account))"
    by (intro sending_back_wipes_credentials [OF sample_get_account]) simp_all
  then show ?thesis
    by (auto simp: redact_def select_account_def sample_account_def sample_request_def tenantID_def)
qed

subsection \<open>Histories of the OAuth2 connection\<close>

text \<open>
  The requests that read or change the states, among other requests, which change the database only. The
  history, last event first, has the states that were handed out and those that were used up.
\<close>

datatype oauth_event = Issued string int string time | Consumed string

datatype oauth_req =
    R_Connect api_env ctx
  | R_Callback api_env oauth_net "nat \<Rightarrow> string option" ctx
  | R_Other db

type_synonym oauth_history = "states \<times> db \<times> oauth_event list"

fun oauth_step :: "oauth_config \<Rightarrow> crypt \<Rightarrow> oauth_req \<Rightarrow> oauth_history \<Rightarrow> oauth_history" where
  "oauth_step cfg C (R_Connect A c) (st, d, h) =
     (case Connect A cfg c st of
        (r, st1) \<Rightarrow> (st1, d, case generateState A of
          Some k \<Rightarrow> if fst r = 200 then Issued k (tenantID c) (cx_Params c ''provider'') (ap_now A) # h else h
        | None \<Rightarrow> h))"
| "oauth_step cfg C (R_Callback A net rnd c) (st, d, h) =
     (case Callback A cfg net C rnd c st d of
        (r, st1, d1) \<Rightarrow> (st1, d1, if st (cx_Query c ''state'') \<noteq> None \<and> st1 (cx_Query c ''state'') = None
           then Consumed (cx_Query c ''state'') # h else h))"
| "oauth_step cfg C (R_Other d1) (st, d, h) = (st, d1, h)"

definition issued :: "oauth_event list \<Rightarrow> string \<Rightarrow> oauthState \<Rightarrow> bool" where
  "issued h k s \<longleftrightarrow> os_TenantID s \<noteq> 0 \<and>
     (\<exists>xs ys. h = ys @ Issued k (os_TenantID s) (os_Provider s) (os_CreatedAt s) # xs \<and> Consumed k \<notin> set ys)"

definition states_issued :: "oauth_history \<Rightarrow> bool" where
  "states_issued x = (case x of (st, d, h) \<Rightarrow> \<forall>k s. st k = Some s \<longrightarrow> issued h k s)"

lemma issued_Cons: "issued h k s \<Longrightarrow> e \<noteq> Consumed k \<Longrightarrow> issued (e # h) k s"
  unfolding issued_def by (metis append_Cons set_ConsD)

lemma issued_now: "os_TenantID s \<noteq> 0 \<Longrightarrow> issued (Issued k (os_TenantID s) (os_Provider s) (os_CreatedAt s) # h) k s"
  unfolding issued_def by (metis append_Nil empty_iff list.set(1))

lemma cleanupStates_Some: "cleanupStates now st k = Some s \<Longrightarrow> st k = Some s"
  by (auto simp: cleanupStates_def split: option.splits if_splits)

lemma Connect_cases:
  obtains "snd (Connect A cfg c st) = st" and "fst (fst (Connect A cfg c st)) \<noteq> 200"
  | k where "generateState A = Some k" and "tenantID c \<noteq> 0"
    and "snd (Connect A cfg c st) = cleanupStates (ap_now A)
      (st(k \<mapsto> \<lparr>os_TenantID = tenantID c, os_Provider = cx_Params c ''provider'', os_CreatedAt = ap_now A\<rparr>))"
    and "fst (fst (Connect A cfg c st)) = 200"
  by (cases "map_of (oauth_providers cfg) (cx_Params c ''provider'')"; cases "generateState A"; cases "tenantID c = 0")
    (auto simp: Connect_def Let_def)

lemma Callback_states:
  "Callback A cfg net C rnd c st d = (r, st1, d1) \<Longrightarrow> st1 = st \<or> st1 = st(cx_Query c ''state'' := None)"
  by (auto simp: Callback_def Let_def split: option.splits if_splits prod.splits)

lemma oauth_step_issued: "states_issued x \<Longrightarrow> states_issued (oauth_step cfg C r x)"
proof (cases r)
  case (R_Connect A c)
  assume inv: "states_issued x"
  obtain st d h where x: "x = (st, d, h)" by (cases x)
  show ?thesis
  proof (cases rule: Connect_cases [of A cfg c st])
    case 1
    with inv x R_Connect show ?thesis by (auto simp: states_issued_def split: option.split prod.split)
  next
    case (2 k)
    let ?s = "\<lparr>os_TenantID = tenantID c, os_Provider = cx_Params c ''provider'', os_CreatedAt = ap_now A\<rparr>"
    let ?e = "Issued k (tenantID c) (cx_Params c ''provider'') (ap_now A)"
    have step: "oauth_step cfg C r x = (cleanupStates (ap_now A) (st(k \<mapsto> ?s)), d, ?e # h)"
      using 2 by (simp add: R_Connect x split: prod.split) (metis fst_conv snd_conv)
    have "issued (?e # h) k' s'" if "(st(k \<mapsto> ?s)) k' = Some s'" for k' s'
      using that inv x 2(2) issued_now [of ?s k h] by (auto simp: states_issued_def intro: issued_Cons split: if_splits)
    then show ?thesis unfolding step by (auto simp: states_issued_def dest: cleanupStates_Some)
  qed
next
  case (R_Callback A net rnd c)
  assume inv: "states_issued x"
  obtain st d h where x: "x = (st, d, h)" by (cases x)
  obtain q st1 d1 where cb: "Callback A cfg net C rnd c st d = (q, st1, d1)" by (metis prod_cases3)
  from Callback_states [OF cb] inv x show ?thesis
    by (auto simp: R_Callback cb states_issued_def intro: issued_Cons split: if_splits)
next
  case (R_Other d)
  assume "states_issued x"
  then show ?thesis by (cases x) (simp add: R_Other states_issued_def)
qed

lemma oauth_run_issued: "states_issued x \<Longrightarrow> states_issued (fold (oauth_step cfg C) rs x)"
  by (induction rs arbitrary: x) (simp_all add: oauth_step_issued)

definition owner_columns :: "account \<Rightarrow> int \<times> int \<times> string \<times> string" where
  "owner_columns a = (a_ID a, a_TenantID a, a_OAuthProvider a, a_Email a)"

lemma encrypt_column_owner:
  "(\<And>v r. owner_columns (g v r) = owner_columns r) \<Longrightarrow>
    map owner_columns (accounts (encrypt_column c f r tok i g d)) = map owner_columns (accounts d)"
  by (simp add: encrypt_column_def stmt_def update_account_def map_upd_key split: sum.split)

lemma CreateAccount_owner:
  assumes "CreateAccount c rnd F now a d = (Inr a', d')"
  shows "map owner_columns (accounts d') = map owner_columns (accounts d) @ [owner_columns a']"
    and "a_TenantID a' = a_TenantID a" and "a_OAuthProvider a' = a_OAuthProvider a" and "a_Email a' = a_Email a"
proof -
  obtain r d1 where i: "stmt (F 0) (insert_account now a) d = (r, d1)" by fastforce
  with assms have r: "r = Inr a'"
    by (auto simp: CreateAccount_def Let_def split: sum.splits if_splits prod.splits)
  then show a': "a_TenantID a' = a_TenantID a" "a_OAuthProvider a' = a_OAuthProvider a" "a_Email a' = a_Email a"
    using i by (auto simp: stmt_def insert_account_def Let_def split: if_splits)
  have d1: "map owner_columns (accounts d1) = map owner_columns (accounts d) @ [owner_columns a']"
    using i r by (auto simp: stmt_def insert_account_def Let_def split: if_splits)
  have pw: "map owner_columns (accounts (snd (stmt f (update_account j (\<lambda>r. r\<lparr>a_Password := e\<rparr>)) d1))) = map owner_columns (accounts d1)" for f j e
    by (simp add: stmt_def update_account_def map_upd_key owner_columns_def)
  have cols: "map owner_columns (accounts (encrypt_column c f q tok j (\<lambda>v r. r\<lparr>a_OAuthToken := v\<rparr>) e)) = map owner_columns (accounts e)"
    "map owner_columns (accounts (encrypt_column c f q tok j (\<lambda>v r. r\<lparr>a_OAuthRefreshToken := v\<rparr>) e)) = map owner_columns (accounts e)" for f q tok j e
    by (simp_all add: encrypt_column_owner owner_columns_def)
  from assms i r pw show "map owner_columns (accounts d') = map owner_columns (accounts d) @ [owner_columns a']"
    unfolding d1 [symmetric]
    by (auto simp: CreateAccount_def Let_def cols split: sum.splits if_splits prod.splits) (metis snd_conv)
qed

lemma connect_account_owner:
  assumes "connect_account A net C rnd tid name p code d = ((201, b), d1)"
  shows "\<exists>i email. map owner_columns (accounts d1) = map owner_columns (accounts d) @ [(i, tid, name, email)]"
proof -
  from assms obtain tok email a where
    cr: "CreateAccount C rnd (faults_from A 10) (ap_now A) (oauth_account tid name p email tok (ap_now A + wrap64 (tr_ExpiresIn tok * Second))) d = (Inr a, d1)"
    by (auto simp: connect_account_def Let_def split: sum.splits prod.splits)
  from CreateAccount_owner [OF cr] show ?thesis
    by (auto simp: owner_columns_def oauth_account_def)
qed

lemma Since_le: "\<not> 10 * Minute < Since now t \<Longrightarrow> now - t \<le> 10 * Minute"
  by (simp add: Since_def Minute_def Second_def)

lemma Callback_created:
  assumes "Callback A cfg net C rnd c st d = ((201, b), st1, d1)"
  obtains s p where "st (cx_Query c ''state'') = Some s" and "st1 = st(cx_Query c ''state'' := None)"
    and "ap_now A - os_CreatedAt s \<le> 10 * Minute" and "os_Provider s = cx_Params c ''provider''"
    and "connect_account A net C rnd (os_TenantID s) (cx_Params c ''provider'') p (cx_Query c ''code'') d = ((201, b), d1)"
  using assms by (auto simp: Callback_def Let_def split: option.splits if_splits prod.splits intro: Since_le)

text \<open>
  C31. An account is connected only on behalf of who asked for it: after any requests, a callback that
  creates an account carries a state that was handed out to a tenant for the same provider at most ten
  minutes before and has not been used since; exactly one account is added, it belongs to that tenant,
  and the state cannot be used again.
\<close>
theorem oauth_account_for_requester:
  assumes "fold (oauth_step cfg C) rs (Map.empty, d0, []) = (st, d, h)"
    and "Callback A cfg net C rnd c st d = ((201, b), st1, d1)"
  shows "\<exists>t since xs ys i email. h = ys @ Issued (cx_Query c ''state'') t (cx_Params c ''provider'') since # xs \<and>
    Consumed (cx_Query c ''state'') \<notin> set ys \<and> t \<noteq> 0 \<and> ap_now A - since \<le> 10 * Minute \<and>
    map owner_columns (accounts d1) = map owner_columns (accounts d) @ [(i, t, cx_Params c ''provider'', email)] \<and>
    st1 (cx_Query c ''state'') = None"
proof -
  have "states_issued (st, d, h)"
    using oauth_run_issued [of "(Map.empty, d0, [])" cfg C rs] by (simp add: assms(1) states_issued_def)
  moreover from assms(2) obtain s p where s: "st (cx_Query c ''state'') = Some s" "st1 = st(cx_Query c ''state'' := None)"
      "ap_now A - os_CreatedAt s \<le> 10 * Minute" "os_Provider s = cx_Params c ''provider''"
    and co: "connect_account A net C rnd (os_TenantID s) (cx_Params c ''provider'') p (cx_Query c ''code'') d = ((201, b), d1)"
    by (rule Callback_created)
  ultimately have "issued h (cx_Query c ''state'') s" by (simp add: states_issued_def)
  then obtain xs ys where h: "h = ys @ Issued (cx_Query c ''state'') (os_TenantID s) (os_Provider s) (os_CreatedAt s) # xs"
    and t: "Consumed (cx_Query c ''state'') \<notin> set ys" "os_TenantID s \<noteq> 0"
    by (auto simp: issued_def)
  obtain i email where "map owner_columns (accounts d1) = map owner_columns (accounts d) @ [(i, os_TenantID s, cx_Params c ''provider'', email)]"
    using connect_account_owner [OF co] by blast
  with h t s show ?thesis by (metis fun_upd_same)
qed

definition sample_oauth_config :: oauth_config where
  "sample_oauth_config = \<lparr>oc_MS365ClientID = [], oc_MS365ClientSecret = [], oc_MS365TenantID = [], oc_GmailClientID = ''id'',
     oc_GmailClientSecret = ''secret'', oc_RedirectBaseURL = ''https://h''\<rparr>"

definition sample_oauth_net :: oauth_net where
  "sample_oauth_net = \<lparr>on_http = (\<lambda>_ _. HttpBody 200 ''{}''),
     on_decode = (\<lambda>_. Inr \<lparr>tr_AccessToken = ''at'', tr_RefreshToken = ''rt'', tr_TokenType = [], tr_ExpiresIn = 3600, tr_Scope = [], tr_IDToken = []\<rparr>),
     on_get = (\<lambda>_ _. GetBody 200 ''{}''),
     on_user = (\<lambda>_. Inr \<lparr>ui_Mail = [], ui_UserPrincipalName = [], ui_Email = ''me@acme''\<rparr>)\<rparr>"

definition sample_oauth_ctx :: ctx where
  "sample_oauth_ctx = (sample_ctx [] [])\<lparr>cx_TenantID := Some 1, cx_Params := (\<lambda>_. ''gmail''),
     cx_Query := (\<lambda>k. if k = ''code'' then ''c'' else if k = ''state'' then hex_encode ''xy'' else [])\<rparr>"

lemma sample_connect:
  "fold (oauth_step sample_oauth_config sample_crypt) [R_Connect (sample_api 0) sample_oauth_ctx] (Map.empty, sample_db ''skip'', []) =
     ([hex_encode ''xy'' \<mapsto> \<lparr>os_TenantID = 1, os_Provider = ''gmail'', os_CreatedAt = 0\<rparr>], sample_db ''skip'',
      [Issued (hex_encode ''xy'') 1 ''gmail'' 0])"
  by (auto simp: Connect_def oauth_providers_def sample_oauth_config_def sample_oauth_ctx_def sample_ctx_def tenantID_def generateState_def
      cleanupStates_def Let_def Minute_def Second_def fun_eq_iff)

lemma sample_create:
  "\<exists>a d1. CreateAccount sample_crypt sample_nonce (\<lambda>_. False) 5 (oauth_account 1 ''gmail'' p m tok e) (sample_db ''skip'') = (Inr a, d1)"
proof -
  let ?a = "oauth_account 1 ''gmail'' p m tok e"
  have "has_key t_ID (a_TenantID ?a) (tenants (sample_db ''skip''))" "int4 (a_IMAPPort ?a)"
    by (simp_all add: oauth_account_def sample_db_def sample_tenant_def int4_def provider_IMAPPort_def)
  from CreateAccount_seals [where F = "\<lambda>_. False" and now = 5, OF sample_crypt_ok sample_db_inv this]
  obtain a' where "fst (CreateAccount sample_crypt sample_nonce (\<lambda>_. False) 5 ?a (sample_db ''skip'')) = Inr a'" by blast
  then show ?thesis by (metis prod.collapse)
qed

lemma sample_callback:
  "\<exists>b st1 d1. Callback (sample_api 5) sample_oauth_config sample_oauth_net sample_crypt sample_nonce sample_oauth_ctx
     [hex_encode ''xy'' \<mapsto> \<lparr>os_TenantID = 1, os_Provider = ''gmail'', os_CreatedAt = 0\<rparr>] (sample_db ''skip'') = ((201, b), st1, d1)"
  using sample_create
  by (auto simp: Callback_def oauth_providers_def sample_oauth_config_def sample_oauth_ctx_def sample_ctx_def connect_account_def
      ExchangeCode_def postTokenRequest_def UserEmail_def sample_oauth_net_def Let_def Since_def Minute_def Second_def hex_encode_def
      split: sum.split prod.split) (metis old.sum.exhaust prod.inject sum.distinct(1))

theorem oauth_account_for_requester_witness:
  "\<exists>b st1 d1 i email. Callback (sample_api 5) sample_oauth_config sample_oauth_net sample_crypt sample_nonce sample_oauth_ctx
     [hex_encode ''xy'' \<mapsto> \<lparr>os_TenantID = 1, os_Provider = ''gmail'', os_CreatedAt = 0\<rparr>] (sample_db ''skip'') = ((201, b), st1, d1) \<and>
   map owner_columns (accounts d1) = [(1, 1, [], ''me@acme''), (i, 1, ''gmail'', email)]"
proof -
  obtain b st1 d1 where cb: "Callback (sample_api 5) sample_oauth_config sample_oauth_net sample_crypt sample_nonce sample_oauth_ctx
     [hex_encode ''xy'' \<mapsto> \<lparr>os_TenantID = 1, os_Provider = ''gmail'', os_CreatedAt = 0\<rparr>] (sample_db ''skip'') = ((201, b), st1, d1)"
    using sample_callback by blast
  from oauth_account_for_requester [OF sample_connect this] cb show ?thesis
    by (auto simp: sample_db_def sample_account_def owner_columns_def sample_oauth_ctx_def Cons_eq_append_conv)
qed

end
