(* ===== verification/Detector.thy ===== *)
theory Detector
  imports Listener
begin

text \<open>
  \<^verbatim>\<open>internal/movedetect/movedetect.go\<close>: the service that compares snapshots of the inbox, looks for the
  messages that left it in the other folders, and learns a rule from each move. The orders in which Go
  iterates over the two maps of a scan are the record \<open>map_orders\<close>.
\<close>

record messageInfo =
  mi_UID :: uid
  mi_MessageID :: string
  mi_Sender :: string
  mi_Subject :: string

record move_worker =
  mw_account :: account
  mw_inboxUIDs :: "(uid \<times> messageInfo) list"
  mw_initialized :: bool

record map_orders =
  mo_missing :: "(uid \<times> messageInfo) list \<Rightarrow> (uid \<times> messageInfo) list"
  mo_found :: "(string \<times> folder_info) list \<Rightarrow> (string \<times> folder_info) list"

definition newMoveWorker :: "account \<Rightarrow> move_worker" where
  "newMoveWorker acc = \<lparr>mw_account = acc, mw_inboxUIDs = [], mw_initialized = False\<rparr>"

subsection \<open>Snapshots\<close>

definition message_info :: "bool \<Rightarrow> message_buf \<Rightarrow> messageInfo" where
  "message_info withMetadata buf =
     (case (withMetadata, mb_Envelope buf) of
        (True, Some env) \<Rightarrow>
          \<lparr>mi_UID = mb_UID buf, mi_MessageID = nv_MessageID env,
           mi_Sender = (case nv_From env of [] \<Rightarrow> [] | a # _ \<Rightarrow> ad_Addr a), mi_Subject = nv_Subject env\<rparr>
      | _ \<Rightarrow> \<lparr>mi_UID = mb_UID buf, mi_MessageID = [], mi_Sender = [], mi_Subject = []\<rparr>)"

definition add_fetched :: "bool \<Rightarrow> string + message_buf \<Rightarrow> (uid \<times> messageInfo) list \<Rightarrow> (uid \<times> messageInfo) list" where
  "add_fetched withMetadata m result =
     (case m of Inl _ \<Rightarrow> result | Inr buf \<Rightarrow> AList.update (mb_UID buf) (message_info withMetadata buf) result)"

definition fetchFolderUIDs :: "mail_server \<Rightarrow> string \<Rightarrow> bool \<Rightarrow> string + (uid \<times> messageInfo) list" where
  "fetchFolderUIDs S folder withMetadata =
     (case ms_Select S folder of
        Inl e \<Rightarrow> Inl (''select '' @ folder @ '': '' @ e)
      | Inr n \<Rightarrow> if n = 0 then Inr [] else Inr (fold (add_fetched withMetadata) (ms_FetchAll S folder) []))"

subsection \<open>Learning a rule\<close>

definition hasSimilarRule :: "env \<Rightarrow> account \<Rightarrow> detected_move \<Rightarrow> world \<Rightarrow> bool" where
  "hasSimilarRule N acc move w =
     (case fst (db_read N (S_SimilarRules (dm_MessageID move)) (\<lambda>d. Inr (ListRules (a_TenantID acc) d)) w) of
        Inl _ \<Rightarrow> False
      | Inr rs \<Rightarrow> list_ex (\<lambda>r. \<not> isComplexSender (en_unicode N) (dm_Sender move) \<and>
          Contains (r_LuaCode r) (dm_Sender move) \<and> Contains (r_LuaCode r) (dm_ToFolder move)) rs)"

definition learned_rule :: "env \<Rightarrow> account \<Rightarrow> detected_move \<Rightarrow> rule" where
  "learned_rule N acc move =
     \<lparr>r_ID = 0, r_TenantID = a_TenantID acc,
      r_Name = ''Auto: '' @ Infer.truncate (dm_Sender move) 30 @ '' '' @ arrow @ '' '' @ dm_ToFolder move,
      r_Description = ''Auto-detected from move: INBOX '' @ arrow @ '' '' @ dm_ToFolder move @ '' (sender: ''
        @ dm_Sender move @ '', subject: '' @ Infer.truncate (dm_Subject move) 50 @ '')'',
      r_LuaCode = InferRule (en_unicode N) (dm_Sender move) (dm_Subject move) (dm_ToFolder move), r_Priority = 1000,
      r_Active = True, r_Source = ''auto-learned'', r_Approved = True, r_UsesAI = False, r_CreatedAt = 0, r_UpdatedAt = 0\<rparr>"

definition inferAndCreateRule :: "env \<Rightarrow> time \<Rightarrow> account \<Rightarrow> detected_move \<Rightarrow> rule io" where
  "inferAndCreateRule N now acc move w =
     (if res_or (fst (db_read N (S_MovedByRule (dm_MessageID move))
           (\<lambda>d. Inr (IsMessageMovedByRule (a_ID acc) (dm_MessageUID move) d)) w)) False
      then (Inl ''message was moved by rules engine, not manually'', w)
      else if hasSimilarRule N acc move w then (Inl ''similar rule already exists'', w)
      else io_wrap ''create rule'' (db_do N (S_CreateRule (dm_MessageID move)) (CreateRule now (learned_rule N acc move))) w)"

definition move_text :: "detected_move \<Rightarrow> rule \<Rightarrow> string" where
  "move_text move r =
     [CHR 0xF0, CHR 0x9F, CHR 0x94, CHR 0x84] @ '' <b>Move Detected</b>'' @ eol @ eol
     @ ''<b>From:</b> INBOX '' @ arrow @ '' '' @ dm_ToFolder move @ eol
     @ ''<b>Sender:</b> '' @ escapeHTML (dm_Sender move) @ eol
     @ ''<b>Subject:</b> '' @ escapeHTML (Infer.truncate (dm_Subject move) 60) @ eol @ eol
     @ ''<b>Created Rule:</b> '' @ escapeHTML (r_Name r) @ eol
     @ ''<pre>'' @ escapeHTML (r_LuaCode r) @ ''</pre>''"

definition notifyMove :: "env \<Rightarrow> detected_move \<Rightarrow> rule \<Rightarrow> world \<Rightarrow> world" where
  "notifyMove N move r w =
     (case en_notifier N of
        None \<Rightarrow> w
      | Some t \<Rightarrow> if \<not> tg_Enabled t then w else snd (SendMessage N t (move_text move r) w))"

subsection \<open>A scan\<close>

definition detected :: "account \<Rightarrow> uid \<Rightarrow> messageInfo \<Rightarrow> string \<Rightarrow> folder_info \<Rightarrow> detected_move" where
  "detected acc uid info messageID dest =
     \<lparr>dm_ID = 0, dm_AccountID = a_ID acc, dm_MessageUID = FormatUID uid, dm_MessageID = messageID,
      dm_Sender = mi_Sender info, dm_Subject = mi_Subject info, dm_FromFolder = ''INBOX'', dm_ToFolder = fo_Name dest,
      dm_DetectedAt = 0, dm_RuleID = None\<rparr>"

text \<open>
  The body of the loop over the destinations found. Only wanted messages are found, so that the two
  lookups never fail (\<open>scan_lookups\<close> below).
\<close>

definition process_move ::
  "env \<Rightarrow> time \<Rightarrow> account \<Rightarrow> (string \<times> uid) list \<Rightarrow> (uid \<times> messageInfo) list \<Rightarrow> string \<times> folder_info \<Rightarrow> world \<Rightarrow> world" where
  "process_move N now acc messageIDSet missingMessages entry w =
     (case entry of (messageID, destFolder) \<Rightarrow>
        case map_of messageIDSet messageID of
          None \<Rightarrow> w
        | Some uid \<Rightarrow>
            (case map_of missingMessages uid of
               None \<Rightarrow> w
             | Some info \<Rightarrow>
                 if isSkipFolder (en_unicode N) (fo_Name destFolder) (fo_Attrs destFolder) then w
                 else if res_or (fst (db_read N (S_Exempt messageID) (IsFolderExempt (en_unicode N) (a_ID acc) (fo_Name destFolder)) w)) False
                 then w
                 else (let move = detected acc uid info messageID destFolder
                       in case db_do N (S_DetectedMove messageID) (RecordDetectedMove now move) w of
                            (Inl _, w1) \<Rightarrow> w1
                          | (Inr move1, w1) \<Rightarrow>
                              (case inferAndCreateRule N now acc move1 w1 of
                                 (Inl _, w2) \<Rightarrow> w2
                               | (Inr r, w2) \<Rightarrow> notifyMove N move1 r w2))))"

definition add_message_id :: "uid \<times> messageInfo \<Rightarrow> (string \<times> uid) list \<Rightarrow> (string \<times> uid) list" where
  "add_message_id entry m =
     (case entry of (uid, info) \<Rightarrow> if mi_MessageID info \<noteq> [] then AList.update (mi_MessageID info) uid m else m)"

definition message_id_set :: "(uid \<times> messageInfo) list \<Rightarrow> (string \<times> uid) list" where
  "message_id_set missing = fold add_message_id missing []"

definition missing_messages :: "(uid \<times> messageInfo) list \<Rightarrow> (uid \<times> messageInfo) list \<Rightarrow> (uid \<times> messageInfo) list" where
  "missing_messages previousInbox currentInbox = filter (\<lambda>(uid, info). map_of currentInbox uid = None) previousInbox"

text \<open>What follows the connection, with the account that \<open>connect\<close> leaves.\<close>

definition scan_inbox ::
  "env \<Rightarrow> map_orders \<Rightarrow> mail_server \<Rightarrow> list_data \<Rightarrow> time \<Rightarrow> move_worker \<Rightarrow> world \<Rightarrow> (string + unit) \<times> move_worker \<times> world" where
  "scan_inbox N M S ld now mw w =
     (case fetchFolderUIDs S ''INBOX'' True of
        Inl e \<Rightarrow> (Inl (''fetch INBOX UIDs: '' @ e), mw, w)
      | Inr currentInbox \<Rightarrow>
          let mw1 = mw\<lparr>mw_inboxUIDs := currentInbox, mw_initialized := True\<rparr> in
          if \<not> mw_initialized mw then (Inr (), mw1, w)
          else (let missing = missing_messages (mw_inboxUIDs mw) currentInbox
                in if missing = [] then (Inr (), mw1, w)
                   else (case listFolders (en_unicode N) ld of
                      Inl e \<Rightarrow> (Inl (''list folders: '' @ e), mw1, w)
                    | Inr folders \<Rightarrow>
                        (let messageIDSet = message_id_set (mo_missing M missing)
                         in if length messageIDSet = 0 then (Inr (), mw1, w)
                            else (let foundDestinations = findMessagesInFoldersBatch S (map fst messageIDSet) folders
                                  in (Inr (), mw1,
                                      fold (process_move N now (mw_account mw) messageIDSet missing)
                                        (mo_found M foundDestinations) w))))))"

text \<open>The worker has its own copy of \<open>connect\<close> (and of \<open>refreshOAuthToken\<close>), without a cached connection.\<close>

definition move_connect where "move_connect = worker_connect"

definition scan ::
  "conn_env \<Rightarrow> env \<Rightarrow> (nat \<Rightarrow> string option) \<Rightarrow> map_orders \<Rightarrow> mail_server \<Rightarrow> list_data \<Rightarrow> time \<Rightarrow> move_worker \<Rightarrow> world
     \<Rightarrow> (string + unit) \<times> move_worker \<times> world" where
  "scan C N rnd M S ld now mw w =
     (case move_connect C N rnd now (mw_account mw) w of
        ((Inl e, acc1), w1) \<Rightarrow> (Inl (''connect: '' @ e), mw\<lparr>mw_account := acc1\<rparr>, w1)
      | ((Inr _, acc1), w1) \<Rightarrow> scan_inbox N M S ld now (mw\<lparr>mw_account := acc1\<rparr>) w1)"

text \<open>\<open>run\<close>: a scan at each tick of the poll interval; its error is logged.\<close>

type_synonym scan_input = "conn_env \<times> env \<times> (nat \<Rightarrow> string option) \<times> map_orders \<times> mail_server \<times> list_data \<times> time"

fun move_run :: "scan_input list \<Rightarrow> move_worker \<Rightarrow> world \<Rightarrow> move_worker \<times> world" where
  "move_run [] mw w = (mw, w)"
| "move_run ((C, N, rnd, M, S, ld, now) # rs) mw w =
     (case scan C N rnd M S ld now mw w of (_, mw1, w1) \<Rightarrow> move_run rs mw1 w1)"

end
