(* ===== verification/Learning.thy ===== *)
theory Learning
  imports Detector Schedulers "HOL-Library.Multiset"
begin

text \<open>
  What the two move detectors learn: the IDLE handler of \<^verbatim>\<open>internal/imaplistener/movedetect.go\<close> and the
  scans of \<^verbatim>\<open>internal/movedetect/movedetect.go\<close>.
\<close>

subsection \<open>Learning only adds\<close>

text \<open>A move of the account and a learned rule of its tenant.\<close>

definition own_move :: "account \<Rightarrow> detected_move \<Rightarrow> bool" where
  "own_move acc m \<longleftrightarrow> dm_AccountID m = a_ID acc \<and> dm_FromFolder m = ''INBOX''"

definition auto_rule :: "account \<Rightarrow> rule \<Rightarrow> bool" where
  "auto_rule acc r \<longleftrightarrow> r_TenantID r = a_TenantID acc \<and> r_Source r = ''auto-learned'' \<and> r_Priority r = 1000
     \<and> r_Active r \<and> r_Approved r \<and> \<not> r_UsesAI r"

definition learns :: "account \<Rightarrow> world \<Rightarrow> world \<Rightarrow> bool" where
  "learns acc w w' \<longleftrightarrow>
     (\<exists>ms rs sq. w_db w' = (w_db w)\<lparr>moves := moves (w_db w) @ ms, rules := rules (w_db w) @ rs, seqs := sq\<rparr>
        \<and> list_all (own_move acc) ms \<and> list_all (auto_rule acc) rs)
     \<and> w_bus w' = w_bus w \<and> w_conns w' = w_conns w \<and> w_cmds w' = w_cmds w \<and> w_kiro w' = w_kiro w"

lemma learnsI:
  "w_db w' = (w_db w)\<lparr>moves := moves (w_db w) @ ms, rules := rules (w_db w) @ rs, seqs := sq\<rparr> \<Longrightarrow>
   list_all (own_move acc) ms \<Longrightarrow> list_all (auto_rule acc) rs \<Longrightarrow>
   w_bus w' = w_bus w \<Longrightarrow> w_conns w' = w_conns w \<Longrightarrow> w_cmds w' = w_cmds w \<Longrightarrow> w_kiro w' = w_kiro w \<Longrightarrow> learns acc w w'"
  unfolding learns_def by blast

interpretation learning: io_preorder "learns acc" for acc
proof
  show "learns acc w w" for w
    by (rule learnsI [where ms = "[]" and rs = "[]" and sq = "seqs (w_db w)"]) simp_all
  show "learns acc w w''" if l: "learns acc w w'" and r: "learns acc w' w''" for w w' w''
  proof -
    obtain ms rs sq where 1: "w_db w' = (w_db w)\<lparr>moves := moves (w_db w) @ ms, rules := rules (w_db w) @ rs, seqs := sq\<rparr>"
      "list_all (own_move acc) ms" "list_all (auto_rule acc) rs" using l unfolding learns_def by blast
    obtain ms' rs' sq' where 2: "w_db w'' = (w_db w')\<lparr>moves := moves (w_db w') @ ms', rules := rules (w_db w') @ rs', seqs := sq'\<rparr>"
      "list_all (own_move acc) ms'" "list_all (auto_rule acc) rs'" using r unfolding learns_def by blast
    show ?thesis
      by (rule learnsI [where ms = "ms @ ms'" and rs = "rs @ rs'" and sq = sq']) (use 1 2 l r in \<open>simp_all add: learns_def\<close>)
  qed
qed

lemma learns_fold:
  assumes "\<And>x w. learns acc w (f x w)"
  shows "learns acc w (fold f xs w)"
  by (induction xs arbitrary: w) (auto intro: assms learning.trans)

lemma learns_steps:
  "learns acc w (w\<lparr>w_db := (w_db w)\<lparr>seqs := sq\<rparr>\<rparr>)"
  "auto_rule acc r \<Longrightarrow> learns acc w (w\<lparr>w_db := (w_db w)\<lparr>seqs := sq, rules := rules (w_db w) @ [r]\<rparr>\<rparr>)"
  "own_move acc m \<Longrightarrow> learns acc w (w\<lparr>w_db := (w_db w)\<lparr>seqs := sq, moves := moves (w_db w) @ [m]\<rparr>\<rparr>)"
    apply (rule learnsI [where ms = "[]" and rs = "[]" and sq = sq]; simp)
   apply (rule learnsI [where ms = "[]" and rs = "[r]" and sq = sq]; simp)
  apply (rule learnsI [where ms = "[m]" and rs = "[]" and sq = sq]; simp)
  done

lemma create_rule_learns:
  assumes "auto_rule acc r"
  shows "io_rel (learns acc) (db_do N s (CreateRule now r))"
proof -
  have "auto_rule acc (r\<lparr>r_ID := i, r_CreatedAt := now, r_UpdatedAt := now\<rparr>)" and "r_Source r \<noteq> []" for i
    using assms by (auto simp: auto_rule_def)
  then show ?thesis
    by (simp add: io_rel_def db_do_def stmt_def CreateRule_def insert_rule_def Let_def bump_def learns_steps)
qed

lemma record_move_learns:
  assumes "own_move acc m"
  shows "io_rel (learns acc) (db_do N s (RecordDetectedMove now m))"
proof -
  have "own_move acc (m\<lparr>dm_ID := i, dm_DetectedAt := now, dm_RuleID := None\<rparr>)" for i
    using assms by (simp add: own_move_def)
  then show ?thesis
    by (simp add: io_rel_def db_do_def stmt_def RecordDetectedMove_def Let_def bump_def learns_steps)
qed

lemma learned_rules_ok: "auto_rule acc (learned_rule N acc move)" "auto_rule acc (idle_learned_rule N acc loc f)"
  by (simp_all add: auto_rule_def learned_rule_def idle_learned_rule_def)

lemma inferAndCreateRule_learns: "io_rel (learns acc) (inferAndCreateRule N now acc move)"
proof -
  have "io_rel (learns acc) (io_wrap t (db_do N s (CreateRule now (learned_rule N acc move))))" for t s
    by (intro learning.composed create_rule_learns learned_rules_ok)
  then show ?thesis by (simp add: io_rel_def inferAndCreateRule_def)
qed

lemma notifyMove_learns: "learns acc w (notifyMove N move r w)"
proof -
  have "learns acc w (snd (SendMessage N t msg w))" for t msg
    by (rule learnsI [where ms = "[]" and rs = "[]" and sq = "seqs (w_db w)"])
      (simp_all add: SendMessage_def Let_def split: tg_resp.split)
  then show ?thesis by (simp add: notifyMove_def split: option.split)
qed

lemma learn_and_notify:
  "learns acc w (case inferAndCreateRule N now acc m w of (Inl _, w2) \<Rightarrow> w2 | (Inr r, w2) \<Rightarrow> notifyMove N m r w2)"
proof (cases "inferAndCreateRule N now acc m w")
  case (Pair res w2)
  then have "learns acc w w2" by (rule io_relD [OF inferAndCreateRule_learns])
  then show ?thesis
    by (cases res) (auto simp: Pair intro: learning.trans notifyMove_learns)
qed

lemma process_move_learns: "learns acc w (process_move N now acc ids missing entry w)"
proof -
  obtain mid dest where entry: "entry = (mid, dest)" by fastforce
  have "learns acc w (case db_do N s (RecordDetectedMove now (detected acc uid info mid dest)) w of (Inl _, w1) \<Rightarrow> w1
      | (Inr m1, w1) \<Rightarrow> (case inferAndCreateRule N now acc m1 w1 of (Inl _, w2) \<Rightarrow> w2 | (Inr r, w2) \<Rightarrow> notifyMove N m1 r w2))" for s uid info
  proof (cases "db_do N s (RecordDetectedMove now (detected acc uid info mid dest)) w")
    case (Pair res w1)
    have "own_move acc (detected acc uid info mid dest)" by (simp add: own_move_def detected_def)
    then have "learns acc w w1" using Pair by (rule io_relD [OF record_move_learns])
    then show ?thesis by (cases res) (auto simp: Pair intro: learning.trans learn_and_notify)
  qed
  then show ?thesis by (simp add: process_move_def entry Let_def split: option.split)
qed

lemma generate_learns: "learns acc w (generateAndCreateRuleFromMove N now acc loc f w)"
proof (cases "db_read N (S_SimilarRules (ml_MessageID loc)) (\<lambda>d. Inr (ListRules (a_TenantID acc) d)) w")
  case (Pair r w1)
  have "learns acc w (snd (db_do N s (CreateRule now (idle_learned_rule N acc loc f)) w))" for s
    using create_rule_learns [OF learned_rules_ok(2)] by (simp add: io_rel_def)
  moreover have "w1 = w" using db_read_same Pair by (metis snd_conv)
  ultimately show ?thesis by (cases r) (simp_all add: generateAndCreateRuleFromMove_def Pair)
qed

lemma process_expunged_learns: "learns acc w (process_expunged N now acc found m w)"
proof -
  obtain u loc where m: "m = (u, loc)" by fastforce
  have rec: "learns acc w w1" if "own_move acc mv" and "db_do N s (RecordDetectedMove now mv) w = (r, w1)" for s mv r w1
    using record_move_learns [OF that(1), of N s now] that(2) by (simp add: io_rel_def) (metis snd_conv)
  have gen: "learns acc w (generateAndCreateRuleFromMove N now acc loc g w1)" if "learns acc w w1" for g w1
    using that generate_learns learning.trans by blast
  show ?thesis
    unfolding process_expunged_def m
    by (auto simp: Let_def own_move_def dest!: rec [rotated] intro: gen split: option.split prod.split sum.split)
qed

text \<open>
  Learning only adds: what an IDLE round makes of the messages that left the inbox, and what a scan
  does after it has connected, appends detected moves of this account and rules of this tenant to the
  tables and changes nothing else, no rule that a person wrote, no published event and no mailbox.
  Every learned rule has the low priority 1000 and is active and approved at once.
\<close>
theorem learning_only_adds:
  "learns acc w (handleExpungedMessages N S now acc uids w) \<and>
   learns (mw_account mw) w (snd (snd (scan_inbox N M T ld now mw w)))"
proof
  show "learns acc w (handleExpungedMessages N S now acc uids w)"
    by (simp add: handleExpungedMessages_def Let_def learns_fold process_expunged_learns)
  show "learns (mw_account mw) w (snd (snd (scan_inbox N M T ld now mw w)))"
    by (simp add: scan_inbox_def Let_def learns_fold process_move_learns split: sum.split)
qed

subsection \<open>What a scan records\<close>

lemma add_message_id_keys:
  "fst ` set (add_message_id e m) = fst ` set m \<union> ({mi_MessageID (snd e)} - {[]})"
  by (cases e; cases "mi_MessageID (snd e) = []") (simp_all add: add_message_id_def keys_update)

lemma message_id_set_fold:
  "fst ` set (fold add_message_id xs m) = fst ` set m \<union> ((mi_MessageID \<circ> snd) ` set xs - {[]})"
  by (induction xs arbitrary: m) (simp_all add: add_message_id_keys Un_Diff insert_Diff_if Un_assoc)

lemma message_id_set_keys: "fst ` set (message_id_set xs) = (mi_MessageID \<circ> snd) ` set xs - {[]}"
  by (simp add: message_id_set_def message_id_set_fold)

lemma message_id_set_values: "map_of (fold add_message_id xs m) mid = Some u \<Longrightarrow> map_of m mid = Some u \<or> u \<in> fst ` set xs"
proof (induction xs arbitrary: m)
  case (Cons x xs)
  then have "map_of (add_message_id x m) mid = Some u \<or> u \<in> fst ` set xs" by simp
  then show ?case by (auto simp: add_message_id_def AList.update_conv' split: prod.splits if_splits)
qed simp

text \<open>Both lookups of the loop over the destinations succeed.\<close>

lemma scan_lookups:
  assumes "mid \<in> fst ` set (message_id_set (mo_missing M missing))" and "set (mo_missing M missing) = set missing"
  obtains uid info where "map_of (message_id_set (mo_missing M missing)) mid = Some uid" and "map_of missing uid = Some info"
proof -
  obtain uid where u: "map_of (message_id_set (mo_missing M missing)) mid = Some uid"
    using assms(1) by (metis map_of_eq_None_iff not_None_eq)
  then have "uid \<in> fst ` set missing"
    using message_id_set_values [of "mo_missing M missing" "[]"] assms(2) by (auto simp: message_id_set_def)
  then obtain info where "map_of missing uid = Some info" by (metis map_of_eq_None_iff not_None_eq)
  with u show thesis by (rule that)
qed

text \<open>A folder from which the detector learns: not a system folder and not exempt for the account.\<close>

definition learnable :: "env \<Rightarrow> account \<Rightarrow> db \<Rightarrow> folder_info \<Rightarrow> bool" where
  "learnable N acc d f \<longleftrightarrow> \<not> isSkipFolder (en_unicode N) (fo_Name f) (fo_Attrs f)
     \<and> IsFolderExempt (en_unicode N) (a_ID acc) (fo_Name f) d \<noteq> Inr True"

lemma infer_keeps_moves:
  "moves (w_db (case inferAndCreateRule N now acc m w of (Inl _, w2) \<Rightarrow> w2 | (Inr r, w2) \<Rightarrow> notifyMove N m r w2)) = moves (w_db w)"
  by (auto simp: inferAndCreateRule_def notifyMove_def SendMessage_def io_wrap_def db_do_def stmt_def CreateRule_def
      insert_rule_def Let_def bump_def split: prod.split sum.split option.split tg_resp.split)

lemma detected_sel [simp]:
  "dm_AccountID (detected acc uid info mid f) = a_ID acc" "dm_MessageID (detected acc uid info mid f) = mid"
  "dm_ToFolder (detected acc uid info mid f) = fo_Name f" "dm_Sender (detected acc uid info mid f) = mi_Sender info"
  by (simp_all add: detected_def)

lemma process_move_moves:
  assumes "map_of ids mid = Some uid" and "map_of missing uid = Some info"
    and "\<not> en_fault N (S_Exempt mid)" and "\<not> en_fault N (S_DetectedMove mid)" and "has_key a_ID (a_ID acc) (accounts (w_db w))"
  shows "\<exists>m. moves (w_db (process_move N now acc ids missing (mid, f) w)) =
      moves (w_db w) @ (if learnable N acc (w_db w) f then [m] else []) \<and> dm_MessageID m = mid \<and> dm_ToFolder m = fo_Name f"
proof -
  let ?rec = "(detected acc uid info mid f)\<lparr>dm_ID := seqs (w_db w) Moves, dm_DetectedAt := now, dm_RuleID := None\<rparr>"
  have "moves (w_db (process_move N now acc ids missing (mid, f) w)) =
      moves (w_db w) @ (if learnable N acc (w_db w) f then [?rec] else [])"
    using assms infer_keeps_moves [where m = ?rec]
    by (auto simp: process_move_def learnable_def Let_def db_do_def db_read_def stmt_def RecordDetectedMove_def bump_def
        res_or_def split: sum.split)
  moreover have "dm_MessageID ?rec = mid \<and> dm_ToFolder ?rec = fo_Name f" by simp
  ultimately show ?thesis by blast
qed

lemma learns_accounts: "learns acc w w' \<Longrightarrow> accounts (w_db w') = accounts (w_db w)"
  by (auto simp: learns_def)

lemma learnable_cong: "accounts d' = accounts d \<Longrightarrow> learnable N acc d' f = learnable N acc d f"
  by (simp add: learnable_def IsFolderExempt_def GetExemptFolders_def)

lemma process_moves_fold:
  assumes "\<And>s. \<not> en_fault N s" and "has_key a_ID (a_ID acc) (accounts (w_db w))"
    and "\<forall>mid \<in> fst ` set es. \<exists>uid info. map_of ids mid = Some uid \<and> map_of missing uid = Some info"
  shows "\<exists>ms. moves (w_db (fold (process_move N now acc ids missing) es w)) = moves (w_db w) @ ms \<and>
    map (\<lambda>m. (dm_MessageID m, dm_ToFolder m)) ms
      = map (\<lambda>(mid, f). (mid, fo_Name f)) (filter (\<lambda>(mid, f). learnable N acc (w_db w) f) es)"
  using assms(2,3)
proof (induction es arbitrary: w)
  case (Cons e es)
  obtain mid f where e: "e = (mid, f)" by fastforce
  let ?w1 = "process_move N now acc ids missing e w"
  have same: "accounts (w_db ?w1) = accounts (w_db w)" by (rule learns_accounts [OF process_move_learns])
  have "\<exists>uid info. map_of ids mid = Some uid \<and> map_of missing uid = Some info" using Cons.prems(2) by (simp add: e)
  then obtain uid info where "map_of ids mid = Some uid" "map_of missing uid = Some info" by (elim exE conjE)
  from process_move_moves [OF this assms(1) assms(1) Cons.prems(1), of now f] obtain m
    where m: "moves (w_db ?w1) = moves (w_db w) @ (if learnable N acc (w_db w) f then [m] else [])"
      "dm_MessageID m = mid" "dm_ToFolder m = fo_Name f" unfolding e by (elim exE conjE)
  have acc1: "has_key a_ID (a_ID acc) (accounts (w_db ?w1))" using Cons.prems(1) unfolding same .
  have look: "\<forall>mid \<in> fst ` set es. \<exists>uid info. map_of ids mid = Some uid \<and> map_of missing uid = Some info"
    using Cons.prems(2) by simp
  from Cons.IH [OF acc1 look] obtain ms
    where ms: "moves (w_db (fold (process_move N now acc ids missing) es ?w1)) = moves (w_db ?w1) @ ms"
      "map (\<lambda>m. (dm_MessageID m, dm_ToFolder m)) ms
        = map (\<lambda>(mid, f). (mid, fo_Name f)) (filter (\<lambda>(mid, f). learnable N acc (w_db ?w1) f) es)"
    by (elim exE conjE)
  let ?ms = "(if learnable N acc (w_db w) f then [m] else []) @ ms"
  have "moves (w_db (fold (process_move N now acc ids missing) (e # es) w)) = moves (w_db w) @ ?ms"
    using ms(1) unfolding m(1) by simp
  moreover have "map (\<lambda>m. (dm_MessageID m, dm_ToFolder m)) ?ms
      = map (\<lambda>(mid, f). (mid, fo_Name f)) (filter (\<lambda>(mid, f). learnable N acc (w_db w) f) (e # es))"
    using ms(2) m(2,3) unfolding learnable_cong [OF same] by (simp add: e)
  ultimately show ?case by blast
qed simp

lemma fst_filter_distinct: "distinct (map fst xs) \<Longrightarrow> distinct (map fst (filter P xs))"
  by (induction xs) auto

lemma found_entries:
  "(mid, f) \<in> set (findMessagesInFoldersBatch S ids folders)
     \<longleftrightarrow> mid \<in> set ids \<and> find (\<lambda>f. holds_message S f mid) folders = Some f"
proof -
  have "(mid, f) \<in> set (findMessagesInFoldersBatch S ids folders)
      \<longleftrightarrow> map_of (findMessagesInFoldersBatch S ids folders) mid = Some f"
    using batch_search(2) by (simp add: map_of_eq_Some_iff)
  then show ?thesis by (simp add: batch_search(1))
qed

lemma found_none: "findMessagesInFoldersBatch S [] folders = []"
  by (cases folders) (simp_all add: findMessagesInFoldersBatch_def)

text \<open>
  C17. A scan records exactly the moves that took place: for a worker with a snapshot, the moves it appends
  are those of the messages that were in the snapshot, are no longer in the inbox and have a Message-ID,
  each once, to the first listed folder that holds the message, unless that is a system folder or a
  folder the account exempts. The orders in which Go iterates over its maps do not matter.
\<close>
theorem scan_records_moves:
  assumes "mw_initialized mw" and "fetchFolderUIDs S ''INBOX'' True = Inr current"
    and "listFolders (en_unicode N) ld = Inr folders"
    and perm: "\<And>xs. mset (mo_missing M xs) = mset xs" "\<And>xs. mset (mo_found M xs) = mset xs"
    and nofault: "\<And>s. \<not> en_fault N s" and acc: "has_key a_ID (a_ID (mw_account mw)) (accounts (w_db w))"
  shows "\<exists>ms. moves (w_db (snd (snd (scan_inbox N M S ld now mw w)))) = moves (w_db w) @ ms \<and> distinct (map dm_MessageID ms) \<and>
    set (map (\<lambda>m. (dm_MessageID m, dm_ToFolder m)) ms) =
      {(mid, fo_Name f) |mid f. mid \<in> (mi_MessageID \<circ> snd) ` set (missing_messages (mw_inboxUIDs mw) current) - {[]} \<and>
         find (\<lambda>f. holds_message S f mid) folders = Some f \<and> learnable N (mw_account mw) (w_db w) f}"
proof -
  let ?missing = "missing_messages (mw_inboxUIDs mw) current"
  let ?ids = "message_id_set (mo_missing M ?missing)"
  let ?found = "findMessagesInFoldersBatch S (map fst ?ids) folders"
  have pm: "set (mo_missing M ?missing) = set ?missing" by (rule mset_eq_setD [OF perm(1)])
  have pf: "set (mo_found M ?found) = set ?found" by (rule mset_eq_setD [OF perm(2)])
  have keys: "fst ` set ?ids = (mi_MessageID \<circ> snd) ` set ?missing - {[]}" by (simp add: message_id_set_keys pm)
  have run: "snd (snd (scan_inbox N M S ld now mw w)) =
      fold (process_move N now (mw_account mw) ?ids ?missing) (mo_found M ?found) w"
  proof (cases "?ids = []")
    case True
    have "mo_found M [] = []" using perm(2) [of "[]"] by simp
    moreover have "?found = []" using True by (simp add: found_none)
    ultimately show ?thesis using assms(1-3) True by (simp add: scan_inbox_def Let_def)
  next
    case False
    then have "?missing \<noteq> []" using pm by (auto simp: message_id_set_def)
    with False assms(1-3) show ?thesis by (simp add: scan_inbox_def Let_def)
  qed
  have look: "\<forall>mid \<in> fst ` set (mo_found M ?found). \<exists>uid info. map_of ?ids mid = Some uid \<and> map_of ?missing uid = Some info"
  proof
    fix mid assume "mid \<in> fst ` set (mo_found M ?found)"
    then have "mid \<in> fst ` set ?ids" unfolding pf by (auto simp: found_entries)
    then show "\<exists>uid info. map_of ?ids mid = Some uid \<and> map_of ?missing uid = Some info"
      using pm by (rule scan_lookups) (intro exI conjI)
  qed
  from process_moves_fold [OF nofault acc look, of now] obtain ms
    where ms: "moves (w_db (snd (snd (scan_inbox N M S ld now mw w)))) = moves (w_db w) @ ms"
    "map (\<lambda>m. (dm_MessageID m, dm_ToFolder m)) ms
      = map (\<lambda>(mid, f). (mid, fo_Name f)) (filter (\<lambda>(mid, f). learnable N (mw_account mw) (w_db w) f) (mo_found M ?found))"
    unfolding run by (elim exE conjE)
  have "map dm_MessageID ms = map fst (filter (\<lambda>(mid, f). learnable N (mw_account mw) (w_db w) f) (mo_found M ?found))"
    using arg_cong [OF ms(2), of "map fst"] by (simp add: comp_def case_prod_beta)
  moreover have "distinct (map fst (mo_found M ?found))"
    using batch_search(2) perm(2) [of ?found] by (metis mset_eq_imp_distinct_iff mset_map)
  ultimately have "distinct (map dm_MessageID ms)" by (simp add: fst_filter_distinct)
  moreover have "set (map (\<lambda>m. (dm_MessageID m, dm_ToFolder m)) ms) =
      {(mid, fo_Name f) |mid f. mid \<in> fst ` set ?ids \<and> find (\<lambda>f. holds_message S f mid) folders = Some f
         \<and> learnable N (mw_account mw) (w_db w) f}"
    unfolding ms(2) by (auto simp: pf found_entries image_iff split: prod.splits)
  ultimately show ?thesis using ms(1) keys by auto
qed

subsection \<open>A mailbox\<close>

text \<open>An inbox from which one message went to the folder \<^verbatim>\<open>Work\<close>.\<close>

definition sample_message :: message_buf where
  "sample_message = \<lparr>mb_UID = 7,
     mb_Envelope = Some \<lparr>nv_Date = 0, nv_Subject = ''Hello'', nv_From = [\<lparr>ad_Name = ''Bob'', ad_Addr = ''bob@x''\<rparr>],
       nv_To = [], nv_Cc = [], nv_MessageID = ''<1@x>''\<rparr>,
     mb_InternalDate = 0, mb_BodySection = [], mb_BodyStructure = None\<rparr>"

definition sample_mail :: mail_server where
  "sample_mail = \<lparr>ms_Select = (\<lambda>f. Inr (if f = ''INBOX'' then 0 else 1)), ms_FetchAll = (\<lambda>f. [Inr sample_message])\<rparr>"

definition sample_folders :: list_data where
  "sample_folders = \<lparr>ld_mailboxes = [(''INBOX'', []), (''Work'', [])], ld_closeErr = None\<rparr>"

definition sample_orders :: map_orders where
  "sample_orders = \<lparr>mo_missing = rev, mo_found = rev\<rparr>"

definition sample_worker :: move_worker where
  "sample_worker = \<lparr>mw_account = sample_account, mw_inboxUIDs = [(7, message_info True sample_message)], mw_initialized = True\<rparr>"

lemmas sample_mail_defs = sample_message_def sample_mail_def sample_folders_def sample_orders_def sample_worker_def message_info_def

theorem scan_records_moves_witness:
  "\<exists>ms. moves (w_db (snd (snd (scan_inbox (sample_env R_OK) sample_orders sample_mail sample_folders 5 sample_worker (sample_world ''move''))))) = ms
     \<and> set (map (\<lambda>m. (dm_MessageID m, dm_ToFolder m)) ms) = {(''<1@x>'', ''Work'')}"
proof -
  let ?N = "sample_env R_OK"
  have fetch: "fetchFolderUIDs sample_mail ''INBOX'' True = Inr []" by (simp add: fetchFolderUIDs_def sample_mail_defs)
  have folders: "listFolders (en_unicode ?N) sample_folders = Inr [\<lparr>fo_Name = ''Work'', fo_Attrs = []\<rparr>]"
    by (simp add: listFolders_def listed_def sample_mail_defs sample_defs ToLower_def is_ascii_def lower_byte_def
        sentOrDraftsNames_def)
  have ids: "(mi_MessageID \<circ> snd) ` set (missing_messages (mw_inboxUIDs sample_worker) []) - {[]} = {''<1@x>''}"
    by (simp add: missing_messages_def sample_mail_defs)
  have holds: "holds_message sample_mail \<lparr>fo_Name = ''Work'', fo_Attrs = []\<rparr> ''<1@x>''"
    by (simp add: holds_message_def sample_mail_defs message_ids_simps)
  have learn: "learnable ?N (mw_account sample_worker) (w_db (sample_world ''move'')) \<lparr>fo_Name = ''Work'', fo_Attrs = []\<rparr>"
    by (simp add: learnable_def isSkipFolder_def sample_mail_defs sample_defs ToLower_def is_ascii_def lower_byte_def
        systemTrashNames_def IsFolderExempt_def GetExemptFolders_def get_row_def)
  have "\<exists>ms. moves (w_db (snd (snd (scan_inbox ?N sample_orders sample_mail sample_folders 5 sample_worker (sample_world ''move'')))))
      = moves (w_db (sample_world ''move'')) @ ms \<and> distinct (map dm_MessageID ms) \<and>
    set (map (\<lambda>m. (dm_MessageID m, dm_ToFolder m)) ms) =
      {(mid, fo_Name f) |mid f. mid \<in> (mi_MessageID \<circ> snd) ` set (missing_messages (mw_inboxUIDs sample_worker) []) - {[]} \<and>
         find (\<lambda>f. holds_message sample_mail f mid) [\<lparr>fo_Name = ''Work'', fo_Attrs = []\<rparr>] = Some f \<and>
         learnable ?N (mw_account sample_worker) (w_db (sample_world ''move'')) f}"
    by (rule scan_records_moves [OF _ fetch folders]) (simp_all add: sample_mail_defs sample_defs)
  then show ?thesis unfolding ids using holds learn by (auto simp: sample_defs)
qed

subsection \<open>A rule is learned once\<close>

lemma Contains_in: "Contains (a @ s @ b) s"
  by (auto simp: Contains_iff)

lemma InferRule_contains:
  assumes "\<not> isComplexSender U s"
  shows "Contains (InferRule U s subj f) s" and "Contains (InferRule U s subj f) f"
proof -
  obtain c where "InferRule U s subj f = ''-- Auto-learned: move emails from '' @ s @ '' to '' @ f @ c"
    using assms unfolding InferRule_def inferFromSender_def Let_def if_not_P [OF assms] by blast
  then show "Contains (InferRule U s subj f) s" "Contains (InferRule U s subj f) f"
    using Contains_in [of "''-- Auto-learned: move emails from ''" s "'' to '' @ f @ c"]
      Contains_in [of "''-- Auto-learned: move emails from '' @ s @ '' to ''" f c] by simp_all
qed

lemma inferAndCreateRule_creates:
  assumes "inferAndCreateRule N now acc m w = (Inr r, w')"
  shows "r \<in> set (rules (w_db w')) \<and> r_TenantID r = a_TenantID acc \<and>
    r_LuaCode r = InferRule (en_unicode N) (dm_Sender m) (dm_Subject m) (dm_ToFolder m)"
  using assms
  by (auto simp: inferAndCreateRule_def io_wrap_def db_do_def stmt_def CreateRule_def insert_rule_def learned_rule_def Let_def
      bump_def split: if_splits prod.splits sum.splits)

lemma learns_rules: "learns acc w w' \<Longrightarrow> r \<in> set (rules (w_db w)) \<Longrightarrow> r \<in> set (rules (w_db w'))"
  by (auto simp: learns_def)


text \<open>For a complex sender the scans never see that the rule exists.\<close>

lemma complex_sender_never_similar:
  "isComplexSender (en_unicode N) (dm_Sender m) \<Longrightarrow> \<not> hasSimilarRule N acc m w"
  by (simp add: hasSimilarRule_def list_ex_iff split: sum.split)

subsection \<open>Moves made by rules\<close>

lemma process_expunged_applied:
  assumes "IsRuleAppliedMove now (a_ID acc) (ml_MessageID loc) (w_db w)" and "\<not> en_fault N (S_IsApplied (ml_MessageID loc))"
  shows "rules (w_db (process_expunged N now acc found (u, loc) w)) = rules (w_db w) \<and>
    applied (w_db (process_expunged N now acc found (u, loc) w)) = applied (w_db w)"
  using assms
  by (auto simp: process_expunged_def Let_def db_do_def db_read_def stmt_def RecordDetectedMove_def bump_def IsRuleAppliedMove_def
      split: option.split sum.split)

lemma process_expunged_fold:
  assumes "list_all (\<lambda>(u, loc). IsRuleAppliedMove now (a_ID acc) (ml_MessageID loc) (w_db w)) ms" and "\<And>s. \<not> en_fault N s"
  shows "rules (w_db (fold (process_expunged N now acc found) ms w)) = rules (w_db w)"
  using assms(1)
proof (induction ms arbitrary: w)
  case (Cons m ms)
  obtain u loc where m: "m = (u, loc)" by fastforce
  note step = process_expunged_applied [of now acc loc w N found u]
  from Cons.prems have "list_all (\<lambda>(u, loc). IsRuleAppliedMove now (a_ID acc) (ml_MessageID loc)
      (w_db (process_expunged N now acc found m w))) ms"
    using step assms(2) by (simp add: m IsRuleAppliedMove_def)
  from Cons.IH [OF this] show ?case using step assms(2) Cons.prems by (simp add: m)
qed simp

lemma expunged_message_location:
  assumes "(uidStr, loc) \<in> set (expunged_message N acc w u)"
  shows "loc \<in> set (GetMessageLocations (a_ID acc) (FormatUID u) (w_db w))"
  using assms
  by (cases "GetMessageLocations (a_ID acc) (FormatUID u) (w_db w)")
    (auto simp: expunged_message_def db_read_def db_do_def stmt_def split: if_splits)

text \<open>
  C18. The IDLE detector does not learn from the service's own moves. After the scheduler has moved or
  archived a message for a rule, and any rounds of the scheduler, the message leaving the inbox within 24
  hours creates no rule.
\<close>
theorem idle_ignores_rule_moves:
  assumes "ac = ''move'' \<or> ac = ''archive''" and "mid \<noteq> []" and "\<not> en_fault N S_RecordMove"
    and "has_key r_ID r (rules (w_db w))" and "has_key a_ID (a_ID acc) (accounts (w_db w))"
    and "now' < now + 24 * Hour" and "list_all (\<lambda>(k, M, t). t \<le> now') ts" and "\<And>s. \<not> en_fault N' s"
    and "w' = scheduler_loop bus ts (snd (ExecuteActionByMessageIDForRule N now (a_ID acc) mid ac ta r w))"
    and "list_all (\<lambda>u. list_all (\<lambda>loc. ml_MessageID loc = mid) (GetMessageLocations (a_ID acc) (FormatUID u) (w_db w'))) uids"
  shows "rules (w_db (handleExpungedMessages N' S now' acc uids w')) = rules (w_db w')"
proof -
  have rec: "IsRuleAppliedMove now' (a_ID acc) mid (w_db w')"
    using scheduled_move_recorded [OF assms(1-7)] unfolding assms(9) .
  let ?ms = "concat (map (expunged_message N' acc w') uids)"
  have "list_all (\<lambda>(u, loc). IsRuleAppliedMove now' (a_ID acc) (ml_MessageID loc) (w_db w')) ?ms"
    using rec assms(10) by (fastforce simp: list_all_iff dest: expunged_message_location)
  from process_expunged_fold [OF this assms(8)] show ?thesis by (simp add: handleExpungedMessages_def Let_def)
qed

text \<open>
  The scans of the other detector do not consult the table of moves made by rules: whatever it holds,
  the outcome for a detected move is the same. So a move that the scheduler made, which is recorded in
  that table only, is learned as if the user had made it.
\<close>
theorem scans_ignore_applied_moves:
  "inferAndCreateRule N now acc m (w\<lparr>w_db := (w_db w)\<lparr>applied := ams\<rparr>\<rparr>) =
     (case inferAndCreateRule N now acc m w of (res, w') \<Rightarrow> (res, w'\<lparr>w_db := (w_db w')\<lparr>applied := ams\<rparr>\<rparr>))"
  by (auto simp: inferAndCreateRule_def hasSimilarRule_def io_wrap_def db_do_def db_read_def stmt_def CreateRule_def insert_rule_def
      IsMessageMovedByRule_def ListRules_def Let_def bump_def split: prod.splits sum.splits)

definition sample_move :: detected_move where
  "sample_move = detected sample_account 7 (message_info True sample_message) ''<1@x>'' \<lparr>fo_Name = ''Work'', fo_Attrs = []\<rparr>"

definition sample_location :: message_location where
  "sample_location = \<lparr>ml_AccountID = 1, ml_MessageUID = ''7'', ml_Folder = ''INBOX'', ml_MessageID = ''<1@x>'',
     ml_Sender = ''bob@x'', ml_Subject = ''Hello'', ml_SeenAt = 0\<rparr>"

definition located_world :: world where
  "located_world = (sample_world ''move'')\<lparr>w_db := (sample_db ''move'')\<lparr>locations := [sample_location]\<rparr>\<rparr>"

definition sample_inbox :: inbox where
  "sample_inbox = \<lparr>ms_Select = (\<lambda>f. Inr (if f = ''INBOX'' then 0 else 1)), ms_FetchAll = (\<lambda>f. [Inr sample_message]),
     ib_SearchAll = Inr [7], ib_FetchUIDs = (\<lambda>us. [Inr sample_message]), ib_FetchParts = (\<lambda>_ _. []),
     ib_List = sample_folders, ib_ReadFields = (\<lambda>_. None)\<rparr>"

lemma sample_sender: "\<not> isComplexSender sample_unicode ''bob@x''"
  by (simp add: complex_defs)


theorem idle_ignores_rule_moves_witness:
  "\<exists>w'. w' = scheduler_loop True [] (snd (ExecuteActionByMessageIDForRule (sample_env R_OK) 0 1 ''<1@x>'' ''archive'' [] 1 located_world)) \<and>
     rules (w_db (handleExpungedMessages (sample_env R_OK) sample_inbox Hour sample_account [7] w')) = rules (w_db w') \<and>
     GetMessageLocations 1 ''7'' (w_db w') = [sample_location]"
proof -
  let ?w = "snd (ExecuteActionByMessageIDForRule (sample_env R_OK) 0 1 ''<1@x>'' ''archive'' [] 1 located_world)"
  have "only_applied located_world ?w"
    using by_message_id.act_applied [of "sample_env R_OK" 0] by (simp add: io_rel_def)
  then have loc: "GetMessageLocations 1 ''7'' (w_db ?w) = [sample_location]"
    by (auto simp: only_applied_def GetMessageLocations_def located_world_def sample_location_def)
  have acc: "a_ID sample_account = 1" by (simp add: sample_account_def)
  have uid: "FormatInt 7 = ''7''" by (simp add: FormatInt_def nat_digits.simps digit_char_def char_of_def bit_iff_odd)
  have locs: "list_all (\<lambda>u. list_all (\<lambda>loc. ml_MessageID loc = ''<1@x>'') (GetMessageLocations (a_ID sample_account) (FormatUID u) (w_db ?w))) [7]"
    by (simp add: acc uid loc) (simp add: sample_location_def)
  have "rules (w_db (handleExpungedMessages (sample_env R_OK) sample_inbox Hour sample_account [7] ?w)) = rules (w_db ?w)"
    by (rule idle_ignores_rule_moves [where ts = "[]" and bus = True, OF _ _ _ _ _ _ _ _ _ locs])
      (simp_all add: acc located_world_def sample_env_def sample_world_def sample_db_def sample_rule_def sample_account_def Hour_def Minute_def Second_def)
  with loc show ?thesis by simp
qed

end
