(* ===== verification/Legacy.thy ===== *)
theory Legacy
  imports Learning
begin

text \<open>
  \<^verbatim>\<open>internal/imap/worker.go\<close>: the worker of the single-process server, which polls an account, runs the
  rules itself, executes the deferred actions that the publishing scheduler sends, and learns from moves.
  Its helpers for headers and attachments are the same code as those of the listener (\<open>Mail\<close>).
\<close>

record legacy_box = inbox +
  lb_SearchUnseen :: "string + uid list"
  lb_Mailboxes :: "string + string list"
  lb_SearchHeader :: "string \<Rightarrow> string \<Rightarrow> string + uid list"

record legacy_worker =
  lw_account :: account
  lw_client :: bool
  lw_inboxUIDs :: "uid list"

definition NewWorker :: "account \<Rightarrow> legacy_worker" where
  "NewWorker acc = \<lparr>lw_account = acc, lw_client = False, lw_inboxUIDs = []\<rparr>"

subsection \<open>Connection\<close>

definition legacy_connect :: "env \<Rightarrow> legacy_worker \<Rightarrow> world \<Rightarrow> (string + unit) \<times> legacy_worker \<times> world" where
  "legacy_connect N lw w =
     (if lw_client lw then (Inr (), lw, w)
      else (case dial_and_login N (a_ID (lw_account lw)) (lw_account lw) w of
              (Inl e, w1) \<Rightarrow> (Inl e, lw, w1)
            | (Inr _, w1) \<Rightarrow> (Inr (), lw\<lparr>lw_client := True\<rparr>, w1)))"

definition legacy_disconnect :: "env \<Rightarrow> legacy_worker \<Rightarrow> world \<Rightarrow> legacy_worker \<times> world" where
  "legacy_disconnect N lw w =
     (let aid = a_ID (lw_account lw)
      in if lw_client lw
         then (lw\<lparr>lw_client := False\<rparr>, snd (io_try (imap_do N aid C_Close) (snd (io_try (imap_do N aid C_Logout) w))))
         else (lw, w))"

subsection \<open>Actions\<close>

definition legacy_executeMove :: "env \<Rightarrow> int \<Rightarrow> uid \<Rightarrow> string \<Rightarrow> unit io" where
  "legacy_executeMove N aid u folder =
     io_bind (io_try (imap_do N aid (C_Create folder)))
       (\<lambda>_. io_bind (io_wrap (''move to '' @ folder) (imap_do N aid (C_Move u folder))) (\<lambda>_. io_return ()))"

definition legacy_executeDelete :: "env \<Rightarrow> int \<Rightarrow> uid \<Rightarrow> unit io" where
  "legacy_executeDelete N aid u =
     io_bind (io_wrap ''store deleted flag'' (imap_do N aid (C_StoreAdd u FlagDeleted)))
       (\<lambda>_ w. case imap_do N aid (C_UIDExpunge u) w of
                (Inr _, w') \<Rightarrow> (Inr (), w')
              | (Inl _, w') \<Rightarrow> io_bind (io_wrap ''expunge'' (imap_do N aid C_Expunge)) (\<lambda>_. io_return ()) w')"

definition legacy_executeFlag :: "env \<Rightarrow> int \<Rightarrow> uid \<Rightarrow> string \<Rightarrow> unit io" where
  "legacy_executeFlag N aid u flagName =
     io_bind (io_wrap (''store flag '' @ flagName)
                (imap_do N aid (C_StoreAdd u (flagNameToIMAP (en_unicode N) flagName))))
       (\<lambda>_. io_return ())"

definition executeFlagByMessageID :: "env \<Rightarrow> int \<Rightarrow> string \<Rightarrow> string \<Rightarrow> unit io" where
  "executeFlagByMessageID N aid messageID flagName =
     io_bind (io_wrap (''search for message '' @ messageID) (imap_do N aid (C_UIDSearchMessageID messageID)))
       (\<lambda>r. case AllUIDs r of [] \<Rightarrow> io_return () | u # _ \<Rightarrow> legacy_executeFlag N aid u flagName)"

definition legacy_executeNotify :: "env \<Rightarrow> string \<Rightarrow> string \<Rightarrow> string \<Rightarrow> string \<Rightarrow> unit io" where
  "legacy_executeNotify N senderAddress subject senderName message =
     (case en_notifier N of
        None \<Rightarrow> io_return ()
      | Some t \<Rightarrow>
          if \<not> tg_Enabled t then io_return ()
          else (let text = (if message = [] then [CHR 0xF0, CHR 0x9F, CHR 0x93, CHR 0xA7] @ '' New email from ''
                              @ senderAddress @ '': '' @ subject else message)
                in SendMessage N t (ReplaceAll (ReplaceAll (ReplaceAll text ''{sender}'' senderAddress)
                     ''{subject}'' subject) ''{sender_name}'' senderName)))"

subsection \<open>Messages\<close>

definition bufferToEmailContext ::
  "unicode \<Rightarrow> (string \<Rightarrow> (string \<times> string) list option) \<Rightarrow> time \<Rightarrow> account \<Rightarrow> message_buf \<Rightarrow> email_context option" where
  "bufferToEmailContext U rd now acc buf =
     (case mb_Envelope buf of
        None \<Rightarrow> None
      | Some env \<Rightarrow>
          let senderName = (case nv_From env of [] \<Rightarrow> [] | a # _ \<Rightarrow> ad_Name a);
              senderAddr = (case nv_From env of [] \<Rightarrow> [] | a # _ \<Rightarrow> ad_Addr a);
              recipients = map ad_Addr (nv_To env) @ map ad_Addr (nv_Cc env);
              (headers, bodyPreview) = sections_fold U rd (mb_BodySection buf);
              (names, types) = (case mb_BodyStructure buf of None \<Rightarrow> ([], []) | Some bs \<Rightarrow> extractAttachmentInfo U bs);
              msgDate = (if nv_Date env = zero_time then mb_InternalDate buf else nv_Date env);
              age = of_int (Since now msgDate) / of_int Second
          in Some \<lparr>e_MessageID = nv_MessageID env, e_Subject = TrimSpace U (nv_Subject env), e_SenderName = senderName,
               e_SenderAddress = senderAddr, e_Recipients = recipients, e_Date = msgDate,
               e_AgeSeconds = (if age < 0 then 0 else age), e_BodyPreview = bodyPreview,
               e_HasAttachments = (names \<noteq> [] \<or> types \<noteq> []), e_AttachmentNames = names, e_AttachmentTypes = types,
               e_Headers = headers, e_Folder = ''INBOX'', e_AccountID = a_ID acc, e_OCRText = [],
               e_HasImages = hasImages U types, e_ImageAttachments = []\<rparr>)"

definition legacy_log_row :: "account \<Rightarrow> email_context \<Rightarrow> rule \<Rightarrow> rule_result \<Rightarrow> exec_log" where
  "legacy_log_row acc email r res =
     \<lparr>l_ID = 0, l_RuleID = r_ID r, l_AccountID = a_ID acc, l_MessageID = e_MessageID email,
      l_Subject = e_Subject email, l_Sender = e_SenderAddress email, l_Action = rr_Action res,
      l_Target = rr_Target res, l_Success = True, l_Error = [], l_ExecutedAt = 0\<rparr>"

definition legacy_result_event :: "account \<Rightarrow> email_context \<Rightarrow> rule \<Rightarrow> rule_result \<Rightarrow> result_event" where
  "legacy_result_event acc email r res =
     \<lparr>re_AccountID = a_ID acc, re_TenantID = 0, re_MessageID = e_MessageID email, re_UID = 0, re_RuleID = r_ID r,
      re_RuleName = r_Name r, re_Action = rr_Action res, re_Target = rr_Target res, re_Reason = [],
      re_Subject = e_Subject email, re_Sender = e_SenderAddress email, re_Success = False, re_Error = []\<rparr>"

definition legacy_deferred :: "time \<Rightarrow> account \<Rightarrow> email_context \<Rightarrow> rule \<Rightarrow> rule_result \<Rightarrow> deferred_action" where
  "legacy_deferred now acc email r res =
     \<lparr>d_ID = 0, d_RuleID = r_ID r, d_AccountID = a_ID acc, d_MessageID = e_MessageID email,
      d_Action = rr_Target res, d_Target = rr_Target res, d_ExecuteAt = execute_at now (rr_Delay res),
      d_Executed = False, d_Status = [], d_ExecutedAt = None, d_Error = [], d_CreatedAt = 0\<rparr>"

definition legacy_action :: "env \<Rightarrow> account \<Rightarrow> email_context \<Rightarrow> uid \<Rightarrow> rule_result \<Rightarrow> unit io" where
  "legacy_action N acc email u res =
     (let aid = a_ID acc; a = rr_Action res in
      if a = ''delete'' then legacy_executeDelete N aid u
      else if a = ''move'' then legacy_executeMove N aid u (rr_Target res)
      else if a = ''archive'' then legacy_executeMove N aid u ''Archive''
      else if a = ''flag'' then legacy_executeFlag N aid u (rr_Target res)
      else if a = ''notify'' then legacy_executeNotify N (e_SenderAddress email) (e_Subject email) (e_SenderName email) (rr_Target res)
      else io_return ())"

text \<open>What follows a match. \<open>bus\<close> says whether the server has an event bus.\<close>

definition legacy_match ::
  "env \<Rightarrow> bool \<Rightarrow> time \<Rightarrow> account \<Rightarrow> email_context \<Rightarrow> uid \<Rightarrow> rule \<Rightarrow> rule_result \<Rightarrow> unit io" where
  "legacy_match N bus now acc email u r res w =
     (let w1 = snd (db_do N S_LogExecution (LogExecution now (legacy_log_row acc email r res)) w);
          w2 = (if bus then snd (Publish N ''email.rule.result'' (Result (legacy_result_event acc email r res)) w1) else w1)
      in if rr_Action res = ''defer'' \<and> 0 < rr_Delay res
         then io_try (db_do N S_CreateDeferred (CreateDeferredAction now (legacy_deferred now acc email r res))) w2
         else (case legacy_action N acc email u res w2 of
                 (Inl err, w3) \<Rightarrow>
                   (Inl err, snd (db_do N S_LogFailure (LogExecution now
                      ((legacy_log_row acc email r res)\<lparr>l_Success := False, l_Error := err\<rparr>)) w3))
               | (Inr _, w3) \<Rightarrow>
                   io_try (db_do N S_MarkProcessed
                     (MarkMessageProcessed now (a_ID acc) (FormatUID u) (r_ID r) (rr_Action res))) w3))"

definition processMessage ::
  "lua_interp \<Rightarrow> env \<Rightarrow> bool \<Rightarrow> time \<Rightarrow> account \<Rightarrow> email_context \<Rightarrow> uid \<Rightarrow> unit io" where
  "processMessage lua N bus now acc email u w =
     (case fst (db_read N S_ListRules (\<lambda>d. Inr (ListActiveRules (a_TenantID acc) d)) w) of
        Inl e \<Rightarrow> (Inl (''list rules: '' @ e), w)
      | Inr rs \<Rightarrow>
          (case EvaluateAll lua (en_kiro N) now rs email (w_kiro w) of
             ((res, matched), k) \<Rightarrow>
               if rr_Action res = ''skip'' then (Inr (), w\<lparr>w_kiro := k\<rparr>)
               else (case matched of
                       None \<Rightarrow> (Inr (), w\<lparr>w_kiro := k\<rparr>)
                     | Some r \<Rightarrow> legacy_match N bus now acc email u r res (w\<lparr>w_kiro := k\<rparr>))))"

definition legacy_images :: "env \<Rightarrow> legacy_box \<Rightarrow> message_buf \<Rightarrow> email_context \<Rightarrow> email_context" where
  "legacy_images N S buf email =
     (case mb_BodyStructure buf of
        None \<Rightarrow> email
      | Some bs \<Rightarrow>
          if e_HasImages email then
            (let imageParts = findImageParts (en_unicode N) bs []
             in if 0 < length imageParts
                then email\<lparr>e_ImageAttachments := fetchImageAttachments (ib_FetchParts S (mb_UID buf)) imageParts\<rparr> else email)
          else email)"

definition process_fetched ::
  "lua_interp \<Rightarrow> env \<Rightarrow> bool \<Rightarrow> legacy_box \<Rightarrow> time \<Rightarrow> account \<Rightarrow> string + message_buf \<Rightarrow> world \<Rightarrow> world" where
  "process_fetched lua N bus S now acc m w =
     (case m of
        Inl _ \<Rightarrow> w
      | Inr buf \<Rightarrow>
          (case bufferToEmailContext (en_unicode N) (ib_ReadFields S) now acc buf of
             None \<Rightarrow> w
           | Some email \<Rightarrow>
               if res_or (fst (db_read N (S_FetchProcessed (mb_UID buf))
                    (\<lambda>d. Inr (IsMessageProcessed (a_ID acc) (FormatUID (mb_UID buf)) d)) w)) False then w
               else snd (processMessage lua N bus now acc (legacy_images N S buf email) (mb_UID buf) w)))"

definition processBatch ::
  "lua_interp \<Rightarrow> env \<Rightarrow> bool \<Rightarrow> legacy_box \<Rightarrow> time \<Rightarrow> account \<Rightarrow> uid list \<Rightarrow> world \<Rightarrow> world" where
  "processBatch lua N bus S now acc uids w =
     (if length uids = 0 then w else fold (process_fetched lua N bus S now acc) (ib_FetchUIDs S uids) w)"

subsection \<open>Learning\<close>

definition genericPrefixes :: "string list" where
  "genericPrefixes = [''noreply@'', ''no-reply@'', ''billing@'', ''support@'', ''info@'', ''notifications@'', ''alerts@'',
     ''admin@'', ''contact@'', ''hello@'', ''team@'', ''service@'', ''automated@'']"

definition isGenericSender :: "unicode \<Rightarrow> string \<Rightarrow> bool" where
  "isGenericSender U sender = list_ex (\<lambda>p. HasPrefix (ToLower U sender) p) genericPrefixes"

definition extractDomain :: "string \<Rightarrow> string" where
  "extractDomain email = (case Split email (CHR ''@'') of [_, domain] \<Rightarrow> domain | _ \<Rightarrow> email)"

definition legacy_stopwords :: "string list" where
  "legacy_stopwords = [''the'', ''a'', ''an'', ''and'', ''or'', ''but'', ''in'', ''on'', ''at'', ''to'', ''for'', ''of'',
     ''is'', ''are'', ''was'', ''were'', ''be'', ''your'', ''my'', ''our'', ''their'']"

fun add_words :: "unicode \<Rightarrow> string list \<Rightarrow> string list \<Rightarrow> string list" where
  "add_words U [] keywords = keywords"
| "add_words U (word # ws) keywords =
     (let word = Trim (ToLower U word) ''.,!?;()[]{}''
      in if 3 < length word \<and> word \<notin> set legacy_stopwords
         then (if 3 \<le> length keywords + 1 then keywords @ [word] else add_words U ws (keywords @ [word]))
         else add_words U ws keywords)"

definition bracket_tag :: "string \<Rightarrow> string list" where
  "bracket_tag subject =
     (case Index subject ''['' of
        None \<Rightarrow> []
      | Some idx \<Rightarrow>
          (case Index (drop idx subject) '']'' of
             None \<Rightarrow> []
           | Some endIdx \<Rightarrow>
               (let tag = drop 1 (take endIdx (drop idx subject))
                in if 0 < length tag \<and> length tag < 50 then [tag] else [])))"

definition extractSubjectKeywords :: "unicode \<Rightarrow> string \<Rightarrow> string list" where
  "extractSubjectKeywords U subject =
     (let subject = TrimPrefix (TrimPrefix (TrimPrefix subject ''Re: '') ''Fwd: '') ''[''
      in add_words U (fields_by (\<lambda>c. c = CHR '' '' \<or> c = CHR ''-'' \<or> c = CHR '':'' \<or> c = CHR ''|'') subject [])
           (bracket_tag subject))"

definition legacy_rule_code :: "unicode \<Rightarrow> string \<Rightarrow> string \<Rightarrow> string \<Rightarrow> string \<times> string" where
  "legacy_rule_code U sender subject targetFolder =
     (let move = '' then move('' @ dq @ targetFolder @ dq @ '') end''; to = '' '' @ arrow @ '' '' @ targetFolder in
      if isGenericSender U sender
      then (''Auto-learned: '' @ sender @ to, ''if contains(email.sender, '' @ dq @ sender @ dq @ '')'' @ move)
      else (let keywords = extractSubjectKeywords U subject; domain = extractDomain sender;
                head = ''if contains(email.sender_domain, '' @ dq @ domain @ dq @ '')''
            in if length keywords = 0 then (''Auto-learned: '' @ domain @ to, head @ move)
               else (''Auto-learned: '' @ domain @ '' + keywords'' @ to,
                     head @ concat (map (\<lambda>kw. '' and contains(email.subject, '' @ dq @ kw @ dq @ '')'') keywords) @ move)))"

definition legacy_learned_rule :: "env \<Rightarrow> account \<Rightarrow> string \<Rightarrow> string \<Rightarrow> string \<Rightarrow> rule" where
  "legacy_learned_rule N acc sender subject targetFolder =
     (case legacy_rule_code (en_unicode N) sender subject targetFolder of (ruleName, luaCode) \<Rightarrow>
        \<lparr>r_ID = 0, r_TenantID = a_TenantID acc, r_Name = ruleName, r_Description = [], r_LuaCode = luaCode, r_Priority = 0,
         r_Active = False, r_Source = ''auto-learned'', r_Approved = False, r_UsesAI = False, r_CreatedAt = 0, r_UpdatedAt = 0\<rparr>)"

definition legacy_generateAndCreateRuleFromMove :: "env \<Rightarrow> time \<Rightarrow> account \<Rightarrow> message_location \<Rightarrow> string \<Rightarrow> unit io" where
  "legacy_generateAndCreateRuleFromMove N now acc loc targetFolder =
     io_bind (io_wrap ''create rule'' (db_do N (S_CreateRule (ml_MessageID loc))
         (CreateRule now (legacy_learned_rule N acc (ml_Sender loc) (ml_Subject loc) targetFolder))))
       (\<lambda>_. io_return ())"

text \<open>The first mailbox other than the inbox whose search by Message-ID finds something, with the first UID.\<close>

fun search_mailboxes :: "legacy_box \<Rightarrow> string \<Rightarrow> string list \<Rightarrow> (string \<times> uid) option" where
  "search_mailboxes S mid [] = None"
| "search_mailboxes S mid (mbox # ms) =
     (if mbox = ''INBOX'' then search_mailboxes S mid ms
      else case ms_Select S mbox of
        Inl _ \<Rightarrow> search_mailboxes S mid ms
      | Inr _ \<Rightarrow>
          (case lb_SearchHeader S mbox mid of
             Inl _ \<Rightarrow> search_mailboxes S mid ms
           | Inr [] \<Rightarrow> search_mailboxes S mid ms
           | Inr (u # _) \<Rightarrow> Some (mbox, u)))"

definition legacy_move :: "account \<Rightarrow> message_location \<Rightarrow> string \<times> uid \<Rightarrow> detected_move" where
  "legacy_move acc loc found =
     \<lparr>dm_ID = 0, dm_AccountID = a_ID acc, dm_MessageUID = FormatUID (snd found), dm_MessageID = ml_MessageID loc,
      dm_Sender = ml_Sender loc, dm_Subject = ml_Subject loc, dm_FromFolder = ''INBOX'', dm_ToFolder = fst found,
      dm_DetectedAt = 0, dm_RuleID = None\<rparr>"

definition findMovedMessageAndLearn :: "env \<Rightarrow> legacy_box \<Rightarrow> time \<Rightarrow> account \<Rightarrow> message_location \<Rightarrow> unit io" where
  "findMovedMessageAndLearn N S now acc loc w =
     (case lb_Mailboxes S of
        Inl e \<Rightarrow> (Inl (''list mailboxes: '' @ e), w)
      | Inr mailboxes \<Rightarrow>
          (case search_mailboxes S (ml_MessageID loc) mailboxes of
             None \<Rightarrow> (Inr (), w)
           | Some found \<Rightarrow>
               (case db_do N (S_DetectedMove (ml_MessageID loc)) (RecordDetectedMove now (legacy_move acc loc found)) w of
                  (Inl _, w1) \<Rightarrow> (Inr (), w1)
                | (Inr _, w1) \<Rightarrow> io_try (legacy_generateAndCreateRuleFromMove N now acc loc (fst found)) w1)))"

definition legacy_expunged :: "env \<Rightarrow> legacy_box \<Rightarrow> time \<Rightarrow> account \<Rightarrow> uid \<Rightarrow> world \<Rightarrow> world" where
  "legacy_expunged N S now acc u w =
     (case expunged_message N acc w u of
        [] \<Rightarrow> w
      | (_, loc) # _ \<Rightarrow> snd (findMovedMessageAndLearn N S now acc loc w))"

definition legacy_handleExpungedMessages ::
  "env \<Rightarrow> legacy_box \<Rightarrow> time \<Rightarrow> uid list \<Rightarrow> legacy_worker \<Rightarrow> world \<Rightarrow> (string + unit) \<times> legacy_worker \<times> world" where
  "legacy_handleExpungedMessages N S now uids lw w =
     (case legacy_connect N lw w of
        (Inl e, lw1, w1) \<Rightarrow> (Inl (''connect for move detection: '' @ e), lw1, w1)
      | (Inr _, lw1, w1) \<Rightarrow> (Inr (), lw1, fold (legacy_expunged N S now (lw_account lw1)) uids w1))"

subsection \<open>Polling\<close>

definition legacy_location :: "env \<Rightarrow> time \<Rightarrow> account \<Rightarrow> string + message_buf \<Rightarrow> world \<Rightarrow> world" where
  "legacy_location N now acc m w =
     (case m of
        Inl _ \<Rightarrow> w
      | Inr buf \<Rightarrow>
          (case mb_Envelope buf of
             None \<Rightarrow> w
           | Some env \<Rightarrow>
               (let loc = \<lparr>ml_AccountID = a_ID acc, ml_MessageUID = FormatUID (mb_UID buf), ml_Folder = ''INBOX'',
                           ml_MessageID = nv_MessageID env,
                           ml_Sender = (case nv_From env of [] \<Rightarrow> [] | a # _ \<Rightarrow> ad_Addr a),
                           ml_Subject = nv_Subject env, ml_SeenAt = 0\<rparr>
                in snd (db_do N (S_Upsert (mb_UID buf)) (UpsertMessageLocation now loc) w))))"

definition recordMessageLocations :: "env \<Rightarrow> legacy_box \<Rightarrow> time \<Rightarrow> account \<Rightarrow> uid list \<Rightarrow> world \<Rightarrow> world" where
  "recordMessageLocations N S now acc uids w =
     (if length uids = 0 then w
      else fold (\<lambda>batch. fold (legacy_location N now acc) (ib_FetchUIDs S batch)) (batches 100 uids) w)"

definition sync_time :: "env \<Rightarrow> time \<Rightarrow> account \<Rightarrow> world \<Rightarrow> world" where
  "sync_time N now acc w = snd (io_try (db_do N S_SyncTime (UpdateAccountSyncTime now (a_ID acc))) w)"

definition poll ::
  "lua_interp \<Rightarrow> env \<Rightarrow> bool \<Rightarrow> legacy_box \<Rightarrow> time \<Rightarrow> legacy_worker \<Rightarrow> world \<Rightarrow> (string + unit) \<times> legacy_worker \<times> world" where
  "poll lua N bus S now lw w =
     (case legacy_connect N lw w of
        (Inl e, lw1, w1) \<Rightarrow> (Inl (''connect: '' @ e), lw1, w1)
      | (Inr _, lw1, w1) \<Rightarrow>
          let acc = lw_account lw1 in
          (case ms_Select S ''INBOX'' of
             Inl e \<Rightarrow> (Inl (''select INBOX: '' @ e), lw1, w1)
           | Inr n \<Rightarrow>
               if n = 0 then (Inr (), lw1\<lparr>lw_inboxUIDs := []\<rparr>, sync_time N now acc w1)
               else (case ib_SearchAll S of
                  Inl e \<Rightarrow> (Inl (''search all messages: '' @ e), lw1, w1)
                | Inr allUIDs \<Rightarrow>
                    (let w2 = recordMessageLocations N S now acc allUIDs w1; lw2 = lw1\<lparr>lw_inboxUIDs := allUIDs\<rparr>
                     in case lb_SearchUnseen S of
                          Inl e \<Rightarrow> (Inl (''search unseen: '' @ e), lw2, w2)
                        | Inr uids \<Rightarrow>
                            if length uids = 0 then (Inr (), lw2, sync_time N now acc w2)
                            else (Inr (), lw2,
                                  sync_time N now acc (fold (processBatch lua N bus S now acc) (batches 50 uids) w2))))))"

text \<open>
  \<open>idle\<close> after a poll has connected: \<open>None\<close> is a failure of the IDLE command, which disconnects;
  otherwise the sequence numbers of the notifications that were collected.
\<close>

definition idle :: "env \<Rightarrow> nat list option \<Rightarrow> legacy_worker \<Rightarrow> world \<Rightarrow> uid list \<times> legacy_worker \<times> world" where
  "idle N seqNums lw w =
     (if \<not> lw_client lw then ([], lw, w)
      else case seqNums of
        None \<Rightarrow> (case legacy_disconnect N lw w of (lw1, w1) \<Rightarrow> ([], lw1, w1))
      | Some ns \<Rightarrow>
          if length ns = 0 then ([], lw, w)
          else (case map_seq_nums ns (lw_inboxUIDs lw) [] of (gone, rest) \<Rightarrow> (gone, lw\<lparr>lw_inboxUIDs := rest\<rparr>, w)))"

text \<open>The passes of \<open>Run\<close>, each with what the server does in it, until the worker is stopped.\<close>

fun legacy_run ::
  "lua_interp \<Rightarrow> bool \<Rightarrow> (env \<times> legacy_box \<times> time \<times> nat list option) list \<Rightarrow> legacy_worker \<Rightarrow> world \<Rightarrow> legacy_worker \<times> world" where
  "legacy_run lua bus [] lw w = (lw, w)"
| "legacy_run lua bus ((N, S, now, seqNums) # rs) lw w =
     (case poll lua N bus S now lw w of
        (Inl _, lw1, w1) \<Rightarrow> (case legacy_disconnect N lw1 w1 of (lw2, w2) \<Rightarrow> legacy_run lua bus rs lw2 w2)
      | (Inr _, lw1, w1) \<Rightarrow>
          (case idle N seqNums lw1 w1 of
             (gone, lw2, w2) \<Rightarrow>
               if 0 < length gone
               then (case legacy_handleExpungedMessages N S now gone lw2 w2 of (_, lw3, w3) \<Rightarrow> legacy_run lua bus rs lw3 w3)
               else legacy_run lua bus rs lw2 w2))"

subsection \<open>Deferred actions\<close>

definition ExecuteDeferredAction :: "env \<Rightarrow> deferred_event \<Rightarrow> legacy_worker \<Rightarrow> world \<Rightarrow> (string + unit) \<times> legacy_worker \<times> world" where
  "ExecuteDeferredAction N event lw w =
     (case legacy_connect N lw w of
        (Inl e, lw1, w1) \<Rightarrow> (Inl (''connect for deferred action: '' @ e), lw1, w1)
      | (Inr _, lw1, w1) \<Rightarrow>
          let aid = a_ID (lw_account lw1); mid = de_MessageID event; ac = de_Action event; ta = de_Target event in
          (case io_bind (io_wrap ''select INBOX for deferred action'' (imap_do N aid (C_Select ''INBOX'')))
                  (\<lambda>_. io_bind (io_wrap (''search for message '' @ mid) (imap_do N aid (C_UIDSearchMessageID mid)))
                    (\<lambda>r. case AllUIDs r of
                           [] \<Rightarrow> io_return ()
                         | u # _ \<Rightarrow>
                             if ac = ''delete'' then io_wrap ''deferred delete'' (legacy_executeDelete N aid u)
                             else if ac = ''move'' then io_wrap (''deferred move to '' @ ta) (legacy_executeMove N aid u ta)
                             else if ac = ''archive'' then io_wrap ''deferred archive'' (legacy_executeMove N aid u ''Archive'')
                             else if ac = ''notify'' then io_wrap ''deferred notify''
                               (legacy_executeNotify N ''deferred'' ''Deferred action'' [] ta)
                             else if ac = ''flag'' then io_wrap ''deferred flag'' (executeFlagByMessageID N aid mid ta)
                             else io_return ())) w1 of
             (r, w2) \<Rightarrow> (r, lw1, w2)))"

subsection \<open>The same mail, the same decision\<close>

lemma bufferToEmailContext_event:
  "bufferToEmailContext U rd now acc buf = map_option eventToEmailContext (bufferToEvent U rd now acc buf)"
  by (simp add: bufferToEmailContext_def bufferToEvent_def eventToEmailContext_def Let_def split: option.split prod.split)

lemma legacy_images_event:
  "legacy_images N S buf (eventToEmailContext ev) = eventToEmailContext (attach_images N (inbox.truncate S) buf ev)"
  by (simp add: legacy_images_def attach_images_def eventToEmailContext_def inbox.defs Let_def split: option.split)

lemma EvaluateWithOptions_default: "EvaluateWithOptions lua E now (Some True) = EvaluateWithOptions lua E now None"
  by (intro ext) (simp add: EvaluateWithOptions_def)

lemma EvaluateAll_default:
  "EvaluateAllWithOptions lua E now (Some True) rs m k = EvaluateAllWithOptions lua E now None rs m k"
  by (induction rs arbitrary: k) (simp_all add: EvaluateWithOptions_default split: prod.split sum.split)

text \<open>What the worker decides about a fetched message, and what the listener and the rules engine decide together.\<close>

definition worker_decision ::
  "lua_interp \<Rightarrow> env \<Rightarrow> legacy_box \<Rightarrow> time \<Rightarrow> account \<Rightarrow> message_buf \<Rightarrow> world \<Rightarrow> ((rule_result \<times> rule option) \<times> KiroClient option) option" where
  "worker_decision lua N S now acc buf w =
     map_option (\<lambda>email. EvaluateAll lua (en_kiro N) now (ListActiveRules (a_TenantID acc) (w_db w)) (legacy_images N S buf email) (w_kiro w))
       (bufferToEmailContext (en_unicode N) (ib_ReadFields S) now acc buf)"

definition pipeline_decision ::
  "lua_interp \<Rightarrow> env \<Rightarrow> inbox \<Rightarrow> time \<Rightarrow> account \<Rightarrow> message_buf \<Rightarrow> world \<Rightarrow> ((rule_result \<times> rule option) \<times> KiroClient option) option" where
  "pipeline_decision lua N S now acc buf w =
     map_option (\<lambda>ev. evaluation lua N now (attach_images N S buf ev) w)
       (bufferToEvent (en_unicode N) (ib_ReadFields S) now acc buf)"

lemma bufferToEvent_tenant:
  "bufferToEvent U rd now acc buf = Some ev \<Longrightarrow> ev_TenantID ev = a_TenantID acc"
  by (auto simp: bufferToEvent_def Let_def split: option.splits prod.splits)

lemma attach_images_tenant: "ev_TenantID (attach_images N S buf ev) = ev_TenantID ev"
  by (simp add: attach_images_def Let_def split: option.split)

text \<open>
  The single-process worker and the pipeline of listener and rules engine decide alike: for a fetched
  message of an account whose user may use AI, both see the same message and choose the same rule with
  the same result and the same effect on the AI client.
\<close>
theorem worker_and_pipeline_agree:
  assumes "ai_enabled N (a_TenantID acc) w"
  shows "worker_decision lua N S now acc buf w = pipeline_decision lua N (inbox.truncate S) now acc buf w"
proof -
  have fields: "ib_ReadFields (inbox.truncate S) = ib_ReadFields S" by (simp add: inbox.defs)
  show ?thesis
  proof (cases "bufferToEvent (en_unicode N) (ib_ReadFields S) now acc buf")
    case None
    then show ?thesis by (simp add: worker_decision_def pipeline_decision_def bufferToEmailContext_event fields)
  next
    case (Some ev)
    then have "ev_TenantID (attach_images N (inbox.truncate S) buf ev) = a_TenantID acc"
      by (simp add: attach_images_tenant bufferToEvent_tenant)
    with Some assms show ?thesis
      by (simp add: worker_decision_def pipeline_decision_def bufferToEmailContext_event fields legacy_images_event
          evaluation_def EvaluateAll_def EvaluateAll_default)
  qed
qed

subsection \<open>What the worker learns does not act\<close>

text \<open>Learned rules that are inactive and not approved, of the tenant of the account.\<close>

definition suggests :: "world \<Rightarrow> world \<Rightarrow> bool" where
  "suggests w w' \<longleftrightarrow> (\<forall>tid. ListActiveRules tid (w_db w') = ListActiveRules tid (w_db w)) \<and> set (rules (w_db w)) \<subseteq> set (rules (w_db w'))"

interpretation suggesting: io_preorder suggests
  by unfold_locales (auto simp: suggests_def)

lemma legacy_rule_inactive: "\<not> r_Active (legacy_learned_rule N acc s t f)" "r_Source (legacy_learned_rule N acc s t f) \<noteq> []"
  by (simp_all add: legacy_learned_rule_def split: prod.split)

lemma create_inactive_suggests:
  assumes "\<not> r_Active r" and "r_Source r \<noteq> []"
  shows "io_rel suggests (db_do N s (CreateRule now r))"
  using assms
  by (auto simp: io_rel_def suggests_def db_do_def stmt_def CreateRule_def insert_rule_def Let_def bump_def ListActiveRules_def)

lemma record_move_suggests: "io_rel suggests (db_do N s (RecordDetectedMove now m))"
  by (auto simp: io_rel_def suggests_def db_do_def stmt_def RecordDetectedMove_def Let_def bump_def ListActiveRules_def)

lemma find_and_learn_suggests: "io_rel suggests (findMovedMessageAndLearn N S now acc loc)"
  unfolding io_rel_def
proof
  fix w
  have gen: "suggests w1 (snd (io_try (legacy_generateAndCreateRuleFromMove N now acc loc f) w1))" for f w1
  proof -
    have "io_rel suggests (io_try (legacy_generateAndCreateRuleFromMove N now acc loc f))"
      unfolding legacy_generateAndCreateRuleFromMove_def
      by (intro suggesting.composed create_inactive_suggests legacy_rule_inactive)
    then show ?thesis by (simp add: io_rel_def)
  qed
  have step: "suggests w (snd (case db_do N s (RecordDetectedMove now m) w of (Inl _, w1) \<Rightarrow> (Inr (), w1)
      | (Inr _, w1) \<Rightarrow> io_try (legacy_generateAndCreateRuleFromMove N now acc loc f) w1))" for s m f
  proof (cases "db_do N s (RecordDetectedMove now m) w")
    case (Pair r w1)
    then have "suggests w w1" by (rule io_relD [OF record_move_suggests])
    then show ?thesis using gen suggesting.trans Pair by (cases r) auto
  qed
  show "suggests w (snd (findMovedMessageAndLearn N S now acc loc w))"
    by (simp add: findMovedMessageAndLearn_def step split: sum.split option.split)
qed

lemma suggests_fold:
  assumes "\<And>x w. suggests w (f x w)"
  shows "suggests w (fold f xs w)"
  by (induction xs arbitrary: w) (auto intro: assms suggesting.trans)

lemma legacy_expunged_suggests: "suggests w (legacy_expunged N S now acc u w)"
  using find_and_learn_suggests by (auto simp: legacy_expunged_def io_rel_def split: list.split)

text \<open>
  A rule that the worker of the single-process server learns does nothing until a person approves and
  activates it: whatever messages left the inbox, the rules that are applied are the same as before,
  for every tenant, and no rule is lost.
\<close>
theorem worker_only_suggests:
  assumes "legacy_handleExpungedMessages N S now uids lw w = (r, lw', w')"
  shows "ListActiveRules tid (w_db w') = ListActiveRules tid (w_db w) \<and> set (rules (w_db w)) \<subseteq> set (rules (w_db w'))"
proof (cases "legacy_connect N lw w")
  case (fields res lw1 w1)
  have "quiet w w1"
    using fields dial_quiet [of N "a_ID (lw_account lw)" "lw_account lw"]
    by (auto simp: legacy_connect_def io_rel_def quiet_def split: if_splits prod.splits sum.splits) (metis snd_conv)+
  then have "suggests w w1" by (simp add: quiet_def suggests_def)
  moreover have "suggests w1 (fold (legacy_expunged N S now (lw_account lw1)) uids w1)"
    by (intro suggests_fold legacy_expunged_suggests)
  ultimately have "suggests w w'"
    using assms fields suggesting.trans by (cases res) (auto simp: legacy_handleExpungedMessages_def)
  then show ?thesis by (simp add: suggests_def)
qed

subsection \<open>Instances\<close>

definition sample_legacy_box :: legacy_box where
  "sample_legacy_box = \<lparr>ms_Select = (\<lambda>f. Inr 1), ms_FetchAll = (\<lambda>f. [Inr sample_message]), ib_SearchAll = Inr [7],
     ib_FetchUIDs = (\<lambda>us. [Inr sample_message]), ib_FetchParts = (\<lambda>_ _. []), ib_List = sample_folders,
     ib_ReadFields = (\<lambda>_. None), lb_SearchUnseen = Inr [7], lb_Mailboxes = Inr [''INBOX'', ''Work''],
     lb_SearchHeader = (\<lambda>f mid. Inr [3])\<rparr>"

theorem worker_and_pipeline_agree_witness:
  "worker_decision sample_lua (sample_env R_OK) sample_legacy_box 5 sample_account sample_message (sample_world ''move'')
     = pipeline_decision sample_lua (sample_env R_OK) (inbox.truncate sample_legacy_box) 5 sample_account sample_message (sample_world ''move'')"
  by (rule worker_and_pipeline_agree)
    (simp add: ai_enabled_def GetUserIDByTenantID_def get_row_def res_bind_def db_read_def db_do_def stmt_def sample_defs)

theorem worker_only_suggests_witness:
  "\<exists>r lw' w'. legacy_handleExpungedMessages (sample_env R_OK) sample_legacy_box 5 [7] (NewWorker sample_account) located_world = (r, lw', w') \<and>
     ListActiveRules 1 (w_db w') = ListActiveRules 1 (w_db located_world)"
proof -
  obtain r lw' w' where run: "legacy_handleExpungedMessages (sample_env R_OK) sample_legacy_box 5 [7] (NewWorker sample_account) located_world
      = (r, lw', w')" by (metis surj_pair)
  with worker_only_suggests [OF this, of 1] show ?thesis by blast
qed

end
