(* ===== verification/WebRules.thy ===== *)
theory WebRules
  imports WebMail Legacy Delivery
begin

text \<open>
  \<^verbatim>\<open>internal/api/handlers/rules.go\<close>: the rules of a tenant, their approval and order, logs and deferred
  actions, and the two operations on whole mailboxes: the dry run, which evaluates a rule on every message
  of the inboxes, and the execution, which also performs what the rule decides. What lies outside is the
  record \<open>rule_env\<close> (the Lua interpreter with the texts of its errors, the AI service) and, for each
  account, the record \<open>inbox_net\<close> (its IMAP server).
\<close>

record rule_env =
  rv_lua :: lua_interp
  rv_kiro :: kiro_env
  rv_syntax :: "string \<Rightarrow> string"
  rv_error :: "engine_err \<Rightarrow> string"

subsection \<open>Rules\<close>

definition api_ListRules :: "api_env \<Rightarrow> ctx \<Rightarrow> db \<Rightarrow> response \<times> db" where
  "api_ListRules A c d =
     (case read_at A 10 (Inr (ListRules (tenantID c) d)) of
        Inl e \<Rightarrow> (err_response 500 (ap_dbtext A e), d)
      | Inr rs \<Rightarrow> ((200, J_List (map J_Rule rs)), d))"

definition api_GetRule :: "api_env \<Rightarrow> ctx \<Rightarrow> db \<Rightarrow> response \<times> db" where
  "api_GetRule A c d =
     (case Atoi (cx_Params c ''id'') of
        None \<Rightarrow> (err_response 400 ''invalid rule ID'', d)
      | Some ident \<Rightarrow>
          (case read_at A 10 (GetRule (tenantID c) ident d) of
             Inl _ \<Rightarrow> (err_response 404 ''rule not found'', d)
           | Inr r \<Rightarrow> ((200, J_Rule r), d)))"

text \<open>
  The expression \<^verbatim>\<open>\bkiro\.\w+\s*\(\<close>: a word boundary, \<open>kiro.\<close>, word characters, white space, a parenthesis. The
  character classes are disjoint, so the longest runs decide.
\<close>

definition word_char :: "char \<Rightarrow> bool" where
  "word_char c = ((48 \<le> byte c \<and> byte c \<le> 57) \<or> (65 \<le> byte c \<and> byte c \<le> 90) \<or> (97 \<le> byte c \<and> byte c \<le> 122) \<or> c = CHR ''_'')"

definition space_char :: "char \<Rightarrow> bool" where
  "space_char c = (c \<in> {CHR 9, CHR 10, CHR 12, CHR 13, CHR '' ''})"

definition kiro_call_here :: "string \<Rightarrow> bool" where
  "kiro_call_here s =
     (HasPrefix s ''kiro.'' \<and>
      (let rest = drop 5 s; args = dropWhile space_char (dropWhile word_char rest)
       in takeWhile word_char rest \<noteq> [] \<and> HasPrefix args ''(''))"

fun kiro_call_from :: "bool \<Rightarrow> string \<Rightarrow> bool" where
  "kiro_call_from boundary [] = False"
| "kiro_call_from boundary (c # s) = ((boundary \<and> kiro_call_here (c # s)) \<or> kiro_call_from (\<not> word_char c) s)"

definition detectUsesAI :: "string \<Rightarrow> bool" where
  "detectUsesAI luaCode = kiro_call_from True luaCode"

definition invalid_lua :: "rule_env \<Rightarrow> string \<Rightarrow> response" where
  "invalid_lua V code = (400, J_Obj [(''error'', J_Str ''invalid Lua code''), (''details'', J_Str (''syntax error: '' @ rv_syntax V code))])"

definition api_CreateRule :: "api_env \<Rightarrow> rule_env \<Rightarrow> ctx \<Rightarrow> rule option \<Rightarrow> db \<Rightarrow> response \<times> db" where
  "api_CreateRule A V c body d =
     (case body of
        None \<Rightarrow> (err_response 400 ''invalid request body'', d)
      | Some b \<Rightarrow>
          (let r1 = b\<lparr>r_TenantID := tenantID c, r_Source := (if r_Source b = [] then ''manual'' else r_Source b)\<rparr>;
               r = (if r_Source r1 = ''manual'' then r1\<lparr>r_Approved := True\<rparr> else r1)
           in if \<not> ValidateLua (rv_lua V) (r_LuaCode r) then (invalid_lua V (r_LuaCode r), d)
              else (case write_at A 10 (CreateRule (ap_now A) r) d of
                 (Inl e, d1) \<Rightarrow> (err_response 500 (ap_dbtext A e), d1)
               | (Inr row, d1) \<Rightarrow> ((201, J_Rule row), d1))))"

definition api_UpdateRule :: "api_env \<Rightarrow> rule_env \<Rightarrow> ctx \<Rightarrow> rule option \<Rightarrow> db \<Rightarrow> response \<times> db" where
  "api_UpdateRule A V c body d =
     (case Atoi (cx_Params c ''id'') of
        None \<Rightarrow> (err_response 400 ''invalid rule ID'', d)
      | Some ident \<Rightarrow>
          (case body of
             None \<Rightarrow> (err_response 400 ''invalid request body'', d)
           | Some b \<Rightarrow>
               (let r = b\<lparr>r_ID := ident, r_TenantID := tenantID c\<rparr>
                in if \<not> ValidateLua (rv_lua V) (r_LuaCode r) then (invalid_lua V (r_LuaCode r), d)
                   else (case write_at A 10 (UpdateRule (ap_now A) r) d of
                      (Inl e, d1) \<Rightarrow> (err_response 500 (ap_dbtext A e), d1)
                    | (Inr _, d1) \<Rightarrow> ((200, J_Rule r), d1)))))"

definition api_DeleteRule :: "api_env \<Rightarrow> ctx \<Rightarrow> db \<Rightarrow> response \<times> db" where
  "api_DeleteRule A c d =
     (case Atoi (cx_Params c ''id'') of
        None \<Rightarrow> (err_response 400 ''invalid rule ID'', d)
      | Some ident \<Rightarrow>
          (case write_at A 10 (DeleteRule (tenantID c) ident) d of
             (Inl e, d1) \<Rightarrow> (err_response 500 (ap_dbtext A e), d1)
           | (Inr _, d1) \<Rightarrow> (no_content, d1)))"

definition rule_result_json :: "rule_result \<Rightarrow> json" where
  "rule_result_json r = J_Obj [(''action'', J_Str (rr_Action r)), (''target'', J_Str (rr_Target r)),
     (''delay'', J_Int (rr_Delay r)), (''reason'', J_Str (rr_Reason r))]"

text \<open>A rule that exists only in the request: the fields the handler does not set are zero.\<close>

definition unsaved_rule :: "string \<Rightarrow> string \<Rightarrow> rule" where
  "unsaved_rule name code = \<lparr>r_ID = 0, r_TenantID = 0, r_Name = name, r_Description = [], r_LuaCode = code, r_Priority = 0,
     r_Active = False, r_Source = [], r_Approved = False, r_UsesAI = False, r_CreatedAt = zero_time, r_UpdatedAt = zero_time\<rparr>"

definition api_TestRule ::
  "api_env \<Rightarrow> rule_env \<Rightarrow> (string \<times> email_context) option \<Rightarrow> KiroClient option \<Rightarrow> response \<times> KiroClient option" where
  "api_TestRule A V body k =
     (case body of
        None \<Rightarrow> (err_response 400 ''invalid request body'', k)
      | Some (code, email) \<Rightarrow>
          (case TestRule (rv_lua V) (rv_kiro V) (ap_now A) (unsaved_rule ''test'' code) email k of
             (Inl e, k1) \<Rightarrow> ((400, J_Obj [(''error'', J_Str ''rule evaluation failed''), (''details'', J_Str (rv_error V e))]), k1)
           | (Inr res, k1) \<Rightarrow> ((200, rule_result_json res), k1)))"

definition ValidateRule :: "rule_env \<Rightarrow> string option \<Rightarrow> response" where
  "ValidateRule V body =
     (case body of
        None \<Rightarrow> err_response 400 ''invalid request body''
      | Some code \<Rightarrow>
          if \<not> ValidateLua (rv_lua V) code
          then (200, J_Obj [(''valid'', J_Bool False), (''error'', J_Str (''syntax error: '' @ rv_syntax V code))])
          else (200, J_Obj [(''valid'', J_Bool True)]))"

definition api_ListSuggestedRules :: "api_env \<Rightarrow> ctx \<Rightarrow> db \<Rightarrow> response \<times> db" where
  "api_ListSuggestedRules A c d =
     (case read_at A 10 (Inr (ListSuggestedRules (tenantID c) d)) of
        Inl e \<Rightarrow> (err_response 500 (ap_dbtext A e), d)
      | Inr rs \<Rightarrow> ((200, J_List (map J_Rule rs)), d))"

definition api_ApproveRule :: "api_env \<Rightarrow> ctx \<Rightarrow> db \<Rightarrow> response \<times> db" where
  "api_ApproveRule A c d =
     (case Atoi (cx_Params c ''id'') of
        None \<Rightarrow> (err_response 400 ''invalid rule ID'', d)
      | Some ident \<Rightarrow>
          (case write_at A 10 (ApproveRule (ap_now A) (tenantID c) ident) d of
             (Inl e, d1) \<Rightarrow> (err_response 500 (ap_dbtext A e), d1)
           | (Inr _, d1) \<Rightarrow> (message_response ''rule approved'', d1)))"

definition api_ReorderRules :: "api_env \<Rightarrow> ctx \<Rightarrow> int list option \<Rightarrow> db \<Rightarrow> response \<times> db" where
  "api_ReorderRules A c body d =
     (case body of
        None \<Rightarrow> (err_response 400 ''invalid request body'', d)
      | Some ids \<Rightarrow>
          if length ids = 0 then (err_response 400 ''rule_ids is required'', d)
          else (case ReorderRules (faults_from A 10) (ap_now A) (tenantID c) ids d of
             (Inl e, d1) \<Rightarrow> (err_response 500 (ap_dbtext A e), d1)
           | (Inr _, d1) \<Rightarrow> (message_response ''rules reordered'', d1)))"

definition api_BulkDeleteRules :: "api_env \<Rightarrow> ctx \<Rightarrow> int list option \<Rightarrow> db \<Rightarrow> response \<times> db" where
  "api_BulkDeleteRules A c body d =
     (case body of
        None \<Rightarrow> (err_response 400 ''invalid request body'', d)
      | Some ids \<Rightarrow>
          if length ids = 0 then (err_response 400 ''rule_ids is required'', d)
          else (case BulkDeleteRules (faults_from A 10) (tenantID c) ids d of
             (Inl e, d1) \<Rightarrow> (err_response 500 (ap_dbtext A e), d1)
           | (Inr n, d1) \<Rightarrow>
               ((200, J_Obj [(''message'', J_Str (FormatInt (int n) @ '' rules deleted'')), (''deleted'', J_Int (int n))]), d1)))"

subsection \<open>Logs and deferred actions\<close>

text \<open>\<open>c.QueryInt\<close>: \<open>strconv.Atoi\<close> of the parameter, or the default.\<close>

definition QueryInt :: "ctx \<Rightarrow> string \<Rightarrow> int \<Rightarrow> int" where
  "QueryInt c key fallback = (case Atoi (cx_Query c key) of None \<Rightarrow> fallback | Some n \<Rightarrow> n)"

definition api_ListExecutionLogs :: "api_env \<Rightarrow> ctx \<Rightarrow> db \<Rightarrow> response \<times> db" where
  "api_ListExecutionLogs A c d =
     (let limit = (if 500 < QueryInt c ''limit'' 50 then 500 else QueryInt c ''limit'' 50)
      in case read_at A 10 (ListExecutionLogs (tenantID c) limit d) of
           Inl e \<Rightarrow> (err_response 500 (ap_dbtext A e), d)
         | Inr ls \<Rightarrow> ((200, J_List (map J_Log ls)), d))"

record enrichedAction =
  ea_DeferredAction :: deferred_action
  ea_RuleName :: string

text \<open>The fields of the embedded struct stand under the empty key; \<open>subject\<close> is never set and left out.\<close>

definition enriched_json :: "enrichedAction \<Rightarrow> json" where
  "enriched_json a = J_Obj [([], J_Deferred (ea_DeferredAction a)), (''rule_name'', J_Str (ea_RuleName a))]"

text \<open>The loop with the cache of rule names; \<open>i\<close> numbers its queries.\<close>

fun enrich :: "api_env \<Rightarrow> int \<Rightarrow> db \<Rightarrow> nat \<Rightarrow> (int \<rightharpoonup> string) \<Rightarrow> deferred_action list \<Rightarrow> enrichedAction list" where
  "enrich A t d i ruleNames [] = []"
| "enrich A t d i ruleNames (a # as) =
     (case ruleNames (d_RuleID a) of
        Some name \<Rightarrow> \<lparr>ea_DeferredAction = a, ea_RuleName = name\<rparr> # enrich A t d i ruleNames as
      | None \<Rightarrow>
          (let name = (case read_at A i (GetRule t (d_RuleID a) d) of
                         Inr r \<Rightarrow> r_Name r
                       | Inl _ \<Rightarrow> ''Rule #'' @ FormatInt (d_RuleID a))
           in \<lparr>ea_DeferredAction = a, ea_RuleName = name\<rparr> # enrich A t d (i + 1) (ruleNames(d_RuleID a \<mapsto> name)) as))"

definition api_ListDeferredActions :: "api_env \<Rightarrow> ctx \<Rightarrow> db \<Rightarrow> response \<times> db" where
  "api_ListDeferredActions A c d =
     (case read_at A 10 (Inr (ListDeferredActions (tenantID c) d)) of
        Inl e \<Rightarrow> (err_response 500 (ap_dbtext A e), d)
      | Inr as \<Rightarrow> ((200, J_Obj [(''deferred_actions'', J_List (map enriched_json (enrich A (tenantID c) d 11 Map.empty as)))]), d))"

definition api_CancelDeferredAction :: "api_env \<Rightarrow> ctx \<Rightarrow> db \<Rightarrow> response \<times> db" where
  "api_CancelDeferredAction A c d =
     (case Atoi (cx_Params c ''id'') of
        None \<Rightarrow> (err_response 400 ''invalid action ID'', d)
      | Some ident \<Rightarrow>
          (case write_at A 10 (CancelDeferredAction (tenantID c) ident) d of
             (Inl e, d1) \<Rightarrow> (err_response 404 (ap_dbtext A e), d1)
           | (Inr _, d1) \<Rightarrow> (message_response ''deferred action cancelled'', d1)))"

subsection \<open>The messages of an inbox\<close>

text \<open>
  The IMAP server of an account: errors of dialling (with or without TLS), greeting and login, the
  number of messages on selection, the responses to the fetch of a range of sequence numbers, and the
  header parser of the mail library.
\<close>

record inbox_net =
  in_Dial :: "bool \<Rightarrow> string \<Rightarrow> string option"
  in_Greeting :: "string option"
  in_Login :: "string \<Rightarrow> string \<Rightarrow> string option"
  in_Select :: "string + int"
  in_Fetch :: "int \<Rightarrow> int \<Rightarrow> (string + message_buf) list"
  in_ReadFields :: "string \<Rightarrow> (string \<times> string) list option"

text \<open>The first sequence number; the arithmetic is that of \<open>uint32\<close>.\<close>

definition fetch_start :: "int \<Rightarrow> int \<Rightarrow> int" where
  "fetch_start limit num =
     (if 0 < limit \<and> limit mod 2 ^ 32 < num then (num - limit mod 2 ^ 32 + 1) mod 2 ^ 32 else 1)"

definition inbox_email ::
  "unicode \<Rightarrow> (string \<Rightarrow> (string \<times> string) list option) \<Rightarrow> time \<Rightarrow> account \<Rightarrow> string + message_buf \<Rightarrow> email_context option" where
  "inbox_email U rd now acc msg =
     (case msg of
        Inl _ \<Rightarrow> None
      | Inr buf \<Rightarrow>
          (case mb_Envelope buf of
             None \<Rightarrow> None
           | Some env \<Rightarrow>
               let (headers, bodyPreview) = sections_fold U rd (mb_BodySection buf);
                   (names, types) = (case mb_BodyStructure buf of None \<Rightarrow> ([], []) | Some bs \<Rightarrow> extractAttachmentInfo U bs);
                   msgDate = (if nv_Date env = zero_time then mb_InternalDate buf else nv_Date env);
                   age = of_int (Since now msgDate) / of_int Second
               in Some \<lparr>e_MessageID = nv_MessageID env, e_Subject = TrimSpace U (nv_Subject env),
                    e_SenderName = (if nv_From env = [] then [] else ad_Name (hd (nv_From env))),
                    e_SenderAddress = (if nv_From env = [] then [] else ad_Addr (hd (nv_From env))),
                    e_Recipients = map ad_Addr (nv_To env) @ map ad_Addr (nv_Cc env), e_Date = msgDate,
                    e_AgeSeconds = (if age < 0 then 0 else age), e_BodyPreview = bodyPreview,
                    e_HasAttachments = (0 < length names \<or> 0 < length types), e_AttachmentNames = names,
                    e_AttachmentTypes = types, e_Headers = headers, e_Folder = ''INBOX'', e_AccountID = a_ID acc,
                    e_OCRText = [], e_HasImages = hasImages U types, e_ImageAttachments = []\<rparr>))"

definition fetchINBOXEmails ::
  "unicode \<Rightarrow> inbox_net \<Rightarrow> time \<Rightarrow> account \<Rightarrow> int \<Rightarrow> string + email_context list" where
  "fetchINBOXEmails U K now acc limit =
     (let addr = conn_addr acc in
      case in_Dial K (a_IMAPTLS acc) addr of
        Some e \<Rightarrow> Inl ((if a_IMAPTLS acc then ''connect to '' else ''dial '') @ addr @ '': '' @ e)
      | None \<Rightarrow>
          (case in_Greeting K of
             Some e \<Rightarrow> Inl (''greeting from '' @ addr @ '': '' @ e)
           | None \<Rightarrow>
               (case in_Login K (login_name acc) (a_Password acc) of
                  Some e \<Rightarrow> Inl (''login to '' @ addr @ '': '' @ e)
                | None \<Rightarrow>
                    (case in_Select K of
                       Inl e \<Rightarrow> Inl (''select INBOX: '' @ e)
                     | Inr num \<Rightarrow>
                         if num = 0 then Inr []
                         else Inr (List.map_filter (inbox_email U (in_ReadFields K) now acc)
                           (in_Fetch K (fetch_start limit num) num))))))"

subsection \<open>Cancelling\<close>

text \<open>
  The map \<open>activeOps\<close> holds the cancel function of each operation in progress. An operation is a number;
  cancelling its context is remembered in \<open>op_cancelled\<close>.
\<close>

record operations =
  op_active :: "string \<rightharpoonup> nat"
  op_cancelled :: "nat list"

definition rule_op_key :: "int \<Rightarrow> int \<Rightarrow> string" where
  "rule_op_key t ident = ''tenant:'' @ FormatInt t @ '':rule:'' @ FormatInt ident"

definition adhoc_op_key :: "int \<Rightarrow> string" where
  "adhoc_op_key t = ''tenant:'' @ FormatInt t @ '':adhoc''"

definition begin_op :: "string \<Rightarrow> nat \<Rightarrow> operations \<Rightarrow> operations" where
  "begin_op key n ops = ops\<lparr>op_active := (op_active ops)(key \<mapsto> n)\<rparr>"

text \<open>The deferred calls at the end of the handler, in reverse order: the entry is deleted, the context cancelled.\<close>

definition end_op :: "string \<Rightarrow> nat \<Rightarrow> operations \<Rightarrow> operations" where
  "end_op key n ops = \<lparr>op_active = (op_active ops)(key := None), op_cancelled = n # op_cancelled ops\<rparr>"

definition cancel_op :: "string \<Rightarrow> operations \<Rightarrow> response \<times> operations" where
  "cancel_op key ops =
     (case op_active ops key of
        Some n \<Rightarrow> (message_response ''operation cancelled'',
          \<lparr>op_active = (op_active ops)(key := None), op_cancelled = n # op_cancelled ops\<rparr>)
      | None \<Rightarrow> (message_response ''no active operation found'', ops))"

definition CancelAdHocOperation :: "ctx \<Rightarrow> operations \<Rightarrow> response \<times> operations" where
  "CancelAdHocOperation c ops = cancel_op (adhoc_op_key (tenantID c)) ops"

definition CancelOperation :: "ctx \<Rightarrow> operations \<Rightarrow> response \<times> operations" where
  "CancelOperation c ops =
     (case Atoi (cx_Params c ''id'') of
        None \<Rightarrow> (err_response 400 ''invalid rule ID'', ops)
      | Some ident \<Rightarrow> cancel_op (rule_op_key (tenantID c) ident) ops)"

subsection \<open>Dry run\<close>

record DryRunMatch =
  mt_MessageID :: string
  mt_Subject :: string
  mt_SenderAddress :: string
  mt_Action :: string
  mt_Target :: string
  mt_Reason :: string

record DryRunResult =
  dr_TotalScanned :: int
  dr_TotalMatched :: int
  dr_Matches :: "DryRunMatch list"
  dr_Cancelled :: bool

definition empty_dry_run :: DryRunResult where
  "empty_dry_run = \<lparr>dr_TotalScanned = 0, dr_TotalMatched = 0, dr_Matches = [], dr_Cancelled = False\<rparr>"

definition match_of :: "email_context \<Rightarrow> rule_result \<Rightarrow> DryRunMatch" where
  "match_of email res = \<lparr>mt_MessageID = e_MessageID email, mt_Subject = e_Subject email, mt_SenderAddress = e_SenderAddress email,
     mt_Action = rr_Action res, mt_Target = rr_Target res, mt_Reason = rr_Reason res\<rparr>"

text \<open>
  The places where the loops look whether the context was cancelled: before an account, before the \<open>j\<close>-th
  message of an account, and at the end.
\<close>

datatype checkpoint = Before_Account int | Before_Message int nat | At_End

definition dry_email ::
  "rule_env \<Rightarrow> time \<Rightarrow> rule \<Rightarrow> email_context \<Rightarrow> DryRunResult \<times> KiroClient option \<Rightarrow> DryRunResult \<times> KiroClient option" where
  "dry_email V now r email s =
     (case s of (res, k) \<Rightarrow>
        let res1 = res\<lparr>dr_TotalScanned := dr_TotalScanned res + 1\<rparr>
        in case Evaluate (rv_lua V) (rv_kiro V) now r email k of
             (Inl _, k1) \<Rightarrow> (res1, k1)
           | (Inr rr, k1) \<Rightarrow>
               if rr_Action rr \<noteq> ''skip''
               then (res1\<lparr>dr_TotalMatched := dr_TotalMatched res1 + 1, dr_Matches := dr_Matches res1 @ [match_of email rr]\<rparr>, k1)
               else (res1, k1))"

fun dry_emails ::
  "rule_env \<Rightarrow> (checkpoint \<Rightarrow> bool) \<Rightarrow> time \<Rightarrow> rule \<Rightarrow> int \<Rightarrow> nat \<Rightarrow> email_context list \<Rightarrow> DryRunResult \<times> KiroClient option
     \<Rightarrow> DryRunResult \<times> KiroClient option" where
  "dry_emails V ctxErr now r aid j [] s = s"
| "dry_emails V ctxErr now r aid j (email # es) s =
     (if ctxErr (Before_Message aid j) then s
      else dry_emails V ctxErr now r aid (j + 1) es (dry_email V now r email s))"

text \<open>The loop over the accounts; \<open>i\<close> numbers its queries.\<close>

fun dry_accounts ::
  "api_env \<Rightarrow> rule_env \<Rightarrow> crypt \<Rightarrow> (int \<Rightarrow> inbox_net) \<Rightarrow> (checkpoint \<Rightarrow> bool) \<Rightarrow> int \<Rightarrow> rule \<Rightarrow> int \<Rightarrow> db \<Rightarrow> nat \<Rightarrow> account list
     \<Rightarrow> DryRunResult \<times> KiroClient option \<Rightarrow> DryRunResult \<times> KiroClient option" where
  "dry_accounts A V C net ctxErr t r limit d i [] s = s"
| "dry_accounts A V C net ctxErr t r limit d i (acc # accs) s =
     (if ctxErr (Before_Account (a_ID acc)) then s
      else if \<not> a_Active acc then dry_accounts A V C net ctxErr t r limit d (i + 1) accs s
      else (case read_at A i (GetAccount C t (a_ID acc) d) of
         Inl _ \<Rightarrow> dry_accounts A V C net ctxErr t r limit d (i + 1) accs s
       | Inr fullAcc \<Rightarrow>
           (case fetchINBOXEmails (kv_unicode (rv_kiro V)) (net (a_ID acc)) (ap_now A) fullAcc limit of
              Inl _ \<Rightarrow> dry_accounts A V C net ctxErr t r limit d (i + 1) accs s
            | Inr emails \<Rightarrow>
                dry_accounts A V C net ctxErr t r limit d (i + 1) accs
                  (dry_emails V ctxErr (ap_now A) r (a_ID acc) 0 emails s))))"

definition dry_run ::
  "api_env \<Rightarrow> rule_env \<Rightarrow> crypt \<Rightarrow> (int \<Rightarrow> inbox_net) \<Rightarrow> (checkpoint \<Rightarrow> bool) \<Rightarrow> int \<Rightarrow> rule \<Rightarrow> int \<Rightarrow> db \<Rightarrow> KiroClient option
     \<Rightarrow> (dberr + DryRunResult) \<times> KiroClient option" where
  "dry_run A V C net ctxErr t r limit d k =
     (case read_at A 11 (Inr (ListAccounts t d)) of
        Inl e \<Rightarrow> (Inl e, k)
      | Inr accs \<Rightarrow>
          if length accs = 0 then (Inr empty_dry_run, k)
          else (case dry_accounts A V C net ctxErr t r limit d 12 accs (empty_dry_run, k) of
             (res, k1) \<Rightarrow> (Inr (if ctxErr At_End then res\<lparr>dr_Cancelled := True\<rparr> else res), k1)))"

definition omit_false :: "string \<Rightarrow> bool \<Rightarrow> (string \<times> json) list" where
  "omit_false key b = (if b then [(key, J_Bool True)] else [])"

definition match_json :: "DryRunMatch \<Rightarrow> json" where
  "match_json m = J_Obj [(''message_id'', J_Str (mt_MessageID m)), (''subject'', J_Str (mt_Subject m)),
     (''sender_address'', J_Str (mt_SenderAddress m)), (''action'', J_Str (mt_Action m)), (''target'', J_Str (mt_Target m)),
     (''reason'', J_Str (mt_Reason m))]"

definition dry_json :: "DryRunResult \<Rightarrow> json" where
  "dry_json r = J_Obj ([(''total_scanned'', J_Int (dr_TotalScanned r)), (''total_matched'', J_Int (dr_TotalMatched r)),
     (''matches'', J_List (map match_json (dr_Matches r)))] @ omit_false ''cancelled'' (dr_Cancelled r))"

definition dry_response :: "dberr + DryRunResult \<Rightarrow> response" where
  "dry_response res = (case res of Inl _ \<Rightarrow> err_response 500 ''failed to list accounts'' | Inr r \<Rightarrow> (200, dry_json r))"

text \<open>The body of a request is the code and the limit; \<open>n\<close> is the number of the operation.\<close>

definition DryRunAdHoc ::
  "api_env \<Rightarrow> rule_env \<Rightarrow> crypt \<Rightarrow> (int \<Rightarrow> inbox_net) \<Rightarrow> (checkpoint \<Rightarrow> bool) \<Rightarrow> nat \<Rightarrow> ctx \<Rightarrow> (string \<times> int) option \<Rightarrow> db
     \<Rightarrow> KiroClient option \<times> operations \<Rightarrow> response \<times> KiroClient option \<times> operations" where
  "DryRunAdHoc A V C net ctxErr n c body d s =
     (case s of (k, ops) \<Rightarrow>
        case body of
          None \<Rightarrow> (err_response 400 ''invalid request body'', k, ops)
        | Some (code, limit) \<Rightarrow>
            if code = [] then (err_response 400 ''lua_code is required'', k, ops)
            else if \<not> ValidateLua (rv_lua V) code then (invalid_lua V code, k, ops)
            else (let key = adhoc_op_key (tenantID c)
                  in case dry_run A V C net ctxErr (tenantID c) (unsaved_rule ''ad-hoc'' code) limit d k of
                       (res, k1) \<Rightarrow> (dry_response res, k1, end_op key n (begin_op key n ops))))"

text \<open>The rule of the request, with the code of the body if it has one; a body that cannot be parsed is ignored.\<close>

definition requested_rule :: "(string \<times> int) option \<Rightarrow> rule \<Rightarrow> rule" where
  "requested_rule body r =
     (case body of None \<Rightarrow> r | Some (code, _) \<Rightarrow> if code \<noteq> [] then r\<lparr>r_LuaCode := code\<rparr> else r)"

definition requested_limit :: "(string \<times> int) option \<Rightarrow> int" where
  "requested_limit body = (case body of None \<Rightarrow> 0 | Some (_, limit) \<Rightarrow> limit)"

definition DryRunRule ::
  "api_env \<Rightarrow> rule_env \<Rightarrow> crypt \<Rightarrow> (int \<Rightarrow> inbox_net) \<Rightarrow> (checkpoint \<Rightarrow> bool) \<Rightarrow> nat \<Rightarrow> ctx \<Rightarrow> (string \<times> int) option \<Rightarrow> db
     \<Rightarrow> KiroClient option \<times> operations \<Rightarrow> response \<times> KiroClient option \<times> operations" where
  "DryRunRule A V C net ctxErr n c body d s =
     (case s of (k, ops) \<Rightarrow>
        case Atoi (cx_Params c ''id'') of
          None \<Rightarrow> (err_response 400 ''invalid rule ID'', k, ops)
        | Some ident \<Rightarrow>
            (case read_at A 10 (GetRule (tenantID c) ident d) of
               Inl _ \<Rightarrow> (err_response 404 ''rule not found'', k, ops)
             | Inr r \<Rightarrow>
                 (let key = rule_op_key (tenantID c) ident
                  in case dry_run A V C net ctxErr (tenantID c) (requested_rule body r) (requested_limit body) d k of
                       (res, k1) \<Rightarrow> (dry_response res, k1, end_op key n (begin_op key n ops)))))"

subsection \<open>Execution\<close>

record ExecuteResult =
  er_TotalScanned :: int
  er_TotalExecuted :: int
  er_TotalFailed :: int
  er_Results :: "DryRunMatch list"
  er_Errors :: "string list"
  er_Cancelled :: bool

definition empty_execution :: ExecuteResult where
  "empty_execution = \<lparr>er_TotalScanned = 0, er_TotalExecuted = 0, er_TotalFailed = 0, er_Results = [], er_Errors = [], er_Cancelled = False\<rparr>"

definition exec_deferred :: "time \<Rightarrow> rule \<Rightarrow> int \<Rightarrow> email_context \<Rightarrow> rule_result \<Rightarrow> deferred_action" where
  "exec_deferred now r aid email res =
     \<lparr>d_ID = 0, d_RuleID = r_ID r, d_AccountID = aid, d_MessageID = e_MessageID email, d_Action = rr_Target res,
      d_Target = rr_Target res, d_ExecuteAt = execute_at now (rr_Delay res), d_Executed = False, d_Status = [],
      d_ExecutedAt = None, d_Error = [], d_CreatedAt = zero_time\<rparr>"

definition exec_action :: "env \<Rightarrow> time \<Rightarrow> rule \<Rightarrow> int \<Rightarrow> email_context \<Rightarrow> rule_result \<Rightarrow> unit io" where
  "exec_action N now r aid email res =
     (if rr_Action res \<in> {''delete'', ''move'', ''archive'', ''flag''}
      then ExecuteActionByMessageIDForRule N now aid (e_MessageID email) (rr_Action res) (rr_Target res) (r_ID r)
      else if rr_Action res = ''defer'' \<and> 0 < rr_Delay res
      then io_bind (db_do N S_CreateDeferred (CreateDeferredAction now (exec_deferred now r aid email res))) (\<lambda>_. io_return ())
      else io_return ())"

definition exec_log_of :: "rule \<Rightarrow> int \<Rightarrow> email_context \<Rightarrow> rule_result \<Rightarrow> string + unit \<Rightarrow> exec_log" where
  "exec_log_of r aid email res outcome =
     \<lparr>l_ID = 0, l_RuleID = r_ID r, l_AccountID = aid, l_MessageID = e_MessageID email, l_Subject = e_Subject email,
      l_Sender = e_SenderAddress email, l_Action = rr_Action res, l_Target = rr_Target res, l_Success = res_ok outcome,
      l_Error = (case outcome of Inl e \<Rightarrow> e | Inr _ \<Rightarrow> []), l_ExecutedAt = zero_time\<rparr>"

definition count_outcome :: "email_context \<Rightarrow> string + unit \<Rightarrow> ExecuteResult \<Rightarrow> ExecuteResult" where
  "count_outcome email outcome res =
     (case outcome of
        Inl e \<Rightarrow> res\<lparr>er_TotalFailed := er_TotalFailed res + 1, er_Errors := er_Errors res @ [e_MessageID email @ '': '' @ e]\<rparr>
      | Inr _ \<Rightarrow> res\<lparr>er_TotalExecuted := er_TotalExecuted res + 1\<rparr>)"

definition exec_email ::
  "rule_env \<Rightarrow> env \<Rightarrow> time \<Rightarrow> rule \<Rightarrow> int \<Rightarrow> email_context \<Rightarrow> ExecuteResult \<times> world \<Rightarrow> ExecuteResult \<times> world" where
  "exec_email V N now r aid email s =
     (case s of (res, w) \<Rightarrow>
        let res1 = res\<lparr>er_TotalScanned := er_TotalScanned res + 1\<rparr>
        in case Evaluate (rv_lua V) (rv_kiro V) now r email (w_kiro w) of
             (Inl _, k) \<Rightarrow> (res1, w\<lparr>w_kiro := k\<rparr>)
           | (Inr rr, k) \<Rightarrow>
               if rr_Action rr = ''skip'' then (res1, w\<lparr>w_kiro := k\<rparr>)
               else (case exec_action N now r aid email rr (w\<lparr>w_kiro := k\<rparr>) of
                  (outcome, w1) \<Rightarrow>
                    (let res2 = count_outcome email outcome res1
                     in (res2\<lparr>er_Results := er_Results res2 @ [match_of email rr]\<rparr>,
                         snd (db_do N S_LogExecution (LogExecution now (exec_log_of r aid email rr outcome)) w1)))))"

text \<open>\<open>Ns aid j\<close> is what the \<open>j\<close>-th message of the account meets outside.\<close>

fun exec_emails ::
  "rule_env \<Rightarrow> (nat \<Rightarrow> env) \<Rightarrow> (checkpoint \<Rightarrow> bool) \<Rightarrow> time \<Rightarrow> rule \<Rightarrow> int \<Rightarrow> nat \<Rightarrow> email_context list \<Rightarrow> ExecuteResult \<times> world
     \<Rightarrow> ExecuteResult \<times> world" where
  "exec_emails V Ns ctxErr now r aid j [] s = s"
| "exec_emails V Ns ctxErr now r aid j (email # es) s =
     (if ctxErr (Before_Message aid j) then s
      else exec_emails V Ns ctxErr now r aid (j + 1) es (exec_email V (Ns j) now r aid email s))"

fun exec_accounts ::
  "api_env \<Rightarrow> rule_env \<Rightarrow> crypt \<Rightarrow> (int \<Rightarrow> inbox_net) \<Rightarrow> (int \<Rightarrow> nat \<Rightarrow> env) \<Rightarrow> (checkpoint \<Rightarrow> bool) \<Rightarrow> int \<Rightarrow> rule \<Rightarrow> int \<Rightarrow> nat
     \<Rightarrow> account list \<Rightarrow> ExecuteResult \<times> world \<Rightarrow> ExecuteResult \<times> world" where
  "exec_accounts A V C net Ns ctxErr t r limit i [] s = s"
| "exec_accounts A V C net Ns ctxErr t r limit i (acc # accs) s =
     (if ctxErr (Before_Account (a_ID acc)) then s
      else if \<not> a_Active acc then exec_accounts A V C net Ns ctxErr t r limit (i + 1) accs s
      else (case read_at A i (GetAccount C t (a_ID acc) (w_db (snd s))) of
         Inl _ \<Rightarrow> exec_accounts A V C net Ns ctxErr t r limit (i + 1) accs s
       | Inr fullAcc \<Rightarrow>
           (case fetchINBOXEmails (kv_unicode (rv_kiro V)) (net (a_ID acc)) (ap_now A) fullAcc limit of
              Inl e \<Rightarrow>
                exec_accounts A V C net Ns ctxErr t r limit (i + 1) accs
                  ((fst s)\<lparr>er_Errors := er_Errors (fst s) @ [''account '' @ FormatInt (a_ID acc) @ '': '' @ e]\<rparr>, snd s)
            | Inr emails \<Rightarrow>
                exec_accounts A V C net Ns ctxErr t r limit (i + 1) accs
                  (exec_emails V (Ns (a_ID acc)) ctxErr (ap_now A) r (a_ID acc) 0 emails s))))"

text \<open>
  The executor of the handler starts without connections and is closed at the end; \<open>N\<close> is what the
  closing meets, \<open>ids\<close> the order in which the connections are visited.
\<close>

definition execute_rule ::
  "api_env \<Rightarrow> rule_env \<Rightarrow> crypt \<Rightarrow> (int \<Rightarrow> inbox_net) \<Rightarrow> (int \<Rightarrow> nat \<Rightarrow> env) \<Rightarrow> env \<Rightarrow> int list \<Rightarrow> (checkpoint \<Rightarrow> bool) \<Rightarrow> int \<Rightarrow> rule \<Rightarrow> int
     \<Rightarrow> world \<Rightarrow> (dberr + ExecuteResult) \<times> world" where
  "execute_rule A V C net Ns N ids ctxErr t r limit w =
     (case read_at A 11 (Inr (ListAccounts t (w_db w))) of
        Inl e \<Rightarrow> (Inl e, w)
      | Inr accs \<Rightarrow>
          if length accs = 0 then (Inr empty_execution, w)
          else (case exec_accounts A V C net Ns ctxErr t r limit 12 accs (empty_execution, w\<lparr>w_conns := Map.empty\<rparr>) of
             (res, w1) \<Rightarrow> (Inr (if ctxErr At_End then res\<lparr>er_Cancelled := True\<rparr> else res), close_all N ids w1)))"

definition exec_json :: "ExecuteResult \<Rightarrow> json" where
  "exec_json r = J_Obj ([(''total_scanned'', J_Int (er_TotalScanned r)), (''total_executed'', J_Int (er_TotalExecuted r)),
     (''total_failed'', J_Int (er_TotalFailed r)), (''results'', J_List (map match_json (er_Results r)))] @
     (if er_Errors r = [] then [] else [(''errors'', J_List (map J_Str (er_Errors r)))]) @ omit_false ''cancelled'' (er_Cancelled r))"

definition ExecuteRule ::
  "api_env \<Rightarrow> rule_env \<Rightarrow> crypt \<Rightarrow> (int \<Rightarrow> inbox_net) \<Rightarrow> (int \<Rightarrow> nat \<Rightarrow> env) \<Rightarrow> env \<Rightarrow> int list \<Rightarrow> (checkpoint \<Rightarrow> bool) \<Rightarrow> nat \<Rightarrow> ctx
     \<Rightarrow> (string \<times> int) option \<Rightarrow> world \<times> operations \<Rightarrow> response \<times> world \<times> operations" where
  "ExecuteRule A V C net Ns N ids ctxErr n c body s =
     (case s of (w, ops) \<Rightarrow>
        case Atoi (cx_Params c ''id'') of
          None \<Rightarrow> (err_response 400 ''invalid rule ID'', w, ops)
        | Some ident \<Rightarrow>
            (case read_at A 10 (GetRule (tenantID c) ident (w_db w)) of
               Inl _ \<Rightarrow> (err_response 404 ''rule not found'', w, ops)
             | Inr r \<Rightarrow>
                 (let key = rule_op_key (tenantID c) ident; ops1 = end_op key n (begin_op key n ops)
                  in case execute_rule A V C net Ns N ids ctxErr (tenantID c) (requested_rule body r) (requested_limit body) w of
                       (Inl _, w1) \<Rightarrow> (err_response 500 ''failed to list accounts'', w1, ops1)
                     | (Inr res, w1) \<Rightarrow> ((200, exec_json res), w1, ops1))))"

end
