(* ===== verification/Polling.thy ===== *)
theory Polling
  imports Learning
begin

text \<open>
  What \<open>pollNewMessages\<close> of \<^verbatim>\<open>internal/imaplistener/listener.go\<close> publishes: every new message, none twice
  over any sequence of polls, and what happens to a message that the event bus refuses.
\<close>

subsection \<open>The events of a poll\<close>

lemma concat_batches: "0 < n \<Longrightarrow> concat (batches n xs) = xs"
proof (induction n xs rule: batches.induct)
  case (1 n xs)
  then show ?case by (cases "xs = []") (simp_all add: batches.simps)
qed

text \<open>The event that a fetched message gives, unless it is processed already or has no envelope.\<close>

definition event_of :: "env \<Rightarrow> inbox \<Rightarrow> time \<Rightarrow> account \<Rightarrow> db \<Rightarrow> string + message_buf \<Rightarrow> incoming_event option" where
  "event_of N S now acc d m =
     (case m of
        Inl _ \<Rightarrow> None
      | Inr buf \<Rightarrow>
          if \<not> en_fault N (S_FetchProcessed (mb_UID buf)) \<and> IsMessageProcessed (a_ID acc) (FormatUID (mb_UID buf)) d then None
          else map_option (attach_images N S buf) (bufferToEvent (en_unicode N) (ib_ReadFields S) now acc buf))"

definition incoming_subject :: "account \<Rightarrow> string" where
  "incoming_subject acc = ''email.incoming.'' @ FormatInt (a_ID acc)"

definition accepted :: "env \<Rightarrow> account \<Rightarrow> incoming_event \<Rightarrow> bool" where
  "accepted N acc e = en_publish N (incoming_subject acc) (Incoming e)"

definition poll_events :: "env \<Rightarrow> inbox \<Rightarrow> time \<Rightarrow> account \<Rightarrow> db \<Rightarrow> uid list \<Rightarrow> incoming_event list" where
  "poll_events N S now acc d us =
     filter (accepted N acc) (List.map_filter (event_of N S now acc d) (concat (map (ib_FetchUIDs S) (batches 50 us))))"

definition published_events :: "account \<Rightarrow> incoming_event list \<Rightarrow> (string \<times> bus_event) list" where
  "published_events acc es = map (\<lambda>e. (incoming_subject acc, Incoming e)) es"

lemma publish_message_event:
  "publish_message N S now acc m w =
     (case event_of N S now acc (w_db w) m of
        None \<Rightarrow> w
      | Some e \<Rightarrow> if accepted N acc e then w\<lparr>w_bus := w_bus w @ [(incoming_subject acc, Incoming e)]\<rparr> else w)"
  by (auto simp: publish_message_def event_of_def accepted_def PublishToStream_def incoming_subject_def db_read_def db_do_def stmt_def
      split: sum.split option.split)

lemma publish_fold:
  "fold (publish_message N S now acc) ms w =
     w\<lparr>w_bus := w_bus w @ published_events acc (filter (accepted N acc) (List.map_filter (event_of N S now acc (w_db w)) ms))\<rparr>"
  by (induction ms arbitrary: w)
    (auto simp: publish_message_event published_events_def map_filter_simps split: option.split)

lemma published_append: "published_events acc (xs @ ys) = published_events acc xs @ published_events acc ys"
  by (simp add: published_events_def)

lemma batches_nonempty: "b \<in> set (batches n xs) \<Longrightarrow> b \<noteq> []"
proof (induction n xs rule: batches.induct)
  case (1 n xs)
  then show ?case by (auto simp: batches.simps [of n xs] split: if_splits)
qed

lemma map_filter_app: "List.map_filter f (xs @ ys) = List.map_filter f xs @ List.map_filter f ys"
  by (simp add: List.map_filter_def)

lemma publish_batches:
  assumes "\<forall>b \<in> set bs. b \<noteq> []"
  shows "fold (publishBatch N S now acc) bs w = w\<lparr>w_bus := w_bus w @ published_events acc
    (filter (accepted N acc) (List.map_filter (event_of N S now acc (w_db w)) (concat (map (ib_FetchUIDs S) bs))))\<rparr>"
  using assms
  by (induction bs arbitrary: w)
    (simp_all add: publishBatch_def publish_fold map_filter_app published_append published_events_def map_filter_simps(2))

lemma poll_events_fold:
  "fold (publishBatch N S now acc) (batches 50 us) w = w\<lparr>w_bus := w_bus w @ published_events acc (poll_events N S now acc (w_db w) us)\<rparr>"
proof -
  have "\<forall>b \<in> set (batches 50 us). b \<noteq> []" using batches_nonempty by blast
  from publish_batches [OF this] show ?thesis unfolding poll_events_def .
qed

lemma poll_events_none [simp]: "poll_events N S now acc d [] = []"
  by (simp add: poll_events_def batches.simps map_filter_simps)

subsection \<open>The last UID\<close>

lemma GetLast_update:
  assumes "GetLastUIDProcessed aid d = Inr u0"
  shows "GetLastUIDProcessed aid (snd (update_account aid (\<lambda>r. r\<lparr>a_LastUIDProcessed := u, a_LastSyncAt := t\<rparr>) d)) = Inr (u mod 2 ^ 32)"
    and "GetLastUIDProcessed aid (snd (update_account aid (\<lambda>r. r\<lparr>a_LastSyncAt := t\<rparr>) d)) = Inr u0"
proof -
  have "find (\<lambda>a. a_ID a = aid) (upd (\<lambda>a. a_ID a = aid) g xs) = map_option g (find (\<lambda>a. a_ID a = aid) xs)"
    if "\<And>r. a_ID (g r) = a_ID r" for g and xs :: "account list"
    using that by (induction xs) (auto simp: upd_def)
  with assms show "GetLastUIDProcessed aid (snd (update_account aid (\<lambda>r. r\<lparr>a_LastUIDProcessed := u, a_LastSyncAt := t\<rparr>) d)) = Inr (u mod 2 ^ 32)"
    "GetLastUIDProcessed aid (snd (update_account aid (\<lambda>r. r\<lparr>a_LastSyncAt := t\<rparr>) d)) = Inr u0"
    by (auto simp: GetLastUIDProcessed_def get_row_def res_bind_def update_account_def split: option.splits)
qed

lemma fold_max_above: "u0 < a \<Longrightarrow> fold max (filter (\<lambda>u. u0 < u) us) a = fold max us (a::nat)"
proof (induction us arbitrary: a)
  case (Cons u us)
  then show ?case by (cases "u0 < u") (simp_all add: max_def)
qed simp

lemma fold_max_filter:
  "filter (\<lambda>u. u0 < u) us \<noteq> [] \<Longrightarrow> fold max (filter (\<lambda>u. u0 < u) us) 0 = fold max us (u0::nat)"
proof (induction us)
  case (Cons u us)
  then show ?case by (cases "u0 < u") (simp_all add: fold_max_above max_absorb1 max_absorb2)
qed simp

lemma fold_max_bounds: "(u0::nat) \<le> fold max us u0" "u \<in> set us \<Longrightarrow> u \<le> fold max us u0"
  "\<forall>u \<in> set us. u < b \<Longrightarrow> u0 < b \<Longrightarrow> fold max us u0 < b"
proof -
  have "fold max us u0 = Max (insert u0 (set us))" by (metis Max.set_eq_fold list.simps(15))
  then show "u0 \<le> fold max us u0" "u \<in> set us \<Longrightarrow> u \<le> fold max us u0"
    "\<forall>u \<in> set us. u < b \<Longrightarrow> u0 < b \<Longrightarrow> fold max us u0 < b" by auto
qed

lemma GetLast_bound: "GetLastUIDProcessed aid d = Inr u0 \<Longrightarrow> u0 < 2 ^ 32"
  by (auto simp: GetLastUIDProcessed_def res_bind_def split: sum.splits)

text \<open>
  A poll that reads the last UID and the mailbox: the events it adds, and the last UID it stores. The
  UIDs of IMAP have 32 bits.
\<close>

lemma poll_spec:
  assumes u0: "GetLastUIDProcessed (a_ID acc) (w_db w) = Inr u0" "\<not> en_fault N S_LastUID"
    and box: "ib_SearchAll S = Inr box"
  shows "w_bus (snd (pollNewMessages N S now acc w)) =
      w_bus w @ published_events acc (poll_events N S now acc (w_db w) (filter (\<lambda>u. u0 < u) box))"
    and "fst (pollNewMessages N S now acc w) = Inr ()"
    and "\<not> en_fault N S_UpdateUID \<Longrightarrow> \<forall>u \<in> set box. u < 2 ^ 32 \<Longrightarrow>
      GetLastUIDProcessed (a_ID acc) (w_db (snd (pollNewMessages N S now acc w))) = Inr (fold max box u0)"
proof -
  let ?us = "filter (\<lambda>u. u0 < u) box"
  let ?w2 = "w\<lparr>w_bus := w_bus w @ published_events acc (poll_events N S now acc (w_db w) ?us)\<rparr>"
  have read: "db_read N S_LastUID (GetLastUIDProcessed (a_ID acc)) w = (Inr u0, w)"
    using u0 by (simp add: db_read_def db_do_def stmt_def)
  have pos: "0 < fold max ?us 0" if "?us \<noteq> []"
  proof -
    have "hd ?us \<in> set ?us" by (rule hd_in_set) (rule that)
    then have "u0 < hd ?us" "hd ?us \<le> fold max ?us 0" using fold_max_bounds(2) [of "hd ?us" ?us 0] by auto
    then show ?thesis by linarith
  qed
  have poll: "pollNewMessages N S now acc w =
      (if ?us = [] then io_try (db_do N S_SyncTime (UpdateAccountSyncTime now (a_ID acc))) w
       else io_try (db_do N S_UpdateUID (UpdateLastUIDProcessed now (a_ID acc) (fold max ?us 0))) ?w2)"
    using pos by (simp add: pollNewMessages_def read box Let_def poll_events_fold)
  show "w_bus (snd (pollNewMessages N S now acc w)) =
      w_bus w @ published_events acc (poll_events N S now acc (w_db w) ?us)"
    unfolding poll by (auto simp: io_try_def db_do_def published_events_def split: prod.split sum.split)
  show "fst (pollNewMessages N S now acc w) = Inr ()" unfolding poll by (simp add: io_try_def)
  show "GetLastUIDProcessed (a_ID acc) (w_db (snd (pollNewMessages N S now acc w))) = Inr (fold max box u0)"
    if nofault: "\<not> en_fault N S_UpdateUID" and bound: "\<forall>u \<in> set box. u < 2 ^ 32"
  proof (cases "?us = []")
    case True
    have "fold max box u0 = u0" using True by (induction box) (auto simp: max_def split: if_splits)
    then show ?thesis unfolding poll using True u0 GetLast_update(2) [OF u0(1)]
      by (auto simp: io_try_def db_do_def stmt_def UpdateAccountSyncTime_def update_account_def)
  next
    case False
    have "fold max box u0 < 2 ^ 32" using fold_max_bounds(3) bound GetLast_bound [OF u0(1)] by blast
    then show ?thesis unfolding poll fold_max_filter [OF False] using False nofault GetLast_update(1) [OF u0(1)]
      by (simp add: io_try_def db_do_def stmt_def UpdateLastUIDProcessed_def update_account_def)
  qed
qed

subsection \<open>No message is published twice\<close>

definition fetched_uids :: "(string + message_buf) list \<Rightarrow> uid list" where
  "fetched_uids ms = List.map_filter (\<lambda>m. case m of Inl _ \<Rightarrow> None | Inr buf \<Rightarrow> Some (mb_UID buf)) ms"

text \<open>What IMAP promises of FETCH: it answers for the messages that were asked for, once each.\<close>

definition fetch_ok :: "inbox \<Rightarrow> bool" where
  "fetch_ok S \<longleftrightarrow> (\<forall>us. set (fetched_uids (ib_FetchUIDs S us)) \<subseteq> set us \<and>
     (distinct us \<longrightarrow> distinct (fetched_uids (ib_FetchUIDs S us))))"

text \<open>What IMAP promises of the UIDs of a mailbox: each names one message, and they have 32 bits.\<close>

definition box_ok :: "inbox \<Rightarrow> bool" where
  "box_ok S = (case ib_SearchAll S of Inl _ \<Rightarrow> True | Inr box \<Rightarrow> distinct box \<and> list_all (\<lambda>u. u < 2 ^ 32) box)"

definition poll_all :: "account \<Rightarrow> (env \<times> inbox \<times> time) list \<Rightarrow> world \<Rightarrow> world" where
  "poll_all acc rs w = fold (\<lambda>(N, S, now) w. snd (pollNewMessages N S now acc w)) rs w"

lemma attach_images_UID: "ev_UID (attach_images N S buf ev) = ev_UID ev"
  by (simp add: attach_images_def Let_def split: option.split)

lemma event_of_UID:
  assumes "event_of N S now acc d m = Some e"
  obtains buf where "m = Inr buf" and "ev_UID e = mb_UID buf"
  using assms
  by (auto simp: event_of_def attach_images_UID bufferToEvent_def Let_def split: sum.splits if_splits option.splits prod.splits)

lemma fetched_uids_simps [simp]:
  "fetched_uids [] = []" "fetched_uids (Inl e # ms) = fetched_uids ms" "fetched_uids (Inr b # ms) = mb_UID b # fetched_uids ms"
  "fetched_uids (ms @ ms') = fetched_uids ms @ fetched_uids ms'"
  by (simp_all add: fetched_uids_def map_filter_simps map_filter_app)

lemma events_uids:
  "set (map ev_UID (filter P (List.map_filter (event_of N S now acc d) ms))) \<subseteq> set (fetched_uids ms) \<and>
   (distinct (fetched_uids ms) \<longrightarrow> distinct (map ev_UID (filter P (List.map_filter (event_of N S now acc d) ms))))"
proof (induction ms)
  case (Cons m ms)
  show ?case
  proof (cases "event_of N S now acc d m")
    case None
    with Cons show ?thesis by (cases m) (auto simp: map_filter_simps)
  next
    case (Some e)
    then obtain buf where "m = Inr buf" "ev_UID e = mb_UID buf" by (rule event_of_UID)
    with Some Cons show ?thesis by (auto simp: map_filter_simps)
  qed
qed (simp add: map_filter_simps)

lemma fetch_batches:
  assumes "fetch_ok S"
  shows "set (fetched_uids (concat (map (ib_FetchUIDs S) bs))) \<subseteq> set (concat bs) \<and>
    (distinct (concat bs) \<longrightarrow> distinct (fetched_uids (concat (map (ib_FetchUIDs S) bs))))"
proof (induction bs)
  case (Cons b bs)
  have "set (fetched_uids (ib_FetchUIDs S b)) \<subseteq> set b" "distinct b \<longrightarrow> distinct (fetched_uids (ib_FetchUIDs S b))"
    using assms by (simp_all add: fetch_ok_def)
  with Cons show ?case by simp blast
qed simp

lemma poll_events_uids:
  assumes "fetch_ok S" and "distinct us"
  shows "set (map ev_UID (poll_events N S now acc d us)) \<subseteq> set us" and "distinct (map ev_UID (poll_events N S now acc d us))"
proof -
  let ?ms = "concat (map (ib_FetchUIDs S) (batches 50 us))"
  have "set (fetched_uids ?ms) \<subseteq> set us \<and> distinct (fetched_uids ?ms)"
    using fetch_batches [OF assms(1), of "batches 50 us"] assms(2) by (simp add: concat_batches)
  with events_uids [where ms = ?ms and P = "accepted N acc"] show "set (map ev_UID (poll_events N S now acc d us)) \<subseteq> set us"
    "distinct (map ev_UID (poll_events N S now acc d us))"
    unfolding poll_events_def by blast+
qed

definition uid_of_event :: "account \<Rightarrow> string \<times> bus_event \<Rightarrow> uid option" where
  "uid_of_event acc entry =
     (case entry of (s, Incoming e) \<Rightarrow> if s = incoming_subject acc then Some (ev_UID e) else None | _ \<Rightarrow> None)"

lemma uids_of_published: "List.map_filter (uid_of_event acc) (published_events acc es) = map ev_UID es"
  by (induction es) (simp_all add: published_events_def uid_of_event_def map_filter_simps)

definition account_uids :: "account \<Rightarrow> world \<Rightarrow> uid list" where
  "account_uids acc w = List.map_filter (uid_of_event acc) (w_bus w)"

lemma account_uids_append:
  "w_bus w' = w_bus w @ published_events acc es \<Longrightarrow> account_uids acc w' = account_uids acc w @ map ev_UID es"
  by (simp add: account_uids_def map_filter_app uids_of_published)

lemma poll_failed:
  assumes "ib_SearchAll S = Inl e \<or> en_fault N S_LastUID"
  shows "snd (pollNewMessages N S now acc w) = w"
  using assms
  by (auto simp: pollNewMessages_def db_read_def db_do_def stmt_def split: prod.split sum.split)


subsection \<open>Every new message is published\<close>

lemma bufferToEvent_None: "bufferToEvent U rd now acc buf = None \<longleftrightarrow> mb_Envelope buf = None"
  by (simp add: bufferToEvent_def Let_def split: option.split prod.split)

lemma events_of_messages:
  assumes "\<And>u. mb_UID (msg u) = u"
  shows "map ev_UID (List.map_filter (event_of N S now acc d) (map (\<lambda>u. Inr (msg u)) us)) =
    filter (\<lambda>u. mb_Envelope (msg u) \<noteq> None \<and>
      (en_fault N (S_FetchProcessed u) \<or> \<not> IsMessageProcessed (a_ID acc) (FormatUID u) d)) us"
proof (induction us)
  case (Cons u us)
  let ?m = "Inr (msg u) :: string + message_buf"
  have none: "event_of N S now acc d ?m = None \<longleftrightarrow> mb_Envelope (msg u) = None \<or>
      \<not> en_fault N (S_FetchProcessed u) \<and> IsMessageProcessed (a_ID acc) (FormatUID u) d"
    by (auto simp: event_of_def assms bufferToEvent_None)
  show ?case
  proof (cases "event_of N S now acc d ?m")
    case None
    with none Cons.IH show ?thesis by (auto simp: map_filter_simps)
  next
    case (Some e)
    then have "ev_UID e = u" by (rule event_of_UID) (simp add: assms)
    with Some none Cons.IH show ?thesis by (auto simp: map_filter_simps)
  qed
qed (simp add: map_filter_simps)

text \<open>
  C15. A poll publishes every new message: when the server answers and the event bus accepts, the poll adds
  exactly one event for each message of the inbox above the last UID that has an envelope and is not
  known to be processed, in the order of the mailbox, whatever their number; and it stores the highest UID.
\<close>
theorem poll_publishes_every_new:
  assumes "GetLastUIDProcessed (a_ID acc) (w_db w) = Inr u0" and "\<not> en_fault N S_LastUID" and "\<not> en_fault N S_UpdateUID"
    and "ib_SearchAll S = Inr box" and "\<And>us. ib_FetchUIDs S us = map (\<lambda>u. Inr (msg u)) us" and "\<And>u. mb_UID (msg u) = u"
    and "\<And>e. en_publish N (incoming_subject acc) (Incoming e)" and "\<forall>u \<in> set box. u < 2 ^ 32"
  shows "account_uids acc (snd (pollNewMessages N S now acc w)) = account_uids acc w @
      filter (\<lambda>u. u0 < u \<and> mb_Envelope (msg u) \<noteq> None \<and>
        (en_fault N (S_FetchProcessed u) \<or> \<not> IsMessageProcessed (a_ID acc) (FormatUID u) (w_db w))) box \<and>
    fst (pollNewMessages N S now acc w) = Inr () \<and>
    GetLastUIDProcessed (a_ID acc) (w_db (snd (pollNewMessages N S now acc w))) = Inr (fold max box u0)"
proof -
  let ?us = "filter (\<lambda>u. u0 < u) box"
  have "concat (map (ib_FetchUIDs S) (batches 50 ?us)) = map (\<lambda>u. Inr (msg u)) (concat (batches 50 ?us))"
    unfolding map_concat by (rule arg_cong [of _ _ concat]) (rule map_cong [OF refl assms(5)])
  then have "concat (map (ib_FetchUIDs S) (batches 50 ?us)) = map (\<lambda>u. Inr (msg u)) ?us" by (simp add: concat_batches)
  moreover have "accepted N acc e" for e using assms(7) by (simp add: accepted_def)
  ultimately have "map ev_UID (poll_events N S now acc (w_db w) ?us) = filter (\<lambda>u. mb_Envelope (msg u) \<noteq> None \<and>
      (en_fault N (S_FetchProcessed u) \<or> \<not> IsMessageProcessed (a_ID acc) (FormatUID u) (w_db w))) ?us"
    by (simp add: poll_events_def events_of_messages [OF assms(6)])
  note uids = this [unfolded filter_filter]
  show ?thesis
    using account_uids_append [OF poll_spec(1) [OF assms(1,2,4)], of now] poll_spec(2,3) [OF assms(1,2,4)] assms(3,8)
    unfolding uids by (simp add: conj_ac)
qed

subsection \<open>Refused messages\<close>

lemma poll_events_refused: "(\<And>e. \<not> accepted N acc e) \<Longrightarrow> poll_events N S now acc d us = []"
  by (simp add: poll_events_def)

text \<open>
  A message that the event bus refuses is lost: the poll stores the highest UID all the same, so that no
  later poll of the same mailbox publishes any of its messages, even when the bus accepts again.
\<close>
theorem refused_messages_lost:
  assumes "GetLastUIDProcessed (a_ID acc) (w_db w) = Inr u0" and "\<not> en_fault N S_LastUID" and "\<not> en_fault N S_UpdateUID"
    and "ib_SearchAll S = Inr box" and "\<forall>u \<in> set box. u < 2 ^ 32" and "\<And>e. \<not> en_publish N (incoming_subject acc) (Incoming e)"
    and "\<not> en_fault N' S_LastUID"
  shows "w_bus (poll_all acc [(N, S, t), (N', S, t')] w) = w_bus w"
proof -
  let ?w1 = "snd (pollNewMessages N S t acc w)"
  have "w_bus ?w1 = w_bus w"
    using poll_spec(1) [OF assms(1,2,4)] assms(6) by (simp add: poll_events_refused accepted_def published_events_def)
  moreover have "GetLastUIDProcessed (a_ID acc) (w_db ?w1) = Inr (fold max box u0)"
    using poll_spec(3) [OF assms(1,2,4)] assms(3,5) by blast
  from poll_spec(1) [OF this assms(7,4)] have "w_bus (snd (pollNewMessages N' S t' acc ?w1)) = w_bus ?w1"
    using fold_max_bounds(2) [of _ box u0] by (simp add: filter_False leD published_events_def)
  ultimately show ?thesis by (simp add: poll_all_def)
qed

subsection \<open>Instances\<close>

definition sample_box :: inbox where
  "sample_box = \<lparr>ms_Select = (\<lambda>f. Inr 1), ms_FetchAll = (\<lambda>f. []), ib_SearchAll = Inr [7, 9],
     ib_FetchUIDs = (\<lambda>us. map (\<lambda>u. Inr (sample_message\<lparr>mb_UID := u\<rparr>)) us), ib_FetchParts = (\<lambda>_ _. []),
     ib_List = sample_folders, ib_ReadFields = (\<lambda>_. None)\<rparr>"

lemma sample_last: "GetLastUIDProcessed (a_ID sample_account) (w_db (sample_world ''move'')) = Inr 0"
  by (simp add: GetLastUIDProcessed_def get_row_def res_bind_def sample_defs)

lemma sample_box_ok: "fetch_ok sample_box" "box_ok sample_box"
proof -
  have "fetched_uids (map (\<lambda>u. Inr (sample_message\<lparr>mb_UID := u\<rparr>)) us) = us" for us
    by (induction us) simp_all
  then show "fetch_ok sample_box" by (simp add: fetch_ok_def sample_box_def)
  show "box_ok sample_box" by (simp add: box_ok_def sample_box_def)
qed

theorem poll_publishes_every_new_witness:
  "account_uids sample_account (snd (pollNewMessages (sample_env R_OK) sample_box 5 sample_account (sample_world ''move''))) = [7, 9]"
proof -
  let ?w = "sample_world ''move''"
  have p: "\<not> IsMessageProcessed aid u (w_db ?w)" for aid u
    by (simp add: IsMessageProcessed_def rows_affected_def sample_defs)
  have "account_uids sample_account (snd (pollNewMessages (sample_env R_OK) sample_box 5 sample_account ?w)) = account_uids sample_account ?w @
      filter (\<lambda>u. 0 < u \<and> mb_Envelope (sample_message\<lparr>mb_UID := u\<rparr>) \<noteq> None \<and>
        (en_fault (sample_env R_OK) (S_FetchProcessed u) \<or> \<not> IsMessageProcessed (a_ID sample_account) (FormatUID u) (w_db ?w))) [7, 9]"
    using poll_publishes_every_new [OF sample_last, where N = "sample_env R_OK" and S = sample_box
        and msg = "\<lambda>u. sample_message\<lparr>mb_UID := u\<rparr>" and box = "[7, 9]" and now = 5]
    by (simp add: sample_env_def sample_box_def)
  moreover have "account_uids sample_account ?w = []" by (simp add: account_uids_def map_filter_simps sample_world_def)
  ultimately show ?thesis using p by (simp add: sample_message_def)
qed


theorem refused_messages_lost_witness:
  "w_bus (poll_all sample_account [((sample_env R_OK)\<lparr>en_publish := \<lambda>_ _. False\<rparr>, sample_box, 5), (sample_env R_OK, sample_box, 6)]
     (sample_world ''move'')) = []"
  using refused_messages_lost [OF sample_last, of "(sample_env R_OK)\<lparr>en_publish := \<lambda>_ _. False\<rparr>" sample_box "[7, 9]" "sample_env R_OK" 5 6]
  by (simp add: sample_box_def sample_world_def sample_env_def)

subsection \<open>The loop over the batches\<close>

lemma batches_ends:
  assumes "0 < n"
  shows "concat (batches n xs) = xs \<and> list_all (\<lambda>b. b \<noteq> [] \<and> length b \<le> n) (batches n xs) \<and>
    length (batches n xs) = (length xs + n - 1) div n"
proof (induction "length xs" arbitrary: xs rule: less_induct)
  case less
  show ?case
  proof (cases "xs = []")
    case False
    have "length (drop n xs) < length xs" using False assms by simp
    note IH = less [OF this]
    have "length (batches n xs) = Suc ((length xs - n + n - 1) div n)"
      using IH False assms by (simp add: batches.simps [of n xs])
    also have "(length xs - n + n - 1) div n = (length xs - 1) div n"
      using False assms by (cases "length xs \<le> n") (simp_all add: Suc_le_eq less_imp_diff_less)
    also have "Suc ((length xs - 1) div n) = (length xs - 1 + n) div n" using assms by simp
    also have "length xs - 1 + n = length xs + n - 1" using False by (cases xs) simp_all
    finally show ?thesis using IH False assms by (simp add: batches.simps [of n xs])
  qed (use assms in \<open>simp add: batches.simps\<close>)
qed

text \<open>
  C38. The loop of a poll ends, after one batch for every 50 new messages or part of it: no batch is empty or
  larger than 50, and together they are the new messages in their order, each in exactly one batch.
\<close>
theorem batch_loop_ends:
  "length (batches 50 uids) = (length uids + 49) div 50 \<and>
   list_all (\<lambda>b. b \<noteq> [] \<and> length b \<le> 50) (batches 50 uids) \<and> concat (batches 50 uids) = uids"
  using batches_ends [of 50 uids] by simp

end
