(* ===== verification/Bus.thy ===== *)
theory Bus
  imports Schedulers
begin

text \<open>
  The event bus (\<^verbatim>\<open>internal/nats/nats.go\<close>): connecting, the three streams, the consumer of the rules
  engine and the subscription of the single-process worker, as the sequence of calls into the NATS library,
  each of which can fail. How NATS matches a subject with a pattern is a parameter with the documented laws
  of the wildcard. An event is \<open>routed\<close> when its subject is the one its kind and its account
  prescribe.
\<close>

subsection \<open>Names\<close>

definition StreamIncoming :: string where "StreamIncoming = ''EMAIL_INCOMING''"
definition StreamDeferred :: string where "StreamDeferred = ''EMAIL_DEFERRED''"
definition StreamResults :: string where "StreamResults = ''EMAIL_RESULTS''"

definition SubjectIncoming :: string where "SubjectIncoming = ''email.incoming''"
definition SubjectDeferred :: string where "SubjectDeferred = ''email.deferred''"
definition SubjectResults :: string where "SubjectResults = ''email.results''"

definition SubjectRuleResult :: string where "SubjectRuleResult = ''email.rule.result''"
definition SubjectDeferredAction :: string where "SubjectDeferredAction = ''email.deferred''"

definition ConsumerRulesEngine :: string where "ConsumerRulesEngine = ''rules-engine''"

lemmas bus_names = StreamIncoming_def StreamDeferred_def StreamResults_def SubjectIncoming_def SubjectDeferred_def
  SubjectResults_def SubjectRuleResult_def SubjectDeferredAction_def

subsection \<open>Configurations\<close>

datatype retention = LimitsPolicy | InterestPolicy | WorkQueuePolicy
datatype storage = FileStorage | MemoryStorage
datatype discard = DiscardOld | DiscardNew

record StreamConfig =
  sc_Name :: string
  sc_Description :: string
  sc_Subjects :: "string list"
  sc_Retention :: retention
  sc_MaxAge :: int
  sc_MaxMsgs :: int
  sc_Storage :: storage
  sc_Replicas :: int
  sc_Discard :: discard

datatype deliver_policy = DeliverAllPolicy | DeliverLastPolicy | DeliverNewPolicy
datatype ack_policy = AckExplicitPolicy | AckAllPolicy | AckNonePolicy

record ConsumerConfig =
  cc_Durable :: string
  cc_DeliverPolicy :: deliver_policy
  cc_AckPolicy :: ack_policy
  cc_AckWait :: int
  cc_MaxDeliver :: int
  cc_MaxAckPending :: int
  cc_FilterSubject :: string

definition streams :: "StreamConfig list" where
  "streams =
    [\<lparr>sc_Name = StreamIncoming, sc_Description = ''New email messages detected by IMAP listener'',
      sc_Subjects = [''email.incoming.>''], sc_Retention = LimitsPolicy, sc_MaxAge = 7 * 24 * Hour, sc_MaxMsgs = 100000,
      sc_Storage = FileStorage, sc_Replicas = 1, sc_Discard = DiscardOld\<rparr>,
     \<lparr>sc_Name = StreamDeferred, sc_Description = ''Deferred email actions scheduled for later execution'',
      sc_Subjects = [''email.deferred.>''], sc_Retention = LimitsPolicy, sc_MaxAge = 30 * 24 * Hour, sc_MaxMsgs = 0,
      sc_Storage = FileStorage, sc_Replicas = 1, sc_Discard = DiscardOld\<rparr>,
     \<lparr>sc_Name = StreamResults, sc_Description = ''Rule execution results for audit logging'',
      sc_Subjects = [''email.results.>''], sc_Retention = LimitsPolicy, sc_MaxAge = 7 * 24 * Hour, sc_MaxMsgs = 500000,
      sc_Storage = FileStorage, sc_Replicas = 1, sc_Discard = DiscardOld\<rparr>]"

definition rules_engine_consumer :: ConsumerConfig where
  "rules_engine_consumer =
     \<lparr>cc_Durable = ConsumerRulesEngine @ ''-v2'', cc_DeliverPolicy = DeliverAllPolicy, cc_AckPolicy = AckExplicitPolicy,
      cc_AckWait = 2 * Minute, cc_MaxDeliver = 3, cc_MaxAckPending = 256, cc_FilterSubject = ''email.incoming.>''\<rparr>"

subsection \<open>Calls into the library\<close>

datatype nats_call =
    N_Connect string
  | N_JetStream
  | N_CloseConn
  | N_Drain
  | N_Stream StreamConfig
  | N_Consumer string ConsumerConfig
  | N_Messages int int
  | N_Subscribe string
  | N_QueueSubscribe string string

text \<open>The error of a call, given the calls before it; a step over the calls made so far.\<close>

type_synonym nats = "nats_call list \<Rightarrow> nats_call \<Rightarrow> string option"
type_synonym 'a nats_io = "nats_call list \<Rightarrow> (string + 'a) \<times> nats_call list"

definition nats_do :: "nats \<Rightarrow> nats_call \<Rightarrow> string \<Rightarrow> unit nats_io" where
  "nats_do V c what cs =
     (case V cs c of
        Some e \<Rightarrow> (Inl (what @ '': '' @ e), cs @ [c])
      | None \<Rightarrow> (Inr (), cs @ [c]))"

text \<open>\<open>New\<close>: the connection is closed when the JetStream context cannot be made.\<close>

definition New :: "nats \<Rightarrow> string \<Rightarrow> unit nats_io" where
  "New V url cs =
     (case nats_do V (N_Connect url) ''connect to nats'' cs of
        (Inl e, cs1) \<Rightarrow> (Inl e, cs1)
      | (Inr _, cs1) \<Rightarrow>
          (case nats_do V N_JetStream ''create jetstream context'' cs1 of
             (Inl e, cs2) \<Rightarrow> (Inl e, cs2 @ [N_CloseConn])
           | (Inr _, cs2) \<Rightarrow> (Inr (), cs2)))"

definition bus_Close :: "nats_call list \<Rightarrow> nats_call list" where
  "bus_Close cs = cs @ [N_Drain]"

fun ensure_streams :: "nats \<Rightarrow> StreamConfig list \<Rightarrow> unit nats_io" where
  "ensure_streams V [] cs = (Inr (), cs)"
| "ensure_streams V (cfg # cfgs) cs =
     (case nats_do V (N_Stream cfg) (''create/update stream '' @ sc_Name cfg) cs of
        (Inl e, cs1) \<Rightarrow> (Inl e, cs1)
      | (Inr _, cs1) \<Rightarrow> ensure_streams V cfgs cs1)"

definition EnsureStreams :: "nats \<Rightarrow> unit nats_io" where
  "EnsureStreams V = ensure_streams V streams"

definition CreateOrUpdateConsumer :: "nats \<Rightarrow> string \<Rightarrow> ConsumerConfig \<Rightarrow> unit nats_io" where
  "CreateOrUpdateConsumer V stream cfg =
     nats_do V (N_Consumer stream cfg) (''create/update consumer '' @ cc_Durable cfg @ '' on '' @ stream)"

definition bus_Subscribe :: "nats \<Rightarrow> string \<Rightarrow> unit nats_io" where
  "bus_Subscribe V subject cs =
     (case V cs (N_Subscribe subject) of
        Some e \<Rightarrow> (Inl e, cs @ [N_Subscribe subject])
      | None \<Rightarrow> (Inr (), cs @ [N_Subscribe subject]))"

definition bus_QueueSubscribe :: "nats \<Rightarrow> string \<Rightarrow> string \<Rightarrow> unit nats_io" where
  "bus_QueueSubscribe V subject queue cs =
     (case V cs (N_QueueSubscribe subject queue) of
        Some e \<Rightarrow> (Inl e, cs @ [N_QueueSubscribe subject queue])
      | None \<Rightarrow> (Inr (), cs @ [N_QueueSubscribe subject queue]))"

text \<open>\<open>Start\<close> of the rules engine, up to the loop that \<open>processLoop\<close> models.\<close>

definition consumer_Start :: "nats \<Rightarrow> unit nats_io" where
  "consumer_Start V cs =
     (case CreateOrUpdateConsumer V StreamIncoming rules_engine_consumer cs of
        (Inl e, cs1) \<Rightarrow> (Inl (''create consumer: '' @ e), cs1)
      | (Inr _, cs1) \<Rightarrow> nats_do V (N_Messages 50 (5 * Second)) ''start messages iterator'' cs1)"

lemma nats_do_cases:
  obtains e where "nats_do V c what cs = (Inl (what @ '': '' @ e), cs @ [c])"
  | "nats_do V c what cs = (Inr (), cs @ [c])"
  by (cases "V cs c") (simp_all add: nats_do_def)

text \<open>The calls of \<open>EnsureStreams\<close>: an initial part of the streams in order, all of them when it succeeds.\<close>

lemma ensure_streams_calls:
  assumes "ensure_streams V cfgs cs = (r, cs')"
  shows "\<exists>made. prefix made cfgs \<and> cs' = cs @ map N_Stream made \<and> (res_ok r \<longrightarrow> made = cfgs)"
  using assms
proof (induction cfgs arbitrary: cs)
  case (Cons cfg cfgs)
  show ?case
  proof (cases rule: nats_do_cases [of V "N_Stream cfg" "''create/update stream '' @ sc_Name cfg" cs])
    case (1 e)
    with Cons.prems show ?thesis by (intro exI [of _ "[cfg]"]) auto
  next
    case 2
    with Cons.prems have "ensure_streams V cfgs (cs @ [N_Stream cfg]) = (r, cs')" by simp
    from Cons.IH [OF this] obtain made where "prefix made cfgs" "cs' = cs @ map N_Stream (cfg # made)" "res_ok r \<longrightarrow> made = cfgs"
      by auto
    then show ?thesis by (intro exI [of _ "cfg # made"]) simp
  qed
qed (auto intro: exI [of _ "[]"])

subsection \<open>Subjects\<close>

text \<open>
  \<open>matches pattern subject\<close>: the rule of NATS. A pattern without wildcards matches itself only; a
  pattern that ends in the wildcard for the rest matches what extends its part before the
  wildcard, in particular by one more token.
\<close>

definition literal :: "string \<Rightarrow> bool" where
  "literal p \<longleftrightarrow> list_all (\<lambda>c. c \<noteq> CHR ''*'' \<and> c \<noteq> CHR ''>'') p"

definition token :: "string \<Rightarrow> bool" where
  "token t \<longleftrightarrow> t \<noteq> [] \<and> list_all (\<lambda>c. c \<noteq> CHR ''.'' \<and> c \<noteq> CHR '' '') t"

definition subject_law :: "(string \<Rightarrow> string \<Rightarrow> bool) \<Rightarrow> bool" where
  "subject_law matches \<longleftrightarrow>
     (\<forall>p s. literal p \<longrightarrow> (matches p s \<longleftrightarrow> s = p)) \<and>
     (\<forall>p t. literal p \<longrightarrow> token t \<longrightarrow> matches (p @ ''.>'') (p @ ''.'' @ t)) \<and>
     (\<forall>p s. literal p \<longrightarrow> matches (p @ ''.>'') s \<longrightarrow> HasPrefix s (p @ ''.''))"

definition captures :: "(string \<Rightarrow> string \<Rightarrow> bool) \<Rightarrow> string \<Rightarrow> StreamConfig \<Rightarrow> bool" where
  "captures matches s cfg \<longleftrightarrow> list_ex (\<lambda>p. matches p s) (sc_Subjects cfg)"

text \<open>Where an event belongs, and the subjects on which events of its kind are published.\<close>

fun stream_of :: "bus_event \<Rightarrow> string" where
  "stream_of (Incoming _) = StreamIncoming"
| "stream_of (Result _) = StreamResults"
| "stream_of (DeferredEv _) = StreamDeferred"

fun event_account :: "bus_event \<Rightarrow> int" where
  "event_account (Incoming ev) = ev_AccountID ev"
| "event_account (Result ev) = re_AccountID ev"
| "event_account (DeferredEv ev) = de_AccountID ev"

fun stream_subject :: "bus_event \<Rightarrow> string" where
  "stream_subject (Incoming _) = SubjectIncoming"
| "stream_subject (Result _) = SubjectResults"
| "stream_subject (DeferredEv _) = SubjectDeferred"

fun core_subject :: "bus_event \<Rightarrow> string option" where
  "core_subject (Incoming _) = None"
| "core_subject (Result _) = Some SubjectRuleResult"
| "core_subject (DeferredEv _) = Some SubjectDeferredAction"

definition routed :: "string \<times> bus_event \<Rightarrow> bool" where
  "routed m \<longleftrightarrow> fst m = stream_subject (snd m) @ ''.'' @ FormatInt (event_account (snd m)) \<or> core_subject (snd m) = Some (fst m)"

lemma token_FormatInt: "token (FormatInt n)"
proof -
  have "nat_digits k \<noteq> []" and "list_all (\<lambda>c. c \<noteq> CHR ''.'' \<and> c \<noteq> CHR '' '') (nat_digits k)" for k
    using nat_digits_all [of k] nat_digits_head [of k] by (auto simp: list_all_iff is_digit_def)
  then show ?thesis by (auto simp: token_def FormatInt_def)
qed

lemma wildcard:
  assumes "subject_law matches" and "literal p"
  shows "token t \<Longrightarrow> matches (p @ ''.>'') (p @ ''.'' @ t)"
    and "take (Suc (length p)) s \<noteq> p @ ''.'' \<Longrightarrow> \<not> matches (p @ ''.>'') s"
proof -
  show "matches (p @ ''.>'') (p @ ''.'' @ t)" if "token t" using assms that unfolding subject_law_def by blast
  show "\<not> matches (p @ ''.>'') s" if "take (Suc (length p)) s \<noteq> p @ ''.''"
    using assms that unfolding subject_law_def HasPrefix_def by (metis length_append_singleton)
qed

text \<open>The three patterns of the program on a subject with a further token and on the two bare subjects.\<close>

lemma patterns:
  assumes "subject_law matches"
  shows "token t \<Longrightarrow> matches ''email.incoming.>'' (''email.incoming.'' @ t)" "\<not> matches ''email.incoming.>'' (''email.deferred.'' @ t)"
    "\<not> matches ''email.incoming.>'' (''email.results.'' @ t)" "\<not> matches ''email.incoming.>'' ''email.rule.result''"
    "\<not> matches ''email.incoming.>'' ''email.deferred''"
    "token t \<Longrightarrow> matches ''email.deferred.>'' (''email.deferred.'' @ t)" "\<not> matches ''email.deferred.>'' (''email.incoming.'' @ t)"
    "\<not> matches ''email.deferred.>'' (''email.results.'' @ t)" "\<not> matches ''email.deferred.>'' ''email.rule.result''"
    "\<not> matches ''email.deferred.>'' ''email.deferred''"
    "token t \<Longrightarrow> matches ''email.results.>'' (''email.results.'' @ t)" "\<not> matches ''email.results.>'' (''email.incoming.'' @ t)"
    "\<not> matches ''email.results.>'' (''email.deferred.'' @ t)" "\<not> matches ''email.results.>'' ''email.rule.result''"
    "\<not> matches ''email.results.>'' ''email.deferred''"
  using wildcard [OF assms, of "''email.incoming''"] wildcard [OF assms, of "''email.deferred''"] wildcard [OF assms, of "''email.results''"]
  by (simp_all add: literal_def)

lemma routed_streams:
  assumes "subject_law matches" and "routed (s, e)"
  shows "map sc_Name (filter (captures matches s) streams) = (if core_subject e = Some s then [] else [stream_of e])"
    and "matches (cc_FilterSubject rules_engine_consumer) s \<longleftrightarrow> stream_of e = StreamIncoming"
    and "matches SubjectDeferredAction s \<Longrightarrow> stream_of e = StreamDeferred"
proof -
  have lit: "matches ''email.deferred'' s \<longleftrightarrow> s = ''email.deferred''"
    using assms(1) unfolding subject_law_def literal_def by (auto dest!: spec [of _ "''email.deferred''"])
  note facts = patterns [OF assms(1), simplified] token_FormatInt
  show "map sc_Name (filter (captures matches s) streams) = (if core_subject e = Some s then [] else [stream_of e])"
    using assms(2) by (cases e) (auto simp: routed_def streams_def captures_def bus_names facts)
  show "matches (cc_FilterSubject rules_engine_consumer) s \<longleftrightarrow> stream_of e = StreamIncoming"
    using assms(2) by (cases e) (auto simp: routed_def rules_engine_consumer_def bus_names facts)
  show "stream_of e = StreamDeferred" if "matches SubjectDeferredAction s"
    using assms(2) that lit by (cases e) (auto simp: routed_def bus_names)
qed

subsection \<open>The events of the services\<close>

lemma routed_events:
  "routed (result_subject ev, Result (result_event_of r ev res))"
  "routed (result_subject ev, Result ((result_event_of r ev res)\<lparr>re_Success := False, re_Error := e\<rparr>))"
  "routed (deferred_subject ev, DeferredEv (deferred_event_of i ev res))"
  "routed (''email.results.'' @ FormatInt (d_AccountID a), Result (result_of_deferred a x))"
  "routed (''email.deferred'', DeferredEv de)"
  "routed (''email.rule.result'', Result re)"
  by (simp_all add: routed_def bus_names result_subject_def result_event_of_def deferred_subject_def deferred_event_of_def
      result_of_deferred_def)

lemmas routed_simps [simp] = routed_events [simplified]

lemma routed_core: "routed (s, e) \<Longrightarrow> core_subject e = Some s \<longleftrightarrow> s \<in> {SubjectRuleResult, SubjectDeferredAction}"
  by (cases e) (auto simp: routed_def bus_names)

lemma stream_kinds:
  "stream_of e = StreamIncoming \<longleftrightarrow> (\<exists>ev. e = Incoming ev)" "stream_of e = StreamDeferred \<longleftrightarrow> (\<exists>de. e = DeferredEv de)"
  by (cases e; simp add: bus_names)+

end
