(* ===== verification/Services.thy ===== *)
theory Services
  imports Legacy Polling Tables Bus "HOL-Library.Sublist"
begin

text \<open>
  What the background services do to the tables. The abstract specification \<open>mail_step\<close> names the
  statements that processing mail may execute; \<open>service_step\<close> is one step of any of the services: the
  rules engine, the two schedulers, the IMAP listener, the move detector and the worker of the
  single-process server, in any order and for any accounts. The services refine the specification.
\<close>

subsection \<open>The specification\<close>

inductive mail_step :: "db \<Rightarrow> db \<Rightarrow> bool" where
  m_LogExecution: "mail_step d (snd (LogExecution now l d))"
| m_CreateDeferredAction: "mail_step d (snd (CreateDeferredAction now da d))"
| m_MarkDeferredActionDone: "mail_step d (snd (MarkDeferredActionDone now i er d))"
| m_MarkMessageProcessed: "mail_step d (snd (MarkMessageProcessed now a mu ru ac d))"
| m_RecordRuleAppliedMove: "mail_step d (snd (RecordRuleAppliedMove now ru a mid f d))"
| m_CleanApplied: "mail_step d (snd (CleanOldRuleAppliedMoves now d))"
| m_UpsertMessageLocation: "mail_step d (snd (UpsertMessageLocation now loc d))"
| m_RecordDetectedMove: "mail_step d (snd (RecordDetectedMove now mv d))"
| m_SyncTime: "mail_step d (snd (UpdateAccountSyncTime now i d))"
| m_LastUID: "mail_step d (snd (UpdateLastUIDProcessed now i u d))"
| m_OAuthTokens: "mail_step d (snd (UpdateAccountOAuthTokens c rnd now i tok rtok ex d))"
| m_LearnRule: "r_Source r = ''auto-learned'' \<Longrightarrow> mail_step d (snd (CreateRule now r d))"

lemma mail_step_db_step: "mail_step d d' \<Longrightarrow> db_step d d'"
  by (induction rule: mail_step.induct) (rule db_step.intros)+

context io_preorder
begin

lemma run: "io_rel R m \<Longrightarrow> R w w1 \<Longrightarrow> R w (snd (m w1))"
  unfolding io_rel_def by (blast intro: trans)

lemma step: "R w w1 \<Longrightarrow> (\<And>w. R w (f w)) \<Longrightarrow> R w (f w1)"
  by (blast intro: trans)

lemma branch:
  assumes "io_rel R m" and "R w w0" and "\<And>e w1. R w w1 \<Longrightarrow> R w (f e w1)" and "\<And>x w1. R w w1 \<Longrightarrow> R w (g x w1)"
  shows "R w (case m w0 of (Inl e, w1) \<Rightarrow> f e w1 | (Inr x, w1) \<Rightarrow> g x w1)"
proof (cases "m w0")
  case (Pair r w1)
  with assms(1) have "R w0 w1" by (rule io_relD)
  with assms(2) have "R w w1" by (rule trans)
  with assms(3,4) Pair show ?thesis by (cases r) simp_all
qed

lemma rounds: "(\<And>x w. R w (f x w)) \<Longrightarrow> R w w1 \<Longrightarrow> R w (fold f xs w1)"
proof (induction xs arbitrary: w1)
  case (Cons x xs)
  have "R w (f x w1)" by (rule trans [OF Cons.prems(2,1)])
  with Cons show ?case by simp
qed simp

end

subsection \<open>The contract of a step\<close>

text \<open>
  The contract for relations between the worlds before and after a step of a service: a statement that
  processing mail may execute keeps it, so does an event published where it belongs, the AI client, and
  whatever leaves the tables and the bus alone. Every operation of the services then keeps it.
\<close>

locale servicing = io_preorder +
  assumes by_quiet: "quiet w w' \<Longrightarrow> R w w'"
    and by_kiro: "R w (w\<lparr>w_kiro := k\<rparr>)"
    and by_statement: "mail_step (w_db w) d' \<Longrightarrow> R w (w\<lparr>w_db := d'\<rparr>)"
    and by_event: "routed m \<Longrightarrow> R w (w\<lparr>w_bus := w_bus w @ [m]\<rparr>)"
begin

lemma db_do_rel:
  assumes "\<And>d. mail_step d (snd (op d))"
  shows "io_rel R (db_do N s op)"
proof -
  have "R w (snd (db_do N s op w))" for w
  proof (cases rule: db_do_cases [of N s op w])
    case (2 e d)
    with assms [of "w_db w"] show ?thesis by (simp add: by_statement)
  next
    case (3 x d)
    with assms [of "w_db w"] show ?thesis by (simp add: by_statement)
  qed simp
  then show ?thesis by (simp add: io_rel_def)
qed

lemmas statement = mail_step.intros [THEN db_do_rel]

lemma quiet_rel: "io_rel quiet m \<Longrightarrow> io_rel R m"
  by (simp add: io_rel_def by_quiet)

lemma publish_rel: "routed (s, e) \<Longrightarrow> io_rel R (PublishToStream N s e)" "routed (s, e) \<Longrightarrow> io_rel R (Publish N s e)"
  by (simp_all add: io_rel_def PublishToStream_def Publish_def by_event)

subsection \<open>The rules engine\<close>

lemma record_move_rel: "io_rel R (record_move N now aid ac ta r mid)"
  unfolding record_move_def by (auto intro!: composed statement)

lemma execute_rel:
  "io_rel R (ExecuteActionForRule N now aid u ac ta r mid)" "io_rel R (ExecuteActionByMessageIDForRule N now aid mid ac ta r)"
  unfolding ExecuteActionForRule_def ExecuteActionByMessageIDForRule_def
  by (intro bind record_move_rel quiet_rel execute_quiet)+

lemma run_action_rel: "io_rel R (run_action N now ev r res)"
  by (auto simp: run_action_def intro!: execute_rel return quiet_rel notify_quiet)

lemma handle_match_rel: "R w (snd (handle_match N now ev r res w))"
proof -
  have "R w (snd (defer_branch N now ev r res w1))" if "R w w1" for w1
    using that unfolding defer_branch_def prod.case_distrib [of snd] sum.case_distrib [of snd] snd_conv
    by (intro branch [OF statement(2)] run [OF publish_rel(1)] routed_events that)
  moreover have "R w (snd (action_branch N now ev r res w1))" if "R w w1" for w1
    using that unfolding action_branch_def Let_def prod.case_distrib [of snd] sum.case_distrib [of snd] snd_conv
    by (intro branch [OF run_action_rel] run [OF publish_rel(1)] routed_events run [OF statement(1)] run [OF statement(4)])
  moreover have "R w (snd (PublishToStream N (result_subject ev) (Result (result_event_of r ev res))
      (snd (db_do N S_LogExecution (LogExecution now l) w))))" for l
    by (intro run [OF publish_rel(1)] routed_events run [OF statement(1)] refl)
  ultimately show ?thesis by (simp add: handle_match_def Let_def)
qed

lemma handleMessage_rel: "R w (snd (handleMessage lua N now msg w))"
proof (cases msg)
  case (Some ev)
  obtain dsp w' where h: "handleMessage lua N now (Some ev) w = (dsp, w')" by fastforce
  from h show ?thesis
  proof (cases rule: handleMessage_cases)
    case (match r res k)
    have "R w (w\<lparr>w_kiro := k\<rparr>)" by (rule by_kiro)
    then have "R w (snd (handle_match N now ev r res (w\<lparr>w_kiro := k\<rparr>)))"
      using handle_match_rel by (rule trans)
    with match Some h show ?thesis by simp
  qed (use Some h in \<open>simp_all add: by_kiro\<close>)
qed (simp add: handleMessage_def)

subsection \<open>The schedulers\<close>

lemma process_deferred_rel: "R w (process_deferred N bus now a w)"
proof -
  have "R w (case db_do N s (MarkDeferredActionDone now (d_ID a) e) w1 of
      (Inl _, w2) \<Rightarrow> w2 | (Inr _, w2) \<Rightarrow> if bus then snd (PublishToStream N t x w2) else w2)"
    if "R w w1" and "routed (t, x)" for s e w1 t x
    by (intro branch [OF statement(3)] that(1)) (auto intro: run [OF publish_rel(1)] that(2))
  moreover have "R w (snd (ExecuteActionByMessageIDForRule N now i mid ac ta r w))" for i mid ac ta r
    by (intro run [OF execute_rel(2)] refl)
  ultimately show ?thesis by (simp add: process_deferred_def Let_def case_prod_unfold)
qed

lemma publish_deferred_rel: "R w (publish_deferred N bus now a w)"
  unfolding publish_deferred_def
  by (auto intro!: branch [OF publish_rel(2)] run [OF statement(3)])

lemma cleanupStaleData_rel: "R w (cleanupStaleData N now w)"
  unfolding cleanupStaleData_def by (intro run [OF statement(6)] refl)

subsection \<open>The IMAP listener\<close>

lemma refreshOAuthToken_rel: "R w (snd (refreshOAuthToken C N rnd now acc w))"
proof -
  have "R w (snd (io_try (db_do N s (UpdateAccountOAuthTokens c rnd now i tok rtok ex)) w))" for s c i tok rtok ex
    by (intro run attempt statement refl)
  then show ?thesis by (simp add: refreshOAuthToken_def Let_def split: option.split sum.split)
qed

lemma authenticate_rel: "R w (snd (authenticate C N rnd now acc w))"
proof -
  let ?first = "if IsTokenExpired now (a_OAuthTokenExpiry acc) then refreshOAuthToken C N rnd now acc w else ((Inr (), acc), w)"
  obtain r acc1 w1 where first: "?first = ((r, acc1), w1)" by (metis surj_pair)
  have "R w (snd ?first)" by (simp add: refreshOAuthToken_rel)
  then have w1: "R w w1" unfolding first by simp
  have "R w (snd (refreshOAuthToken C N rnd' now acc1 w1))" for rnd'
    by (rule trans [OF w1 refreshOAuthToken_rel])
  then have second: "R w w2" if "refreshOAuthToken C N rnd' now acc1 w1 = (x, w2)" for rnd' x w2
    using that by (metis snd_conv)
  show ?thesis
    unfolding authenticate_def first
    by (auto simp: w1 intro: second split: sum.split option.split prod.split)
qed

lemma worker_connect_rel: "worker_connect C N rnd now acc w = ((r, acc1), w1) \<Longrightarrow> R w w1"
  using authenticate_rel [of w C N rnd now acc]
  by (auto simp: worker_connect_def split: option.splits)

lemma event_routed:
  assumes "bufferToEvent U rf now acc buf = Some ev"
  shows "routed (''email.incoming.'' @ FormatInt (a_ID acc), Incoming (attach_images N S buf ev))"
proof -
  have "ev_AccountID ev = a_ID acc" using assms by (auto simp: bufferToEvent_def Let_def split: option.splits if_splits prod.splits)
  moreover have "ev_AccountID (attach_images N S buf ev) = ev_AccountID ev" by (simp add: attach_images_def Let_def split: option.split)
  ultimately show ?thesis by (simp add: routed_def bus_names)
qed

lemma publishBatch_rel: "R w (publishBatch N S now acc uids w)"
proof -
  have "R w (publish_message N S now acc m w)" for m w
    by (auto simp: publish_message_def intro!: run [OF publish_rel(1)] event_routed [simplified] split: sum.split option.split)
  then show ?thesis by (simp add: publishBatch_def rounds)
qed

lemma pollNewMessages_rel: "io_rel R (pollNewMessages N S now acc)"
proof -
  have "R w (snd (pollNewMessages N S now acc w))" for w
  proof (cases "db_read N S_LastUID (GetLastUIDProcessed (a_ID acc)) w")
    case (Pair r w1)
    then have w1: "w1 = w" by (metis db_read_same snd_conv)
    have sync: "R w (snd (io_try (db_do N s (UpdateAccountSyncTime now i)) w))" for s i
      by (intro run attempt statement refl)
    have batch: "R w (fold (publishBatch N S now acc) bs w)" for bs
      by (intro rounds publishBatch_rel refl)
    then have "R w (snd (io_try (db_do N s (UpdateLastUIDProcessed now i u)) (fold (publishBatch N S now acc) bs w)))"
      for s i u bs by (intro run attempt statement)
    with sync batch show ?thesis
      unfolding pollNewMessages_def Pair w1
      by (cases r; cases "ib_SearchAll S") (simp_all add: Let_def)
  qed
  then show ?thesis by (simp add: io_rel_def)
qed

lemma location_rel: "R w (record_location N now acc m w)" "R w (legacy_location N now acc m w)"
  by (auto simp: record_location_def legacy_location_def Let_def intro!: run statement split: sum.split option.split)

lemma locations_rel: "R w (recordInboxMessageLocations N S now acc uids w)" "R w (recordMessageLocations N T now acc uids w)"
  by (simp_all add: recordInboxMessageLocations_def recordMessageLocations_def rounds location_rel)

lemma learns_rel_parts:
  "io_rel R (db_do N s (CreateRule now (learned_rule N acc mv)))"
  "io_rel R (db_do N s (CreateRule now (idle_learned_rule N acc loc f)))"
  "io_rel R (db_do N s (CreateRule now (legacy_learned_rule N acc sender subj f)))"
  by (rule statement(12); simp add: learned_rule_def idle_learned_rule_def legacy_learned_rule_def split: prod.split)+

lemma generate_rel: "R w (generateAndCreateRuleFromMove N now acc loc f w)"
proof -
  have "R w (case db_read N s q w of (Inl _, w1) \<Rightarrow> snd (db_do N t (CreateRule now (idle_learned_rule N acc loc f)) w1)
      | (Inr rs, w1) \<Rightarrow> if P rs then w1 else snd (db_do N t (CreateRule now (idle_learned_rule N acc loc f)) w1))" for s q t and P :: "rule list \<Rightarrow> bool"
    by (rule branch [OF read refl]) (auto intro: run learns_rel_parts)
  then show ?thesis by (simp add: generateAndCreateRuleFromMove_def sum.case_distrib [symmetric])
qed

lemma process_expunged_rel: "R w (process_expunged N now acc found m w)"
proof -
  have "R w (case db_do N s (RecordDetectedMove now mv) w of (Inl _, w1) \<Rightarrow> w1
      | (Inr _, w1) \<Rightarrow> if P w1 then w1 else if Q w1 then w1 else generateAndCreateRuleFromMove N now acc loc f w1)" for s mv P Q loc f
    by (rule branch [OF statement(8) refl]) (auto intro: step generate_rel)
  then show ?thesis by (simp add: process_expunged_def Let_def split: prod.split option.split)
qed

lemma handleExpungedMessages_rel: "R w (handleExpungedMessages N S now acc uids w)"
  by (simp add: handleExpungedMessages_def Let_def rounds process_expunged_rel)

lemma buildUIDMap_rel: "R w (snd (snd (buildUIDMap N S now acc uids w)))"
  by (simp add: buildUIDMap_def locations_rel split: sum.split)

lemma idle_start_rel: "R w (snd (snd (idle_start C N rnd S now acc w)))"
proof (cases "worker_connect C N rnd now acc w")
  case (Pair ra w1)
  then obtain r acc1 where ra: "worker_connect C N rnd now acc w = ((r, acc1), w1)" by (cases ra) simp
  then have w1: "R w w1" by (rule worker_connect_rel)
  have map: "R w w2" if "buildUIDMap N S now acc1 [] w1 = (x, uids, w2)" for x uids w2
    using trans [OF w1 buildUIDMap_rel] that by (metis snd_conv)
  have "R w (snd (pollNewMessages N S now acc1 w2))" if "R w w2" for w2
    using pollNewMessages_rel that by (rule run)
  then have "R w w3" if "buildUIDMap N S now acc1 [] w1 = (x, uids, w2)" and "pollNewMessages N S now acc1 w2 = (y, w3)" for x uids w2 y w3
    using map that by (metis snd_conv)
  then show ?thesis
    unfolding idle_start_def ra by (cases r; cases "ms_Select S ''INBOX''") (auto simp: w1 split: prod.split sum.split)
qed

lemma idle_round_rel: "R w (snd (snd (idle_round N S now acc seqNums uids w)))"
proof -
  have tail: "R w (snd (snd (case pollNewMessages N S now acc w1 of
        (Inl e, w2) \<Rightarrow> (Inl (p @ e), uids1, w2)
      | (Inr _, w2) \<Rightarrow> (case buildUIDMap N S now acc uids1 w2 of (_, uids2, w3) \<Rightarrow> (Inr (), uids2, w3)))))"
    if "R w w1" for w1 uids1 and p :: string
  proof (cases "pollNewMessages N S now acc w1")
    case (Pair r w2)
    have "R w w2" using run [OF pollNewMessages_rel that] Pair by (metis snd_conv)
    moreover from this have "R w (snd (snd (buildUIDMap N S now acc uids1 w2)))" by (rule trans [OF _ buildUIDMap_rel])
    ultimately show ?thesis unfolding Pair by (cases r) (simp_all add: case_prod_unfold)
  qed
  show ?thesis
    unfolding idle_round_def Let_def
    by (cases "ms_Select S ''INBOX''") (auto simp: tail handleExpungedMessages_rel split: prod.split)
qed

subsection \<open>The move detector\<close>

lemma inferAndCreateRule_rel: "io_rel R (inferAndCreateRule N now acc mv)"
proof -
  have "io_rel R (io_wrap t (db_do N s (CreateRule now (learned_rule N acc mv))))" for t s
    by (intro wrap learns_rel_parts)
  then show ?thesis by (simp add: io_rel_def inferAndCreateRule_def)
qed

lemma process_move_rel: "R w (process_move N now acc ids missing entry w)"
proof -
  have note_rel: "R w (notifyMove N mv r w)" for mv r w
    using quiet_rel [OF SendMessage_quiet] by (auto simp: notifyMove_def io_rel_def split: option.split)
  have "R w (case inferAndCreateRule N now acc mv w1 of (Inl _, w2) \<Rightarrow> w2 | (Inr r, w2) \<Rightarrow> notifyMove N mv r w2)" if "R w w1" for mv w1
    by (rule branch [OF inferAndCreateRule_rel that]) (auto intro: step note_rel)
  then have "R w (case db_do N s (RecordDetectedMove now mv) w of (Inl _, w1) \<Rightarrow> w1
      | (Inr m1, w1) \<Rightarrow> (case inferAndCreateRule N now acc m1 w1 of (Inl _, w2) \<Rightarrow> w2 | (Inr r, w2) \<Rightarrow> notifyMove N m1 r w2))" for s mv
    by (intro branch [OF statement(8) refl])
  then show ?thesis by (simp add: process_move_def Let_def split: prod.split option.split)
qed

lemma scan_rel: "R w (snd (snd (scan C N rnd M S ld now mw w)))"
proof (cases "move_connect C N rnd now (mw_account mw) w")
  case (Pair ra w1)
  then obtain r acc1 where ra: "move_connect C N rnd now (mw_account mw) w = ((r, acc1), w1)" by (cases ra) simp
  then have w1: "R w w1" unfolding move_connect_def by (rule worker_connect_rel)
  have "R w1 (snd (snd (scan_inbox N M S ld now mw1 w1)))" for mw1
    by (simp add: scan_inbox_def Let_def rounds process_move_rel split: sum.split)
  with w1 show ?thesis unfolding scan_def ra by (cases r) (auto intro: trans)
qed

subsection \<open>The worker of the single-process server\<close>

lemma legacy_quiet:
  "io_rel quiet (legacy_executeDelete N aid u)" "io_rel quiet (legacy_executeMove N aid u f)" "io_rel quiet (legacy_executeFlag N aid u f)"
  "io_rel quiet (legacy_executeNotify N sa su sn msg)" "io_rel quiet (executeFlagByMessageID N aid mid f)"
proof -
  have x: "io_rel quiet (io_bind (io_wrap ''expunge'' (imap_do N aid C_Expunge)) (\<lambda>_. io_return ()))"
    by (intro quiet.composed imap_do_quiet)
  show "io_rel quiet (legacy_executeDelete N aid u)"
    unfolding legacy_executeDelete_def
    by (rule quiet.bind [OF quiet.wrap [OF imap_do_quiet]], rule quiet.fallback [OF imap_do_quiet x])
  show f: "io_rel quiet (legacy_executeFlag N aid u f)" for u
    unfolding legacy_executeFlag_def by (intro quiet.composed imap_do_quiet)
  show "io_rel quiet (legacy_executeMove N aid u f)"
    unfolding legacy_executeMove_def by (intro quiet.composed imap_do_quiet)
  show "io_rel quiet (legacy_executeNotify N sa su sn msg)"
    by (auto simp: legacy_executeNotify_def Let_def intro!: quiet.composed SendMessage_quiet split: option.split)
  show "io_rel quiet (executeFlagByMessageID N aid mid f)"
    unfolding executeFlagByMessageID_def
    by (intro quiet.bind quiet.wrap imap_do_quiet) (auto intro: f quiet.return split: list.split)
qed

lemma legacy_match_rel: "R w (snd (legacy_match N bus now acc email u r res w))"
proof -
  have act: "io_rel R (legacy_action N acc email u res)"
    by (auto simp: legacy_action_def Let_def intro!: quiet_rel legacy_quiet quiet.return)
  have tail: "R w (snd (case legacy_action N acc email u res w2 of
        (Inl err, w3) \<Rightarrow> (Inl err, snd (db_do N s (LogExecution now (l err)) w3))
      | (Inr _, w3) \<Rightarrow> io_try (db_do N t (MarkMessageProcessed now i mu ri ac)) w3))" if "R w w2" for w2 s l t i mu ri ac
    unfolding prod.case_distrib [of snd] sum.case_distrib [of snd] snd_conv
    by (intro branch [OF act that] run [OF statement(1)] run [OF attempt [OF statement(4)]])
  have log: "R w (snd (db_do N s (LogExecution now l) w))" for s l
    by (intro run statement refl)
  then have pub: "R w (snd (Publish N ''email.rule.result'' (Result e) (snd (db_do N s (LogExecution now l) w))))" for e s l
    by (intro run [OF publish_rel(2)] routed_events)
  have def: "R w (snd (io_try (db_do N s (CreateDeferredAction now da)) w2))" if "R w w2" for s da w2
    by (intro run attempt statement that)
  show ?thesis by (simp add: legacy_match_def Let_def tail log pub def)
qed

lemma processMessage_rel: "R w (snd (processMessage lua N bus now acc email u w))"
proof -
  have "R w (snd (legacy_match N bus now acc email u r res (w\<lparr>w_kiro := k\<rparr>)))" for r res k
    using by_kiro legacy_match_rel by (rule trans)
  then show ?thesis
    by (auto simp: processMessage_def by_kiro split: sum.split prod.split option.split)
qed

lemma processBatch_rel: "R w (processBatch lua N bus S now acc uids w)"
proof -
  have "R w (process_fetched lua N bus S now acc m w)" for m w
    by (auto simp: process_fetched_def processMessage_rel split: sum.split option.split)
  then show ?thesis by (simp add: processBatch_def rounds)
qed

lemma legacy_connect_rel: "legacy_connect N lw w = (r, lw1, w1) \<Longrightarrow> R w w1"
  using quiet_rel [OF dial_quiet, of N "a_ID (lw_account lw)" "lw_account lw"]
  by (auto simp: legacy_connect_def io_rel_def split: if_splits prod.splits sum.splits) (metis snd_conv)+

lemma sync_time_rel: "R w w1 \<Longrightarrow> R w (sync_time N now acc w1)"
  unfolding sync_time_def by (intro run attempt statement)

lemma poll_rel: "R w (snd (snd (poll lua N bus S now lw w)))"
proof (cases "legacy_connect N lw w")
  case (fields r lw1 w1)
  then have w1: "R w w1" by (rule legacy_connect_rel)
  have rec: "R w (recordMessageLocations N S now acc uids w1)" for acc uids by (rule trans [OF w1 locations_rel(2)])
  then have batch: "R w (fold (processBatch lua N bus S now acc) bs (recordMessageLocations N S now acc uids w1))" for acc bs uids
    by (intro rounds processBatch_rel)
  show ?thesis
    unfolding poll_def fields Let_def
    by (cases r; cases "ms_Select S ''INBOX''"; cases "ib_SearchAll S"; cases "lb_SearchUnseen S")
      (simp_all add: w1 rec batch sync_time_rel)
qed

lemma legacy_expunged_rel: "R w (legacy_expunged N S now acc u w)"
proof -
  have gen: "io_rel R (io_try (legacy_generateAndCreateRuleFromMove N now acc loc f))" for loc f
    unfolding legacy_generateAndCreateRuleFromMove_def by (intro composed learns_rel_parts)
  have "R w (snd (case db_do N s (RecordDetectedMove now mv) w of (Inl _, w1) \<Rightarrow> (Inr (), w1)
      | (Inr _, w1) \<Rightarrow> io_try (legacy_generateAndCreateRuleFromMove N now acc loc f) w1))" for s mv loc f
    unfolding prod.case_distrib [of snd] sum.case_distrib [of snd] snd_conv
    by (intro branch [OF statement(8) refl] run [OF gen])
  then have "R w (snd (findMovedMessageAndLearn N S now acc loc w))" for loc
    by (simp add: findMovedMessageAndLearn_def split: sum.split option.split)
  then show ?thesis by (simp add: legacy_expunged_def split: list.split prod.split)
qed

lemma legacy_handleExpungedMessages_rel: "R w (snd (snd (legacy_handleExpungedMessages N S now uids lw w)))"
proof (cases "legacy_connect N lw w")
  case (fields r lw1 w1)
  then have w1: "R w w1" by (rule legacy_connect_rel)
  then have "R w (fold (legacy_expunged N S now (lw_account lw1)) uids w1)"
    by (intro rounds legacy_expunged_rel)
  with w1 fields show ?thesis by (cases r) (simp_all add: legacy_handleExpungedMessages_def)
qed

lemma ExecuteDeferredAction_rel: "R w (snd (snd (ExecuteDeferredAction N event lw w)))"
proof (cases "legacy_connect N lw w")
  case (fields r lw1 w1)
  then have w1: "R w w1" by (rule legacy_connect_rel)
  have io: "R w (snd (snd (case m w1 of (x, w2) \<Rightarrow> (x, lw1, w2))))" if "io_rel quiet m" for m :: "unit io"
    using run [OF quiet_rel [OF that] w1] by (simp add: case_prod_unfold)
  show ?thesis
  proof (cases r)
    case (Inr x)
    show ?thesis
      unfolding ExecuteDeferredAction_def fields Let_def Inr prod.case sum.case
      by (intro io quiet.bind quiet.wrap imap_do_quiet) (auto intro!: quiet.return quiet.wrap legacy_quiet split: list.split)
  qed (simp add: ExecuteDeferredAction_def fields w1)
qed

end

subsection \<open>The services\<close>

text \<open>
  One step of a service. The arguments that a service computes from earlier reads (the deferred action
  of a round, the messages of a fetch, the account of a worker) are arbitrary: other services may run in
  between.
\<close>

inductive service_step :: "world \<Rightarrow> world \<Rightarrow> bool" where
  sv_handleMessage: "service_step w (snd (handleMessage lua N now msg w))"
| sv_process_deferred: "service_step w (process_deferred N bus now a w)"
| sv_cleanup: "service_step w (cleanupStaleData N now w)"
| sv_publish_deferred: "service_step w (publish_deferred N bus now a w)"
| sv_idle_start: "service_step w (snd (snd (idle_start C N rnd S now acc w)))"
| sv_idle_round: "service_step w (snd (snd (idle_round N S now acc seqNums uids w)))"
| sv_scan: "service_step w (snd (snd (scan C N rnd M T ld now mw w)))"
| sv_poll: "service_step w (snd (snd (poll lua N bus L now lw w)))"
| sv_legacy_expunged: "service_step w (snd (snd (legacy_handleExpungedMessages N L now uids lw w)))"
| sv_legacy_deferred: "service_step w (snd (snd (ExecuteDeferredAction N ev lw w)))"

context servicing
begin

lemma service_step_rel: "service_step w w' \<Longrightarrow> R w w'"
  by (induction rule: service_step.induct)
    (rule handleMessage_rel process_deferred_rel cleanupStaleData_rel publish_deferred_rel idle_start_rel
      idle_round_rel scan_rel poll_rel legacy_handleExpungedMessages_rel ExecuteDeferredAction_rel)+

lemma service_steps_rel: "service_step\<^sup>*\<^sup>* w w' \<Longrightarrow> R w w'"
  by (induction rule: rtranclp_induct) (auto intro: trans service_step_rel)

end

subsection \<open>The specification is refined\<close>

definition mails :: "world \<Rightarrow> world \<Rightarrow> bool" where
  "mails w w' \<longleftrightarrow> mail_step\<^sup>*\<^sup>* (w_db w) (w_db w')"

lemma mails_same: "w_db w' = w_db w \<Longrightarrow> mails w w'"
  by (simp add: mails_def)

interpretation mailing: servicing mails
  by unfold_locales (auto simp: mails_def quiet_def)

text \<open>
  C4. The services refine the specification: whatever steps the rules engine, the schedulers, the listener,
  the move detector and the single-process worker take, in any order, with any mail, any answers of the
  servers and any failures of the database, every sequence of them is a sequence of the statements that
  processing mail may execute.
\<close>
theorem services_refine_spec:
  assumes "service_step\<^sup>*\<^sup>* w w'"
  shows "mail_step\<^sup>*\<^sup>* (w_db w) (w_db w')"
  using mailing.service_steps_rel [OF assms] by (simp add: mails_def)

theorem services_refine_spec_witness:
  "mail_step\<^sup>*\<^sup>* (w_db (sample_world ''move'')) (w_db (snd (handleMessage sample_lua (sample_env R_OK) 5 (Some sample_event) (sample_world ''move''))))"
  by (rule services_refine_spec, rule r_into_rtranclp, rule sv_handleMessage)

subsection \<open>Events are routed\<close>

definition routes :: "world \<Rightarrow> world \<Rightarrow> bool" where
  "routes w w' \<longleftrightarrow> (\<exists>new. w_bus w' = w_bus w @ new \<and> list_all routed new)"

interpretation routing: servicing routes
proof
  show "routes w w''" if "routes w w'" "routes w' w''" for w w' w'' using that by (fastforce simp: routes_def)
qed (auto simp: routes_def quiet_def)

text \<open>
  C6. Every event reaches the stream it is meant for. Whatever steps the services take, the bus only gains
  events; each new event is captured by exactly one stream, the one of its kind, unless it is published on
  one of the two subjects of core NATS, which no stream captures; the consumer of the rules engine gets it
  exactly when it is an incoming message, so the handler never sees another kind of event; and what the
  subscription of the single-process worker gets is a deferred action.
\<close>
theorem events_reach_their_stream:
  assumes "service_step\<^sup>*\<^sup>* w w'" and "subject_law matches"
  shows "\<exists>new. w_bus w' = w_bus w @ new \<and> (\<forall>(s, e) \<in> set new.
    map sc_Name (filter (captures matches s) streams) = (if s \<in> {SubjectRuleResult, SubjectDeferredAction} then [] else [stream_of e]) \<and>
    (matches (cc_FilterSubject rules_engine_consumer) s \<longleftrightarrow> (\<exists>ev. e = Incoming ev)) \<and>
    (matches SubjectDeferredAction s \<longrightarrow> (\<exists>de. e = DeferredEv de)))"
proof -
  from routing.service_steps_rel [OF assms(1)] obtain new where new: "w_bus w' = w_bus w @ new" "list_all routed new"
    by (auto simp: routes_def)
  have "map sc_Name (filter (captures matches s) streams) = (if s \<in> {SubjectRuleResult, SubjectDeferredAction} then [] else [stream_of e]) \<and>
    (matches (cc_FilterSubject rules_engine_consumer) s \<longleftrightarrow> (\<exists>ev. e = Incoming ev)) \<and>
    (matches SubjectDeferredAction s \<longrightarrow> (\<exists>de. e = DeferredEv de))" if "(s, e) \<in> set new" for s e
  proof -
    from new(2) that have routed: "routed (s, e)" by (auto simp: list_all_iff)
    then have "core_subject e = Some s \<longleftrightarrow> s \<in> {SubjectRuleResult, SubjectDeferredAction}" by (rule routed_core)
    with routed_streams [OF assms(2) routed] show ?thesis by (simp add: stream_kinds)
  qed
  with new(1) show ?thesis by blast
qed

definition sample_matches :: "string \<Rightarrow> string \<Rightarrow> bool" where
  "sample_matches p s \<longleftrightarrow> (if HasSuffix p ''.>'' then HasPrefix s (butlast p) \<and> length p \<le> length s else s = p)"

lemma sample_matches_law: "subject_law sample_matches"
proof -
  have lit: "\<not> HasSuffix p ''.>''" if "literal p" for p
  proof
    assume "HasSuffix p ''.>''"
    then have "CHR ''>'' \<in> set (drop (length p - 2) p)" by (simp add: HasSuffix_def numeral_2_eq_2)
    then have "CHR ''>'' \<in> set p" by (rule in_set_dropD)
    with that show False by (auto simp: literal_def list_all_iff)
  qed
  have wild: "HasSuffix (p @ ''.>'') ''.>''" "butlast (p @ ''.>'') = p @ ''.''" for p by (simp_all add: HasSuffix_def butlast_append)
  have "HasPrefix (p @ ''.'' @ t) (p @ ''.'')" for p t by (simp add: HasPrefix_def)
  moreover have "length (p @ ''.>'') \<le> length (p @ ''.'' @ t)" if "token t" for p t using that by (cases t) (simp_all add: token_def)
  ultimately show ?thesis unfolding subject_law_def sample_matches_def wild by (simp add: lit wild(1))
qed

theorem events_reach_their_stream_witness:
  "\<exists>new. w_bus (snd (handleMessage sample_lua (sample_env R_OK) 5 (Some sample_event) (sample_world ''move''))) =
     w_bus (sample_world ''move'') @ new \<and>
   (\<forall>(s, e) \<in> set new. sample_matches (cc_FilterSubject rules_engine_consumer) s \<longleftrightarrow> (\<exists>ev. e = Incoming ev))"
proof -
  note step = sv_handleMessage [where lua = sample_lua and N = "sample_env R_OK" and now = 5 and msg = "Some sample_event" and w = "sample_world ''move''"]
  show ?thesis using events_reach_their_stream [OF r_into_rtranclp [of service_step, OF step] sample_matches_law] by fast
qed

subsection \<open>What processing mail leaves alone\<close>

text \<open>The columns of an account that the services maintain, blanked out, and everything that people enter.\<close>

definition account_settings :: "account \<Rightarrow> account" where
  "account_settings a = a\<lparr>a_OAuthToken := [], a_OAuthRefreshToken := [], a_OAuthTokenExpiry := None, a_LastSyncAt := None,
     a_LastUIDProcessed := 0, a_UpdatedAt := 0\<rparr>"

definition user_data where
  "user_data d = (tenants d, map account_settings (accounts d), metadata d, users d, passkeys d, apiKeys d, blacklist d, attempts d)"

definition extends :: "db \<Rightarrow> db \<Rightarrow> bool" where
  "extends d d' \<longleftrightarrow> user_data d' = user_data d \<and>
     (\<exists>rs. rules d' = rules d @ rs \<and> list_all (\<lambda>r. r_Source r = ''auto-learned'') rs) \<and>
     prefix (execLog d) (execLog d') \<and> prefix (processed d) (processed d') \<and> prefix (moves d) (moves d') \<and>
     prefix (map d_ID (deferred d)) (map d_ID (deferred d'))"

lemma extends_refl: "extends d d"
  by (auto simp: extends_def intro: exI [of _ "[]"])

lemma extends_trans: "extends d d' \<Longrightarrow> extends d' d'' \<Longrightarrow> extends d d''"
  unfolding extends_def by (elim conjE exE) (auto intro: prefix_order.trans)

lemma update_account_settings:
  assumes "\<And>a. account_settings (g a) = account_settings a"
  shows "map account_settings (upd P g xs) = map account_settings xs"
  using assms by (simp add: upd_def)

lemma update_account_extends:
  "(\<And>a. account_settings (g a) = account_settings a) \<Longrightarrow> extends d (snd (update_account i g d))"
  by (auto simp: extends_def user_data_def update_account_def update_account_settings intro: exI [of _ "[]"])

lemmas table_defs = LogExecution_def CreateDeferredAction_def MarkDeferredActionDone_marks MarkMessageProcessed_def
  RecordRuleAppliedMove_def CleanOldRuleAppliedMoves_def UpsertMessageLocation_def RecordDetectedMove_def CreateRule_def insert_rule_def

lemma mail_step_extends: "mail_step d d' \<Longrightarrow> extends d d'"
proof (induction rule: mail_step.induct)
  case (m_MarkDeferredActionDone d now i er)
  have "map d_ID (upd P (mark_done now er) xs) = map d_ID xs" for P xs by (simp add: upd_def)
  then show ?case by (simp add: extends_def user_data_def MarkDeferredActionDone_marks)
qed (auto simp: UpdateAccountSyncTime_def UpdateLastUIDProcessed_def UpdateAccountOAuthTokens_def Let_def account_settings_def
    intro!: update_account_extends,
  auto simp: extends_def user_data_def table_defs bump_def Let_def)

lemma mail_steps_extend: "mail_step\<^sup>*\<^sup>* d d' \<Longrightarrow> extends d d'"
  by (induction rule: rtranclp_induct) (auto intro: extends_refl extends_trans mail_step_extends)

text \<open>
  C5. The services never touch what people enter: after any steps of any services the tenants, the users
  with their passwords, keys, passkeys and revoked tokens, the metadata and the settings and passwords
  of the accounts are as before; every rule is still there unchanged, any new rule is marked as learned;
  and the execution log, the processed messages and the detected moves have only grown.
\<close>
theorem services_keep_user_data:
  assumes "service_step\<^sup>*\<^sup>* w w'"
  shows "user_data (w_db w') = user_data (w_db w) \<and>
    (\<exists>rs. rules (w_db w') = rules (w_db w) @ rs \<and> list_all (\<lambda>r. r_Source r = ''auto-learned'') rs) \<and>
    prefix (execLog (w_db w)) (execLog (w_db w')) \<and> prefix (processed (w_db w)) (processed (w_db w')) \<and>
    prefix (moves (w_db w)) (moves (w_db w'))"
proof -
  have "mail_step\<^sup>*\<^sup>* (w_db w) (w_db w')" using mailing.service_steps_rel [OF assms] by (simp add: mails_def)
  then show ?thesis using mail_steps_extend by (simp add: extends_def)
qed

theorem services_keep_user_data_witness:
  "prefix (execLog (w_db (sample_world ''move'')))
     (execLog (w_db (snd (handleMessage sample_lua (sample_env R_OK) 5 (Some sample_event) (sample_world ''move'')))))"
  using services_keep_user_data [OF r_into_rtranclp [of service_step, OF sv_handleMessage]] by blast

end
