(* ===== verification/RuleRuns.thy ===== *)
theory RuleRuns
  imports WebRules Services
begin

text \<open>
  What the operations on rules do: a dry run predicts the execution, the execution logs every action once
  with its outcome and writes only what processing mail may write, operations are cancelled by their
  own tenant, and what happens to a rule that is edited.
\<close>

subsection \<open>The loops\<close>

text \<open>What the execution reads: the accounts, the rules and the cache of AI answers. Actions do not change them.\<close>

definition same_inputs :: "world \<Rightarrow> world \<Rightarrow> bool" where
  "same_inputs w w' \<longleftrightarrow> accounts (w_db w') = accounts (w_db w) \<and> rules (w_db w') = rules (w_db w) \<and> w_kiro w' = w_kiro w"

interpretation inputs: io_preorder same_inputs
  by unfold_locales (auto simp: same_inputs_def)

lemma applied_same_inputs: "only_applied w w' \<Longrightarrow> same_inputs w w'"
  by (auto simp: only_applied_def same_inputs_def)

lemma db_do_same_inputs:
  assumes "\<And>d. accounts (snd (op d)) = accounts d \<and> rules (snd (op d)) = rules d"
  shows "io_rel same_inputs (db_do N s op)"
proof -
  have "same_inputs w (snd (db_do N s op w))" for w
    using assms [of "w_db w"] by (cases rule: db_do_cases [of N s op w]) (simp_all add: same_inputs_def)
  then show ?thesis by (simp add: io_rel_def)
qed

lemma exec_statements:
  "io_rel same_inputs (db_do N s (CreateDeferredAction now da))" "io_rel same_inputs (db_do N s (LogExecution now l))"
  by (intro db_do_same_inputs, simp add: CreateDeferredAction_def LogExecution_def Let_def bump_def)+

lemma exec_action_same_inputs: "io_rel same_inputs (exec_action N now r aid email res)"
proof -
  have "io_rel same_inputs (ExecuteActionByMessageIDForRule N now aid mid ac ta i)" for mid ac ta i
    using by_message_id.act_applied by (simp add: io_rel_def applied_same_inputs)
  then show ?thesis
    by (auto simp: exec_action_def intro!: inputs.bind inputs.return exec_statements)
qed

lemma exec_action_mails: "io_rel mails (exec_action N now r aid email res)"
  by (auto simp: exec_action_def intro!: mailing.execute_rel mailing.bind mailing.return mailing.statement)

text \<open>A match of \<open>exec_email\<close>: the action, the outcome and the logging.\<close>

lemma exec_email_cases:
  obtains (none) k where "exec_email V N now r aid email (res, w)
      = (res\<lparr>er_TotalScanned := er_TotalScanned res + 1\<rparr>, w\<lparr>w_kiro := k\<rparr>)"
    and "dry_email V now r email (dr, w_kiro w) = (dr\<lparr>dr_TotalScanned := dr_TotalScanned dr + 1\<rparr>, k)"
  | (match) rr k outcome w1 where "exec_action N now r aid email rr (w\<lparr>w_kiro := k\<rparr>) = (outcome, w1)"
    and "exec_email V N now r aid email (res, w) =
      (let res2 = count_outcome email outcome (res\<lparr>er_TotalScanned := er_TotalScanned res + 1\<rparr>)
       in (res2\<lparr>er_Results := er_Results res2 @ [match_of email rr]\<rparr>,
           snd (db_do N S_LogExecution (LogExecution now (exec_log_of r aid email rr outcome)) w1)))"
    and "dry_email V now r email (dr, w_kiro w) = (dr\<lparr>dr_TotalScanned := dr_TotalScanned dr + 1,
      dr_TotalMatched := dr_TotalMatched dr + 1, dr_Matches := dr_Matches dr @ [match_of email rr]\<rparr>, k)"
proof (cases "Evaluate (rv_lua V) (rv_kiro V) now r email (w_kiro w)")
  case (Pair x k)
  show thesis
  proof (cases x)
    case (Inl e)
    with Pair show thesis by (intro none [of k]) (simp_all add: exec_email_def dry_email_def Let_def)
  next
    case (Inr rr)
    obtain outcome w1 where a: "exec_action N now r aid email rr (w\<lparr>w_kiro := k\<rparr>) = (outcome, w1)" by fastforce
    show thesis
    proof (cases "rr_Action rr = ''skip''")
      case True
      with Pair Inr show thesis by (intro none [of k]) (simp_all add: exec_email_def dry_email_def Let_def)
    next
      case False
      with Pair Inr a show thesis by (intro match [OF a]) (simp_all add: exec_email_def dry_email_def Let_def)
    qed
  qed
qed

lemma exec_emails_invariant:
  assumes "\<And>j email s. P s \<Longrightarrow> P (exec_email V (Ns j) now r aid email s)" and "P s"
  shows "P (exec_emails V Ns ctxErr now r aid j es s)"
  using assms(2) by (induction es arbitrary: j s) (simp_all add: assms(1))

lemma exec_accounts_invariant:
  assumes "\<And>j email aid s. aid \<in> a_ID ` set accs \<Longrightarrow> P s \<Longrightarrow> P (exec_email V (Ns aid j) (ap_now A) r aid email s)"
    and "\<And>e res w. P (res, w) \<Longrightarrow> P (res\<lparr>er_Errors := e\<rparr>, w)" and "P s"
  shows "P (exec_accounts A V C net Ns ctxErr t r limit i accs s)"
  using assms(1,3)
proof (induction accs arbitrary: i s)
  case (Cons acc accs)
  have emails: "P (exec_emails V (Ns (a_ID acc)) ctxErr (ap_now A) r (a_ID acc) 0 es s)" for es
    by (rule exec_emails_invariant [where P = P]) (simp_all add: Cons.prems)
  have err: "P ((fst s)\<lparr>er_Errors := e\<rparr>, snd s)" for e
    using assms(2) [of "fst s" "snd s"] Cons.prems(2) by simp
  have ih: "P s' \<Longrightarrow> P (exec_accounts A V C net Ns ctxErr t r limit i' accs s')" for i' s'
    by (rule Cons.IH) (rule Cons.prems(1), simp_all)
  show ?case by (simp add: ih emails err Cons.prems(2) split: sum.split)
qed simp

subsection \<open>A dry run predicts the execution\<close>

definition agrees :: "world \<Rightarrow> DryRunResult \<times> KiroClient option \<Rightarrow> ExecuteResult \<times> world \<Rightarrow> bool" where
  "agrees w0 s e \<longleftrightarrow>
     dr_TotalScanned (fst s) = er_TotalScanned (fst e) \<and> dr_Matches (fst s) = er_Results (fst e) \<and>
     dr_TotalMatched (fst s) = er_TotalExecuted (fst e) + er_TotalFailed (fst e) \<and>
     dr_Cancelled (fst s) = er_Cancelled (fst e) \<and>
     snd s = w_kiro (snd e) \<and> accounts (w_db (snd e)) = accounts (w_db w0)"

lemma count_outcome_sel [simp]:
  "er_TotalScanned (count_outcome m x res) = er_TotalScanned res" "er_Results (count_outcome m x res) = er_Results res"
  "er_Cancelled (count_outcome m x res) = er_Cancelled res"
  "er_TotalExecuted (count_outcome m x res) + er_TotalFailed (count_outcome m x res) = er_TotalExecuted res + er_TotalFailed res + 1"
  by (simp_all add: count_outcome_def split: sum.split)

lemma exec_email_agrees:
  assumes "agrees w0 s e"
  shows "agrees w0 (dry_email V now r email s) (exec_email V N now r aid email e)"
proof -
  obtain dr k where s: "s = (dr, k)" by (cases s)
  obtain res w where e: "e = (res, w)" by (cases e)
  have k: "k = w_kiro w" using assms by (simp add: agrees_def s e)
  show ?thesis unfolding s e k
  proof (cases rule: exec_email_cases [of V N now r aid email res w dr])
    case (none k)
    with assms show "agrees w0 (dry_email V now r email (dr, w_kiro w)) (exec_email V N now r aid email (res, w))"
      by (simp add: agrees_def s e)
  next
    case (match rr k outcome w1)
    have "same_inputs (w\<lparr>w_kiro := k\<rparr>) w1"
      using io_relD [OF exec_action_same_inputs match(1)] .
    moreover have "same_inputs w1 (snd (db_do N S_LogExecution (LogExecution now l) w1))" for l
      using exec_statements(2) by (simp add: io_rel_def)
    ultimately have "same_inputs (w\<lparr>w_kiro := k\<rparr>) (snd (db_do N S_LogExecution (LogExecution now l) w1))" for l
      by (rule inputs.trans)
    with assms match(2,3) show "agrees w0 (dry_email V now r email (dr, w_kiro w)) (exec_email V N now r aid email (res, w))"
      by (simp add: agrees_def s e same_inputs_def Let_def)
  qed
qed

lemma exec_emails_agrees:
  "agrees w0 s e \<Longrightarrow> agrees w0 (dry_emails V ctxErr now r aid j es s) (exec_emails V Ns ctxErr now r aid j es e)"
  by (induction es arbitrary: j s e) (simp_all add: exec_email_agrees)

lemma exec_accounts_agrees:
  "agrees w0 s e \<Longrightarrow> agrees w0 (dry_accounts A V C net ctxErr t r limit (w_db w0) i accs s)
     (exec_accounts A V C net Ns ctxErr t r limit i accs e)"
proof (induction accs arbitrary: i s e)
  case (Cons acc accs)
  have get: "GetAccount C t (a_ID acc) (w_db (snd e)) = GetAccount C t (a_ID acc) (w_db w0)"
    using Cons.prems by (simp add: agrees_def GetAccount_def)
  have err: "agrees w0 s ((fst e)\<lparr>er_Errors := x\<rparr>, snd e)" for x
    using Cons.prems by (simp add: agrees_def)
  have emails: "agrees w0 (dry_emails V ctxErr (ap_now A) r (a_ID acc) 0 es s)
      (exec_emails V (Ns (a_ID acc)) ctxErr (ap_now A) r (a_ID acc) 0 es e)" for es
    using Cons.prems by (rule exec_emails_agrees)
  show ?case using Cons by (simp add: get err emails split: sum.split)
qed simp

text \<open>
  C16. A dry run predicts the execution: on the same mailboxes and with the same cancellations, the execution of a
  rule scans the messages that the dry run scans and acts on the matches that the dry run lists, in the same
  order and with the same actions, whichever actions and statements fail; what the dry run counts as
  matched is what the execution counts as executed or failed. If the accounts cannot be listed, both
  fail alike.
\<close>
theorem dry_run_predicts_execution:
  "case (fst (dry_run A V C net ctxErr t r limit (w_db w) (w_kiro w)), fst (execute_rule A V C net Ns N ids ctxErr t r limit w)) of
     (Inr dr, Inr er) \<Rightarrow> dr_Matches dr = er_Results er \<and> dr_TotalScanned dr = er_TotalScanned er \<and>
        dr_TotalMatched dr = er_TotalExecuted er + er_TotalFailed er \<and> dr_Cancelled dr = er_Cancelled er
   | (Inl e, Inl e') \<Rightarrow> e = e'
   | _ \<Rightarrow> False"
proof -
  let ?w = "w\<lparr>w_conns := Map.empty\<rparr>" and ?accs = "ListAccounts t (w_db w)"
  have "agrees ?w (empty_dry_run, w_kiro w) (empty_execution, ?w)"
    by (simp add: agrees_def empty_dry_run_def empty_execution_def)
  from exec_accounts_agrees [OF this, of A V C net ctxErr t r limit 12 ?accs Ns]
  show ?thesis
    by (auto simp: dry_run_def execute_rule_def read_at_def query_def empty_dry_run_def empty_execution_def agrees_def
        split: prod.split)
qed

subsection \<open>What an execution writes\<close>

lemma close_all_quiet: "quiet w (close_all N ids w)"
proof (induction N ids w rule: close_all.induct)
  case (2 N i ids w)
  have "quiet w (snd (disconnect N i w))" using disconnect_quiet by (simp add: io_rel_def)
  then have "quiet w ((snd (disconnect N i w))\<lparr>w_conns := (w_conns w)(i := None)\<rparr>)" by (simp add: quiet_def)
  from quiet.trans [OF this 2] show ?case by simp
qed simp

text \<open>
  The contract for relations that hold between the worlds before and after an execution: the actions and
  the logging keep them, and so do the AI client, the connections and their closing.
\<close>

locale execution = io_preorder +
  assumes action: "io_rel R (exec_action N now r aid email res)"
    and logging: "io_rel R (db_do N S_LogExecution (LogExecution now l))"
    and same_db: "w_db w' = w_db w \<Longrightarrow> R w w'"
begin

lemma email: "R w0 w \<Longrightarrow> R w0 (snd (exec_email V N now r aid email (res, w)))"
proof (cases rule: exec_email_cases [of V N now r aid email res w empty_dry_run])
  case (none k)
  assume "R w0 w"
  with none show ?thesis by (simp add: trans [OF _ same_db])
next
  case (match rr k outcome w1)
  assume "R w0 w"
  then have "R w0 (w\<lparr>w_kiro := k\<rparr>)" by (simp add: trans [OF _ same_db])
  from trans [OF this io_relD [OF action match(1)]] have "R w0 w1" .
  then show ?thesis by (simp add: match(2) Let_def run [OF logging])
qed

lemma execute: "R w (fst (snd (ExecuteRule A V C net Ns N ids ctxErr n c body (w, ops))))"
proof -
  have "R w (snd (exec_accounts A V C net Ns ctxErr t r limit i accs (res, w\<lparr>w_conns := Map.empty\<rparr>)))" for t r limit i accs res
    by (rule exec_accounts_invariant [where P = "\<lambda>s. R w (snd s)"]) (auto simp: email same_db)
  moreover have "w_db (close_all N ids w') = w_db w'" for w'
    using close_all_quiet by (simp add: quiet_def)
  ultimately have "R w (close_all N ids (snd (exec_accounts A V C net Ns ctxErr t r limit i accs (res, w\<lparr>w_conns := Map.empty\<rparr>))))"
    for t r limit i accs res by (blast intro: trans same_db)
  then have "R w (snd (execute_rule A V C net Ns N ids ctxErr t r limit w))" for t r limit
    by (auto simp: execute_rule_def split: sum.split prod.split) (metis snd_conv)
  then show ?thesis
    by (auto simp: ExecuteRule_def Let_def split: option.split sum.split prod.split) (metis snd_conv)+
qed

end

interpretation execution_mails: execution mails
  by unfold_locales (rule exec_action_mails, rule mailing.statement, rule mails_same)

text \<open>
  The execution of a rule over the API refines the same specification as the background services: whatever
  the mailboxes hold and whatever fails, it executes only statements that processing mail may execute.
\<close>
theorem execution_refines_spec:
  "mail_step\<^sup>*\<^sup>* (w_db w) (w_db (fst (snd (ExecuteRule A V C net Ns N ids ctxErr n c body (w, ops)))))"
  using execution_mails.execute by (simp add: mails_def)

text \<open>The log of an execution: one row per result, with its outcome.\<close>

definition log_of_match :: "exec_log \<Rightarrow> string \<times> string \<times> string" where
  "log_of_match l = (l_MessageID l, l_Action l, l_Target l)"

definition match_key :: "DryRunMatch \<Rightarrow> string \<times> string \<times> string" where
  "match_key m = (mt_MessageID m, mt_Action m, mt_Target m)"

definition logged :: "int \<Rightarrow> world \<Rightarrow> ExecuteResult \<times> world \<Rightarrow> bool" where
  "logged ruleID w0 e \<longleftrightarrow> accounts (w_db (snd e)) = accounts (w_db w0) \<and> rules (w_db (snd e)) = rules (w_db w0) \<and>
     (\<exists>ls. execLog (w_db (snd e)) = execLog (w_db w0) @ ls \<and> map log_of_match ls = map match_key (er_Results (fst e)) \<and>
        list_all (\<lambda>l. l_RuleID l = ruleID) ls \<and>
        er_TotalExecuted (fst e) = int (length (filter l_Success ls)) \<and>
        er_TotalFailed (fst e) = int (length (filter (\<lambda>l. \<not> l_Success l) ls)))"

lemma exec_action_log: "execLog (w_db (snd (exec_action N now r aid email res w))) = execLog (w_db w)"
proof -
  have "execLog (w_db (snd (db_do N s (CreateDeferredAction now da) w))) = execLog (w_db w)" for s da
    by (cases rule: db_do_cases [of N s "CreateDeferredAction now da" w])
      (auto simp: CreateDeferredAction_def Let_def bump_def split: if_splits)
  then show ?thesis
    by (auto simp: exec_action_def by_message_id.tables_same io_bind_def io_return_def split: prod.split sum.split)
      (metis snd_conv)+
qed

lemma LogExecution_row:
  assumes "\<not> en_fault N S_LogExecution" and "has_key r_ID (l_RuleID l) (rules (w_db w))" and "has_key a_ID (l_AccountID l) (accounts (w_db w))"
  shows "w_db (snd (db_do N S_LogExecution (LogExecution now l) w)) = (bump ExecLog (w_db w))\<lparr>execLog := execLog (w_db w) @
      [l\<lparr>l_ID := seqs (w_db w) ExecLog, l_ExecutedAt := now\<rparr>]\<rparr>"
  using assms by (simp add: db_do_def stmt_def LogExecution_def Let_def)

lemma exec_email_logged:
  assumes "logged (r_ID r) w0 (res, w)" and "\<not> en_fault N S_LogExecution"
    and "has_key r_ID (r_ID r) (rules (w_db w0))" and "has_key a_ID aid (accounts (w_db w0))"
  shows "logged (r_ID r) w0 (exec_email V N now r aid email (res, w))"
proof (cases rule: exec_email_cases [of V N now r aid email res w empty_dry_run])
  case (none k)
  with assms(1) show ?thesis by (simp add: logged_def)
next
  case (match rr k outcome w1)
  have "same_inputs (w\<lparr>w_kiro := k\<rparr>) w1" using io_relD [OF exec_action_same_inputs match(1)] .
  then have same: "accounts (w_db w1) = accounts (w_db w0)" "rules (w_db w1) = rules (w_db w0)"
    using assms(1) by (simp_all add: same_inputs_def logged_def)
  have log: "execLog (w_db w1) = execLog (w_db w)"
    using exec_action_log [of N now r aid email rr "w\<lparr>w_kiro := k\<rparr>"] match(1) by simp
  let ?l = "exec_log_of r aid email rr outcome"
  have row: "w_db (snd (db_do N S_LogExecution (LogExecution now ?l) w1)) = (bump ExecLog (w_db w1))\<lparr>execLog := execLog (w_db w) @
      [?l\<lparr>l_ID := seqs (w_db w1) ExecLog, l_ExecutedAt := now\<rparr>]\<rparr>"
    using LogExecution_row [of N ?l w1 now] assms(2-4) same log by (simp add: exec_log_of_def)
  obtain ls where "execLog (w_db w) = execLog (w_db w0) @ ls" "map log_of_match ls = map match_key (er_Results res)"
      "list_all (\<lambda>l. l_RuleID l = r_ID r) ls" "er_TotalExecuted res = int (length (filter l_Success ls))"
      "er_TotalFailed res = int (length (filter (\<lambda>l. \<not> l_Success l) ls))"
    using assms(1) by (auto simp: logged_def)
  moreover obtain l where "w_db (snd (db_do N S_LogExecution (LogExecution now ?l) w1)) = (bump ExecLog (w_db w1))\<lparr>execLog := execLog (w_db w) @ [l]\<rparr>"
    and "l_RuleID l = r_ID r" and "log_of_match l = match_key (match_of email rr)" and "l_Success l = res_ok outcome"
    using row by (rule that) (simp_all add: exec_log_of_def log_of_match_def match_key_def match_of_def)
  ultimately show ?thesis unfolding match(2) Let_def logged_def using same
    by (cases outcome) (auto simp: bump_def count_outcome_def intro!: exI [of _ "ls @ [l]"])
qed

text \<open>
  The execution of a saved rule leaves one row in the log for every message it acted on, in the order of
  its results, with their action and target; the rows that say that the action succeeded are as many as
  the execution reports as executed, the others as many as it reports as failed.
\<close>
theorem execution_is_logged:
  assumes "execute_rule A V C net Ns N ids ctxErr t r limit w = (Inr er, w')"
    and "has_key r_ID (r_ID r) (rules (w_db w))" and "\<And>aid j. \<not> en_fault (Ns aid j) S_LogExecution"
  shows "\<exists>ls. execLog (w_db w') = execLog (w_db w) @ ls \<and>
    map (\<lambda>l. (l_MessageID l, l_Action l, l_Target l)) ls = map (\<lambda>m. (mt_MessageID m, mt_Action m, mt_Target m)) (er_Results er) \<and>
    list_all (\<lambda>l. l_RuleID l = r_ID r) ls \<and>
    er_TotalExecuted er = int (length (filter l_Success ls)) \<and> er_TotalFailed er = int (length (filter (\<lambda>l. \<not> l_Success l) ls))"
proof -
  let ?accs = "ListAccounts t (w_db w)" and ?w = "w\<lparr>w_conns := Map.empty\<rparr>"
  have key: "has_key a_ID aid (accounts (w_db w))" if "aid \<in> a_ID ` set ?accs" for aid
    using that by (auto simp: ListAccounts_def list_account_def has_key_def list_ex_iff)
  have "logged (r_ID r) w (empty_execution, ?w)"
    by (auto simp: logged_def empty_execution_def)
  then have run: "logged (r_ID r) w (exec_accounts A V C net Ns ctxErr t r limit 12 ?accs (empty_execution, ?w))"
    by (intro exec_accounts_invariant [where P = "logged (r_ID r) w"]) (auto simp: key assms(2,3) exec_email_logged, simp add: logged_def)
  have "w_db (close_all N ids w1) = w_db w1" for w1
    using close_all_quiet by (simp add: quiet_def)
  with run assms(1) show ?thesis
    by (auto simp: execute_rule_def read_at_def query_def logged_def log_of_match_def [abs_def] match_key_def [abs_def] empty_execution_def
        split: if_splits prod.splits)
qed

subsection \<open>What a dry run reads\<close>

lemma inbox_email_worker: "inbox_email U rd now acc (Inr buf) = bufferToEmailContext U rd now acc buf"
  by (simp add: inbox_email_def bufferToEmailContext_def Let_def split: option.split list.split prod.split)

text \<open>
  A limit below \<open>2\<^sup>3\<^sup>2\<close> selects the most recent messages: with a positive limit the range that is
  fetched ends with the last message and has as many as the limit says, or all; without one it has all.
  At \<open>2\<^sup>3\<^sup>2\<close> the conversion to 32 bits makes the limit zero, and the range starts after the last message.
\<close>
theorem fetch_window:
  assumes "0 < num" and "num < 2 ^ 32 - 1" and "limit < 2 ^ 32"
  shows "1 \<le> fetch_start limit num \<and> fetch_start limit num \<le> num \<and>
      num - fetch_start limit num + 1 = (if limit \<le> 0 then num else min limit num) \<and>
      fetch_start (2 ^ 32) num = num + 1"
  using assms by (auto simp: fetch_start_def)

theorem fetch_window_witness: "5 - fetch_start 2 5 + 1 = min 2 5 \<and> fetch_start (2 ^ 32) 5 = 6"
  using fetch_window [of 5 2] by auto

subsection \<open>Cancelling\<close>

lemma rule_op_key_inject: "rule_op_key t i = rule_op_key t' i' \<longleftrightarrow> t = t' \<and> i = i'"
proof
  assume eq: "rule_op_key t i = rule_op_key t' i'"
  have tw: "takeWhile (\<lambda>c. c \<noteq> CHR '':'') (FormatInt x @ CHR '':'' # ys) = FormatInt x" for x ys
    using FormatInt_no_colon [of x] by (subst takeWhile_append2) auto
  from eq have e: "FormatInt t @ CHR '':'' # ''rule:'' @ FormatInt i = FormatInt t' @ CHR '':'' # ''rule:'' @ FormatInt i'"
    by (simp add: rule_op_key_def)
  then have "FormatInt t = FormatInt t'" by (metis tw)
  with e show "t = t' \<and> i = i'" by (simp add: FormatInt_inject)
qed simp

lemma adhoc_op_key_inject: "adhoc_op_key t = adhoc_op_key t' \<longleftrightarrow> t = t'"
  by (simp add: adhoc_op_key_def FormatInt_inject)

lemma rule_adhoc_key: "rule_op_key t i \<noteq> adhoc_op_key t'"
proof
  have tl: "tl (dropWhile (\<lambda>c. c \<noteq> CHR '':'') (FormatInt x @ CHR '':'' # ys)) = ys" for x ys
    using FormatInt_no_colon [of x] by (subst dropWhile_append2) auto
  assume "rule_op_key t i = adhoc_op_key t'"
  then have "FormatInt t @ CHR '':'' # ''rule:'' @ FormatInt i = FormatInt t' @ CHR '':'' # ''adhoc''"
    by (simp add: rule_op_key_def adhoc_op_key_def)
  from arg_cong [OF this, of "\<lambda>s. tl (dropWhile (\<lambda>c. c \<noteq> CHR '':'') s)"] show False
    unfolding tl by simp
qed

text \<open>Steps of concurrent requests on the operations in progress: operation \<open>n\<close> begins or ends, or a request cancels.\<close>

datatype op_request =
    Begin_Rule int int nat
  | End_Rule int int nat
  | Begin_AdHoc int nat
  | End_AdHoc int nat
  | Cancel_Rule ctx
  | Cancel_AdHoc ctx

fun op_step :: "op_request \<Rightarrow> operations \<Rightarrow> operations" where
  "op_step (Begin_Rule t i n) ops = begin_op (rule_op_key t i) n ops"
| "op_step (End_Rule t i n) ops = end_op (rule_op_key t i) n ops"
| "op_step (Begin_AdHoc t n) ops = begin_op (adhoc_op_key t) n ops"
| "op_step (End_AdHoc t n) ops = end_op (adhoc_op_key t) n ops"
| "op_step (Cancel_Rule c) ops = snd (CancelOperation c ops)"
| "op_step (Cancel_AdHoc c) ops = snd (CancelAdHocOperation c ops)"

definition no_operations :: operations where
  "no_operations = \<lparr>op_active = Map.empty, op_cancelled = []\<rparr>"

text \<open>The tenant of an operation that has begun, by its number.\<close>

fun begun_by :: "nat \<Rightarrow> op_request \<Rightarrow> int option" where
  "begun_by n (Begin_Rule t i m) = (if m = n then Some t else None)"
| "begun_by n (Begin_AdHoc t m) = (if m = n then Some t else None)"
| "begun_by n _ = None"

definition ops_inv :: "op_request list \<Rightarrow> operations \<Rightarrow> bool" where
  "ops_inv rs ops \<longleftrightarrow> (\<forall>key n. op_active ops key = Some n \<longrightarrow>
     (\<exists>t q. q \<in> set rs \<and> begun_by n q = Some t \<and> (key = adhoc_op_key t \<or> (\<exists>i. key = rule_op_key t i))))"

lemma ops_inv_step: "ops_inv rs ops \<Longrightarrow> ops_inv (rs @ [q]) (op_step q ops)"
proof (cases q)
  case (Cancel_Rule c)
  assume "ops_inv rs ops"
  with Cancel_Rule show ?thesis
    by (auto simp: ops_inv_def CancelOperation_def cancel_op_def split: option.split if_splits) blast+
next
  case (Cancel_AdHoc c)
  assume "ops_inv rs ops"
  with Cancel_AdHoc show ?thesis
    by (auto simp: ops_inv_def CancelAdHocOperation_def cancel_op_def split: option.split if_splits) blast+
qed (auto simp: ops_inv_def begin_op_def end_op_def split: if_splits; fastforce)+

lemma ops_inv_run: "ops_inv rs (fold op_step rs no_operations)"
proof (induction rs rule: rev_induct)
  case (snoc q rs)
  then show ?case by (simp add: ops_inv_step)
qed (simp add: ops_inv_def no_operations_def)

lemma cancel_op_own:
  assumes "ops_inv rs ops" and "key = adhoc_op_key t \<or> key = rule_op_key t i"
  shows "op_cancelled (snd (cancel_op key ops)) = op_cancelled ops \<or>
    (\<exists>n q. op_cancelled (snd (cancel_op key ops)) = n # op_cancelled ops \<and> q \<in> set rs \<and> begun_by n q = Some t)"
proof (cases "op_active ops key")
  case (Some n)
  with assms(1) obtain t' q where q: "q \<in> set rs" "begun_by n q = Some t'" "key = adhoc_op_key t' \<or> (\<exists>i. key = rule_op_key t' i)"
    unfolding ops_inv_def by blast
  from q(3) assms(2) have "t' = t"
    by (auto simp: adhoc_op_key_inject rule_op_key_inject rule_adhoc_key rule_adhoc_key [symmetric])
  with q(1,2) Some show ?thesis by (auto simp: cancel_op_def)
qed (simp add: cancel_op_def)

text \<open>
  A tenant cancels only its own operations: after any beginnings, endings and cancellations, a cancel
  request reaches no operation or one operation that a request of the same tenant has begun.
\<close>
theorem cancel_reaches_own_operations:
  "let ops = fold op_step rs no_operations;
       own = (\<lambda>ops'. op_cancelled ops' = op_cancelled ops \<or>
         (\<exists>n q. op_cancelled ops' = n # op_cancelled ops \<and> q \<in> set rs \<and> begun_by n q = Some (tenantID c)))
   in own (snd (CancelOperation c ops)) \<and> own (snd (CancelAdHocOperation c ops))"
  using cancel_op_own [OF ops_inv_run, of _ "tenantID c" _ rs]
  by (auto simp: Let_def CancelOperation_def CancelAdHocOperation_def split: option.split)

text \<open>
  When two runs of a rule overlap, the end of the first deletes the entry of the second: the
  second cannot be cancelled any more, the request answers that no operation is in progress.
\<close>
theorem overlapping_run_not_cancelled:
  assumes "Atoi (cx_Params c ''id'') = Some i" and "m \<noteq> n" and "m \<notin> set (op_cancelled ops)"
  shows "let ops' = fold op_step [Begin_Rule (tenantID c) i n, Begin_Rule (tenantID c) i m, End_Rule (tenantID c) i n] ops
    in fst (CancelOperation c ops') = message_response ''no active operation found'' \<and>
       m \<notin> set (op_cancelled (snd (CancelOperation c ops')))"
  using assms by (simp add: CancelOperation_def cancel_op_def begin_op_def end_op_def)

theorem overlapping_run_not_cancelled_witness:
  "2 \<notin> set (op_cancelled (snd (CancelOperation sample_request
     (fold op_step [Begin_Rule 1 1 1, Begin_Rule 1 1 2, End_Rule 1 1 1] no_operations))))"
  using overlapping_run_not_cancelled [of sample_request 1 2 1 no_operations]
  by (simp add: Let_def sample_request_def Atoi_one tenantID_def no_operations_def)

subsection \<open>The life of a rule\<close>

lemma set_ListActiveRules: "r \<in> set (ListActiveRules t d) \<longleftrightarrow> r \<in> set (rules d) \<and> r_TenantID r = t \<and> r_Active r \<and> r_Approved r"
  by (auto simp: ListActiveRules_def)

text \<open>
  A rule that is created is valid Lua, belongs to the tenant of the request and is appended to the rules. It
  takes part in evaluation at once if it is active and its source is empty or manual; from another
  source, when sent as not approved, it takes part only after the approval.
\<close>
theorem created_rule_life:
  assumes "api_CreateRule A V c (Some b) d = ((201, J_Rule r), d1)"
    and "\<not> ap_fault A' 10" and "Atoi (cx_Params c' ''id'') = Some (r_ID r)" and "tenantID c' = tenantID c"
  shows "rules d1 = rules d @ [r] \<and> r_TenantID r = tenantID c \<and> ValidateLua (rv_lua V) (r_LuaCode r) \<and> r_LuaCode r = r_LuaCode b \<and>
    (r_Active b \<and> r_Source b \<in> {[], ''manual''} \<longrightarrow> r \<in> set (ListActiveRules (tenantID c) d1)) \<and>
    (r_Active b \<and> r_Source b \<notin> {[], ''manual''} \<and> \<not> r_Approved b \<longrightarrow>
       r \<notin> set (ListActiveRules (tenantID c) d1) \<and>
       r\<lparr>r_Approved := True, r_UpdatedAt := ap_now A'\<rparr> \<in> set (ListActiveRules (tenantID c) (snd (api_ApproveRule A' c' d1))))"
proof -
  from assms(1) have d1: "rules d1 = rules d @ [r]" and v: "ValidateLua (rv_lua V) (r_LuaCode r)"
    and r: "r_TenantID r = tenantID c" "r_LuaCode r = r_LuaCode b" "r_Active r = r_Active b"
      "r_Approved r = (r_Source b \<in> {[], ''manual''} \<or> r_Approved b)"
    by (auto simp: api_CreateRule_def Let_def write_at_def stmt_def CreateRule_def insert_rule_def bump_def invalid_lua_def
        split: if_splits prod.splits sum.splits)
  have "rules (snd (api_ApproveRule A' c' d1)) = upd (\<lambda>x. r_ID x = r_ID r \<and> r_TenantID x = tenantID c)
      (\<lambda>x. x\<lparr>r_Approved := True, r_UpdatedAt := ap_now A'\<rparr>) (rules d1)"
    using assms(2-4) by (simp add: api_ApproveRule_def write_at_def stmt_def ApproveRule_def)
  then have "r\<lparr>r_Approved := True, r_UpdatedAt := ap_now A'\<rparr> \<in> set (rules (snd (api_ApproveRule A' c' d1)))"
    using r(1) by (auto simp: d1 upd_def)
  with d1 v r show ?thesis by (auto simp: set_ListActiveRules)
qed

text \<open>
  Saving a rule in the editor disables it: the editor sends neither \<open>approved\<close> nor \<open>source\<close>, and their
  zero values are stored. Afterwards no rule with this id takes part in evaluation, whatever was
  stored before; it is among the suggestions instead.
\<close>
theorem saving_disables_rule:
  assumes "api_UpdateRule A V c (Some b) d = ((200, j), d1)" and "\<not> r_Approved b"
    and "Atoi (cx_Params c ''id'') = Some ident" and "GetRule (tenantID c) ident d = Inr r"
  shows "ident \<notin> r_ID ` set (ListActiveRules (tenantID c) d1) \<and> ident \<in> r_ID ` set (ListSuggestedRules (tenantID c) d1)"
proof -
  define P where "P = (\<lambda>x :: rule. r_ID x = ident \<and> r_TenantID x = tenantID c)"
  define g where "g = (\<lambda>x :: rule. x\<lparr>r_Name := r_Name b, r_Description := r_Description b, r_LuaCode := r_LuaCode b, r_Priority := r_Priority b,
    r_Active := r_Active b, r_Source := r_Source b, r_Approved := r_Approved b, r_UsesAI := r_UsesAI b, r_UpdatedAt := ap_now A\<rparr>)"
  have g: "P (g x) = P x" "\<not> r_Approved (g x)" for x using assms(2) by (simp_all add: P_def g_def)
  from assms(1,3) have d1: "set (rules d1) = (\<lambda>x. if P x then g x else x) ` set (rules d)"
    by (auto simp: api_UpdateRule_def Let_def write_at_def stmt_def UpdateRule_def invalid_lua_def upd_def P_def g_def split: if_splits)
  have "find P (rules d) = Some r"
    using assms(4) by (simp add: GetRule_def get_row_def P_def split: option.splits)
  then obtain r' where "r' \<in> set (rules d)" "P r'" by (metis find_Some_iff nth_mem)
  then have "g r' \<in> set (rules d1)" "P (g r')" unfolding d1 by (auto simp: g image_iff intro!: bexI [of _ r'])
  then have "ident \<in> r_ID ` set (ListSuggestedRules (tenantID c) d1)"
    using g(2) [of r'] by (intro image_eqI [of _ _ "g r'"]) (simp_all add: P_def ListSuggestedRules_def)
  moreover have "x \<in> set (rules d1) \<Longrightarrow> P x \<Longrightarrow> \<not> r_Approved x" for x
    unfolding d1 using g by auto
  ultimately show ?thesis unfolding P_def by (auto simp: set_ListActiveRules)
qed

subsection \<open>Names of rules\<close>

definition rule_name :: "int \<Rightarrow> db \<Rightarrow> int \<Rightarrow> string" where
  "rule_name t d i = (case GetRule t i d of Inr r \<Rightarrow> r_Name r | Inl _ \<Rightarrow> ''Rule #'' @ FormatInt i)"

lemma enrich_names:
  assumes "\<And>j. \<not> ap_fault A j" and "\<forall>i n. names i = Some n \<longrightarrow> n = rule_name t d i"
  shows "enrich A t d k names as = map (\<lambda>a. \<lparr>ea_DeferredAction = a, ea_RuleName = rule_name t d (d_RuleID a)\<rparr>) as"
  using assms(2)
  by (induction as arbitrary: k names)
    (auto simp: read_at_def query_def assms(1) rule_name_def Let_def split: option.split)

text \<open>
  The cache of rule names changes nothing: the deferred actions are shown with the name that a separate
  query for each of them would give.
\<close>
theorem deferred_names_cached:
  assumes "\<And>j. \<not> ap_fault A j"
  shows "fst (api_ListDeferredActions A c d) = (200, J_Obj [(''deferred_actions'',
    J_List (map (\<lambda>a. enriched_json \<lparr>ea_DeferredAction = a, ea_RuleName = rule_name (tenantID c) d (d_RuleID a)\<rparr>)
      (ListDeferredActions (tenantID c) d)))])"
  by (simp add: api_ListDeferredActions_def read_at_def query_def assms enrich_names)

subsection \<open>Instances\<close>

definition sample_rule_env :: rule_env where
  "sample_rule_env = \<lparr>rv_lua = sample_lua, rv_kiro = sample_kiro, rv_syntax = (\<lambda>_. []), rv_error = (\<lambda>_. [])\<rparr>"

definition sample_buf :: message_buf where
  "sample_buf = \<lparr>mb_UID = 7, mb_Envelope = Some \<lparr>nv_Date = 1, nv_Subject = ''hi'', nv_From = [], nv_To = [], nv_Cc = [], nv_MessageID = ''<1@x>''\<rparr>,
     mb_InternalDate = 1, mb_BodySection = [], mb_BodyStructure = None\<rparr>"

definition sample_inbox :: "int \<Rightarrow> inbox_net" where
  "sample_inbox aid = \<lparr>in_Dial = (\<lambda>_ _. None), in_Greeting = None, in_Login = (\<lambda>_ _. None), in_Select = Inr 1,
     in_Fetch = (\<lambda>_ _. [Inr sample_buf]), in_ReadFields = (\<lambda>_. None)\<rparr>"

abbreviation sample_execution where
  "sample_execution \<equiv> execute_rule (sample_api 5) sample_rule_env sample_crypt sample_inbox (\<lambda>_ _. sample_env R_OK) (sample_env R_OK) [1]
     (\<lambda>_. False) 1 (sample_rule ''move'') 0 (sample_world ''move'')"

lemma sample_execution_ok: "\<exists>er w'. sample_execution = (Inr er, w')"
  by (simp add: execute_rule_def read_at_def query_def split: prod.split)

theorem execution_is_logged_witness:
  "\<exists>er w'. sample_execution = (Inr er, w') \<and> (\<exists>ls. execLog (w_db w') = ls \<and> er_TotalExecuted er = int (length (filter l_Success ls)))"
proof -
  obtain er w' where e: "sample_execution = (Inr er, w')" using sample_execution_ok by blast
  have k: "has_key r_ID (r_ID (sample_rule ''move'')) (rules (w_db (sample_world ''move'')))"
    by (simp add: sample_world_def sample_db_def)
  have "\<not> en_fault (sample_env R_OK) S_LogExecution" by (simp add: sample_env_def)
  with execution_is_logged [OF e k] e show ?thesis by (auto simp: sample_world_def sample_db_def empty_db_def)
qed

lemma sample_create_rule:
  "\<exists>d1. api_CreateRule (sample_api 5) sample_rule_env sample_request (Some (sample_rule ''move'')) (sample_db ''skip'')
     = ((201, J_Rule ((sample_rule ''move'')\<lparr>r_ID := 2, r_CreatedAt := 5, r_UpdatedAt := 5\<rparr>)), d1)"
  by (simp add: api_CreateRule_def sample_request_def tenantID_def sample_rule_env_def ValidateLua_def sample_lua_def write_at_def stmt_def
      CreateRule_def insert_rule_def sample_rule_def sample_db_def sample_tenant_def int4_def Let_def)

theorem created_rule_life_witness:
  "\<exists>d1. (sample_rule ''move'')\<lparr>r_ID := 2, r_CreatedAt := 5, r_UpdatedAt := 5\<rparr> \<in> set (ListActiveRules 1 d1) \<and>
     snd (api_CreateRule (sample_api 5) sample_rule_env sample_request (Some (sample_rule ''move'')) (sample_db ''skip'')) = d1"
proof -
  obtain d1 where c: "api_CreateRule (sample_api 5) sample_rule_env sample_request (Some (sample_rule ''move'')) (sample_db ''skip'')
     = ((201, J_Rule ((sample_rule ''move'')\<lparr>r_ID := 2, r_CreatedAt := 5, r_UpdatedAt := 5\<rparr>)), d1)"
    using sample_create_rule by blast
  have two: "Atoi ''2'' = Some 2"
    by (simp add: Atoi_def HasPrefix_def is_digit_def int64_range_def)
  from created_rule_life [OF c, of "sample_api 6" "sample_request\<lparr>cx_Params := (\<lambda>_. ''2'')\<rparr>"] c show ?thesis
    by (auto simp: two sample_rule_def sample_request_def tenantID_def)
qed

theorem saving_disables_rule_witness:
  "1 \<in> r_ID ` set (ListActiveRules 1 (sample_db ''skip'')) \<and>
   1 \<notin> r_ID ` set (ListActiveRules 1 (snd (api_UpdateRule (sample_api 5) sample_rule_env sample_request
     (Some (unsaved_rule ''rule'' ''move'')) (sample_db ''skip''))))"
proof -
  let ?u = "api_UpdateRule (sample_api 5) sample_rule_env sample_request (Some (unsaved_rule ''rule'' ''move'')) (sample_db ''skip'')"
  have u: "?u = ((200, J_Rule ((unsaved_rule ''rule'' ''move'')\<lparr>r_ID := 1, r_TenantID := 1\<rparr>)), snd ?u)"
    by (simp add: api_UpdateRule_def sample_request_def Atoi_one tenantID_def unsaved_rule_def sample_rule_env_def ValidateLua_def
        sample_lua_def write_at_def stmt_def UpdateRule_def int4_def Let_def)
  have g: "GetRule (tenantID sample_request) 1 (sample_db ''skip'') = Inr (sample_rule ''skip'')"
    by (simp add: GetRule_def get_row_def sample_db_def sample_rule_def sample_request_def tenantID_def)
  have "1 \<notin> r_ID ` set (ListActiveRules (tenantID sample_request) (snd ?u))"
    using saving_disables_rule [OF u _ _ g] by (simp add: unsaved_rule_def sample_request_def Atoi_one)
  moreover have "sample_rule ''skip'' \<in> set (ListActiveRules 1 (sample_db ''skip''))"
    by (simp add: set_ListActiveRules sample_db_def sample_rule_def)
  ultimately show ?thesis by (force simp: sample_request_def tenantID_def sample_rule_def)
qed

theorem deferred_names_cached_witness:
  "fst (api_ListDeferredActions (sample_api 5) sample_request (sample_db ''skip'')) = (200, J_Obj [(''deferred_actions'', J_List [])])"
  using deferred_names_cached [of "sample_api 5" sample_request "sample_db ''skip''"]
  by (simp add: ListDeferredActions_def sample_db_def empty_db_def)

end
