(* ===== verification/Translate.thy ===== *)
theory Translate
  imports Web
begin

text \<open>
  \<^verbatim>\<open>internal/api/handlers/kiro.go\<close>: translation of rules between English and Lua by the AI service, and the proxy
  to it. The service is the record \<open>kiro_service\<close>; the two system prompts, constant texts of the source, are
  fields of it. A body that is passed through is \<open>J_Raw\<close>; content types are left out.
\<close>

record anthropicMessage =
  am_Role :: string
  am_Content :: string

record anthropicRequest =
  aq_Model :: string
  aq_MaxTokens :: int
  aq_System :: string
  aq_Messages :: "anthropicMessage list"

record anthropicResponse =
  as_Content :: "(string \<times> string) list"
  as_Error :: "string option"

text \<open>What comes of a request: it cannot be built, it fails, its answer cannot be read, or there is a status with a body.\<close>

datatype upstream = NoRequest string | Unreachable string | Unreadable string | Answered int string

record kiro_service =
  ks_APIKey :: string
  ks_Call :: "anthropicRequest \<Rightarrow> upstream"
  ks_Forward :: "string \<Rightarrow> upstream"
  ks_Decode :: "string \<Rightarrow> string + anthropicResponse"
  ks_EnglishToLuaPrompt :: string
  ks_LuaToEnglishPrompt :: string

subsection \<open>Texts\<close>

definition fence :: string where "fence = ''```''"

text \<open>The loop from the last line back to the second: the index of the last line that is a fence.\<close>

fun closing_fence :: "unicode \<Rightarrow> string list \<Rightarrow> nat \<Rightarrow> nat option" where
  "closing_fence U ls 0 = None"
| "closing_fence U ls (Suc i) =
     (if TrimSpace U (ls ! Suc i) = fence then Some (Suc i) else closing_fence U ls i)"

definition stripMarkdownCodeBlock :: "unicode \<Rightarrow> string \<Rightarrow> string" where
  "stripMarkdownCodeBlock U text =
     (let trimmed = TrimSpace U text; ls = Split trimmed (CHR 10) in
      if trimmed = [] then trimmed
      else if length ls < 2 then trimmed
      else if \<not> HasPrefix (TrimSpace U (hd ls)) fence then trimmed
      else (case closing_fence U ls (length ls - 1) of
         None \<Rightarrow> TrimSpace U (Join (tl ls) [CHR 10])
       | Some i \<Rightarrow> TrimSpace U (Join (take (i - 1) (tl ls)) [CHR 10])))"

definition lua_prefixes :: "string list" where
  "lua_prefixes = [''--'', ''local '', ''if '', ''function '', ''for '', ''while '', ''repeat'', ''return '', ''do'']"

definition looksLikeLua :: "unicode \<Rightarrow> string \<Rightarrow> bool" where
  "looksLikeLua U text =
     (let trimmed = TrimSpace U text
      in trimmed \<noteq> [] \<and> list_ex (\<lambda>p. HasPrefix (ToLower U trimmed) p) lua_prefixes)"

definition aiConstraint :: "bool option \<Rightarrow> string" where
  "aiConstraint usesAI =
     (case usesAI of
        None \<Rightarrow> []
      | Some True \<Rightarrow> [CHR 10, CHR 10] @ ''You may use AI when writing this script.''
      | Some False \<Rightarrow> [CHR 10, CHR 10] @ ''You may NOT use AI when writing this script.'')"

subsection \<open>The service\<close>

fun first_text :: "(string \<times> string) list \<Rightarrow> string option" where
  "first_text [] = None"
| "first_text ((kind, text) # bs) = (if kind = ''text'' \<and> text \<noteq> [] then Some text else first_text bs)"

definition callKiroAPI :: "kiro_service \<Rightarrow> string \<Rightarrow> string \<Rightarrow> string + string" where
  "callKiroAPI K systemPrompt userMessage =
     (if ks_APIKey K = [] then Inl ''KIRO_API_KEY is not configured''
      else case ks_Call K \<lparr>aq_Model = ''claude-sonnet-4-20250514'', aq_MaxTokens = 4096, aq_System = systemPrompt,
                aq_Messages = [\<lparr>am_Role = ''user'', am_Content = userMessage\<rparr>]\<rparr> of
        NoRequest e \<Rightarrow> Inl (''failed to create request: '' @ e)
      | Unreachable e \<Rightarrow> Inl (''API request failed: '' @ e)
      | Unreadable e \<Rightarrow> Inl (''failed to read response: '' @ e)
      | Answered status body \<Rightarrow>
          if status \<noteq> 200 then Inl (''API returned status '' @ FormatInt status)
          else (case ks_Decode K body of
             Inl e \<Rightarrow> Inl (''failed to parse response: '' @ e)
           | Inr apiResp \<Rightarrow>
               (case as_Error apiResp of
                  Some msg \<Rightarrow> Inl (''API error: '' @ msg)
                | None \<Rightarrow>
                    if as_Content apiResp = [] then Inl ''empty response from API''
                    else (case first_text (as_Content apiResp) of
                       Some text \<Rightarrow> Inr text
                     | None \<Rightarrow> Inl ''no text content in API response''))))"

definition not_lua :: "string \<Rightarrow> (string \<times> json) list" where
  "not_lua text = [(''error'', J_Str ''The AI response was not valid Lua code''), (''message'', J_Str text)]"

definition TranslateEnglishToLua :: "unicode \<Rightarrow> kiro_service \<Rightarrow> (string \<times> bool option) option \<Rightarrow> response" where
  "TranslateEnglishToLua U K body =
     (case body of
        None \<Rightarrow> err_response 400 ''invalid request body''
      | Some (description, usesAI) \<Rightarrow>
          if description = [] then err_response 400 ''description is required''
          else (case callKiroAPI K (ks_EnglishToLuaPrompt K @ aiConstraint usesAI) description of
             Inl e \<Rightarrow> err_response 500 (''translation failed: '' @ e)
           | Inr text \<Rightarrow>
               (let luaCode = stripMarkdownCodeBlock U text
                in if \<not> looksLikeLua U luaCode then (200, J_Obj (not_lua luaCode @ [(''lua_code'', J_Str [])]))
                   else (200, J_Obj [(''lua_code'', J_Str luaCode)]))))"

definition TranslateLuaToEnglish :: "kiro_service \<Rightarrow> (string \<times> bool option) option \<Rightarrow> response" where
  "TranslateLuaToEnglish K body =
     (case body of
        None \<Rightarrow> err_response 400 ''invalid request body''
      | Some (luaCode, usesAI) \<Rightarrow>
          if luaCode = [] then err_response 400 ''lua_code is required''
          else (case callKiroAPI K (ks_LuaToEnglishPrompt K @ aiConstraint usesAI) luaCode of
             Inl e \<Rightarrow> err_response 500 (''translation failed: '' @ e)
           | Inr description \<Rightarrow> (200, J_Obj [(''description'', J_Str description)])))"

text \<open>The proxy takes the first text block, even an empty one.\<close>

definition Proxy :: "unicode \<Rightarrow> kiro_service \<Rightarrow> string \<Rightarrow> response" where
  "Proxy U K body =
     (if ks_APIKey K = [] then err_response 503 ''Kiro API key not configured''
      else if length body = 0 then err_response 400 ''request body is required''
      else case ks_Forward K body of
        NoRequest _ \<Rightarrow> err_response 500 ''failed to create upstream request''
      | Unreachable _ \<Rightarrow> err_response 502 ''failed to reach upstream API''
      | Unreadable _ \<Rightarrow> err_response 502 ''failed to read upstream response''
      | Answered status respBody \<Rightarrow>
          if status \<noteq> 200 then (status, J_Raw respBody)
          else (case ks_Decode K respBody of
             Inl _ \<Rightarrow> (status, J_Raw respBody)
           | Inr apiResp \<Rightarrow>
               (case as_Error apiResp of
                  Some msg \<Rightarrow> err_response 502 msg
                | None \<Rightarrow>
                    (case find (\<lambda>b. fst b = ''text'') (as_Content apiResp) of
                       None \<Rightarrow> err_response 502 ''no text content in API response''
                     | Some b \<Rightarrow>
                         (let text = stripMarkdownCodeBlock U (snd b)
                          in if \<not> looksLikeLua U text then (200, J_Obj (not_lua text))
                             else (200, J_Obj [(''content'', J_List [J_Obj [(''type'', J_Str ''text''), (''text'', J_Str text)]])]))))))"

subsection \<open>What the texts become\<close>

lemma Split_delim: "Split (s @ d # t) d = Split s d @ Split t d"
  by (induction s d rule: Split.induct) (auto split: list.split)

lemma Split_plain: "d \<notin> set s \<Longrightarrow> Split s d = [s]"
  by (induction s d rule: Split.induct) auto

lemma trim_by_ends: "s \<noteq> [] \<Longrightarrow> \<not> P (hd s) \<Longrightarrow> \<not> P (last s) \<Longrightarrow> trim_by P s = s"
proof -
  assume "s \<noteq> []" and "\<not> P (hd s)" and "\<not> P (last s)"
  then have "dropWhile P s = s" "dropWhile P (rev s) = rev s"
    by (cases s, simp_all) (metis dropWhile.simps(2) hd_rev list.collapse rev_is_Nil_conv)
  then show ?thesis by (simp add: trim_by_def)
qed

lemma trim_by_prefix:
  assumes "p \<noteq> []" and "\<not> P (hd p)" and "\<not> P (last p)"
  shows "HasPrefix (trim_by P (p @ s)) p"
proof -
  obtain x p' where p: "p = x # p'" using assms(1) by (cases p) simp_all
  obtain q y where q: "p = q @ [y]" using assms(1) by (cases p rule: rev_cases) simp_all
  have "dropWhile P (p @ s) = p @ s" using assms(2) by (simp add: p)
  moreover have "rev (dropWhile P (rev (p @ s))) = p @ rev (dropWhile P (rev s))"
    using assms(3) by (cases "\<exists>c \<in> set s. \<not> P c") (auto simp: q dropWhile_append dropWhile_eq_Nil_conv)
  ultimately show ?thesis by (simp add: trim_by_def HasPrefix_def)
qed

lemma is_ascii_append [simp]: "is_ascii (s @ t) \<longleftrightarrow> is_ascii s \<and> is_ascii t"
  by (simp add: is_ascii_def)

lemma fence_facts: "fence \<noteq> []" "\<not> is_space (hd fence)" "\<not> is_space (last fence)" "is_ascii fence" "CHR 10 \<notin> set fence"
  by (simp_all add: fence_def is_space_def is_ascii_def)

text \<open>
  An answer that the AI wraps in a code fence is unwrapped: whatever the language behind the opening fence and
  whatever the code, even if it contains fences itself, what is left is the code without the white space around it.
\<close>
theorem fenced_code_unwrapped:
  assumes "is_ascii code" and "is_ascii lang" and "CHR 10 \<notin> set lang"
  shows "stripMarkdownCodeBlock U (fence @ lang @ [CHR 10] @ code @ [CHR 10] @ fence) = TrimSpace U code"
proof -
  let ?text = "fence @ lang @ [CHR 10] @ code @ [CHR 10] @ fence"
  have trimmed: "TrimSpace U ?text = ?text"
    using assms fence_facts by (simp add: TrimSpace_def trim_by_ends is_ascii_def)
  have ls: "Split ?text (CHR 10) = (fence @ lang) # Split code (CHR 10) @ [fence]"
    using Split_delim [of "fence @ lang" "CHR 10" "code @ CHR 10 # fence"] Split_delim [of code "CHR 10" fence] assms(3) fence_facts(5)
    by (simp add: Split_plain)
  have first: "HasPrefix (TrimSpace U (fence @ lang)) fence"
    using assms(2) fence_facts by (simp add: TrimSpace_def trim_by_prefix)
  have last: "TrimSpace U fence = fence"
    using fence_facts by (simp add: TrimSpace_def trim_by_ends)
  obtain m where m: "length (Split code (CHR 10)) = Suc m" by (cases "Split code (CHR 10)") simp_all
  have "closing_fence U ((fence @ lang) # Split code (CHR 10) @ [fence]) (Suc (Suc m)) = Some (Suc (Suc m))"
    using last by (simp add: nth_append m)
  then show ?thesis
    unfolding stripMarkdownCodeBlock_def Let_def trimmed ls using fence_facts(1) first m by (simp add: Join_Split del: closing_fence.simps)
qed

theorem fenced_code_unwrapped_witness:
  "stripMarkdownCodeBlock U (fence @ ''lua'' @ [CHR 10] @ ''skip() '' @ [CHR 10] @ fence) = ''skip()''"
proof -
  have "stripMarkdownCodeBlock U (fence @ ''lua'' @ [CHR 10] @ ''skip() '' @ [CHR 10] @ fence) = TrimSpace U ''skip() ''"
    by (rule fenced_code_unwrapped) (simp_all add: is_ascii_def)
  then show ?thesis by (simp add: TrimSpace_def is_ascii_def trim_by_def is_space_def)
qed

lemma first_text_Some: "first_text bs = Some t \<Longrightarrow> (''text'', t) \<in> set bs \<and> t \<noteq> []"
  by (induction bs rule: first_text.induct) (auto split: if_splits)

text \<open>
  A translation to Lua answers with code only if the answer of the AI, without its fence, begins like Lua;
  otherwise the code in the answer is empty and the text of the AI is given as a message.
\<close>
theorem translation_answers:
  assumes "TranslateEnglishToLua U K body = (200, J_Obj kvs)"
  shows "\<exists>text. text \<noteq> [] \<and> (let code = stripMarkdownCodeBlock U text
    in kvs = (if looksLikeLua U code then [(''lua_code'', J_Str code)]
       else [(''error'', J_Str ''The AI response was not valid Lua code''), (''message'', J_Str code), (''lua_code'', J_Str [])]))"
proof -
  have "t \<noteq> []" if "callKiroAPI K p m = Inr t" for p m t
    using that by (auto simp: callKiroAPI_def split: if_splits upstream.splits sum.splits option.splits dest: first_text_Some)
  moreover obtain p m t where "callKiroAPI K p m = Inr t" and "let code = stripMarkdownCodeBlock U t
    in kvs = (if looksLikeLua U code then [(''lua_code'', J_Str code)]
       else [(''error'', J_Str ''The AI response was not valid Lua code''), (''message'', J_Str code), (''lua_code'', J_Str [])])"
    using assms by (auto simp: TranslateEnglishToLua_def not_lua_def Let_def split: option.splits if_splits sum.splits)
  ultimately show ?thesis by blast
qed

definition sample_service :: "string \<Rightarrow> kiro_service" where
  "sample_service answer = \<lparr>ks_APIKey = ''k'', ks_Call = (\<lambda>_. Answered 200 answer), ks_Forward = Answered 200,
     ks_Decode = (\<lambda>b. Inr \<lparr>as_Content = [(''thinking'', ''hm''), (''text'', b)], as_Error = None\<rparr>),
     ks_EnglishToLuaPrompt = [], ks_LuaToEnglishPrompt = []\<rparr>"

definition plain_unicode :: unicode where
  "plain_unicode = \<lparr>uni_ToLower = (\<lambda>s. s), uni_TrimSpace = (\<lambda>s. s), uni_Fields = (\<lambda>s. [s]), uni_EqualFold = (\<lambda>s t. s = t)\<rparr>"

theorem translation_answers_witness:
  "\<exists>t. t \<noteq> [] \<and> [(''lua_code'', J_Str ''return skip()'')] =
     (if looksLikeLua plain_unicode (stripMarkdownCodeBlock plain_unicode t) then [(''lua_code'', J_Str (stripMarkdownCodeBlock plain_unicode t))]
      else [(''error'', J_Str ''The AI response was not valid Lua code''), (''message'', J_Str (stripMarkdownCodeBlock plain_unicode t)),
        (''lua_code'', J_Str [])])"
proof -
  have "TranslateEnglishToLua plain_unicode (sample_service ''return skip()'') (Some (''skip all'', None))
      = (200, J_Obj [(''lua_code'', J_Str ''return skip()'')])"
    by (simp add: TranslateEnglishToLua_def callKiroAPI_def sample_service_def stripMarkdownCodeBlock_def TrimSpace_def is_ascii_def
        trim_by_def is_space_def looksLikeLua_def lua_prefixes_def ToLower_def HasPrefix_def lower_byte_def Let_def)
  from translation_answers [OF this] show ?thesis by (simp only: Let_def)
qed

text \<open>
  The test for Lua looks at the first word only: an English sentence that begins with \<open>if\<close> passes for code, and
  a rule that begins with a call of an action does not.
\<close>
theorem lua_test_misjudges:
  "looksLikeLua U ''If the sender is Bob, I would delete it.'' \<and> looksLikeLua U ''Does this rule apply to replies?'' \<and>
   \<not> looksLikeLua U ''move(INBOX)'' \<and> \<not> looksLikeLua U ''schedule(60, f)''"
  by (simp add: looksLikeLua_def lua_prefixes_def TrimSpace_def ToLower_def is_ascii_def trim_by_def is_space_def HasPrefix_def
      lower_byte_def Let_def char_of_eq_iff)

end
