(* ===== verification/Passkeys.thy ===== *)
theory Passkeys
  imports Access
begin

text \<open>
  \<^verbatim>\<open>internal/api/handlers/auth_passkey.go\<close> and \<^verbatim>\<open>internal/auth/webauthn.go\<close>: registration and login with
  passkeys. The WebAuthn library is the record \<open>webauthn\<close>, or \<open>None\<close> when it could not be initialized;
  its sessions and parsed messages are opaque texts. The handlers share the sessions of ceremonies that
  have begun.
\<close>

subsection \<open>Unpadded base64 for URLs (\<open>encoding/base64\<close>, \<open>RawURLEncoding\<close>)\<close>

definition to_url :: "char \<Rightarrow> char" where
  "to_url c = (if c = CHR ''+'' then CHR ''-'' else if c = CHR ''/'' then CHR ''_'' else c)"

definition from_url :: "char \<Rightarrow> char" where
  "from_url c = (if c = CHR ''-'' then CHR ''+'' else if c = CHR ''_'' then CHR ''/'' else c)"

definition raw_url_encode :: "string \<Rightarrow> string" where
  "raw_url_encode s = map to_url (filter (\<lambda>c. c \<noteq> CHR ''='') (b64_encode s))"

definition raw_url_decode :: "string \<Rightarrow> string option" where
  "raw_url_decode s =
     (let t = filter (\<lambda>c. byte c \<noteq> 13 \<and> byte c \<noteq> 10) s
      in if list_ex (\<lambda>c. c \<in> set ''+/='') t then None
         else b64_groups (map from_url t @ replicate ((4 - length t mod 4) mod 4) (CHR ''='')))"

subsection \<open>Users and credentials of the library\<close>

record credential =
  wc_ID :: string
  wc_PublicKey :: string
  wc_Transport :: "string list"
  wc_BackupEligible :: bool
  wc_BackupState :: bool
  wc_SignCount :: nat

record wan_user =
  wu_ID :: int
  wu_Username :: string
  wu_Credentials :: "credential list"

text \<open>Eight bytes, the most significant first.\<close>

definition WebAuthnID :: "wan_user \<Rightarrow> string" where
  "WebAuthnID u = map (\<lambda>i. char_of (nat (wu_ID u div 2 ^ (8 * i) mod 256))) [7, 6, 5, 4, 3, 2, 1, 0]"

definition ToWebAuthnCredential :: "passkey \<Rightarrow> credential option" where
  "ToWebAuthnCredential p =
     (let decode = (\<lambda>s. case raw_url_decode s of None \<Rightarrow> b64_decode s | Some x \<Rightarrow> Some x)
      in case decode (pk_CredentialID p) of
           None \<Rightarrow> None
         | Some credID \<Rightarrow>
             (case decode (pk_PublicKey p) of
                None \<Rightarrow> None
              | Some pubKey \<Rightarrow>
                  Some \<lparr>wc_ID = credID, wc_PublicKey = pubKey, wc_Transport = pk_Transports p,
                    wc_BackupEligible = pk_BackupEligible p, wc_BackupState = pk_BackupState p, wc_SignCount = pk_SignCount p\<rparr>))"

definition wan_user_of :: "user \<Rightarrow> passkey list \<Rightarrow> wan_user" where
  "wan_user_of user ps =
     \<lparr>wu_ID = u_ID user, wu_Username = u_Username user, wu_Credentials = List.map_filter ToWebAuthnCredential ps\<rparr>"

text \<open>
  The parsers of the library, which do not depend on its initialization, and its calls. The parser of
  assertions also gives the raw credential id.
\<close>

record protocol =
  pr_ParseCreation :: "string \<Rightarrow> string option"
  pr_ParseAssertion :: "string \<Rightarrow> (string \<times> string) option"

record webauthn =
  wa_BeginRegistration :: "wan_user \<Rightarrow> (string \<times> string) option"
  wa_CreateCredential :: "wan_user \<Rightarrow> string \<Rightarrow> string \<Rightarrow> credential option"
  wa_BeginLogin :: "wan_user \<Rightarrow> (string \<times> string) option"
  wa_BeginDiscoverable :: "(string \<times> string) option"
  wa_ValidateLogin :: "wan_user \<Rightarrow> string \<Rightarrow> string \<Rightarrow> credential option"
  wa_ValidateDiscoverable :: "(string \<Rightarrow> string \<Rightarrow> wan_user option) \<Rightarrow> string \<Rightarrow> string \<Rightarrow> credential option"

type_synonym sessions = "string \<rightharpoonup> string"

type_synonym pk_result = "response \<times> sessions \<times> db"

definition nil_panic :: response where
  "nil_panic = err_response 500 ''runtime error: invalid memory address or nil pointer dereference''"

definition storeSession :: "string \<Rightarrow> string \<Rightarrow> sessions \<Rightarrow> sessions" where
  "storeSession k v s = s(k \<mapsto> v)"

definition getSession :: "string \<Rightarrow> sessions \<Rightarrow> string option" where
  "getSession k s = s k"

definition deleteSession :: "string \<Rightarrow> sessions \<Rightarrow> sessions" where
  "deleteSession k s = s(k := None)"

subsection \<open>Registration of a passkey\<close>

text \<open>What both ceremonies of registration begin with, given the text of the error.\<close>

definition begin_registration ::
  "api_env \<Rightarrow> webauthn option \<Rightarrow> user \<Rightarrow> string \<Rightarrow> string \<Rightarrow> sessions \<Rightarrow> db \<Rightarrow> pk_result" where
  "begin_registration A W user sessionKey failed s d =
     (case read_at A 11 (Inr (GetPasskeysByUserID (u_ID user) d)) of
        Inl _ \<Rightarrow> (err_response 500 ''internal error'', s, d)
      | Inr existingPasskeys \<Rightarrow>
          (case W of
             None \<Rightarrow> (nil_panic, s, d)
           | Some wan \<Rightarrow>
               (case wa_BeginRegistration wan (wan_user_of user existingPasskeys) of
                  None \<Rightarrow> (err_response 500 failed, s, d)
                | Some (options, session) \<Rightarrow> ((200, J_Options options), storeSession sessionKey session s, d))))"

definition PasskeyRegisterBegin :: "api_env \<Rightarrow> webauthn option \<Rightarrow> ctx \<Rightarrow> sessions \<Rightarrow> db \<Rightarrow> pk_result" where
  "PasskeyRegisterBegin A W c s d =
     (case cx_UserID c of
        None \<Rightarrow> (err_response 500 ''interface conversion: interface {} is nil, not int64'', s, d)
      | Some userID \<Rightarrow>
          (case read_at A 10 (GetUserByID userID d) of
             Inl _ \<Rightarrow> (err_response 404 ''user not found'', s, d)
           | Inr user \<Rightarrow>
               begin_registration A W user (''reg_'' @ FormatInt userID) ''failed to begin registration'' s d))"

definition new_passkey :: "int \<Rightarrow> string \<Rightarrow> credential \<Rightarrow> passkey" where
  "new_passkey userID name cred =
     \<lparr>pk_ID = 0, pk_UserID = userID, pk_CredentialID = raw_url_encode (wc_ID cred), pk_PublicKey = raw_url_encode (wc_PublicKey cred),
      pk_SignCount = wc_SignCount cred, pk_Transports = wc_Transport cred, pk_BackupEligible = wc_BackupEligible cred,
      pk_BackupState = wc_BackupState cred, pk_Name = name, pk_CreatedAt = 0, pk_LastUsedAt = None\<rparr>"

text \<open>
  What both ceremonies end with, once the session is found; it is deleted in any case. \<open>name\<close> is the name
  asked for, \<open>extra\<close> what the answer has besides, \<open>unavailable\<close> the answer without the library.
\<close>

definition finish_registration ::
  "api_env \<Rightarrow> protocol \<Rightarrow> webauthn option \<Rightarrow> string \<Rightarrow> user \<Rightarrow> string \<Rightarrow> (string \<times> json) list \<Rightarrow> string \<Rightarrow> string \<Rightarrow> string
     \<Rightarrow> string \<Rightarrow> sessions \<Rightarrow> db \<Rightarrow> pk_result" where
  "finish_registration A Pr W body user name extra done_text unavailable sessionKey session s d =
     (let s1 = deleteSession sessionKey s
      in case read_at A 11 (Inr (GetPasskeysByUserID (u_ID user) d)) of
           Inl _ \<Rightarrow> (err_response 500 ''internal error'', s1, d)
         | Inr existingPasskeys \<Rightarrow>
             (case pr_ParseCreation Pr body of
                None \<Rightarrow> (err_response 400 ''invalid attestation response'', s1, d)
              | Some parsed \<Rightarrow>
                  (case W of
                     None \<Rightarrow> (err_response 500 unavailable, s1, d)
                   | Some wan \<Rightarrow>
                       (case wa_CreateCredential wan (wan_user_of user existingPasskeys) session parsed of
                          None \<Rightarrow> (err_response 400 ''failed to verify attestation'', s1, d)
                        | Some cred \<Rightarrow>
                            (let pname = (if name = [] then ''Passkey '' @ FormatInt (int (length existingPasskeys) + 1) else name)
                             in case write_at A 12 (CreatePasskey (ap_now A) (new_passkey (u_ID user) pname cred)) d of
                                  (Inl _, d1) \<Rightarrow> (err_response 500 ''failed to store passkey'', s1, d1)
                                | (Inr p, d1) \<Rightarrow>
                                    ((200, J_Obj (extra @ [(''message'', J_Str done_text),
                                       (''passkey'', J_Obj [(''id'', J_Int (pk_ID p)), (''name'', J_Str (pk_Name p))])])), s1, d1))))))"

definition PasskeyRegisterComplete :: "api_env \<Rightarrow> protocol \<Rightarrow> webauthn option \<Rightarrow> ctx \<Rightarrow> string \<Rightarrow> sessions \<Rightarrow> db \<Rightarrow> pk_result" where
  "PasskeyRegisterComplete A Pr W c body s d =
     (case cx_UserID c of
        None \<Rightarrow> ((200, J_Null), s, d)
      | Some userID \<Rightarrow>
          (case read_at A 10 (GetUserByID userID d) of
             Inl _ \<Rightarrow> (err_response 404 ''user not found'', s, d)
           | Inr user \<Rightarrow>
               (case getSession (''reg_'' @ FormatInt userID) s of
                  None \<Rightarrow> (err_response 400 ''no registration in progress'', s, d)
                | Some session \<Rightarrow>
                    finish_registration A Pr W body user (cx_Query c ''name'') [] ''passkey registered successfully''
                      ''passkey registration not available'' (''reg_'' @ FormatInt userID) session s d)))"

subsection \<open>Enrollment without a login\<close>

record passkey_user_req =
  pu_Username :: string
  pu_Password :: string

definition RegisterUserWithPasskey :: "api_env \<Rightarrow> passkey_user_req option \<Rightarrow> db \<Rightarrow> response \<times> db" where
  "RegisterUserWithPasskey A body d =
     (case body of
        None \<Rightarrow> (err_response 400 ''invalid request body'', d)
      | Some req \<Rightarrow>
          if pu_Username req = [] then (err_response 400 ''username is required'', d)
          else (case read_at A 10 (GetUserByUsername (pu_Username req) d) of
             Inr _ \<Rightarrow> (err_response 409 ''username already exists'', d)
           | Inl _ \<Rightarrow>
               (case (if pu_Password req \<noteq> [] then HashPassword A (pu_Password req) else Some []) of
                  None \<Rightarrow> (err_response 500 ''failed to create user'', d)
                | Some hash \<Rightarrow>
                    (case write_at A 11 (CreateUser (ap_now A) (new_user (pu_Username req) hash)) d of
                       (Inl _, d1) \<Rightarrow> (err_response 500 ''failed to create user'', d1)
                     | (Inr user, d1) \<Rightarrow>
                         ((200, J_Obj [(''user_id'', J_Int (u_ID user)), (''username'', J_Str (u_Username user))]), d1)))))"

definition PasskeyEnrollBegin :: "api_env \<Rightarrow> webauthn option \<Rightarrow> string option \<Rightarrow> sessions \<Rightarrow> db \<Rightarrow> pk_result" where
  "PasskeyEnrollBegin A W body s d =
     (case body of
        None \<Rightarrow> (err_response 400 ''invalid request body'', s, d)
      | Some username \<Rightarrow>
          if username = [] then (err_response 400 ''username is required'', s, d)
          else (case read_at A 10 (GetUserByUsername username d) of
             Inl _ \<Rightarrow> (err_response 404 ''user not found'', s, d)
           | Inr user \<Rightarrow> begin_registration A W user (''enroll_'' @ username) ''failed to begin enrollment'' s d))"

text \<open>\<open>json_name\<close> is the name that the JSON decoder finds in the body, if it can read it.\<close>

definition PasskeyEnrollFinish :: "api_env \<Rightarrow> protocol \<Rightarrow> webauthn option \<Rightarrow> ctx \<Rightarrow> string \<Rightarrow> string option \<Rightarrow> sessions \<Rightarrow> db \<Rightarrow> pk_result" where
  "PasskeyEnrollFinish A Pr W c body json_name s d =
     (let username = (if cx_Query c ''username'' = [] then (case json_name of None \<Rightarrow> [] | Some n \<Rightarrow> n) else cx_Query c ''username'')
      in if username = [] then (err_response 400 ''username is required'', s, d)
         else (case read_at A 10 (GetUserByUsername username d) of
            Inl _ \<Rightarrow> (err_response 404 ''user not found'', s, d)
          | Inr user \<Rightarrow>
              (case getSession (''enroll_'' @ username) s of
                 None \<Rightarrow> (err_response 400 ''no enrollment in progress'', s, d)
               | Some session \<Rightarrow>
                   finish_registration A Pr W body user [] [(''success'', J_Bool True)] ''passkey enrolled successfully''
                     ''passkey enrollment not available'' (''enroll_'' @ username) session s d)))"

subsection \<open>Login\<close>

definition begin_discoverable :: "webauthn option \<Rightarrow> sessions \<Rightarrow> db \<Rightarrow> pk_result" where
  "begin_discoverable W s d =
     (case W of
        None \<Rightarrow> (nil_panic, s, d)
      | Some wan \<Rightarrow>
          (case wa_BeginDiscoverable wan of
             None \<Rightarrow> (err_response 500 ''failed to begin authentication'', s, d)
           | Some (options, session) \<Rightarrow> ((200, J_Options options), storeSession ''auth_discoverable'' session s, d)))"

text \<open>A body that cannot be read counts as one without a name.\<close>

definition PasskeyAuthenticateBegin :: "api_env \<Rightarrow> webauthn option \<Rightarrow> string option \<Rightarrow> sessions \<Rightarrow> db \<Rightarrow> pk_result" where
  "PasskeyAuthenticateBegin A W body s d =
     (let username = (case body of None \<Rightarrow> [] | Some n \<Rightarrow> n)
      in if username = [] then begin_discoverable W s d
         else (case read_at A 10 (GetUserByUsername username d) of
            Inl _ \<Rightarrow> begin_discoverable W s d
          | Inr user \<Rightarrow>
              (case read_at A 11 (Inr (GetPasskeysByUserID (u_ID user) d)) of
                 Inl _ \<Rightarrow> (err_response 400 ''no passkeys registered'', s, d)
               | Inr [] \<Rightarrow> (err_response 400 ''no passkeys registered'', s, d)
               | Inr ps \<Rightarrow>
                   (case W of
                      None \<Rightarrow> (nil_panic, s, d)
                    | Some wan \<Rightarrow>
                        (case wa_BeginLogin wan (wan_user_of user ps) of
                           None \<Rightarrow> (err_response 500 ''failed to begin authentication'', s, d)
                         | Some (options, session) \<Rightarrow>
                             ((200, J_Obj [(''publicKey'', J_Options options), (''user_id'', J_Int (u_ID user))]),
                              storeSession (''auth_'' @ FormatInt (u_ID user)) session s, d))))))"

definition handle_id :: "string \<Rightarrow> int" where
  "handle_id h = wrap64 (fold (\<lambda>c n. n * 256 + int (byte c)) (take 8 h) 0)"

text \<open>The callback that looks up the user of a discoverable login.\<close>

definition discoverable_user :: "api_env \<Rightarrow> db \<Rightarrow> string \<Rightarrow> string \<Rightarrow> wan_user option" where
  "discoverable_user A d rawID userHandle =
     (if length userHandle < 8 then None
      else case read_at A 13 (GetUserByID (handle_id userHandle) d) of
        Inl _ \<Rightarrow> None
      | Inr user \<Rightarrow>
          (case read_at A 14 (Inr (GetPasskeysByUserID (u_ID user) d)) of
             Inl _ \<Rightarrow> None
           | Inr ps \<Rightarrow> Some (wan_user_of user ps)))"

text \<open>The end of a login with the credential that was validated, if it was.\<close>

definition finish_login ::
  "api_env \<Rightarrow> JWTManager \<Rightarrow> ctx \<Rightarrow> user \<Rightarrow> passkey \<Rightarrow> credential option \<Rightarrow> sessions \<Rightarrow> db \<Rightarrow> pk_result" where
  "finish_login A m c user dbPasskey cred s d =
     (case cred of
        None \<Rightarrow> (err_response 401 ''authentication failed'', s, d)
      | Some cr \<Rightarrow>
          (case generateTokenResponse A m c user
                  (snd (write_at A 15 (UpdatePasskeySignCount (ap_now A) (pk_ID dbPasskey) (wc_SignCount cr)) d)) of
             (r, d1) \<Rightarrow> (r, s, d1)))"

text \<open>A validation without the library panics, after the deferred deletion of the session.\<close>

definition PasskeyAuthenticateComplete ::
  "api_env \<Rightarrow> JWTManager \<Rightarrow> protocol \<Rightarrow> webauthn option \<Rightarrow> ctx \<Rightarrow> string \<Rightarrow> sessions \<Rightarrow> db \<Rightarrow> pk_result" where
  "PasskeyAuthenticateComplete A m Pr W c body s d =
     (case pr_ParseAssertion Pr body of
        None \<Rightarrow> (err_response 400 ''invalid assertion response'', s, d)
      | Some (rawID, parsed) \<Rightarrow>
          (case read_at A 10 (GetPasskeyByCredentialID (raw_url_encode rawID) d) of
             Inl _ \<Rightarrow> (err_response 401 ''invalid credentials'', s, d)
           | Inr dbPasskey \<Rightarrow>
               (case read_at A 11 (GetUserByID (pk_UserID dbPasskey) d) of
                  Inl _ \<Rightarrow> (err_response 401 ''invalid credentials'', s, d)
                | Inr user \<Rightarrow>
                    (case read_at A 12 (Inr (GetPasskeysByUserID (u_ID user) d)) of
                       Inl _ \<Rightarrow> (err_response 500 ''internal error'', s, d)
                     | Inr ps \<Rightarrow>
                         (let sessionKey = ''auth_'' @ FormatInt (u_ID user)
                          in case getSession sessionKey s of
                               Some session \<Rightarrow>
                                 (case W of
                                    None \<Rightarrow> (nil_panic, deleteSession sessionKey s, d)
                                  | Some wan \<Rightarrow>
                                      finish_login A m c user dbPasskey (wa_ValidateLogin wan (wan_user_of user ps) session parsed)
                                        (deleteSession sessionKey s) d)
                             | None \<Rightarrow>
                                 (case getSession ''auth_discoverable'' s of
                                    None \<Rightarrow> (err_response 400 ''no authentication in progress'', s, d)
                                  | Some session \<Rightarrow>
                                      (case W of
                                         None \<Rightarrow> (nil_panic, deleteSession ''auth_discoverable'' s, d)
                                       | Some wan \<Rightarrow>
                                           finish_login A m c user dbPasskey
                                             (wa_ValidateDiscoverable wan (discoverable_user A d) session parsed)
                                             (deleteSession ''auth_discoverable'' s) d)))))))"

subsection \<open>Listing and deletion\<close>

definition PasskeyList :: "api_env \<Rightarrow> ctx \<Rightarrow> db \<Rightarrow> response \<times> db" where
  "PasskeyList A c = with_user c (\<lambda>userID d.
     case read_at A 10 (Inr (GetPasskeysByUserID userID d)) of
       Inl _ \<Rightarrow> (err_response 500 ''failed to list passkeys'', d)
     | Inr ps \<Rightarrow>
         ((200, J_List (map (\<lambda>p. J_Obj [(''id'', J_Int (pk_ID p)), (''name'', J_Str (pk_Name p)),
            (''created_at'', J_Time (pk_CreatedAt p)), (''last_used_at'', opt_time (pk_LastUsedAt p))]) ps)), d))"

definition PasskeyDelete :: "api_env \<Rightarrow> ctx \<Rightarrow> db \<Rightarrow> response \<times> db" where
  "PasskeyDelete A c = with_user c (\<lambda>userID d.
     case Atoi (cx_Params c ''id'') of
       None \<Rightarrow> (err_response 400 ''invalid passkey ID'', d)
     | Some passkeyID \<Rightarrow>
         (case write_at A 10 (DeletePasskey passkeyID userID) d of
            (Inl _, d1) \<Rightarrow> (err_response 500 ''failed to delete passkey'', d1)
          | (Inr _, d1) \<Rightarrow> (message_response ''passkey deleted'', d1)))"

subsection \<open>Round trips\<close>

lemma url_chars: "from_url (to_url c) = c" if "c \<notin> {CHR ''-'', CHR ''_''}" for c
  using that by (simp add: to_url_def from_url_def)

lemma b64_encode_chars: "set (b64_encode s) \<subseteq> insert (CHR ''='') (b64_char ` {n. n < 64})"
  by (induction s rule: b64_encode.induct)
    (simp_all only: b64_encode.simps list.set insert_subset empty_subsetI simp_thms insertI1 insertI2 imageI mem_Collect_eq byte_parts)

lemma b64_char_url: "n < 64 \<Longrightarrow> b64_char n \<notin> {CHR ''-'', CHR ''_''}"
proof -
  assume n: "n < 64"
  then have "b64_val (b64_char n) = Some n" by (rule b64_val_char)
  moreover have "b64_val (CHR ''-'') = None" "b64_val (CHR ''_'') = None" by (simp_all add: b64_val_def)
  ultimately show ?thesis by (auto dest: arg_cong [where f = b64_val])
qed

lemma b64_encode_padding:
  "\<exists>t k. b64_encode s = t @ replicate k (CHR ''='') \<and> filter (\<lambda>c. c \<noteq> CHR ''='') (b64_encode s) = t \<and> k = (4 - length t mod 4) mod 4"
proof (induction s rule: b64_encode.induct)
  case 1
  show ?case by simp
next
  case (2 a)
  show ?case
    by (rule exI [of _ "[b64_char (byte a div 4), b64_char (byte a mod 4 * 16)]"], rule exI [of _ 2])
      (simp add: b64_char_not_pad byte_parts numeral_2_eq_2)
next
  case (3 a b)
  show ?case
    by (rule exI [of _ "[b64_char (byte a div 4), b64_char (byte a mod 4 * 16 + byte b div 16), b64_char (byte b mod 16 * 4)]"],
        rule exI [of _ 1]) (simp add: b64_char_not_pad byte_parts)
next
  case (4 a b c s)
  then obtain t k where t: "b64_encode s = t @ replicate k (CHR ''='')" "filter (\<lambda>c. c \<noteq> CHR ''='') (b64_encode s) = t"
    "k = (4 - length t mod 4) mod 4" by blast
  let ?g = "take 4 (b64_encode (a # b # c # s))"
  have "filter (\<lambda>c. c \<noteq> CHR ''='') (replicate k (CHR ''='')) = []" by simp
  then show ?case using t by (intro exI [of _ "?g @ t"] exI [of _ k]) (simp add: b64_char_not_pad byte_parts)
qed

lemma raw_url_roundtrip: "raw_url_decode (raw_url_encode s) = Some s"
proof -
  obtain t k where t: "b64_encode s = t @ replicate k (CHR ''='')" "filter (\<lambda>c. c \<noteq> CHR ''='') (b64_encode s) = t"
    "k = (4 - length t mod 4) mod 4" using b64_encode_padding by blast
  have chars: "\<exists>n < 64. c = b64_char n" if "c \<in> set t" for c
    using that t(2) b64_encode_chars [of s] by auto
  have url: "from_url (to_url c) = c" "byte (to_url c) \<noteq> 13" "byte (to_url c) \<noteq> 10" "to_url c \<notin> set ''+/=''" if c: "c \<in> set t" for c
  proof -
    obtain n where n: "n < 64" "c = b64_char n" using chars [OF c] by blast
    then show "from_url (to_url c) = c" using b64_char_url [OF n(1)] by (simp add: url_chars)
    show "byte (to_url c) \<noteq> 13" "byte (to_url c) \<noteq> 10" "to_url c \<notin> set ''+/=''"
      using b64_char_neq [OF n(1)] b64_char_not_pad [OF n(1)] n(2) by (auto simp: to_url_def split: if_splits)
  qed
  have "raw_url_encode s = map to_url t" by (simp add: raw_url_encode_def t(2))
  moreover have "filter (\<lambda>c. byte c \<noteq> 13 \<and> byte c \<noteq> 10) (map to_url t) = map to_url t"
    using url by (auto simp: filter_id_conv)
  moreover have "\<not> list_ex (\<lambda>c. c \<in> set ''+/='') (map to_url t)" using url(4) by (auto simp: list_ex_iff)
  moreover have "map from_url (map to_url t) = t" using url(1) by (simp add: map_idI)
  ultimately show ?thesis
    using b64_groups_encode [of s] t(1,3) by (simp add: raw_url_decode_def Let_def del: map_map)
qed

text \<open>
  A stored passkey is the credential that was registered: the library gets back the same identifier, key,
  transports, flags and counter as it delivered, whatever bytes they consist of.
\<close>
theorem passkey_roundtrip: "ToWebAuthnCredential (new_passkey userID name cred) = Some cred"
  by (simp add: ToWebAuthnCredential_def new_passkey_def raw_url_roundtrip Let_def)

text \<open>Base 256: the low \<open>k\<close> digits of a number, the most significant first.\<close>

lemma base256:
  fixes n :: int
  shows "fold (\<lambda>c v. v * 256 + int (byte c)) (map (\<lambda>i. char_of (nat (n div 2 ^ (8 * i) mod 256))) (rev [0..<k])) 0 = n mod 2 ^ (8 * k)"
proof (induction k arbitrary: n)
  case (Suc k)
  have digit: "int (byte (char_of (nat (x mod 256)))) = x mod 256" for x :: int by simp
  have shift: "n div 2 ^ (8 * Suc i) = (n div 256) div 2 ^ (8 * i)" for i
    by (simp add: zdiv_zmult2_eq [symmetric] power_add mult.commute)
  have "rev [0..<Suc k] = map Suc (rev [0..<k]) @ [0]"
    by (metis list.simps(8) list.simps(9) map_Suc_upt rev_map upt_conv_Cons zero_less_Suc rev.simps(2))
  then have "fold (\<lambda>c v. v * 256 + int (byte c)) (map (\<lambda>i. char_of (nat (n div 2 ^ (8 * i) mod 256))) (rev [0..<Suc k])) 0
      = fold (\<lambda>c v. v * 256 + int (byte c)) (map (\<lambda>i. char_of (nat ((n div 256) div 2 ^ (8 * i) mod 256))) (rev [0..<k])) 0 * 256 + n mod 256"
    by (simp add: digit shift comp_def del: power_Suc mult_Suc_right)
  also have "\<dots> = (n div 256 mod 2 ^ (8 * k)) * 256 + n mod 256" by (simp only: Suc)
  also have "\<dots> = n mod (256 * 2 ^ (8 * k))" using zmod_zmult2_eq [of "2 ^ (8 * k)" n 256] by simp
  finally show ?case by (simp add: power_add)
qed simp

lemma wrap64_mod: "int64_range n \<Longrightarrow> wrap64 (n mod 2 ^ 64) = n"
  by (simp add: wrap64_def int64_range_def mod_add_left_eq)

text \<open>
  The user handle of a passkey leads back to its user: a discoverable login decodes from the eight bytes
  that registration stored in the authenticator exactly the number of the user.
\<close>
theorem user_handle_roundtrip:
  assumes "int64_range (wu_ID u)"
  shows "length (WebAuthnID u) = 8 \<and> handle_id (WebAuthnID u) = wu_ID u"
proof -
  have "rev [0..<8] = [7, 6, 5, 4, 3, 2, 1, 0]" by (simp add: upt_rec)
  then have bytes: "WebAuthnID u = map (\<lambda>i. char_of (nat (wu_ID u div 2 ^ (8 * i) mod 256))) (rev [0..<8])"
    by (simp only: WebAuthnID_def)
  then have len: "length (WebAuthnID u) = 8" by (simp only: length_map length_rev length_upt diff_zero)
  then have "take 8 (WebAuthnID u) = WebAuthnID u" by (intro take_all) (simp only: order_refl)
  then have "handle_id (WebAuthnID u) = wrap64 (wu_ID u mod 2 ^ (8 * 8))"
    by (simp only: handle_id_def bytes base256)
  also have "\<dots> = wu_ID u" using wrap64_mod [OF assms] by simp
  finally show ?thesis using len by (rule conjI [rotated])
qed

theorem user_handle_roundtrip_witness: "handle_id (WebAuthnID \<lparr>wu_ID = 300, wu_Username = ''ann'', wu_Credentials = []\<rparr>) = 300"
  using user_handle_roundtrip [of "\<lparr>wu_ID = 300, wu_Username = ''ann'', wu_Credentials = []\<rparr>"] by (simp add: int64_range_def)

subsection \<open>Who gets a token\<close>

lemma finish_login_200:
  assumes "finish_login A m c user p cred s d = ((200, b), s', d')"
  shows "cred \<noteq> None \<and> s' = s \<and> token_for A m user b"
  using assms generateTokenResponse_200 [of A m c user]
  by (auto simp: finish_login_def split: option.splits prod.splits) (metis fst_conv)

text \<open>
  C32. A login with a passkey hands out a token only after the library has validated the assertion against a
  session of this server: the passkey is stored, belongs to the user the token is for, and the session,
  of this user or of a login without a name, is used up by the login.
\<close>
theorem passkey_login_validated:
  assumes "PasskeyAuthenticateComplete A m Pr (Some wan) c body s d = ((200, b), s', d')"
  shows "\<exists>rawID parsed p user key session. pr_ParseAssertion Pr body = Some (rawID, parsed) \<and>
    p \<in> set (passkeys d) \<and> pk_CredentialID p = raw_url_encode rawID \<and> user \<in> set (users d) \<and> u_ID user = pk_UserID p \<and>
    s key = Some session \<and> s' = s(key := None) \<and> token_for A m user b \<and>
    (key = ''auth_'' @ FormatInt (u_ID user) \<and>
       wa_ValidateLogin wan (wan_user_of user (GetPasskeysByUserID (u_ID user) d)) session parsed \<noteq> None \<or>
     key = ''auth_discoverable'' \<and> wa_ValidateDiscoverable wan (discoverable_user A d) session parsed \<noteq> None)"
proof -
  obtain rawID parsed where parse: "pr_ParseAssertion Pr body = Some (rawID, parsed)"
    using assms by (auto simp: PasskeyAuthenticateComplete_def split: option.splits)
  obtain p where p: "read_at A 10 (GetPasskeyByCredentialID (raw_url_encode rawID) d) = Inr p"
    using assms parse by (auto simp: PasskeyAuthenticateComplete_def split: sum.splits)
  obtain user where user: "read_at A 11 (GetUserByID (pk_UserID p) d) = Inr user"
    using assms parse p by (auto simp: PasskeyAuthenticateComplete_def split: sum.splits)
  obtain ps where ps: "read_at A 12 (Inr (GetPasskeysByUserID (u_ID user) d)) = Inr ps"
    using assms parse p user by (auto simp: PasskeyAuthenticateComplete_def split: sum.splits)
  note defs = PasskeyAuthenticateComplete_def Let_def parse p user ps getSession_def deleteSession_def
  have rows: "p \<in> set (passkeys d)" "pk_CredentialID p = raw_url_encode rawID" "user \<in> set (users d)" "u_ID user = pk_UserID p"
    "ps = GetPasskeysByUserID (u_ID user) d"
    using p user ps by (auto simp: GetPasskeyByCredentialID_def GetUserByID_def dest!: read_at_Inr get_row_Inr)
  let ?key = "''auth_'' @ FormatInt (u_ID user)"
  show ?thesis
  proof (cases "s ?key")
    case (Some session)
    then have f: "finish_login A m c user p (wa_ValidateLogin wan (wan_user_of user ps) session parsed) (s(?key := None)) d = ((200, b), s', d')"
      using assms by (simp add: defs)
    with parse rows Some finish_login_200 [OF f] show ?thesis
      by (intro exI [of _ rawID] exI [of _ parsed] exI [of _ p] exI [of _ user] exI [of _ ?key] exI [of _ session]) simp
  next
    case None
    with assms obtain session where ses: "s ''auth_discoverable'' = Some session" by (auto simp: defs split: option.splits)
    with None have f: "finish_login A m c user p (wa_ValidateDiscoverable wan (discoverable_user A d) session parsed)
        (s(''auth_discoverable'' := None)) d = ((200, b), s', d')"
      using assms by (simp add: defs)
    with parse rows ses finish_login_200 [OF f] show ?thesis
      by (intro exI [of _ rawID] exI [of _ parsed] exI [of _ p] exI [of _ user] exI [of _ "''auth_discoverable''"] exI [of _ session]) simp
  qed
qed

subsection \<open>Enrollment for somebody else's account\<close>

lemma find_row: "uniq f xs \<Longrightarrow> x \<in> set xs \<Longrightarrow> find (\<lambda>y. f y = f x) xs = Some x"
  by (induction xs) (auto simp: uniq_def image_iff)

lemma user_found:
  assumes "db_inv d" and "user \<in> set (users d)" and "users d' = users d"
  shows "GetUserByUsername (u_Username user) d' = Inr user" and "GetUserByID (u_ID user) d' = Inr user"
proof -
  have "uniq u_Username (users d)" "uniq u_ID (users d)" using assms(1) by (auto simp: inv_defs)
  then show "GetUserByUsername (u_Username user) d' = Inr user" "GetUserByID (u_ID user) d' = Inr user"
    using find_row [of u_Username "users d" user] find_row [of u_ID "users d" user] assms(2,3)
    by (simp_all add: GetUserByUsername_def GetUserByID_def get_row_def)
qed

text \<open>The two requests of an enrollment add the credential to the account that was named.\<close>

lemma enrollment_adds:
  assumes "db_inv d" and "user \<in> set (users d)" and "u_Username user \<noteq> []" and nofault: "\<And>i. \<not> ap_fault A i"
    and lib: "\<And>u. wa_BeginRegistration wan u = Some (opts, challenge)" "pr_ParseCreation Pr attestation = Some att"
      "\<And>u. wa_CreateCredential wan u challenge att = Some cred"
    and fresh: "\<not> has_key pk_CredentialID (raw_url_encode (wc_ID cred)) (passkeys d)"
    and query: "cx_Query c ''username'' = u_Username user"
    and steps: "PasskeyEnrollBegin A (Some wan) (Some (u_Username user)) s d = (r1, s1, d1)"
      "PasskeyEnrollFinish A Pr (Some wan) c attestation None s1 d1 = (r2, s2, d2)"
  obtains p where "users d2 = users d" and "passkeys d2 = passkeys d @ [p]" and "pk_UserID p = u_ID user"
    and "pk_CredentialID p = raw_url_encode (wc_ID cred)"
proof -
  note user = user_found [OF assms(1,2) refl]
  have s1: "s1 = s(''enroll_'' @ u_Username user \<mapsto> challenge)" "d1 = d"
    using steps(1) assms(3) nofault lib(1) user(1)
    by (auto simp: PasskeyEnrollBegin_def begin_registration_def read_at_def query_def storeSession_def)
  define p where "p = (new_passkey (u_ID user) (''Passkey '' @ FormatInt (int (length (GetPasskeysByUserID (u_ID user) d)) + 1)) cred)
      \<lparr>pk_ID := seqs d Passkeys, pk_CreatedAt := ap_now A, pk_LastUsedAt := None\<rparr>"
  have key: "has_key u_ID (u_ID user) (users d)" using assms(2) by (auto simp: has_key_def list_ex_iff)
  have pid: "pk_CredentialID (new_passkey i n cred) = raw_url_encode (wc_ID cred)" "pk_UserID (new_passkey i n cred) = i" for i n
    by (simp_all add: new_passkey_def)
  have "d2 = (bump Passkeys d)\<lparr>passkeys := passkeys d @ [p]\<rparr>"
    using steps(2) assms(3) nofault lib(2,3) user(1) fresh key query
    by (auto simp: PasskeyEnrollFinish_def finish_registration_def Let_def s1 read_at_def query_def getSession_def deleteSession_def
        write_at_def stmt_def CreatePasskey_def pid p_def)
  then show thesis by (intro that [of p]) (simp_all add: bump_def p_def pid)
qed

text \<open>The two requests of a login with a stored passkey that the library validates.\<close>

lemma passkey_logs_in:
  assumes user: "GetUserByUsername (u_Username user) d = Inr user" "GetUserByID (u_ID user) d = Inr user"
    and "u_Username user \<noteq> []" and nofault: "\<And>i. \<not> ap_fault A i"
    and p: "GetPasskeyByCredentialID (raw_url_encode rawID) d = Inr p" "pk_UserID p = u_ID user"
    and lib: "\<And>u. wa_BeginLogin wan u = Some (opts, challenge)" "pr_ParseAssertion Pr assertion = Some (rawID, parsed)"
      "\<And>u. wa_ValidateLogin wan u challenge parsed = Some cred"
    and sign: "\<And>s cl. ap_Sign A s cl \<noteq> None"
    and steps: "PasskeyAuthenticateBegin A (Some wan) (Some (u_Username user)) s d = (r1, s1, d1)"
      "PasskeyAuthenticateComplete A m Pr (Some wan) c assertion s1 d1 = (r2, s2, d2)"
  shows "\<exists>b. r2 = (200, b) \<and> token_for A m user b"
proof -
  have "p \<in> set (passkeys d)" using p(1) by (auto simp: GetPasskeyByCredentialID_def dest: get_row_Inr)
  then have "set (GetPasskeysByUserID (u_ID user) d) \<noteq> {}" using p(2) by (auto simp: GetPasskeysByUserID_def)
  then obtain q qs where ps: "GetPasskeysByUserID (u_ID user) d = q # qs" by (cases "GetPasskeysByUserID (u_ID user) d") auto
  have s1: "d1 = d" "s1 = s(''auth_'' @ FormatInt (u_ID user) \<mapsto> challenge)"
    using steps(1) assms(3) nofault lib(1) user ps
    by (auto simp: PasskeyAuthenticateBegin_def Let_def read_at_def query_def storeSession_def)
  have "(r2, s2, d2) = finish_login A m c user p (Some cred) (deleteSession (''auth_'' @ FormatInt (u_ID user)) s1) d"
    using steps(2) nofault lib(2,3) p user(2)
    by (simp add: PasskeyAuthenticateComplete_def Let_def s1 read_at_def query_def getSession_def)
  then obtain d5 where r2: "r2 = fst (generateTokenResponse A m c user d5)"
    by (auto simp: finish_login_def split: prod.splits) (metis fst_conv)
  have "\<exists>t. GenerateToken A m (u_ID user) (u_Username user) = Some t" using sign by (auto simp: GenerateToken_def Let_def)
  then obtain b where "fst (generateTokenResponse A m c user d5) = (200, b)"
    unfolding generateTokenResponse_ok [of A m c user d5, symmetric] by (metis prod.collapse)
  with r2 generateTokenResponse_200 [of A m c user d5 b] show ?thesis by simp
qed


subsection \<open>Instances\<close>

definition sample_credential :: credential where
  "sample_credential = \<lparr>wc_ID = ''id'', wc_PublicKey = ''key'', wc_Transport = [], wc_BackupEligible = False, wc_BackupState = False, wc_SignCount = 0\<rparr>"

definition sample_protocol :: protocol where
  "sample_protocol = \<lparr>pr_ParseCreation = Some, pr_ParseAssertion = (\<lambda>b. Some (''id'', b))\<rparr>"

definition sample_webauthn :: webauthn where
  "sample_webauthn = \<lparr>wa_BeginRegistration = (\<lambda>_. Some (''o'', ''c'')), wa_CreateCredential = (\<lambda>_ _ _. Some sample_credential),
     wa_BeginLogin = (\<lambda>_. Some (''o'', ''c'')), wa_BeginDiscoverable = None, wa_ValidateLogin = (\<lambda>_ _ _. Some sample_credential),
     wa_ValidateDiscoverable = (\<lambda>_ _ _. None)\<rparr>"

definition sample_query :: ctx where
  "sample_query = (sample_ctx [] [])\<lparr>cx_Query := (\<lambda>_. ''ann'')\<rparr>"

lemma sample_registered_inv: "db_inv sample_registered" "passkeys sample_registered = []"
proof -
  have eq: "sample_registered = snd (RecordLoginAttempt 5 ''ann'' ''1.2.3.4'' True (snd (CreateUser 5 (new_user ''ann'' (rev ''Secret-pass-1'')) empty_db)))"
    unfolding sample_registered_def by (simp add: web_eval web_samples sample_password_ok)
  show "db_inv sample_registered" unfolding eq by (intro db_inv_intros db_inv_empty)
  show "passkeys sample_registered = []" by (simp add: eq web_eval)
qed

text \<open>An intruder's session: enrollment and login for the user of the sample registration.\<close>

lemma sample_takeover:
  obtains user r1 s1 d1 r2 s2 d2 r3 s3 d3 r4 s4 d4 where "user \<in> set (users sample_registered)"
    and "PasskeyEnrollBegin (sample_api 9) (Some sample_webauthn) (Some (u_Username user)) Map.empty sample_registered = (r1, s1, d1)"
    and "PasskeyEnrollFinish (sample_api 9) sample_protocol (Some sample_webauthn) sample_query ''x'' None s1 d1 = (r2, s2, d2)"
    and "PasskeyAuthenticateBegin (sample_api 9) (Some sample_webauthn) (Some (u_Username user)) s2 d2 = (r3, s3, d3)"
    and "PasskeyAuthenticateComplete (sample_api 9) sample_jwt sample_protocol (Some sample_webauthn) sample_query ''y'' s3 d3 = (r4, s4, d4)"
    and "u_Username user = ''ann''"
  by (rule that [of "hd (users sample_registered)"]) (auto simp: sample_user intro!: prod_eqI)


definition sample_enrolled :: db where
  "sample_enrolled = sample_registered\<lparr>passkeys := [new_passkey 1 ''Passkey 1'' sample_credential]\<rparr>"

theorem passkey_login_validated_witness:
  "\<exists>p \<in> set (passkeys sample_enrolled). \<exists>user \<in> set (users sample_enrolled). u_ID user = pk_UserID p"
proof -
  let ?s = "[''auth_1'' \<mapsto> ''c'']"
  have one: "FormatInt 1 = ''1''" by (simp add: FormatInt_def nat_digits.simps digit_char_def char_of_def bit_iff_odd)
  have "\<exists>b s' d'. PasskeyAuthenticateComplete (sample_api 9) sample_jwt sample_protocol (Some sample_webauthn) sample_query ''y'' ?s sample_enrolled
      = ((200, b), s', d')"
    by (simp add: PasskeyAuthenticateComplete_def Let_def sample_enrolled_def sample_protocol_def sample_webauthn_def new_passkey_def
        sample_credential_def read_at_def query_def GetPasskeyByCredentialID_def GetUserByID_def get_row_def sample_user one getSession_def
        finish_login_def generateTokenResponse_def GenerateToken_def write_at_def stmt_def UpdatePasskeySignCount_def)
  then obtain b s' d' where "PasskeyAuthenticateComplete (sample_api 9) sample_jwt sample_protocol (Some sample_webauthn) sample_query ''y'' ?s
      sample_enrolled = ((200, b), s', d')" by blast
  from passkey_login_validated [OF this] show ?thesis by blast
qed

end
