(* ===== verification/Api.thy ===== *)
theory Api
  imports Routes RuleRuns Translate Config Passkeys
begin

text \<open>
  The API server as a whole: \<^verbatim>\<open>internal/api/server.go\<close> connects every route to its handler, with
  \<^verbatim>\<open>handlers/health.go\<close> and the two handlers that are written in place. A request goes through the table of
  \<open>Routes\<close> and the handler it reaches. The server keeps the database, the AI client and the commands to mail
  servers (\<open>world\<close>), the running operations, the open OAuth2 states and the passkey sessions.
\<close>

subsection \<open>Handlers of the server\<close>

definition HealthCheck :: response where
  "HealthCheck = (200, J_Obj [(''status'', J_Str ''ok''), (''service'', J_Str ''email-automation'')])"

definition ReadyCheck :: response where
  "ReadyCheck = (200, J_Obj [(''status'', J_Str ''ready'')])"

definition config_handler :: "Config \<Rightarrow> response" where
  "config_handler cfg = (200, J_Obj [(''registration_enabled'', J_Bool (RegistrationEnabled cfg))])"

definition rotate_handler :: "api_env \<Rightarrow> crypt \<Rightarrow> (nat \<Rightarrow> string option) \<Rightarrow> db \<Rightarrow> response \<times> db" where
  "rotate_handler A C rnd d =
     (case RotateEncryptionKeys C rnd (faults_from A 10) (ap_now A) d of
        (Inl e, d1) \<Rightarrow> (err_response 500 (ap_dbtext A e), d1)
      | (Inr n, d1) \<Rightarrow> ((200, J_Obj [(''message'', J_Str ''encryption key rotation complete''), (''rotated'', J_Int (int n))]), d1))"

subsection \<open>The server\<close>

text \<open>The decoder of request bodies, for the type that each handler expects.\<close>

record decoders =
  jd_register :: "string \<Rightarrow> register_req option"
  jd_login :: "string \<Rightarrow> login_req option"
  jd_passkey_user :: "string \<Rightarrow> passkey_user_req option"
  jd_username :: "string \<Rightarrow> string option"
  jd_password :: "string \<Rightarrow> change_password_req option"
  jd_token :: "string \<Rightarrow> string option"
  jd_key_name :: "string \<Rightarrow> string option"
  jd_translate :: "string \<Rightarrow> (string \<times> bool option) option"
  jd_tenant :: "string \<Rightarrow> tenant option"
  jd_ai :: "string \<Rightarrow> bool option"
  jd_rule :: "string \<Rightarrow> rule option"
  jd_test :: "string \<Rightarrow> (string \<times> email_context) option"
  jd_code :: "string \<Rightarrow> string option"
  jd_run :: "string \<Rightarrow> (string \<times> int) option"
  jd_ids :: "string \<Rightarrow> int list option"
  jd_account :: "string \<Rightarrow> account option"
  jd_entry :: "string \<Rightarrow> (string \<times> string) option"
  jd_value :: "string \<Rightarrow> string option"
  jd_batch :: "string \<Rightarrow> (string list \<times> string \<times> string) option"
  jd_queries :: "string \<Rightarrow> (string \<times> string) list option"
  jd_folder :: "string \<Rightarrow> string option"

text \<open>What one request meets: the configuration, the keys, and everything outside the program.\<close>

record serve_env =
  sv_api :: api_env
  sv_cfg :: Config
  sv_crypt :: crypt
  sv_rnd :: "nat \<Rightarrow> string option"
  sv_rule :: rule_env
  sv_inbox :: "int \<Rightarrow> inbox_net"
  sv_actions :: "int \<Rightarrow> nat \<Rightarrow> env"
  sv_closing :: env
  sv_conns :: "int list"
  sv_ctxErr :: "checkpoint \<Rightarrow> bool"
  sv_op :: nat
  sv_conn :: conn_env
  sv_oauth :: oauth_net
  sv_order :: "(string \<times> provider) list \<Rightarrow> (string \<times> provider) list"
  sv_wan :: "webauthn option"
  sv_protocol :: protocol
  sv_kiro :: kiro_service
  sv_unicode :: unicode
  sv_collate :: "string \<Rightarrow> nat list"
  sv_decode :: decoders

record server =
  sr_world :: world
  sr_ops :: operations
  sr_states :: states
  sr_sessions :: sessions

definition jwt_of :: "Config \<Rightarrow> JWTManager" where
  "jwt_of cfg = \<lparr>jm_secret = JWTSecret cfg, jm_expiration = JWTExpiration cfg\<rparr>"

definition auth_config_of :: "Config \<Rightarrow> auth_config" where
  "auth_config_of cfg = \<lparr>cf_RegistrationEnabled = RegistrationEnabled cfg, cf_RateLimitWindow = RateLimitWindow cfg,
     cf_RateLimitMaxFails = RateLimitMaxFails cfg\<rparr>"

definition oauth_config_of :: "Config \<Rightarrow> oauth_config" where
  "oauth_config_of cfg = \<lparr>oc_MS365ClientID = OAuth2Microsoft365ClientID cfg, oc_MS365ClientSecret = OAuth2Microsoft365ClientSecret cfg,
     oc_MS365TenantID = OAuth2Microsoft365TenantID cfg, oc_GmailClientID = OAuth2GmailClientID cfg,
     oc_GmailClientSecret = OAuth2GmailClientSecret cfg, oc_RedirectBaseURL = OAuth2RedirectBaseURL cfg\<rparr>"

abbreviation sr_db :: "server \<Rightarrow> db" where
  "sr_db s \<equiv> w_db (sr_world s)"

definition put_db :: "db \<Rightarrow> server \<Rightarrow> server" where
  "put_db d s = s\<lparr>sr_world := (sr_world s)\<lparr>w_db := d\<rparr>\<rparr>"

definition on_db :: "(db \<Rightarrow> response \<times> db) \<Rightarrow> server \<Rightarrow> response \<times> server" where
  "on_db h s = (case h (sr_db s) of (r, d) \<Rightarrow> (r, put_db d s))"

definition on_sessions :: "(sessions \<Rightarrow> db \<Rightarrow> pk_result) \<Rightarrow> server \<Rightarrow> response \<times> server" where
  "on_sessions h s = (case h (sr_sessions s) (sr_db s) of (r, ps, d) \<Rightarrow> (r, (put_db d s)\<lparr>sr_sessions := ps\<rparr>))"

definition on_ops :: "(operations \<Rightarrow> response \<times> operations) \<Rightarrow> server \<Rightarrow> response \<times> server" where
  "on_ops h s = (case h (sr_ops s) of (r, ops) \<Rightarrow> (r, s\<lparr>sr_ops := ops\<rparr>))"

definition on_dry_run ::
  "(db \<Rightarrow> KiroClient option \<times> operations \<Rightarrow> response \<times> KiroClient option \<times> operations) \<Rightarrow> server \<Rightarrow> response \<times> server" where
  "on_dry_run h s =
     (case h (sr_db s) (w_kiro (sr_world s), sr_ops s) of
        (r, k, ops) \<Rightarrow> (r, s\<lparr>sr_world := (sr_world s)\<lparr>w_kiro := k\<rparr>, sr_ops := ops\<rparr>))"

definition handle_public :: "serve_env \<Rightarrow> public_endpoint \<Rightarrow> ctx \<Rightarrow> string \<Rightarrow> server \<Rightarrow> response \<times> server" where
  "handle_public E e c body =
     (let A = sv_api E; jm = jwt_of (sv_cfg E); cfg = auth_config_of (sv_cfg E); J = sv_decode E; W = sv_wan E; P = sv_protocol E in
      case e of
        E_HealthCheck \<Rightarrow> Pair HealthCheck
      | E_ReadyCheck \<Rightarrow> Pair ReadyCheck
      | E_Config \<Rightarrow> Pair (config_handler (sv_cfg E))
      | E_Register \<Rightarrow> on_db (Register A jm cfg c (jd_register J body))
      | E_Login \<Rightarrow> on_db (Login A jm cfg c (jd_login J body))
      | E_Logout \<Rightarrow> on_db (Logout A jm c)
      | E_PasskeyAuthenticateBegin \<Rightarrow> on_sessions (PasskeyAuthenticateBegin A W (jd_username J body))
      | E_PasskeyAuthenticateComplete \<Rightarrow> on_sessions (PasskeyAuthenticateComplete A jm P W c body)
      | E_RegisterUserWithPasskey \<Rightarrow> on_db (RegisterUserWithPasskey A (jd_passkey_user J body))
      | E_PasskeyEnrollBegin \<Rightarrow> on_sessions (PasskeyEnrollBegin A W (jd_username J body))
      | E_PasskeyEnrollFinish \<Rightarrow> on_sessions (PasskeyEnrollFinish A P W c body (jd_username J body)))"

definition handle_own :: "serve_env \<Rightarrow> own_endpoint \<Rightarrow> ctx \<Rightarrow> string \<Rightarrow> server \<Rightarrow> response \<times> server" where
  "handle_own E e c body =
     (let A = sv_api E; J = sv_decode E; W = sv_wan E in
      case e of
        E_GetProfile \<Rightarrow> on_db (GetProfile A c)
      | E_ChangePassword \<Rightarrow> on_db (ChangePassword A c (jd_password J body))
      | E_TOTPSetup \<Rightarrow> on_db (TOTPSetup A c)
      | E_TOTPVerify \<Rightarrow> on_db (TOTPVerify A c (jd_token J body))
      | E_TOTPDisable \<Rightarrow> on_db (TOTPDisable A c (jd_token J body))
      | E_PasskeyRegisterBegin \<Rightarrow> on_sessions (PasskeyRegisterBegin A W c)
      | E_PasskeyRegisterComplete \<Rightarrow> on_sessions (PasskeyRegisterComplete A (sv_protocol E) W c body)
      | E_PasskeyList \<Rightarrow> on_db (PasskeyList A c)
      | E_PasskeyDelete \<Rightarrow> on_db (PasskeyDelete A c)
      | E_APIKeyCreate \<Rightarrow> on_db (APIKeyCreate A c (jd_key_name J body))
      | E_APIKeyList \<Rightarrow> on_db (APIKeyList A c)
      | E_APIKeyDelete \<Rightarrow> on_db (APIKeyDelete A c))"

definition handle_ai :: "serve_env \<Rightarrow> ai_endpoint \<Rightarrow> string \<Rightarrow> server \<Rightarrow> response \<times> server" where
  "handle_ai E e body =
     (let K = sv_kiro E; U = sv_unicode E; J = sv_decode E in
      case e of
        E_Proxy \<Rightarrow> Pair (Proxy U K body)
      | E_TranslateEnglishToLua \<Rightarrow> Pair (TranslateEnglishToLua U K (jd_translate J body))
      | E_TranslateLuaToEnglish \<Rightarrow> Pair (TranslateLuaToEnglish K (jd_translate J body)))"

definition handle_admin :: "serve_env \<Rightarrow> admin_endpoint \<Rightarrow> ctx \<Rightarrow> string \<Rightarrow> server \<Rightarrow> response \<times> server" where
  "handle_admin E e c body =
     (let A = sv_api E; J = sv_decode E in
      case e of
        E_ListTenants \<Rightarrow> on_db (api_ListTenants A)
      | E_CreateTenant \<Rightarrow> on_db (api_CreateTenant A (jd_tenant J body))
      | E_RotateEncryptionKeys \<Rightarrow> on_db (rotate_handler A (sv_crypt E) (sv_rnd E))
      | E_ListUsers \<Rightarrow> on_db (ListUsers A)
      | E_GetUser \<Rightarrow> on_db (GetUser A c)
      | E_UpdateAIEnabled \<Rightarrow> on_db (UpdateAIEnabled A c (jd_ai J body))
      | E_PromoteUser \<Rightarrow> on_db (PromoteUser A c)
      | E_DemoteUser \<Rightarrow> on_db (DemoteUser A c))"

definition handle_rules :: "serve_env \<Rightarrow> rule_endpoint \<Rightarrow> ctx \<Rightarrow> string \<Rightarrow> server \<Rightarrow> response \<times> server" where
  "handle_rules E e c body =
     (let A = sv_api E; V = sv_rule E; J = sv_decode E; C = sv_crypt E in
      case e of
        E_ListRules \<Rightarrow> on_db (api_ListRules A c)
      | E_GetRule \<Rightarrow> on_db (api_GetRule A c)
      | E_CreateRule \<Rightarrow> on_db (api_CreateRule A V c (jd_rule J body))
      | E_UpdateRule \<Rightarrow> on_db (api_UpdateRule A V c (jd_rule J body))
      | E_DeleteRule \<Rightarrow> on_db (api_DeleteRule A c)
      | E_TestRule \<Rightarrow> (\<lambda>s. case api_TestRule A V (jd_test J body) (w_kiro (sr_world s)) of
            (r, k) \<Rightarrow> (r, s\<lparr>sr_world := (sr_world s)\<lparr>w_kiro := k\<rparr>\<rparr>))
      | E_ValidateRule \<Rightarrow> Pair (ValidateRule V (jd_code J body))
      | E_DryRunAdHoc \<Rightarrow> on_dry_run (DryRunAdHoc A V C (sv_inbox E) (sv_ctxErr E) (sv_op E) c (jd_run J body))
      | E_CancelAdHocOperation \<Rightarrow> on_ops (CancelAdHocOperation c)
      | E_ListExecutionLogs \<Rightarrow> on_db (api_ListExecutionLogs A c)
      | E_ListSuggestedRules \<Rightarrow> on_db (api_ListSuggestedRules A c)
      | E_ApproveRule \<Rightarrow> on_db (api_ApproveRule A c)
      | E_DryRunRule \<Rightarrow> on_dry_run (DryRunRule A V C (sv_inbox E) (sv_ctxErr E) (sv_op E) c (jd_run J body))
      | E_ExecuteRule \<Rightarrow> (\<lambda>s. case ExecuteRule A V C (sv_inbox E) (sv_actions E) (sv_closing E) (sv_conns E) (sv_ctxErr E) (sv_op E)
              c (jd_run J body) (sr_world s, sr_ops s) of
            (r, w, ops) \<Rightarrow> (r, s\<lparr>sr_world := w, sr_ops := ops\<rparr>))
      | E_CancelOperation \<Rightarrow> on_ops (CancelOperation c)
      | E_BulkDeleteRules \<Rightarrow> on_db (api_BulkDeleteRules A c (jd_ids J body))
      | E_ListDeferredActions \<Rightarrow> on_db (api_ListDeferredActions A c)
      | E_CancelDeferredAction \<Rightarrow> on_db (api_CancelDeferredAction A c)
      | E_ReorderRules \<Rightarrow> on_db (api_ReorderRules A c (jd_ids J body)))"

definition handle_mail :: "serve_env \<Rightarrow> mail_endpoint \<Rightarrow> ctx \<Rightarrow> string \<Rightarrow> server \<Rightarrow> response \<times> server" where
  "handle_mail E e c body =
     (let A = sv_api E; C = sv_crypt E; rnd = sv_rnd E; U = sv_unicode E; J = sv_decode E; cfg = oauth_config_of (sv_cfg E) in
      case e of
        E_ListAccounts \<Rightarrow> on_db (api_ListAccounts A c)
      | E_GetAccount \<Rightarrow> on_db (api_GetAccount A C c)
      | E_CreateAccount \<Rightarrow> on_db (api_CreateAccount A C rnd c (jd_account J body))
      | E_UpdateAccount \<Rightarrow> on_db (api_UpdateAccount A C rnd c (jd_account J body))
      | E_DeleteAccount \<Rightarrow> on_db (api_DeleteAccount A c)
      | E_TestConnection \<Rightarrow> on_db (TestConnection A (sv_conn E) C rnd c)
      | E_AttachMetadata \<Rightarrow> on_db (api_AttachMetadata A c (jd_entry J body))
      | E_GetMetadata \<Rightarrow> on_db (GetMetadata A (sv_collate E) c)
      | E_UpdateMetadata \<Rightarrow> on_db (api_UpdateMetadata A c (jd_value J body))
      | E_DeleteMetadata \<Rightarrow> on_db (DeleteMetadata A c)
      | E_SearchByMetadata \<Rightarrow> on_db (SearchByMetadata A c)
      | E_BatchAttachMetadata \<Rightarrow> on_db (api_BatchAttachMetadata A c (jd_batch J body))
      | E_BatchQueryMetadata \<Rightarrow> on_db (api_BatchQueryMetadata A c (jd_queries J body))
      | E_ListExemptFolders \<Rightarrow> on_db (ListExemptFolders A C c)
      | E_AddExemptFolder \<Rightarrow> on_db (api_AddExemptFolder A C U c (jd_folder J body))
      | E_RemoveExemptFolder \<Rightarrow> on_db (api_RemoveExemptFolder A C U c)
      | E_ListProviders \<Rightarrow> Pair (ListProviders (sv_order E) cfg)
      | E_Connect \<Rightarrow> (\<lambda>s. case Connect A cfg c (sr_states s) of (r, st) \<Rightarrow> (r, s\<lparr>sr_states := st\<rparr>))
      | E_RefreshToken \<Rightarrow> on_db (api_RefreshToken A cfg (sv_oauth E) C rnd c)
      | E_Disconnect \<Rightarrow> on_db (Disconnect A C rnd c))"

definition handle_callback :: "serve_env \<Rightarrow> ctx \<Rightarrow> server \<Rightarrow> response \<times> server" where
  "handle_callback E c s =
     (case Callback (sv_api E) (oauth_config_of (sv_cfg E)) (sv_oauth E) (sv_crypt E) (sv_rnd E) c (sr_states s) (sr_db s) of
        (r, st, d) \<Rightarrow> (r, (put_db d s)\<lparr>sr_states := st\<rparr>))"

definition handle :: "serve_env \<Rightarrow> endpoint \<Rightarrow> ctx \<Rightarrow> string \<Rightarrow> server \<Rightarrow> response \<times> server" where
  "handle E e c body =
     (case e of
        Public x \<Rightarrow> handle_public E x c body
      | Own x \<Rightarrow> handle_own E x c body
      | AI x \<Rightarrow> handle_ai E x body
      | Admin x \<Rightarrow> handle_admin E x c body
      | Rules x \<Rightarrow> handle_rules E x c body
      | Mail x \<Rightarrow> handle_mail E x c body
      | E_Callback \<Rightarrow> handle_callback E c)"

definition serve :: "fiber \<Rightarrow> serve_env \<Rightarrow> string \<Rightarrow> ctx \<Rightarrow> string \<Rightarrow> server \<Rightarrow> response \<times> server" where
  "serve F E meth c body s =
     (case dispatch F (sv_api E) (jwt_of (sv_cfg E)) meth c (sr_db s) of
        (Inl r, d) \<Rightarrow> (r, put_db d s)
      | (Inr (e, c1), d) \<Rightarrow> handle E e c1 body (put_db d s))"

end
