(* ===== verification/Serving.thy ===== *)
theory Serving
  imports Api
begin

text \<open>
  What requests do to the database: every request is a sequence of the statements of the data access layer, so
  that the invariant of the database is kept, and a request for the data of a tenant writes only what belongs
  to this tenant.
\<close>

subsection \<open>Statements for a tenant\<close>

text \<open>The statements that a request of tenant \<open>T\<close> runs on the way to its handler and in it.\<close>

inductive request_step :: "int \<Rightarrow> db \<Rightarrow> db \<Rightarrow> bool" for T where
  q_tenant: "tenant_step T d d' \<Longrightarrow> request_step T d d'"
| q_SetExemptFolders: "account_of T i d \<Longrightarrow> request_step T d (snd (SetExemptFolders now i fs d))"
| q_OAuthTokens: "account_of T i d \<Longrightarrow> request_step T d (snd (UpdateAccountOAuthTokens c rnd now i tok rtok ex d))"
| q_ConnectionTest: "account_of T i d \<Longrightarrow> request_step T d (snd (UpdateConnectionTestResult now i st er d))"
| q_LogExecution: "request_step T d (snd (LogExecution now l d))"
| q_CreateDeferredAction: "request_step T d (snd (CreateDeferredAction now da d))"
| q_RecordRuleAppliedMove: "request_step T d (snd (RecordRuleAppliedMove now r a mid f d))"
| q_UseAPIKey: "request_step T d (snd (GetUserByAPIKeyHash F now h d))"
| q_TenantForUser: "request_step T d (snd (CreateTenantForUser now us_id un d))"

abbreviation requests :: "int \<Rightarrow> db \<Rightarrow> db \<Rightarrow> bool" where
  "requests T \<equiv> (request_step T)\<^sup>*\<^sup>*"

lemma request_step_db_step: "request_step T d d' \<Longrightarrow> db_step d d'"
  by (induction rule: request_step.induct) (auto intro: db_step.intros tenant_step_db_step)

lemma requests_db_steps: "requests T d d' \<Longrightarrow> db_step\<^sup>*\<^sup>* d d'"
  by (induction rule: rtranclp_induct) (auto intro: request_step_db_step rtranclp.rtrancl_into_rtrancl)

lemma request_step_view:
  assumes "request_step T d d'" and "db_inv d" and "T' \<noteq> T"
  shows "tenant_view T' d' = tenant_view T' d"
  using assms
proof (induction rule: request_step.induct)
  case (q_SetExemptFolders i d now fs)
  then have "tenant_view T' (snd (update_account i (\<lambda>a. a\<lparr>a_ExemptFolders := fs, a_UpdatedAt := now\<rparr>) d)) = tenant_view T' d"
    by (intro view_update_account) (auto simp: account_of_def)
  then show ?case by (simp add: SetExemptFolders_def update_account_def)
next
  case (q_OAuthTokens i d c rnd now tok rtok ex)
  then show ?case by (auto simp: UpdateAccountOAuthTokens_def Let_def account_of_def intro!: view_update_account)
next
  case (q_ConnectionTest i d now st er)
  then show ?case by (auto simp: UpdateConnectionTestResult_def account_of_def intro!: view_update_account)
next
  case (q_tenant d d')
  then show ?case by (rule tenant_step_view)
qed (auto simp: LogExecution_def CreateDeferredAction_def RecordRuleAppliedMove_def GetUserByAPIKeyHash_def
    CreateTenantForUser_def Let_def tenant_view_def bump_def insert_tenant_def split: option.splits sum.splits prod.splits if_splits)

lemma requests_view:
  assumes "requests T d d'" and "db_inv d" and "T' \<noteq> T"
  shows "tenant_view T' d' = tenant_view T' d"
proof -
  from assms(1) have "tenant_view T' d' = tenant_view T' d \<and> db_inv d'"
    by (induction rule: rtranclp_induct) (auto simp: assms(2,3) request_step_view intro: db_step_inv request_step_db_step)
  then show ?thesis by simp
qed

subsection \<open>The handlers\<close>

text \<open>The shape in which handlers answer after a statement.\<close>

lemma snd_answer [simp]:
  "snd (case x of (Inl e, d1) \<Rightarrow> (f e d1, d1) | (Inr y, d1) \<Rightarrow> (g y d1, d1)) = snd x"
  by (simp split: prod.split sum.split)

lemma snd_write_at: "snd (write_at A i op d) = (if ap_fault A i then d else snd (op d))"
  by (simp add: write_at_def stmt_def)

lemma request: "request_step T d d' \<Longrightarrow> requests T d d'"
  by (rule r_into_rtranclp)

lemma tenant_request: "tenant_step T d d' \<Longrightarrow> requests T d d'"
  by (rule request [OF q_tenant])

lemma own_row: "uniq a_ID (accounts d) \<Longrightarrow> GetAccount C T i d = Inr a \<Longrightarrow> account_of T i d"
  by (auto simp: GetAccount_def account_of_def uniq_def res_bind_def distinct_map inj_on_def dest!: get_row_Inr split: sum.splits)

lemmas rule_handlers = api_ListRules_def api_GetRule_def api_CreateRule_def api_UpdateRule_def api_DeleteRule_def api_ListExecutionLogs_def
  api_ListSuggestedRules_def api_ApproveRule_def api_BulkDeleteRules_def api_ListDeferredActions_def api_CancelDeferredAction_def
  api_ReorderRules_def

lemma rule_handlers_requests:
  "requests (tenantID c) d (snd (api_ListRules A c d))"
  "requests (tenantID c) d (snd (api_GetRule A c d))"
  "requests (tenantID c) d (snd (api_CreateRule A V c rb d))"
  "requests (tenantID c) d (snd (api_UpdateRule A V c rb d))"
  "requests (tenantID c) d (snd (api_DeleteRule A c d))"
  "requests (tenantID c) d (snd (api_ListExecutionLogs A c d))"
  "requests (tenantID c) d (snd (api_ListSuggestedRules A c d))"
  "requests (tenantID c) d (snd (api_ApproveRule A c d))"
  "requests (tenantID c) d (snd (api_BulkDeleteRules A c ib d))"
  "requests (tenantID c) d (snd (api_ListDeferredActions A c d))"
  "requests (tenantID c) d (snd (api_CancelDeferredAction A c d))"
  "requests (tenantID c) d (snd (api_ReorderRules A c ib d))"
  by (auto simp: rule_handlers Let_def read_at_def query_def snd_write_at split: option.splits sum.splits intro!: tenant_request tenant_step.intros)

lemma uniq_accounts: "db_inv d \<Longrightarrow> uniq a_ID (accounts d)"
  by (simp add: inv_defs)

lemma exempt_requests:
  assumes "account_of T i d"
  shows "requests T d (snd (AddExemptFolder U F now i f d))" and "requests T d (snd (RemoveExemptFolder U F now i f d))"
  using request [OF q_SetExemptFolders [OF assms]]
  by (auto simp: AddExemptFolder_def RemoveExemptFolder_def Let_def stmt_def SetExemptFolders_def split: sum.split)

lemma own_account_requests:
  assumes "db_inv d" and "\<And>i. account_of (tenantID c) i d \<Longrightarrow> requests (tenantID c) d (snd (h i d))"
  shows "requests (tenantID c) d (snd (own_account A C c h d))"
  using assms own_row [OF uniq_accounts]
  by (auto simp: own_account_def dest!: read_at_Inr split: option.split sum.split)

lemma account_kept:
  "account_of T i d \<Longrightarrow> account_of T i (snd (UpdateAccountOAuthTokens c rnd now i tok rtok ex d))"
  using update_account_kept [of T i d "T + 1" _ False] by (simp add: UpdateAccountOAuthTokens_def Let_def stmt_def)

lemma GetAccount_sel: "GetAccount C T i d = Inr a \<Longrightarrow> a_ID a = i \<and> a_TenantID a = T"
  by (auto simp: GetAccount_def res_bind_def decrypt_account_def select_account_def dest!: get_row_Inr split: sum.splits)

lemma test_connection_requests:
  assumes "account_of T (a_ID acc) d"
  shows "requests T d (snd (test_connection A K C rnd acc d)) \<and> account_of T (a_ID acc) (snd (test_connection A K C rnd acc d))"
  using assms request [OF q_OAuthTokens [OF assms]] account_kept
  by (auto simp: test_connection_def test_authentication_def Let_def write_at_def stmt_def split: option.split sum.split)

lemma TestConnection_requests:
  assumes "db_inv d"
  shows "requests (tenantID c) d (snd (TestConnection A K C rnd c d))"
proof -
  have "requests (tenantID c) d (snd (write_at A 12 (UpdateConnectionTestResult now i st er) d1))"
    if "GetAccount C (tenantID c) i d = Inr acc" "test_connection A K C rnd acc d = (e, d1)" for i acc e d1 now st er
  proof -
    have "account_of (tenantID c) (a_ID acc) d" "a_ID acc = i"
      using own_row [OF uniq_accounts [OF assms] that(1)] GetAccount_sel [OF that(1)] by simp_all
    with test_connection_requests [of "tenantID c" acc d A K C rnd] that(2)
    have "requests (tenantID c) d d1" "account_of (tenantID c) i d1" by auto
    then show ?thesis
      by (auto simp: snd_write_at intro: rtranclp_trans request q_ConnectionTest)
  qed
  then show ?thesis
    by (auto simp: TestConnection_def dest!: read_at_Inr split: option.split sum.split prod.split)
qed

lemma token_requests:
  assumes "db_inv d"
  shows "requests (tenantID c) d (snd (api_RefreshToken A cfg net C rnd c d))" and "requests (tenantID c) d (snd (Disconnect A C rnd c d))"
proof -
  have own: "account_of (tenantID c) i d" "a_TenantID acc = tenantID c" if "read_at A 10 (GetAccount C (tenantID c) i d) = Inr acc" for i acc
    using own_row [OF uniq_accounts [OF assms]] GetAccount_sel read_at_Inr [OF that] by blast+
  show "requests (tenantID c) d (snd (api_RefreshToken A cfg net C rnd c d))"
    using own(1) by (auto simp: api_RefreshToken_def Let_def snd_write_at split: option.split sum.split intro!: request q_OAuthTokens)
  show "requests (tenantID c) d (snd (Disconnect A C rnd c d))"
    using own(2) by (auto simp: Disconnect_def snd_write_at split: option.split sum.split intro!: tenant_request t_UpdateAccount)
qed

lemmas mail_handlers = api_ListAccounts_def api_GetAccount_def api_CreateAccount_def api_UpdateAccount_def api_DeleteAccount_def
  api_AttachMetadata_def GetMetadata_def api_UpdateMetadata_def DeleteMetadata_def SearchByMetadata_def api_BatchAttachMetadata_def
  api_BatchQueryMetadata_def

lemma mail_handlers_requests:
  "requests (tenantID c) d (snd (api_ListAccounts A c d))"
  "requests (tenantID c) d (snd (api_GetAccount A C c d))"
  "requests (tenantID c) d (snd (api_CreateAccount A C rnd c ab d))"
  "requests (tenantID c) d (snd (api_UpdateAccount A C rnd c ab d))"
  "requests (tenantID c) d (snd (api_DeleteAccount A c d))"
  "requests (tenantID c) d (snd (api_AttachMetadata A c eb d))"
  "requests (tenantID c) d (snd (GetMetadata A coll c d))"
  "requests (tenantID c) d (snd (api_UpdateMetadata A c vb d))"
  "requests (tenantID c) d (snd (DeleteMetadata A c d))"
  "requests (tenantID c) d (snd (SearchByMetadata A c d))"
  "requests (tenantID c) d (snd (api_BatchAttachMetadata A c bb d))"
  "requests (tenantID c) d (snd (api_BatchQueryMetadata A c qb d))"
  by (auto simp: mail_handlers Let_def read_at_def query_def snd_write_at split: option.splits sum.splits
      intro!: tenant_request tenant_step.intros)

lemma folder_handlers_requests:
  assumes "db_inv d"
  shows "requests (tenantID c) d (snd (ListExemptFolders A C c d))"
    and "requests (tenantID c) d (snd (api_AddExemptFolder A C U c fb d))"
    and "requests (tenantID c) d (snd (api_RemoveExemptFolder A C U c d))"
  unfolding ListExemptFolders_def api_AddExemptFolder_def api_RemoveExemptFolder_def
  by (rule own_account_requests [OF assms], auto simp: exempt_requests split: option.split sum.split)+

subsection \<open>The execution of rules\<close>

definition runs_for :: "int \<Rightarrow> world \<Rightarrow> world \<Rightarrow> bool" where
  "runs_for T w w' \<longleftrightarrow> requests T (w_db w) (w_db w')"

interpretation running: io_preorder "runs_for T" for T
  by unfold_locales (auto simp: runs_for_def)

lemma db_do_runs:
  assumes "\<And>d. request_step T d (snd (op d))"
  shows "io_rel (runs_for T) (db_do N s op)"
proof -
  have "runs_for T w (snd (db_do N s op w))" for w
    using request [OF assms, of "w_db w"] by (cases rule: db_do_cases [of N s op w]) (simp_all add: runs_for_def)
  then show ?thesis by (simp add: io_rel_def)
qed

lemma quiet_runs: "io_rel quiet m \<Longrightarrow> io_rel (runs_for T) m"
  by (simp add: io_rel_def quiet_def runs_for_def)

lemma execute_action_runs: "io_rel (runs_for T) (ExecuteActionByMessageIDForRule N now aid mid ac ta r)"
proof -
  have "io_rel (runs_for T) (record_move N now aid ac ta r mid)"
    unfolding record_move_def by (auto intro!: running.composed db_do_runs q_RecordRuleAppliedMove)
  then show ?thesis
    unfolding ExecuteActionByMessageIDForRule_def by (intro running.bind quiet_runs [OF execute_quiet(2)])
qed

interpretation running: execution "runs_for T" for T
proof unfold_locales
  show "io_rel (runs_for T) (exec_action N now r aid email res)" for N now r aid email res
    by (auto simp: exec_action_def intro!: execute_action_runs running.bind running.return db_do_runs q_CreateDeferredAction)
  show "io_rel (runs_for T) (db_do N S_LogExecution (LogExecution now l))" for N now l
    by (intro db_do_runs q_LogExecution)
qed (simp add: runs_for_def)

subsection \<open>The way to the handler\<close>

lemma find_tenant_requests: "requests T d (snd (find_tenant A i n c d))"
  using request [OF q_TenantForUser, of T d]
  by (auto simp: find_tenant_def write_at_def stmt_def split: sum.split list.split prod.split)

lemma JWTAuth_requests: "requests T d (snd (JWTAuthMiddleware A jm c d))"
proof -
  have "requests T d (snd (tryUserAPIKeyAuth A k c d))" for k
  proof (cases "GetUserByAPIKeyHash (\<lambda>i. ap_fault A (3 + i)) (ap_now A) (HashAPIKey A k) d")
    case (Pair r d1)
    then have "requests T d d1" using request [OF q_UseAPIKey, of T d] by (metis snd_conv)
    then show ?thesis
      unfolding tryUserAPIKeyAuth_def Pair using find_tenant_requests by (cases r) (auto intro: rtranclp_trans)
  qed
  then show ?thesis
    by (auto simp: JWTAuthMiddleware_def Let_def tryAPIKeyAuth_def find_tenant_requests split: sum.split)
qed

lemma middleware_requests: "requests T d (snd (middleware F A jm meth x c d))"
proof -
  have "snd (RequireAdmin A c d) = d" by (simp add: RequireAdmin_def split: option.split sum.split)
  then show ?thesis by (cases x) (simp_all add: middleware_def JWTAuth_requests RequireAuth_def split: option.split)
qed

lemma chain_requests: "requests T d (snd (chain (middleware F A jm meth) xs c d))"
proof (induction xs arbitrary: c d)
  case (Cons x xs)
  obtain r d1 where m: "middleware F A jm meth x c d = (r, d1)" by (cases "middleware F A jm meth x c d")
  then have "requests T d d1" using middleware_requests by (metis snd_conv)
  then show ?case using Cons by (cases r) (auto simp: m intro: rtranclp_trans)
qed simp

lemma walk_requests: "requests T d (snd (go F A jm meth rs c d))"
proof (induction rs arbitrary: c d rule: endpoints.induct)
  case (2 p ms rs)
  obtain r d1 where m: "chain (middleware F A jm meth) ms c d = (r, d1)" by (cases "chain (middleware F A jm meth) ms c d")
  then have "requests T d d1" using chain_requests by (metis snd_conv)
  then show ?case using 2 by (cases r) (auto simp: m intro: rtranclp_trans)
qed (simp_all split: option.split)

lemma dispatch_requests: "requests T d (snd (dispatch F A jm meth c d))"
  using walk_requests [of T d F A jm meth "setupMiddleware @ setupRoutes" c]
  by (auto simp: dispatch_def split: prod.split walked.split)

subsection \<open>Requests for the data of a tenant\<close>

lemma sr_db_put [simp]: "sr_db (put_db d s) = d"
  by (simp add: put_db_def)

lemma on_db_db [simp]: "sr_db (snd (on_db h s)) = snd (h (sr_db s))"
  by (simp add: on_db_def split: prod.split)

lemma on_ops_db [simp]: "sr_db (snd (on_ops h s)) = sr_db s" "sr_db (snd (on_dry_run g s)) = sr_db s"
  by (simp_all add: on_ops_def on_dry_run_def split: prod.split)

lemma execute_requests:
  "requests T (w_db w) (w_db w')" if "ExecuteRule A V C net Ns N ids ctxErr n c body (w, ops) = (r, w', ops')"
  using running.execute [of T w A V C net Ns N ids ctxErr n c body ops] that by (simp add: runs_for_def)

lemma handle_rules_requests: "requests (tenantID c) (sr_db s) (sr_db (snd (handle_rules E e c body s)))"
  by (cases e) (auto simp: handle_rules_def Let_def rule_handlers_requests split: prod.split intro: execute_requests)

lemma handle_mail_requests: "db_inv (sr_db s) \<Longrightarrow> requests (tenantID c) (sr_db s) (sr_db (snd (handle_mail E e c body s)))"
  by (cases e) (simp_all add: handle_mail_def Let_def mail_handlers_requests folder_handlers_requests token_requests TestConnection_requests
      split: prod.split)

lemma requests_inv: "requests T d d' \<Longrightarrow> db_inv d \<Longrightarrow> db_inv d'"
  by (rule db_steps_inv [OF requests_db_steps])

text \<open>
  C8. The API keeps tenants apart: whatever a request for rules, accounts, folders, metadata, OAuth2 or
  deferred actions does, from the checks on the way to the handler to the execution of a rule over all
  mailboxes, and whatever fails, the accounts, the rules and the metadata of every tenant but
  the tenant of the request are the same afterwards.
\<close>
theorem requests_stay_in_tenant:
  assumes "db_inv (sr_db s)" and "dispatch F (sv_api E) (jwt_of (sv_cfg E)) meth c (sr_db s) = (Inr (e, c1), d1)"
    and "area e = Tenant_Data" and "T \<noteq> tenantID c1"
  shows "tenant_view T (sr_db (snd (serve F E meth c body s))) = tenant_view T (sr_db s)"
proof -
  have way: "requests (tenantID c1) (sr_db s) d1"
    using dispatch_requests [of "tenantID c1" "sr_db s" F "sv_api E" "jwt_of (sv_cfg E)" meth c] assms(2) by simp
  from requests_inv [OF way assms(1)] have "db_inv (sr_db (put_db d1 s))" by simp
  with assms(3) have "requests (tenantID c1) (sr_db (put_db d1 s)) (sr_db (snd (handle E e c1 body (put_db d1 s))))"
    by (cases e) (simp_all only: handle_def area.simps endpoint.case handle_rules_requests handle_mail_requests access.distinct)
  with way have "requests (tenantID c1) (sr_db s) (sr_db (snd (serve F E meth c body s)))"
    by (simp add: serve_def assms(2))
  from requests_view [OF this assms(1,4)] show ?thesis .
qed

subsection \<open>All requests\<close>

abbreviation steps :: "db \<Rightarrow> db \<Rightarrow> bool" where
  "steps \<equiv> db_step\<^sup>*\<^sup>*"

lemma stated: "db_step d (snd (op d)) \<Longrightarrow> steps d (snd (write_at A i op d))"
  by (auto simp: snd_write_at)

lemma attempt_steps: "steps d (attempt A i un ip ok d)"
  unfolding attempt_def by (intro stated s_LoginAttempt)

lemma token_steps: "steps d (snd (generateTokenResponse A jm c u d))"
  by (auto simp: generateTokenResponse_def attempt_steps split: option.split)

lemma then_token: "steps d d1 \<Longrightarrow> steps d (snd (generateTokenResponse A jm c u d1))"
  by (rule rtranclp_trans [OF _ token_steps])

text \<open>A login or a registration: the statement, then the token.\<close>

lemma answer_or_token:
  assumes "steps d (snd x)"
  shows "steps d (snd (case x of (Inl e, d1) \<Rightarrow> (f e, d1) | (Inr u, d1) \<Rightarrow> generateTokenResponse A jm c u d1))"
  using assms by (auto simp: then_token split: prod.split sum.split)

lemma session_handlers_steps:
  "steps d (snd (Register A jm cfg c rb d))" "steps d (snd (Login A jm cfg c lb d))" "steps d (snd (Logout A jm c d))"
  by (auto simp: Register_def Login_def Logout_def Let_def attempt_steps token_steps split: option.split sum.split
      intro!: stated answer_or_token db_step.intros)

lemmas user_handlers = RegisterUserWithPasskey_def with_user_def GetProfile_def ChangePassword_def TOTPSetup_def TOTPVerify_def TOTPDisable_def
  PasskeyList_def PasskeyDelete_def APIKeyCreate_def APIKeyList_def APIKeyDelete_def

lemma user_handlers_steps:
  "steps d (snd (RegisterUserWithPasskey A pb d))" "steps d (snd (GetProfile A c d))" "steps d (snd (ChangePassword A c cb d))"
  "steps d (snd (TOTPSetup A c d))" "steps d (snd (TOTPVerify A c tb d))" "steps d (snd (TOTPDisable A c tb d))"
  "steps d (snd (PasskeyList A c d))" "steps d (snd (PasskeyDelete A c d))" "steps d (snd (APIKeyCreate A c kb d))"
  "steps d (snd (APIKeyList A c d))" "steps d (snd (APIKeyDelete A c d))"
  by (auto simp: user_handlers Let_def split: option.split sum.split intro!: stated db_step.intros)

lemma rotate_steps: "steps d (snd (RotateEncryptionKeys C rnd F now d))"
  by (rule r_into_rtranclp) (rule s_Rotate)

lemmas admin_handlers = api_ListTenants_def api_CreateTenant_def rotate_handler_def ListUsers_def GetUser_def UpdateAIEnabled_def PromoteUser_def DemoteUser_def

lemma admin_handlers_steps:
  "steps d (snd (api_ListTenants A d))" "steps d (snd (api_CreateTenant A nb d))" "steps d (snd (rotate_handler A C rnd d))"
  "steps d (snd (ListUsers A d))" "steps d (snd (GetUser A c d))" "steps d (snd (UpdateAIEnabled A c ab d))"
  "steps d (snd (PromoteUser A c d))" "steps d (snd (DemoteUser A c d))"
  by (auto simp: admin_handlers Let_def rotate_steps split: option.split sum.split intro!: stated db_step.intros)

lemma snd_answer3 [simp]:
  "snd (snd (case x of (Inl e, d1) \<Rightarrow> (f e d1, p e d1, d1) | (Inr y, d1) \<Rightarrow> (g y d1, q y d1, d1))) = snd x"
  by (simp split: prod.split sum.split)

lemma registration_steps:
  "snd (snd (begin_registration A W u key failed s d)) = d"
  "steps d (snd (snd (finish_registration A P W body u name extra done_text unav key session s d)))"
  by (auto simp: begin_registration_def finish_registration_def Let_def split: sum.split option.split intro!: stated db_step.intros)

lemma finish_login_steps: "steps d (snd (snd (finish_login A jm c u p cred s d)))"
proof -
  have "steps d (snd (generateTokenResponse A jm c u (snd (write_at A 15 (UpdatePasskeySignCount now i n) d))))" for now i n
    by (intro then_token stated db_step.intros)
  then show ?thesis by (simp add: finish_login_def case_prod_unfold split: option.split)
qed

lemma passkey_handlers_steps:
  "steps d (snd (snd (PasskeyAuthenticateBegin A W ub s d)))" "steps d (snd (snd (PasskeyAuthenticateComplete A jm P W c body s d)))"
  "steps d (snd (snd (PasskeyEnrollBegin A W ub s d)))" "steps d (snd (snd (PasskeyEnrollFinish A P W c body ub s d)))"
  "steps d (snd (snd (PasskeyRegisterBegin A W c s d)))" "steps d (snd (snd (PasskeyRegisterComplete A P W c body s d)))"
  by (simp_all add: PasskeyAuthenticateBegin_def PasskeyAuthenticateComplete_def PasskeyEnrollBegin_def PasskeyEnrollFinish_def
      PasskeyRegisterBegin_def PasskeyRegisterComplete_def begin_discoverable_def Let_def registration_steps finish_login_steps
      split: option.split sum.split list.split)

lemma Callback_steps: "steps d (snd (snd (Callback A cfg net C rnd c st d)))"
proof -
  have "steps d (snd (connect_account A net C rnd t name p code d))" for t name p code
    by (auto simp: connect_account_def Let_def split: sum.split intro!: r_into_rtranclp s_CreateAccount)
  then show ?thesis by (simp add: Callback_def Let_def case_prod_unfold split: option.split)
qed

lemma on_sessions_db [simp]: "sr_db (snd (on_sessions h s)) = snd (snd (h (sr_sessions s) (sr_db s)))"
  by (simp add: on_sessions_def put_db_def split: prod.split)

lemma handle_steps:
  assumes "db_inv (sr_db s)"
  shows "steps (sr_db s) (sr_db (snd (handle E e c body s)))"
proof (cases e)
  case (Public x)
  then show ?thesis
    by (cases x) (simp_all add: handle_def handle_public_def Let_def session_handlers_steps user_handlers_steps passkey_handlers_steps)
next
  case (Own x)
  then show ?thesis by (cases x) (simp_all add: handle_def handle_own_def Let_def user_handlers_steps passkey_handlers_steps)
next
  case (AI x)
  then show ?thesis by (cases x) (simp_all add: handle_def handle_ai_def Let_def)
next
  case (Admin x)
  then show ?thesis by (cases x) (simp_all add: handle_def handle_admin_def Let_def admin_handlers_steps)
next
  case (Rules x)
  then show ?thesis by (simp add: handle_def requests_db_steps [OF handle_rules_requests])
next
  case (Mail x)
  then show ?thesis by (simp add: handle_def requests_db_steps [OF handle_mail_requests [OF assms]])
next
  case E_Callback
  then show ?thesis
    using Callback_steps [of "sr_db s"] by (simp add: handle_def handle_callback_def put_db_def case_prod_unfold)
qed


subsection \<open>Instances\<close>

definition no_decoders :: decoders where
  "no_decoders = \<lparr>jd_register = (\<lambda>_. None), jd_login = (\<lambda>_. None), jd_passkey_user = (\<lambda>_. None), jd_username = (\<lambda>_. None),
     jd_password = (\<lambda>_. None), jd_token = (\<lambda>_. None), jd_key_name = (\<lambda>_. None), jd_translate = (\<lambda>_. None), jd_tenant = (\<lambda>_. None),
     jd_ai = (\<lambda>_. None), jd_rule = (\<lambda>_. None), jd_test = (\<lambda>_. None), jd_code = (\<lambda>_. None), jd_run = (\<lambda>_. None), jd_ids = (\<lambda>_. None),
     jd_account = (\<lambda>_. None), jd_entry = (\<lambda>_. None), jd_value = (\<lambda>_. None), jd_batch = (\<lambda>_. None), jd_queries = (\<lambda>_. None),
     jd_folder = (\<lambda>_. None)\<rparr>"

definition sample_serve :: serve_env where
  "sample_serve = \<lparr>sv_api = sample_api 5, sv_cfg = Load sample_unicode [], sv_crypt = sample_crypt, sv_rnd = sample_nonce,
     sv_rule = sample_rule_env, sv_inbox = RuleRuns.sample_inbox, sv_actions = (\<lambda>_ _. sample_env R_OK), sv_closing = sample_env R_OK,
     sv_conns = [], sv_ctxErr = (\<lambda>_. False), sv_op = 0, sv_conn = sample_conn, sv_oauth = sample_oauth_net, sv_order = (\<lambda>ps. ps),
     sv_wan = None, sv_protocol = sample_protocol, sv_kiro = sample_service ''return skip()'', sv_unicode = sample_unicode,
     sv_collate = map of_char, sv_decode = no_decoders\<rparr>"

text \<open>Two tenants with a rule each.\<close>

definition sample_two :: db where
  "sample_two = (sample_db ''skip'')\<lparr>tenants := [sample_tenant, sample_tenant\<lparr>t_ID := 2, t_Slug := ''other'', t_APIKey := ''key2''\<rparr>],
     rules := [sample_rule ''skip'', (sample_rule ''skip'')\<lparr>r_ID := 2, r_TenantID := 2\<rparr>], seqs := (\<lambda>_. 3)\<rparr>"

definition sample_server :: server where
  "sample_server = \<lparr>sr_world = (sample_world ''skip'')\<lparr>w_db := sample_two\<rparr>,
     sr_ops = \<lparr>op_active = Map.empty, op_cancelled = []\<rparr>, sr_states = Map.empty, sr_sessions = Map.empty\<rparr>"

lemma sample_two_inv: "db_inv (sr_db sample_server)"
  by (simp add: sample_server_def sample_two_def inv_defs sample_defs uniq_def below_def refs_def orefs_def)

lemma sample_delete:
  "\<exists>c1. dispatch sample_fiber (sv_api sample_serve) (jwt_of (sv_cfg sample_serve)) ''DELETE''
     (sample_call ''/api/v1/rules/1'' ''Bearer key'') (sr_db sample_server) = (Inr (Rules E_DeleteRule, c1), sample_two) \<and>
     tenantID c1 = 1 \<and> cx_Params c1 ''id'' = ''1''"
proof -
  have "Split ''/api/v1/rules/1'' (CHR ''/'') = [[], ''api'', ''v1'', ''rules'', ''1'']" by simp
  then show ?thesis
    by (simp add: sample_serve_def sample_server_def dispatch_def setupRoutes_def tables grouped_def middleware_def sample_fiber_def
        sample_call_def sample_ctx_def JWTAuthMiddleware_def Let_def HasPrefix_def TrimPrefix_def count_char_def tryAPIKeyAuth_def
        read_at_def query_def GetTenantByAPIKey_def get_row_def sample_two_def sample_defs tenantID_def)
qed

theorem requests_stay_in_tenant_witness:
  "tenant_view 2 (sr_db (snd (serve sample_fiber sample_serve ''DELETE'' (sample_call ''/api/v1/rules/1'' ''Bearer key'') [] sample_server)))
     = tenant_view 2 sample_two"
proof -
  obtain c1 where d: "dispatch sample_fiber (sv_api sample_serve) (jwt_of (sv_cfg sample_serve)) ''DELETE''
      (sample_call ''/api/v1/rules/1'' ''Bearer key'') (sr_db sample_server) = (Inr (Rules E_DeleteRule, c1), sample_two)"
    and "tenantID c1 = 1" using sample_delete by blast
  then have "2 \<noteq> tenantID c1" by simp
  from requests_stay_in_tenant [OF sample_two_inv d _ this, of "[]"] show ?thesis by (simp add: sample_server_def)
qed


end
