(* ===== verification/Migrations.thy ===== *)
theory Migrations
  imports GoStrings "HOL-Library.List_Lexorder" "HOL-Library.Char_ord"
begin

text \<open>
  The schema migrations that the programs with an API run when they start (\<open>RunMigrations\<close> of
  \<^verbatim>\<open>internal/db/db.go\<close>). The schema is a value of any type and the effect of a script on it a parameter;
  so are the directory, its files and the failures of the database. The table
  \<^verbatim>\<open>schema_migrations\<close> is the list of its versions, without rows while it does not exist. A commit that
  reports an error may or may not have taken effect.
\<close>

record 's schema_db =
  sd_versions :: "string list"
  sd_schema :: 's

datatype migration_site = G_create | G_check string | G_begin string | G_record string

datatype commit = Committed | Refused string | Unconfirmed string

record 's migration_env =
  me_entries :: "string + string list"
  me_file :: "string \<Rightarrow> string + string"
  me_sql :: "string \<Rightarrow> 's \<Rightarrow> string + 's"
  me_fault :: "migration_site \<Rightarrow> string option"
  me_commit :: "string \<Rightarrow> commit"

definition up_suffix :: string where
  "up_suffix = ''.up.sql''"

definition up_files :: "string list \<Rightarrow> string list" where
  "up_files entries = sort (filter (\<lambda>n. HasSuffix n up_suffix) entries)"

definition version_of :: "string \<Rightarrow> string" where
  "version_of fname = TrimSuffix fname up_suffix"

text \<open>\<open>fmt.Errorf("... %s: %w", name, err)\<close>.\<close>

definition migration_error :: "string \<Rightarrow> string \<Rightarrow> string \<Rightarrow> string" where
  "migration_error what name e = what @ name @ '': '' @ e"

text \<open>The transaction of a script and the record of its version.\<close>

definition migration_tx :: "'s migration_env \<Rightarrow> string \<Rightarrow> string \<Rightarrow> 's schema_db \<Rightarrow> (string + unit) \<times> 's schema_db" where
  "migration_tx E v sql d =
     (case me_fault E (G_begin v) of
        Some e \<Rightarrow> (Inl (migration_error ''begin tx for '' v e), d)
      | None \<Rightarrow>
          (case me_sql E sql (sd_schema d) of
             Inl e \<Rightarrow> (Inl (migration_error ''execute migration '' v e), d)
           | Inr s \<Rightarrow>
               (case me_fault E (G_record v) of
                  Some e \<Rightarrow> (Inl (migration_error ''record migration '' v e), d)
                | None \<Rightarrow>
                    let d1 = \<lparr>sd_versions = sd_versions d @ [v], sd_schema = s\<rparr>
                    in (case me_commit E v of
                          Committed \<Rightarrow> (Inr (), d1)
                        | Refused e \<Rightarrow> (Inl (migration_error ''commit migration '' v e), d)
                        | Unconfirmed e \<Rightarrow> (Inl (migration_error ''commit migration '' v e), d1)))))"

text \<open>One round of the loop over the files.\<close>

definition apply_migration :: "'s migration_env \<Rightarrow> string \<Rightarrow> 's schema_db \<Rightarrow> (string + unit) \<times> 's schema_db" where
  "apply_migration E fname d =
     (let v = version_of fname
      in case me_fault E (G_check v) of
           Some e \<Rightarrow> (Inl (migration_error ''check migration '' v e), d)
         | None \<Rightarrow>
             if v \<in> set (sd_versions d) then (Inr (), d)
             else (case me_file E fname of
                     Inl e \<Rightarrow> (Inl (migration_error ''read migration '' fname e), d)
                   | Inr sql \<Rightarrow> migration_tx E v sql d))"

fun apply_migrations :: "'s migration_env \<Rightarrow> string list \<Rightarrow> 's schema_db \<Rightarrow> (string + unit) \<times> 's schema_db" where
  "apply_migrations E [] d = (Inr (), d)"
| "apply_migrations E (f # fs) d =
     (case apply_migration E f d of
        (Inl e, d1) \<Rightarrow> (Inl e, d1)
      | (Inr _, d1) \<Rightarrow> apply_migrations E fs d1)"

definition RunMigrations :: "'s migration_env \<Rightarrow> 's schema_db \<Rightarrow> (string + unit) \<times> 's schema_db" where
  "RunMigrations E d =
     (case me_fault E G_create of
        Some e \<Rightarrow> (Inl (''create migrations table: '' @ e), d)
      | None \<Rightarrow>
          (case me_entries E of
             Inl e \<Rightarrow> (Inl (''read migrations dir: '' @ e), d)
           | Inr entries \<Rightarrow> apply_migrations E (up_files entries) d))"

text \<open>The program started again and again, each time with the failures of its own run.\<close>

definition restarts :: "'s migration_env list \<Rightarrow> 's schema_db \<Rightarrow> 's schema_db" where
  "restarts Es d = fold (\<lambda>E d. snd (RunMigrations E d)) Es d"

subsection \<open>What the directory prescribes\<close>

text \<open>
  Runs of one release: whenever the directory, a file or a script can be read or executed, it is with the
  same result.
\<close>

definition release :: "string list \<Rightarrow> (string \<Rightarrow> string) \<Rightarrow> (string \<Rightarrow> 's \<Rightarrow> 's option) \<Rightarrow> 's migration_env \<Rightarrow> bool" where
  "release names sqls exec E \<longleftrightarrow>
     (\<forall>ns. me_entries E = Inr ns \<longrightarrow> ns = names) \<and> (\<forall>f q. me_file E f = Inr q \<longrightarrow> q = sqls f) \<and>
     (\<forall>q s s'. me_sql E q s = Inr s' \<longrightarrow> exec q s = Some s')"

fun replay :: "(string \<Rightarrow> string) \<Rightarrow> (string \<Rightarrow> 's \<Rightarrow> 's option) \<Rightarrow> string list \<Rightarrow> 's \<Rightarrow> 's option" where
  "replay sqls exec [] s = Some s"
| "replay sqls exec (f # fs) s = (case exec (sqls f) s of None \<Rightarrow> None | Some s' \<Rightarrow> replay sqls exec fs s')"

definition pending :: "string list \<Rightarrow> string list \<Rightarrow> string list" where
  "pending names vs = filter (\<lambda>f. version_of f \<notin> set vs) (up_files names)"

lemma replay_append:
  "replay sqls exec (fs @ gs) s = (case replay sqls exec fs s of None \<Rightarrow> None | Some s' \<Rightarrow> replay sqls exec gs s')"
  by (induction fs arbitrary: s) (auto split: option.split)

lemma version_of_inj: "HasSuffix f up_suffix \<Longrightarrow> HasSuffix g up_suffix \<Longrightarrow> version_of f = version_of g \<Longrightarrow> f = g"
  unfolding version_of_def TrimSuffix_def HasSuffix_def by (metis append_take_drop_id)

lemma distinct_versions:
  assumes "distinct names"
  shows "distinct (map version_of (up_files names))"
  using assms by (auto simp: distinct_map up_files_def inj_on_def intro: version_of_inj)

text \<open>What a sequence of files does when it starts: \<open>fs\<close> of those to do are done and recorded.\<close>

definition advances :: "(string \<Rightarrow> string) \<Rightarrow> (string \<Rightarrow> 's \<Rightarrow> 's option) \<Rightarrow> string list \<Rightarrow> 's schema_db \<Rightarrow> 's schema_db \<Rightarrow> bool" where
  "advances sqls exec fs d d' \<longleftrightarrow> sd_versions d' = sd_versions d @ map version_of fs \<and>
     replay sqls exec fs (sd_schema d) = Some (sd_schema d')"

lemma advances_refl [simp]: "advances sqls exec [] d d' \<longleftrightarrow> d' = d"
  by (auto simp: advances_def)

lemma advances_trans: "advances sqls exec fs d d' \<Longrightarrow> advances sqls exec gs d' d'' \<Longrightarrow> advances sqls exec (fs @ gs) d d''"
  by (simp add: advances_def replay_append)

lemma apply_migration_cases:
  assumes "release names sqls exec E" and "apply_migration E f d = (r, d')"
  obtains (recorded) "version_of f \<in> set (sd_versions d)" and "d' = d"
  | (stopped) e where "version_of f \<notin> set (sd_versions d)" and "r = Inl e" and "d' = d"
  | (applied) "version_of f \<notin> set (sd_versions d)" and "advances sqls exec [f] d d'"
proof (cases "version_of f \<in> set (sd_versions d)")
  case True
  with assms(2) show thesis by (intro that(1)) (auto simp: apply_migration_def Let_def split: option.splits)
next
  case False
  have "(\<exists>e. x = Inl e \<and> d1 = d) \<or> (\<exists>s. me_sql E q (sd_schema d) = Inr s \<and>
      d1 = \<lparr>sd_versions = sd_versions d @ [v], sd_schema = s\<rparr>)" if "migration_tx E v q d = (x, d1)" for v q x d1
    using that by (auto simp: migration_tx_def Let_def split: option.splits sum.splits commit.splits)
  with assms(2) False have "(\<exists>e. r = Inl e \<and> d' = d) \<or> (\<exists>q s. me_file E f = Inr q \<and> me_sql E q (sd_schema d) = Inr s \<and>
      d' = \<lparr>sd_versions = sd_versions d @ [version_of f], sd_schema = s\<rparr>)"
    by (auto simp: apply_migration_def Let_def split: option.splits sum.splits)
  then consider (kept) e where "r = Inl e" "d' = d"
    | (ran) q s where "me_file E f = Inr q" "me_sql E q (sd_schema d) = Inr s"
        "d' = \<lparr>sd_versions = sd_versions d @ [version_of f], sd_schema = s\<rparr>"
    by blast
  then show thesis
  proof cases
    case (ran q s)
    with assms(1) have "exec (sqls f) (sd_schema d) = Some s" by (auto simp: release_def)
    with ran False show thesis by (intro that(3)) (simp_all add: advances_def)
  qed (use False that(2) in blast)
qed

lemma apply_migrations_advance:
  assumes "release names sqls exec E" and "apply_migrations E us d = (r, d')" and "distinct (map version_of us)"
  shows "\<exists>fs. prefix fs (filter (\<lambda>f. version_of f \<notin> set (sd_versions d)) us) \<and> advances sqls exec fs d d' \<and>
    (r = Inr () \<longrightarrow> fs = filter (\<lambda>f. version_of f \<notin> set (sd_versions d)) us)"
  using assms(2,3)
proof (induction us arbitrary: d)
  case (Cons f us)
  let ?todo = "\<lambda>d. filter (\<lambda>f. version_of f \<notin> set (sd_versions d))"
  obtain x d1 where one: "apply_migration E f d = (x, d1)" by fastforce
  have rest: "\<exists>fs. prefix fs (?todo d1 us) \<and> advances sqls exec fs d1 d' \<and> (r = Inr () \<longrightarrow> fs = ?todo d1 us)" if "x = Inr ()"
    using Cons that one by simp
  from assms(1) one show ?case
  proof (cases rule: apply_migration_cases)
    case recorded
    show ?thesis
    proof (cases x)
      case (Inl e)
      with one recorded Cons.prems show ?thesis by (intro exI [of _ "[]"]) auto
    qed (use rest recorded in simp)
  next
    case (stopped e)
    with one Cons.prems show ?thesis by (intro exI [of _ "[]"]) auto
  next
    case applied
    from Cons.prems(2) applied have todo: "?todo d1 us = ?todo d us"
      by (intro filter_cong) (auto simp: advances_def image_iff)
    show ?thesis
    proof (cases x)
      case (Inl e)
      with one applied Cons.prems show ?thesis by (intro exI [of _ "[f]"]) auto
    next
      case (Inr u)
      with rest obtain fs where "prefix fs (?todo d us)" "advances sqls exec fs d1 d'" "r = Inr () \<longrightarrow> fs = ?todo d us"
        by (auto simp: todo)
      moreover from this have "advances sqls exec (f # fs) d d'" using advances_trans [of sqls exec "[f]"] applied by fastforce
      ultimately show ?thesis using applied by (intro exI [of _ "f # fs"]) simp
    qed
  qed
qed simp

lemma RunMigrations_advances:
  assumes "release names sqls exec E" and "distinct names" and "RunMigrations E d = (r, d')"
  shows "\<exists>fs. prefix fs (pending names (sd_versions d)) \<and> advances sqls exec fs d d' \<and>
    (r = Inr () \<longrightarrow> fs = pending names (sd_versions d))"
proof (cases "\<exists>e. r = Inl e \<and> d' = d")
  case False
  with assms(3) obtain ns where "me_entries E = Inr ns" "apply_migrations E (up_files ns) d = (r, d')"
    by (auto simp: RunMigrations_def split: option.splits sum.splits)
  with assms(1) have "apply_migrations E (up_files names) d = (r, d')" by (simp add: release_def)
  from apply_migrations_advance [OF assms(1) this distinct_versions [OF assms(2)]] show ?thesis by (simp add: pending_def)
qed (auto intro: exI [of _ "[]"])

lemma pending_after:
  assumes "distinct names" and "pending names vs = fs @ gs"
  shows "pending names (vs @ map version_of fs) = gs"
proof -
  have "distinct (map version_of (pending names vs))"
    using distinct_versions [OF assms(1)] by (simp add: pending_def distinct_map_filter)
  then have "filter (\<lambda>f. version_of f \<notin> set (map version_of fs)) (fs @ gs) = gs"
    unfolding assms(2) by (auto simp: filter_empty_conv filter_id_conv)
  moreover have "pending names (vs @ map version_of fs) = filter (\<lambda>f. version_of f \<notin> set (map version_of fs)) (pending names vs)"
    by (auto simp: pending_def intro!: filter_cong)
  ultimately show ?thesis by (simp add: assms(2))
qed

lemma restarts_advance:
  assumes "list_all (release names sqls exec) Es" and "distinct names"
  shows "\<exists>fs. prefix fs (pending names (sd_versions d)) \<and> advances sqls exec fs d (restarts Es d)"
  using assms(1)
proof (induction Es arbitrary: d)
  case (Cons E Es)
  obtain r d1 where run: "RunMigrations E d = (r, d1)" by fastforce
  from Cons.prems have "release names sqls exec E" by simp
  from RunMigrations_advances [OF this assms(2) run] obtain fs gs where
    fs: "pending names (sd_versions d) = fs @ gs" "advances sqls exec fs d d1" by (auto elim: prefixE)
  then have "pending names (sd_versions d1) = gs" using pending_after [OF assms(2)] by (simp add: advances_def)
  with Cons obtain hs where "prefix hs gs" "advances sqls exec hs d1 (restarts Es d1)" by fastforce
  with fs advances_trans show ?case by (intro exI [of _ "fs @ hs"]) (auto simp: restarts_def run)
qed (auto simp: restarts_def intro: exI [of _ "[]"])

text \<open>
  C22. Migrations are applied exactly once and in the order of their names, however often the program is
  interrupted: after any number of starts of one release, with any failures of the database, of the file
  system and of the connection (a commit without an answer included), the recorded versions are the old
  ones and those of an initial part of the pending files, the schema is what exactly these files make of
  the old one, and after a start that succeeds nothing is pending.
\<close>
theorem migrations_apply_once:
  assumes "list_all (release names sqls exec) Es" and "release names sqls exec E" and "distinct names"
    and "RunMigrations E (restarts Es d) = (r, d')"
  shows "\<exists>fs. prefix fs (pending names (sd_versions d)) \<and>
    sd_versions d' = sd_versions d @ map version_of fs \<and>
    replay sqls exec fs (sd_schema d) = Some (sd_schema d') \<and>
    (r = Inr () \<longrightarrow> fs = pending names (sd_versions d) \<and> pending names (sd_versions d') = [])"
proof -
  from restarts_advance [OF assms(1,3), of d] obtain fs gs where
    fs: "pending names (sd_versions d) = fs @ gs" "advances sqls exec fs d (restarts Es d)" by (auto elim: prefixE)
  then have gs: "pending names (sd_versions (restarts Es d)) = gs" using pending_after [OF assms(3)] by (simp add: advances_def)
  from RunMigrations_advances [OF assms(2,3,4)] obtain hs where
    hs: "prefix hs gs" "advances sqls exec hs (restarts Es d) d'" "r = Inr () \<longrightarrow> hs = gs" by (auto simp: gs)
  have all: "advances sqls exec (fs @ hs) d d'" using advances_trans [OF fs(2) hs(2)] .
  moreover have "pending names (sd_versions d') = []" if "hs = gs"
    using pending_after [OF assms(3), of "sd_versions d" "fs @ hs" "[]"] all that fs(1) by (simp add: advances_def)
  ultimately show ?thesis using fs(1) hs(1,3) by (intro exI [of _ "fs @ hs"]) (auto simp: advances_def)
qed


text \<open>
  A release of two scripts, whose first start loses the answer to the commit of the first script and whose
  second succeeds.
\<close>

definition sample_release :: "commit \<Rightarrow> string list migration_env" where
  "sample_release c = \<lparr>me_entries = Inr [''2.up.sql'', ''1.up.sql'', ''1.down.sql''], me_file = \<lambda>f. Inr (''run '' @ f),
     me_sql = \<lambda>q s. Inr (s @ [q]), me_fault = \<lambda>_. None, me_commit = \<lambda>_. c\<rparr>"

lemma sample_release_ok:
  "release [''2.up.sql'', ''1.up.sql'', ''1.down.sql''] (\<lambda>f. ''run '' @ f) (\<lambda>q s. Some (s @ [q])) (sample_release c)"
  by (simp add: release_def sample_release_def)

theorem migrations_apply_once_witness:
  "sd_schema (snd (RunMigrations (sample_release Committed)
     (restarts [sample_release (Unconfirmed ''timeout'')] \<lparr>sd_versions = [], sd_schema = []\<rparr>)))
   = [''run 1.up.sql'', ''run 2.up.sql'']"
proof -
  let ?names = "[''2.up.sql'', ''1.up.sql'', ''1.down.sql'']"
  let ?d = "restarts [sample_release (Unconfirmed ''timeout'')] \<lparr>sd_versions = [], sd_schema = []\<rparr>"
  have files: "up_files ?names = [''1.up.sql'', ''2.up.sql'']" by (simp add: up_files_def up_suffix_def HasSuffix_def)
  have "?d = \<lparr>sd_versions = [''1''], sd_schema = [''run 1.up.sql'']\<rparr>"
    unfolding restarts_def by (simp add: RunMigrations_def sample_release_def files apply_migration_def migration_tx_def version_of_def TrimSuffix_def
        HasSuffix_def up_suffix_def Let_def)
  then have "fst (RunMigrations (sample_release Committed) ?d) = Inr ()"
    by (simp add: RunMigrations_def sample_release_def files apply_migration_def migration_tx_def version_of_def TrimSuffix_def HasSuffix_def up_suffix_def Let_def)
  then obtain d' where run: "RunMigrations (sample_release Committed) ?d = (Inr (), d')" by (metis prod.collapse)
  have "pending ?names [] = [''1.up.sql'', ''2.up.sql'']" by (simp add: pending_def files)
  moreover have "list_all (release ?names (\<lambda>f. ''run '' @ f) (\<lambda>q s. Some (s @ [q]))) [sample_release (Unconfirmed ''timeout'')]"
    by (simp only: list.pred_inject simp_thms sample_release_ok)
  ultimately show ?thesis
    using migrations_apply_once [OF _ sample_release_ok _ run] run by fastforce
qed

end
