(* ===== verification/Programs.thy ===== *)
theory Programs
  imports Serving Bus Migrations
begin

text \<open>
  The five main programs (\<^verbatim>\<open>cmd/\<close>), from the configuration to the running parts: the rules engine, the
  scheduler, the IMAP listener with the move detector, the API, and the server that is all of them in one
  process. A start ends in the parts that run or with the message of \<open>log.Fatal\<close>; what it leaves
  behind is the schema and the calls into NATS. The logging of the programs and the wait for a signal are
  not modelled.
\<close>

subsection \<open>Opening the database\<close>

record pool_config =
  pc_URL :: string
  pc_MaxConns :: int
  pc_MinConns :: int
  pc_MaxConnLifetime :: int
  pc_MaxConnIdleTime :: int

record postgres =
  pq_ParseConfig :: "string \<Rightarrow> string option"
  pq_NewWithConfig :: "pool_config \<Rightarrow> string option"
  pq_Ping :: "pool_config \<Rightarrow> string option"

definition db_New :: "postgres \<Rightarrow> string \<Rightarrow> string + pool_config" where
  "db_New Q url =
     (case pq_ParseConfig Q url of
        Some e \<Rightarrow> Inl (''parse database URL: '' @ e)
      | None \<Rightarrow>
          (let config = \<lparr>pc_URL = url, pc_MaxConns = 20, pc_MinConns = 2, pc_MaxConnLifetime = 30 * Minute,
                         pc_MaxConnIdleTime = 5 * Minute\<rparr>
           in case pq_NewWithConfig Q config of
                Some e \<Rightarrow> Inl (''create pool: '' @ e)
              | None \<Rightarrow>
                  (case pq_Ping Q config of
                     Some e \<Rightarrow> Inl (''ping database: '' @ e)
                   | None \<Rightarrow> Inr config)))"

subsection \<open>Starting\<close>

text \<open>
  What the programs call when they start: PostgreSQL and the files of the migrations, NATS, the cipher, the
  rest of the world given the encryptor, and the texts of errors. \<open>boot_state\<close> is what a start changes.
\<close>

record 's surroundings =
  so_postgres :: postgres
  so_migrations :: "string \<Rightarrow> 's migration_env"
  so_nats :: nats
  so_cipher :: cipher_suite
  so_cipher_text :: "crypto_err \<Rightarrow> string"
  so_env :: "Encryptor option \<Rightarrow> env"
  so_db :: db

record 's boot_state =
  bs_schema :: "'s schema_db"
  bs_calls :: "nats_call list"

datatype fatal = Fatal string string

type_synonym ('s, 'a) boot = "'s boot_state \<Rightarrow> (fatal + 'a) \<times> 's boot_state"

definition boot_return :: "'a \<Rightarrow> ('s, 'a) boot" where
  "boot_return x st = (Inr x, st)"

definition boot_bind :: "('s, 'a) boot \<Rightarrow> ('a \<Rightarrow> ('s, 'b) boot) \<Rightarrow> ('s, 'b) boot" where
  "boot_bind m f st = (case m st of (Inl e, st1) \<Rightarrow> (Inl e, st1) | (Inr x, st1) \<Rightarrow> f x st1)"

definition or_fatal :: "string \<Rightarrow> string + 'a \<Rightarrow> ('s, 'a) boot" where
  "or_fatal msg r st = (case r of Inl e \<Rightarrow> (Inl (Fatal msg e), st) | Inr x \<Rightarrow> (Inr x, st))"

definition open_database :: "'s surroundings \<Rightarrow> Config \<Rightarrow> ('s, pool_config) boot" where
  "open_database so cfg = or_fatal ''failed to connect to database'' (db_New (so_postgres so) (DatabaseURL cfg))"

definition migrate :: "'s surroundings \<Rightarrow> Config \<Rightarrow> ('s, unit) boot" where
  "migrate so cfg st =
     (case RunMigrations (so_migrations so (MigrationsDir cfg)) (bs_schema st) of
        (r, d) \<Rightarrow> or_fatal ''failed to run migrations'' r (st\<lparr>bs_schema := d\<rparr>))"

definition encryption :: "'s surroundings \<Rightarrow> Config \<Rightarrow> ('s, Encryptor option) boot" where
  "encryption so cfg =
     or_fatal ''failed to initialize password encryption''
       (case setup_encryption (so_cipher so) cfg of Inl e \<Rightarrow> Inl (so_cipher_text so e) | Inr enc \<Rightarrow> Inr enc)"

definition on_nats :: "string \<Rightarrow> unit nats_io \<Rightarrow> ('s, unit) boot" where
  "on_nats msg m st = (case m (bs_calls st) of (r, cs) \<Rightarrow> or_fatal msg r (st\<lparr>bs_calls := cs\<rparr>))"

text \<open>The bus of a program that needs one, with its streams.\<close>

definition required_bus :: "string \<Rightarrow> 's surroundings \<Rightarrow> Config \<Rightarrow> ('s, unit) boot" where
  "required_bus program so cfg =
     (if NatsURL cfg = [] then (\<lambda>st. (Inl (Fatal (''NATS_URL is required for '' @ program) []), st))
      else boot_bind (on_nats ''failed to connect to NATS'' (New (so_nats so) (NatsURL cfg)))
             (\<lambda>_. on_nats ''failed to ensure JetStream streams'' (EnsureStreams (so_nats so))))"

definition kiro_of :: "Config \<Rightarrow> KiroClient option" where
  "kiro_of cfg =
     (if KiroAPIKey cfg \<noteq> []
      then Some (NewKiroClient (KiroAPIKey cfg) (KiroAPIURL cfg) (KiroTextModel cfg) (KiroVisionModel cfg)) else None)"

definition telegram_of :: "Config \<Rightarrow> telegram" where
  "telegram_of cfg = \<lparr>tg_botToken = TelegramBotToken cfg, tg_chatID = TelegramChatID cfg\<rparr>"

subsection \<open>The programs\<close>

datatype part =
    RulesEngine "KiroClient option" telegram
  | Scheduler int telegram
  | PublishingScheduler int bool
  | Listener pool int int "(string \<times> provider) list"
  | MoveDetector pool int "telegram option" "(string \<times> provider) list"
  | WorkerPool pool int int bool
  | ApiServer string "KiroClient option"

record program =
  pg_encryptor :: "Encryptor option"
  pg_parts :: "part list"

definition rules_engine_main :: "'s surroundings \<Rightarrow> Config \<Rightarrow> ('s, program) boot" where
  "rules_engine_main so cfg =
     boot_bind (open_database so cfg) (\<lambda>_.
     boot_bind (encryption so cfg) (\<lambda>enc.
     boot_bind (required_bus ''rules engine'' so cfg) (\<lambda>_.
     boot_bind (on_nats ''failed to start rules engine'' (consumer_Start (so_nats so))) (\<lambda>_.
     boot_return \<lparr>pg_encryptor = enc, pg_parts = [RulesEngine (kiro_of cfg) (telegram_of cfg)]\<rparr>))))"

definition scheduler_main :: "'s surroundings \<Rightarrow> Config \<Rightarrow> ('s, program) boot" where
  "scheduler_main so cfg =
     boot_bind (open_database so cfg) (\<lambda>_.
     boot_bind (encryption so cfg) (\<lambda>enc.
     boot_bind (required_bus ''scheduler'' so cfg) (\<lambda>_.
     boot_return \<lparr>pg_encryptor = enc, pg_parts = [Scheduler (SchedulerInterval cfg) (telegram_of cfg)]\<rparr>)))"

text \<open>The first refresh of a pool, whose failure is fatal.\<close>

definition start_pool :: "string \<Rightarrow> (env \<Rightarrow> db \<Rightarrow> pool \<Rightarrow> (dberr + unit) \<times> pool) \<Rightarrow> env \<Rightarrow> db \<Rightarrow> ('s, pool) boot" where
  "start_pool msg refresh N d =
     or_fatal msg (case refresh N d empty_pool of
       (Inl e, _) \<Rightarrow> Inl (''initial worker refresh: '' @ en_dbtext N e)
     | (Inr _, p) \<Rightarrow> Inr p)"

definition move_detect_interval :: "Config \<Rightarrow> int" where
  "move_detect_interval cfg =
     (let i = wrap64 (IMAPPollInterval cfg * 2) in if i < 2 * Minute then 2 * Minute else i)"

definition listener_main :: "'s surroundings \<Rightarrow> Config \<Rightarrow> ('s, program) boot" where
  "listener_main so cfg =
     boot_bind (open_database so cfg) (\<lambda>_.
     boot_bind (encryption so cfg) (\<lambda>enc.
     boot_bind (required_bus ''IMAP listener'' so cfg) (\<lambda>_.
     let telegram = (if TelegramBotToken cfg \<noteq> [] \<and> TelegramChatID cfg \<noteq> [] then Some (telegram_of cfg) else None);
         providers = oauth_providers (oauth_config_of cfg)
     in boot_bind (start_pool ''failed to start IMAP listener'' idle_refreshWorkers (so_env so enc) (so_db so)) (\<lambda>workers.
        boot_bind (start_pool ''failed to start move detector'' move_refreshWorkers (so_env so enc) (so_db so)) (\<lambda>movers.
        boot_return \<lparr>pg_encryptor = enc,
          pg_parts = [Listener workers (IMAPIdleTimeout cfg) (IMAPPollInterval cfg) providers,
                      MoveDetector movers (move_detect_interval cfg) telegram providers]\<rparr>)))))"

text \<open>The address of \<open>Start\<close> of the API server.\<close>

definition server_address :: "Config \<Rightarrow> string" where
  "server_address cfg = ServerAddr cfg @ '':'' @ FormatInt (ServerPort cfg)"

definition api_main :: "'s surroundings \<Rightarrow> Config \<Rightarrow> ('s, program) boot" where
  "api_main so cfg =
     boot_bind (open_database so cfg) (\<lambda>_.
     boot_bind (migrate so cfg) (\<lambda>_.
     boot_bind (encryption so cfg) (\<lambda>enc.
     boot_return \<lparr>pg_encryptor = enc, pg_parts = [ApiServer (server_address cfg) (kiro_of cfg)]\<rparr>)))"

text \<open>
  The single process: it goes on without a bus, and the worker pool subscribes to deferred actions when
  there is one; an error of the subscription is logged.
\<close>

definition optional_bus :: "'s surroundings \<Rightarrow> Config \<Rightarrow> ('s, bool) boot" where
  "optional_bus so cfg st =
     (if NatsURL cfg = [] then (Inr False, st)
      else (case New (so_nats so) (NatsURL cfg) (bs_calls st) of
              (r, cs) \<Rightarrow> (Inr (res_ok r), st\<lparr>bs_calls := cs\<rparr>)))"

definition subscribe_deferred :: "'s surroundings \<Rightarrow> bool \<Rightarrow> ('s, unit) boot" where
  "subscribe_deferred so bus st =
     (Inr (), if bus then st\<lparr>bs_calls := snd (bus_Subscribe (so_nats so) SubjectDeferredAction (bs_calls st))\<rparr> else st)"

definition server_main :: "'s surroundings \<Rightarrow> Config \<Rightarrow> ('s, program) boot" where
  "server_main so cfg =
     boot_bind (open_database so cfg) (\<lambda>_.
     boot_bind (migrate so cfg) (\<lambda>_.
     boot_bind (encryption so cfg) (\<lambda>enc.
     boot_bind (optional_bus so cfg) (\<lambda>bus.
     boot_bind (start_pool ''failed to start IMAP worker pool'' pool_refreshWorkers (so_env so enc) (so_db so)) (\<lambda>workers.
     boot_bind (subscribe_deferred so bus) (\<lambda>_.
     boot_return \<lparr>pg_encryptor = enc,
       pg_parts = [PublishingScheduler (SchedulerInterval cfg) bus,
                   WorkerPool workers (IMAPIdleTimeout cfg) (IMAPPollInterval cfg) bus,
                   ApiServer (server_address cfg) (kiro_of cfg)]\<rparr>))))))"

text \<open>
  A scheduler begins with \<open>time.NewTicker\<close>, which panics for an interval that is not positive and takes
  the program down with it.
\<close>

fun ticker_panics :: "part \<Rightarrow> bool" where
  "ticker_panics (Scheduler i _) = (i \<le> 0)"
| "ticker_panics (PublishingScheduler i _) = (i \<le> 0)"
| "ticker_panics _ = False"

text \<open>The subscription of the worker pool: what it does with the data of an event, \<open>None\<close> when it does not decode.\<close>

definition on_deferred_event ::
  "env \<Rightarrow> deferred_event option \<Rightarrow> (int \<times> legacy_worker) list \<Rightarrow> world \<Rightarrow> (int \<times> legacy_worker) list \<times> world" where
  "on_deferred_event N data workers w =
     (case data of
        None \<Rightarrow> (workers, w)
      | Some event \<Rightarrow>
          (case map_of workers (de_AccountID event) of
             None \<Rightarrow> (workers, w)
           | Some lw \<Rightarrow>
               (case ExecuteDeferredAction N event lw w of
                  (_, lw1, w1) \<Rightarrow> (AList.update (de_AccountID event) lw1 workers, w1))))"

subsection \<open>What a start needs\<close>

lemma boot_bind_Inr:
  "boot_bind m f st = (Inr x, st2) \<longleftrightarrow> (\<exists>y st1. m st = (Inr y, st1) \<and> f y st1 = (Inr x, st2))"
  by (auto simp: boot_bind_def split: prod.splits sum.splits)

lemma or_fatal_Inr: "or_fatal msg r st = (Inr x, st') \<longleftrightarrow> r = Inr x \<and> st' = st"
  by (cases r) (auto simp: or_fatal_def)

lemma or_fatal_state [simp]: "snd (or_fatal msg r st) = st"
  by (simp add: or_fatal_def split: sum.split)

text \<open>Only \<open>migrate\<close> touches the schema, and only the steps for NATS the calls.\<close>

lemma boot_schema:
  "open_database so cfg st = (r, st') \<Longrightarrow> st' = st"
  "encryption so cfg st = (r', st') \<Longrightarrow> st' = st"
  "start_pool msg refresh N d st = (r'', st') \<Longrightarrow> st' = st"
  "optional_bus so cfg st = (b, st') \<Longrightarrow> bs_schema st' = bs_schema st"
  "subscribe_deferred so bus st = (u, st') \<Longrightarrow> bs_schema st' = bs_schema st"
  unfolding open_database_def encryption_def start_pool_def optional_bus_def subscribe_deferred_def
  by (auto split: prod.splits if_splits dest: arg_cong [where f = snd])

lemmas boot_rules = boot_bind_Inr or_fatal_Inr boot_return_def

lemma migrate_Inr:
  "migrate so cfg st = (Inr u, st') \<longleftrightarrow>
     (\<exists>d. RunMigrations (so_migrations so (MigrationsDir cfg)) (bs_schema st) = (Inr u, d) \<and> st' = st\<lparr>bs_schema := d\<rparr>)"
  by (auto simp: migrate_def or_fatal_Inr split: prod.splits)

text \<open>
  C23. The API never serves on a schema that is not up to date: when the API program or the single-process server
  has started, every migration of its release is recorded, in addition to what was recorded before, and the schema is what
  the pending files make of the one it found.
\<close>
theorem serving_needs_migrations:
  assumes "release names sqls exec (so_migrations so (MigrationsDir cfg))" and "distinct names"
    and "api_main so cfg st = (Inr pg, st') \<or> server_main so cfg st = (Inr pg, st')"
  shows "pending names (sd_versions (bs_schema st')) = [] \<and>
    sd_versions (bs_schema st') = sd_versions (bs_schema st) @ map version_of (pending names (sd_versions (bs_schema st))) \<and>
    replay sqls exec (pending names (sd_versions (bs_schema st))) (sd_schema (bs_schema st)) = Some (sd_schema (bs_schema st'))"
proof -
  from assms(3) obtain d where run: "RunMigrations (so_migrations so (MigrationsDir cfg)) (bs_schema st) = (Inr (), d)"
      and st': "bs_schema st' = d"
  proof
    assume "api_main so cfg st = (Inr pg, st')"
    then show thesis by (auto simp: api_main_def boot_rules migrate_Inr intro: that dest!: boot_schema)
  next
    assume "server_main so cfg st = (Inr pg, st')"
    then show thesis by (auto simp: server_main_def boot_rules migrate_Inr intro: that dest!: boot_schema)
  qed
  from RunMigrations_advances [OF assms(1,2) run] have adv: "advances sqls exec (pending names (sd_versions (bs_schema st))) (bs_schema st) d"
    by blast
  with pending_after [OF assms(2), of "sd_versions (bs_schema st)" _ "[]"] have "pending names (sd_versions d) = []"
    by (simp add: advances_def)
  with adv show ?thesis by (simp add: advances_def st')
qed

text \<open>A rules engine that has started has made the three streams and its consumer, in this order.\<close>

lemma nats_do_Inr: "nats_do V c what cs = (Inr u, cs') \<longleftrightarrow> V cs c = None \<and> cs' = cs @ [c]"
  by (auto simp: nats_do_def split: option.splits)

lemma on_nats_Inr: "on_nats msg m st = (Inr u, st') \<longleftrightarrow> (\<exists>cs. m (bs_calls st) = (Inr u, cs) \<and> st' = st\<lparr>bs_calls := cs\<rparr>)"
  by (auto simp: on_nats_def or_fatal_Inr split: prod.splits)

lemma New_Inr: "New V url cs = (Inr u, cs') \<Longrightarrow> cs' = cs @ [N_Connect url, N_JetStream]"
  by (auto simp: New_def nats_do_Inr split: prod.splits sum.splits)

lemma EnsureStreams_Inr: "EnsureStreams V cs = (Inr u, cs') \<Longrightarrow> cs' = cs @ map N_Stream streams"
  unfolding EnsureStreams_def by (drule ensure_streams_calls) auto

lemma consumer_Start_Inr:
  "consumer_Start V cs = (Inr u, cs') \<Longrightarrow> cs' = cs @ [N_Consumer StreamIncoming rules_engine_consumer, N_Messages 50 (5 * Second)]"
  by (auto simp: consumer_Start_def CreateOrUpdateConsumer_def nats_do_Inr split: prod.splits sum.splits)

lemma required_bus_Inr:
  "required_bus program so cfg st = (Inr u, st') \<Longrightarrow>
     NatsURL cfg \<noteq> [] \<and> st' = st\<lparr>bs_calls := bs_calls st @ [N_Connect (NatsURL cfg), N_JetStream] @ map N_Stream streams\<rparr>"
  by (auto simp: required_bus_def boot_rules on_nats_Inr split: if_splits dest!: New_Inr EnsureStreams_Inr)

lemma rules_engine_calls:
  assumes "rules_engine_main so cfg st = (Inr pg, st')"
  shows "bs_calls st' = bs_calls st @ [N_Connect (NatsURL cfg), N_JetStream] @ map N_Stream streams @
    [N_Consumer StreamIncoming rules_engine_consumer, N_Messages 50 (5 * Second)]"
  using assms
  by (auto simp: rules_engine_main_def boot_rules on_nats_Inr dest!: boot_schema required_bus_Inr consumer_Start_Inr)

text \<open>
  The interval of the move detector is at least two minutes, and twice the interval of the listener when
  that is more; a product beyond 64 bits wraps around.
\<close>

lemma move_detect_interval_bounds:
  "2 * Minute \<le> move_detect_interval cfg"
  "2 * IMAPPollInterval cfg < 2 ^ 63 \<Longrightarrow> 0 \<le> IMAPPollInterval cfg \<Longrightarrow>
     move_detect_interval cfg = max (2 * Minute) (2 * IMAPPollInterval cfg)"
  by (auto simp: move_detect_interval_def Let_def wrap64_def max_def mult.commute)

text \<open>An interval that is not positive passes the configuration and takes the scheduler down.\<close>

lemma scheduler_interval_unchecked:
  assumes "scheduler_main so cfg st = (Inr pg, st')"
  shows "list_ex ticker_panics (pg_parts pg) \<longleftrightarrow> SchedulerInterval cfg \<le> 0"
  using assms by (auto simp: scheduler_main_def boot_rules)

text \<open>Deferred actions of the single process are steps of the services, and one for an account without a worker is lost.\<close>

lemma on_deferred_event_steps: "service_step\<^sup>*\<^sup>* w (snd (on_deferred_event N data workers w))"
proof -
  have "service_step\<^sup>*\<^sup>* w (snd (snd (ExecuteDeferredAction N ev lw w)))" for ev lw
    by (rule r_into_rtranclp) (rule sv_legacy_deferred)
  then show ?thesis by (auto simp: on_deferred_event_def split: option.split prod.split) (metis snd_conv)
qed

lemma lost_deferred_action:
  assumes "map_of workers (d_AccountID a) = None" and "de_AccountID ev = d_AccountID a"
  shows "on_deferred_event N (Some ev) workers (publish_deferred N bus now a w) = (workers, publish_deferred N bus now a w)"
  using assms by (simp add: on_deferred_event_def)

text \<open>A deployment without bus, encryption or accounts, with the release of two scripts.\<close>

definition sample_surroundings :: "string list surroundings" where
  "sample_surroundings =
     \<lparr>so_postgres = \<lparr>pq_ParseConfig = \<lambda>_. None, pq_NewWithConfig = \<lambda>_. None, pq_Ping = \<lambda>_. None\<rparr>,
      so_migrations = \<lambda>_. sample_release Committed, so_nats = \<lambda>_ _. None, so_cipher = sample_suite, so_cipher_text = \<lambda>_. [],
      so_env = \<lambda>_. sample_env R_OK, so_db = sample_db ''skip''\<rparr>"

lemma sample_api_main:
  "\<exists>pg st'. api_main sample_surroundings (Load sample_unicode []) \<lparr>bs_schema = \<lparr>sd_versions = [], sd_schema = []\<rparr>, bs_calls = []\<rparr> = (Inr pg, st')"
proof -
  have "setup_encryption sample_suite (Load sample_unicode []) = Inr None"
    by (simp add: setup_encryption_def Load_def envStr_def Getenv_def)
  moreover have "RunMigrations (sample_release Committed) \<lparr>sd_versions = [], sd_schema = []\<rparr> =
      (Inr (), \<lparr>sd_versions = [''1'', ''2''], sd_schema = [''run 1.up.sql'', ''run 2.up.sql'']\<rparr>)"
    by (simp add: RunMigrations_def sample_release_def up_files_def apply_migration_def migration_tx_def version_of_def TrimSuffix_def
        HasSuffix_def up_suffix_def Let_def)
  ultimately show ?thesis
    by (simp add: api_main_def boot_bind_def open_database_def db_New_def or_fatal_def migrate_def encryption_def boot_return_def
        sample_surroundings_def Let_def)
qed

theorem serving_needs_migrations_witness:
  "\<exists>pg st'. api_main sample_surroundings (Load sample_unicode []) \<lparr>bs_schema = \<lparr>sd_versions = [], sd_schema = []\<rparr>, bs_calls = []\<rparr> = (Inr pg, st') \<and>
     pending [''2.up.sql'', ''1.up.sql'', ''1.down.sql''] (sd_versions (bs_schema st')) = []"
proof -
  obtain pg st' where run: "api_main sample_surroundings (Load sample_unicode []) \<lparr>bs_schema = \<lparr>sd_versions = [], sd_schema = []\<rparr>, bs_calls = []\<rparr> = (Inr pg, st')"
    using sample_api_main by blast
  have "release [''2.up.sql'', ''1.up.sql'', ''1.down.sql''] (\<lambda>f. ''run '' @ f) (\<lambda>q s. Some (s @ [q]))
      (so_migrations sample_surroundings (MigrationsDir (Load sample_unicode [])))"
    unfolding sample_surroundings_def surroundings.simps by (rule sample_release_ok)
  from serving_needs_migrations [OF this _ disjI1 [OF run]] run show ?thesis by fastforce
qed

end
