(* ===== verification/Uncalled.thy ===== *)
theory Uncalled
  imports Tables Engine Executor Folders
begin

text \<open>
  Code that the program does not call, modelled as it would run: the functions over message metadata that
  \<^verbatim>\<open>internal/engine/metadata.go\<close> defines for rules, over the tables, for the tenant of their context or
  without one, the notification of \<^verbatim>\<open>internal/notifier/telegram.go\<close>, and the search of the move detector for one message.
\<close>

subsection \<open>Metadata functions for rules\<close>

text \<open>
  An argument as \<open>CheckString\<close> and \<open>OptString\<close> see it: absent or nil, a string (or a number, which counts as
  its text), or another value, which raises an error. The table of options has at most the field the code reads.
\<close>

datatype lua_arg = L_None | L_String string | L_Other

datatype lua_options = O_None | O_Table "string option" | O_Other

datatype lua_answer = Raised_error | Answer lua_val

definition check_string :: "lua_arg \<Rightarrow> string option" where
  "check_string a = (case a of L_String s \<Rightarrow> Some s | _ \<Rightarrow> None)"

definition opt_string :: "lua_arg \<Rightarrow> string \<Rightarrow> string option" where
  "opt_string a dflt = (case a of L_None \<Rightarrow> Some dflt | L_String s \<Rightarrow> Some s | L_Other \<Rightarrow> None)"

definition exclude_id :: "lua_options \<Rightarrow> string option" where
  "exclude_id opts = (case opts of O_None \<Rightarrow> Some [] | O_Table None \<Rightarrow> Some [] | O_Table (Some s) \<Rightarrow> Some s | O_Other \<Rightarrow> None)"

text \<open>\<open>fault\<close>: the statement does not reach the database within its five seconds.\<close>

definition attach_metadata :: "time \<Rightarrow> bool \<Rightarrow> int option \<Rightarrow> lua_arg \<Rightarrow> lua_arg \<Rightarrow> lua_arg \<Rightarrow> db \<Rightarrow> lua_answer \<times> db" where
  "attach_metadata now fault ctx a1 a2 a3 d =
     (case ctx of
        None \<Rightarrow> (Answer (VBool False), d)
      | Some tenantID \<Rightarrow>
          (case (check_string a1, check_string a2, opt_string a3 []) of
             (Some emailID, Some key, Some val) \<Rightarrow>
               (case stmt fault (AttachMetadata now tenantID emailID key val) d of
                  (Inl _, d1) \<Rightarrow> (Answer (VBool False), d1)
                | (Inr _, d1) \<Rightarrow> (Answer (VBool True), d1))
           | _ \<Rightarrow> (Raised_error, d)))"

definition query_by_metadata :: "bool \<Rightarrow> int option \<Rightarrow> lua_arg \<Rightarrow> lua_arg \<Rightarrow> lua_options \<Rightarrow> db \<Rightarrow> lua_answer" where
  "query_by_metadata fault ctx a1 a2 opts d =
     (case ctx of
        None \<Rightarrow> Answer (VList [])
      | Some tenantID \<Rightarrow>
          (case (check_string a1, opt_string a2 [], exclude_id opts) of
             (Some key, Some val, Some excludeID) \<Rightarrow>
               if fault then Answer (VList [])
               else Answer (VList (map md_MessageID (QueryByMetadata tenantID key val excludeID d)))
           | _ \<Rightarrow> Raised_error))"

definition remove_metadata :: "bool \<Rightarrow> int option \<Rightarrow> lua_arg \<Rightarrow> lua_arg \<Rightarrow> db \<Rightarrow> lua_answer \<times> db" where
  "remove_metadata fault ctx a1 a2 d =
     (case ctx of
        None \<Rightarrow> (Answer (VBool False), d)
      | Some tenantID \<Rightarrow>
          (case (check_string a1, check_string a2) of
             (Some emailID, Some key) \<Rightarrow>
               (case stmt fault (RemoveMetadata tenantID emailID key) d of
                  (Inl _, d1) \<Rightarrow> (Answer (VBool False), d1)
                | (Inr _, d1) \<Rightarrow> (Answer (VBool True), d1))
           | _ \<Rightarrow> (Raised_error, d)))"

text \<open>The messages that a query without exclusion answers.\<close>

definition tagged :: "int \<Rightarrow> string \<Rightarrow> string \<Rightarrow> db \<Rightarrow> string set" where
  "tagged t key val d = {md_MessageID m | m. m \<in> set (metadata d) \<and> md_TenantID m = t \<and> md_Key m = key \<and> md_Value m = val}"

lemma query_tagged:
  "\<exists>ids. query_by_metadata False (Some t) (L_String key) (L_String val) O_None d = Answer (VList ids) \<and> set ids = tagged t key val d"
  by (auto simp: query_by_metadata_def check_string_def opt_string_def exclude_id_def QueryByMetadata_def tagged_def)

text \<open>
  A tag that was attached is found, a tag that was removed is not, and neither touches what queries of
  other tenants answer.
\<close>

lemma attach_then_tagged:
  assumes "attach_metadata now fault (Some t) (L_String mid) (L_String key) (L_String val) d = (Answer (VBool True), d')"
  shows "mid \<in> tagged t key val d'" and "t' \<noteq> t \<Longrightarrow> tagged t' key' val' d' = tagged t' key' val' d"
proof -
  from assms have "\<exists>m. AttachMetadata now t mid key val d = (Inr m, d')"
    by (auto simp: attach_metadata_def check_string_def opt_string_def stmt_def split: prod.splits sum.splits if_splits)
  then obtain m where op: "AttachMetadata now t mid key val d = (Inr m, d')" by blast
  then have short: "\<not> 255 < char_length key" by (auto simp: AttachMetadata_def Let_def)
  let ?P = "\<lambda>m. md_key m = (t, mid, key)" and ?g = "\<lambda>m. m\<lparr>md_Value := val, md_UpdatedAt := now\<rparr>"
  have "mid \<in> tagged t key val d' \<and> (t' \<noteq> t \<longrightarrow> tagged t' key' val' d' = tagged t' key' val' d)"
  proof (cases "find ?P (metadata d)")
    case None
    with op short have "metadata d' = metadata d @ [m]" and "?P m" and "md_Value m = val"
      by (auto simp: AttachMetadata_def Let_def bump_def split: if_splits)
    then show ?thesis by (auto simp: tagged_def)
  next
    case (Some m0)
    with op short have d': "metadata d' = map (\<lambda>m. if ?P m then ?g m else m) (metadata d)"
      by (auto simp: AttachMetadata_def Let_def bump_def upd_def)
    from Some obtain "m0 \<in> set (metadata d)" and "?P m0" by (auto simp: find_Some_iff dest: nth_mem)
    then have "?g m0 \<in> set (metadata d')" unfolding d' by force
    with \<open>?P m0\<close> have "mid \<in> tagged t key val d'"
      unfolding tagged_def by (intro CollectI exI [of _ "?g m0"]) simp
    moreover have "tagged t' key' val' d' = tagged t' key' val' d" if "t' \<noteq> t"
      using that unfolding tagged_def d' by (auto simp: image_iff split: if_splits)
    ultimately show ?thesis by blast
  qed
  then show "mid \<in> tagged t key val d'" and "t' \<noteq> t \<Longrightarrow> tagged t' key' val' d' = tagged t' key' val' d" by blast+
qed

lemma remove_then_untagged:
  assumes "remove_metadata fault (Some t) (L_String mid) (L_String key) d = (Answer (VBool True), d')"
  shows "mid \<notin> tagged t key val d'" and "t' \<noteq> t \<Longrightarrow> tagged t' key' val' d' = tagged t' key' val' d"
  using assms
  by (auto simp: remove_metadata_def check_string_def stmt_def RemoveMetadata_def Let_def tagged_def split: prod.splits sum.splits if_splits)

subsection \<open>The notification of the notifier\<close>

definition tg_emoji :: "string \<Rightarrow> string" where
  "tg_emoji action =
     (if action = ''delete'' then [CHR 0xF0, CHR 0x9F, CHR 0x97, CHR 0x91]
      else if action = ''move'' then [CHR 0xF0, CHR 0x9F, CHR 0x93, CHR 0x81]
      else if action = ''archive'' then [CHR 0xF0, CHR 0x9F, CHR 0x93, CHR 0xA6]
      else if action = ''keep'' then [CHR 0xF0, CHR 0x9F, CHR 0x93, CHR 0x8C]
      else [CHR 0xF0, CHR 0x9F, CHR 0x93, CHR 0xA7])"

definition tg_NotifyRuleAction :: "env \<Rightarrow> telegram \<Rightarrow> string \<Rightarrow> string \<Rightarrow> string \<Rightarrow> string \<Rightarrow> string \<Rightarrow> unit io" where
  "tg_NotifyRuleAction N t ruleName action subject sender target =
     SendMessage N t
       (tg_emoji action @ '' <b>'' @ action @ ''</b>'' @ nl @ nl
        @ ''<b>Rule:</b> '' @ ruleName @ nl
        @ ''<b>Action:</b> '' @ action @ nl
        @ ''<b>From:</b> '' @ sender @ nl
        @ ''<b>Subject:</b> '' @ subject
        @ (if target \<noteq> [] then nl @ ''<b>Target:</b> '' @ target else []))"

text \<open>It is the notification of the executor, which the services use, except for the sign of \<open>flag\<close>.\<close>

lemma tg_NotifyRuleAction_executor:
  assumes "action \<noteq> ''flag''" and "en_notifier N = Some t"
  shows "tg_NotifyRuleAction N t ruleName action subject sender target = NotifyRuleAction N ruleName action subject sender target"
proof -
  have "tg_emoji action = emoji action" using assms(1) unfolding tg_emoji_def emoji_def by presburger
  then show ?thesis
    using assms(2)
    by (intro ext) (simp add: tg_NotifyRuleAction_def NotifyRuleAction_def rule_action_text_def SendMessage_def io_return_def)
qed

subsection \<open>The search for one message\<close>

text \<open>
  \<open>findMessageInFolders\<close> of the move detector, which the batch search replaced. \<open>search folder mid\<close> answers
  the search for messages of the selected folder whose header \<^verbatim>\<open>Message-ID\<close> matches \<open>mid\<close>.
\<close>

definition no_folder :: folder_info where
  "no_folder = \<lparr>fo_Name = [], fo_Attrs = []\<rparr>"

fun findMessageInFolders :: "mail_server \<Rightarrow> (string \<Rightarrow> string \<Rightarrow> string + uid list) \<Rightarrow> string \<Rightarrow> folder_info list \<Rightarrow> folder_info" where
  "findMessageInFolders S search mid [] = no_folder"
| "findMessageInFolders S search mid (f # fs) =
     (case ms_Select S (fo_Name f) of
        Inl _ \<Rightarrow> findMessageInFolders S search mid fs
      | Inr n \<Rightarrow>
          if n = 0 then findMessageInFolders S search mid fs
          else (case search (fo_Name f) mid of
                  Inl _ \<Rightarrow> findMessageInFolders S search mid fs
                | Inr uids \<Rightarrow> if uids \<noteq> [] then f else findMessageInFolders S search mid fs))"

text \<open>
  A search that answers without error and finds a message exactly when one with this identifier can be
  fetched. (IMAP compares substrings, so no other identifier may contain it.)
\<close>

definition search_law :: "mail_server \<Rightarrow> (string \<Rightarrow> string \<Rightarrow> string + uid list) \<Rightarrow> string \<Rightarrow> bool" where
  "search_law S search mid \<longleftrightarrow>
     (\<forall>f. \<exists>uids. search f mid = Inr uids \<and> (uids \<noteq> [] \<longleftrightarrow> mid \<in> message_ids (ms_FetchAll S f)))"

lemma findMessageInFolders_find:
  assumes "search_law S search mid"
  shows "findMessageInFolders S search mid folders =
    (case find (\<lambda>f. holds_message S f mid) folders of None \<Rightarrow> no_folder | Some f \<Rightarrow> f)"
proof (induction folders)
  case (Cons f fs)
  obtain uids where "search (fo_Name f) mid = Inr uids" "uids \<noteq> [] \<longleftrightarrow> mid \<in> message_ids (ms_FetchAll S (fo_Name f))"
    using assms unfolding search_law_def by blast
  with Cons show ?case by (auto simp: holds_message_def split: sum.split)
qed simp

text \<open>
  The replacement is faithful: looked for one by one, every message is found in the folder in which the
  batch search finds it, whatever else the batch looks for.
\<close>
theorem batch_replaces_single_search:
  assumes "search_law S search mid" and "mid \<in> set ids"
  shows "findMessageInFolders S search mid folders =
    (case map_of (findMessagesInFoldersBatch S ids folders) mid of None \<Rightarrow> no_folder | Some f \<Rightarrow> f)"
  using assms by (simp add: findMessageInFolders_find batch_search)

text \<open>A server with one folder that holds one message.\<close>

definition sample_folder :: folder_info where
  "sample_folder = \<lparr>fo_Name = ''Work'', fo_Attrs = []\<rparr>"

definition sample_server :: mail_server where
  "sample_server = \<lparr>ms_Select = \<lambda>_. Inr 1,
     ms_FetchAll = \<lambda>_. [Inr \<lparr>mb_UID = 1, mb_Envelope = Some \<lparr>nv_Date = 0, nv_Subject = [], nv_From = [], nv_To = [], nv_Cc = [],
       nv_MessageID = ''m1''\<rparr>, mb_InternalDate = 0, mb_BodySection = [], mb_BodyStructure = None\<rparr>]\<rparr>"

theorem batch_replaces_single_search_witness:
  "findMessageInFolders sample_server (\<lambda>_ m. Inr (if m = ''m1'' then [1] else [])) ''m1'' [sample_folder] = sample_folder \<and>
   map_of (findMessagesInFoldersBatch sample_server [''m2'', ''m1''] [sample_folder]) ''m1'' = Some sample_folder"
proof -
  let ?search = "\<lambda>_ m. Inr (if m = ''m1'' then [1] else [])"
  have "search_law sample_server ?search ''m1''" by (simp add: search_law_def sample_server_def message_ids_def)
  from batch_replaces_single_search [OF this, of "[''m2'', ''m1'']" "[sample_folder]"]
  have "findMessageInFolders sample_server ?search ''m1'' [sample_folder] =
      (case map_of (findMessagesInFoldersBatch sample_server [''m2'', ''m1''] [sample_folder]) ''m1'' of None \<Rightarrow> no_folder | Some f \<Rightarrow> f)"
    by simp
  moreover have "findMessageInFolders sample_server ?search ''m1'' [sample_folder] = sample_folder" by (simp add: sample_server_def)
  ultimately show ?thesis by (auto simp: no_folder_def sample_folder_def split: option.splits)
qed

end
