(* ===== verification/Spec2Isabelle.thy ===== *)
theory Spec2Isabelle
  imports Traces Evaluation Programs Uncalled
begin

text \<open>
  Verification of the e-mail automation service.

  \<^bold>\<open>The program.\<close> The service watches mailboxes, evaluates rules written in Lua on every new message
  and carries out what they decide. It runs as four processes that share a PostgreSQL database and a
  NATS event bus: the API server (\<^verbatim>\<open>cmd/api\<close>), the IMAP listener (\<^verbatim>\<open>cmd/imap-listener\<close>), the rules
  engine (\<^verbatim>\<open>cmd/rules-engine\<close>) and the scheduler (\<^verbatim>\<open>cmd/scheduler\<close>); \<^verbatim>\<open>cmd/server\<close> is an older variant in
  one process. The listener publishes an event per new message; the rules engine evaluates the rules of
  the tenant, logs the execution, and executes the action over IMAP or stores a deferred action, which the
  scheduler executes when it is due. Two detectors watch for messages that a person moves to a folder
  and learn rules from them.

  \<^bold>\<open>The theories\<close>, in the order of their imports; file names are below \<^verbatim>\<open>internal/\<close>.

  \<^item> \<open>Prelude\<close>: results, wrap-around of 64-bit integers, durations, tables as lists of rows. \<open>GoStrings\<close>: the
    functions of \<^verbatim>\<open>strings\<close> and \<^verbatim>\<open>strconv\<close> on byte strings. \<open>Models\<close>: the structs of \<^verbatim>\<open>models\<close> and the
    events of \<^verbatim>\<open>nats/nats.go\<close>.
  \<^item> \<open>Crypto\<close>: \<^verbatim>\<open>crypto/crypto.go\<close> with base64 and the versioned ciphertexts; the primitives are the record
    \<open>cipher_suite\<close>.
  \<^item> \<open>Store\<close>, \<open>StoreAuth\<close>: every query and statement of \<^verbatim>\<open>db/db.go\<close> and \<^verbatim>\<open>db/auth.go\<close> as a function on the record
    \<open>db\<close>, with the constraints of the schema. \<open>StoreInv\<close>: the invariant \<open>db_inv\<close> and that each statement
    keeps it. \<open>Secrets\<close>: encryption of stored passwords, key rotation. \<open>Tables\<close>: the database as the state
    machine \<open>db_step\<close>, isolation of tenants, order of rules, the locales \<open>attribute\<close> and \<open>kv_store\<close>.
  \<^item> \<open>Kiro\<close>: the AI client of \<^verbatim>\<open>engine/kiro.go\<close> with its cache. \<open>Engine\<close>: \<^verbatim>\<open>engine/engine.go\<close>; a Lua program is a
    value of the datatype of calls it makes, the interpreter a parameter, and the chain of rules the locale
    \<open>rule_chain\<close>. \<open>Evaluation\<close>: what evaluation can return, and the cache.
  \<^item> \<open>World\<close>: database, IMAP connections and commands, chat messages, event bus and AI client as one state, with
    steps that can fail (\<open>io\<close>) and the locale \<open>io_preorder\<close> of relations that steps keep. \<open>Executor\<close>:
    \<^verbatim>\<open>imapactions/executor.go\<close> and \<^verbatim>\<open>notifier/telegram.go\<close>, with the locale \<open>action_runner\<close> that the clients rely
    on. \<open>Consumer\<close>: \<^verbatim>\<open>rulesengine/consumer.go\<close>. \<open>Delivery\<close>: what a delivery does. \<open>Schedulers\<close>:
    \<^verbatim>\<open>sched/scheduler.go\<close> and \<^verbatim>\<open>scheduler/scheduler.go\<close>. \<open>Traces\<close>: which IMAP commands are sent, by the locale
    \<open>trace_property\<close>. \<open>Samples\<close>: the concrete values of the instances. \<open>Bus\<close>:
    \<^verbatim>\<open>nats/nats.go\<close>: connection, streams, consumers and subscriptions as calls into NATS, and when an event is
    routed.
  \<^item> \<open>Infer\<close>: \<^verbatim>\<open>movedetect/infer.go\<close>. \<open>Mail\<close>: message structures, headers and attachments. \<open>OAuth\<close>:
    \<^verbatim>\<open>oauth2/oauth2.go\<close>. \<open>Workers\<close>: the three worker pools (locale \<open>worker_pool\<close>), connection and token refresh.
    \<open>Folders\<close>: which folders are searched and the batch search. \<open>Listener\<close>: \<^verbatim>\<open>imaplistener\<close>: polling, the IDLE loop,
    sequence numbers, learning. \<open>Detector\<close>: \<^verbatim>\<open>movedetect/movedetect.go\<close>. \<open>Learning\<close>: what both detectors learn.
    \<open>Polling\<close>: what is published. \<open>Legacy\<close>: \<^verbatim>\<open>imap/worker.go\<close>.
  \<^item> \<open>Services\<close>: all background services as one step relation. The locale \<open>servicing\<close> is the contract of a relation that
    every step keeps; its two interpretations show that the services refine the specification \<open>mail_step\<close> and that
    they publish only routed events.
  \<^item> \<open>Web\<close>: requests, responses, \<^verbatim>\<open>auth\<close> and \<^verbatim>\<open>api/middleware/auth.go\<close>. \<open>WebAuth\<close>: the handlers of registration, login,
    TOTP, API keys, tenants and users. \<open>Access\<close>: who gets in. \<open>Passkeys\<close>: \<^verbatim>\<open>auth_passkey.go\<close> and
    \<^verbatim>\<open>auth/webauthn.go\<close>. \<open>WebMail\<close>: the handlers of accounts, exempt folders, metadata, OAuth2 and connection
    tests. \<open>WebRules\<close>: \<^verbatim>\<open>api/handlers/rules.go\<close>. \<open>RuleRuns\<close>: dry runs and executions, with the locale \<open>execution\<close>
    of relations that an execution keeps. \<open>Translate\<close>: \<^verbatim>\<open>api/handlers/kiro.go\<close>. \<open>Config\<close>: \<^verbatim>\<open>config/config.go\<close> and
    the setup of the encryption in \<^verbatim>\<open>cmd/api/main.go\<close>.
  \<^item> \<open>Routes\<close>: the table of routes of \<^verbatim>\<open>api/server.go\<close> as data, in the order of registration, and the way of a request
    through it; the router is the record \<open>fiber\<close>. \<open>Api\<close>: the server, every route with its handler. \<open>Serving\<close>: what
    requests do to the database.
  \<^item> \<open>Migrations\<close>: the migration runner of \<^verbatim>\<open>db/db.go\<close>. \<open>Programs\<close>: the starts of the five programs in \<^verbatim>\<open>cmd\<close>. \<open>Uncalled\<close>:
    \<^verbatim>\<open>engine/metadata.go\<close>, the notification of \<^verbatim>\<open>notifier/telegram.go\<close> and the search for one message of
    \<^verbatim>\<open>movedetect/movedetect.go\<close>, which the program does not call.

  \<^bold>\<open>Conventions.\<close> A Go string is the list of its bytes; an instant is a number of nanoseconds and a handler
  reads the clock once; a \<open>float64\<close> is a rational number; a map that is iterated over is an association list with
  the order of iteration as a parameter. A call that fails is a value of a sum or an option. What the
  database driver, the IMAP server, the Telegram API, the event bus, the AI service, the Lua
  interpreter, the cryptographic primitives, the JWT, bcrypt, TOTP and WebAuthn libraries, the router and
  Unicode tables answer are fields of parameter records; a theorem that relies on documented behaviour of one
  names it as a hypothesis (for example \<open>checks_expiry\<close>, \<open>group_law\<close>, \<open>subject_law\<close>). Every database call can fail to reach the server: the
  services name the place of the call (\<open>site\<close>), the handlers number it. No fuel is used: loops over
  slices are recursions on lists, loops that run until a service is stopped take the list of what happens
  in each pass, and the remaining recursions have termination proofs.

  \<^bold>\<open>What is shown.\<close> Delivery: processed messages are not handled again, the first deciding rule in the order of
  priority wins, only active and approved rules of the tenant act, what is logged, deferred and marked. Schedulers:
  a round settles exactly the due actions; moves by rules are flagged and remembered. Data: invariant of every
  reachable database, isolation of tenants, secrecy and rotation of passwords. Listener and detectors: no message
  is published twice, every new one once; sequence numbers are decoded; a scan records exactly the moves
  that took place; learning only adds, once per sender and folder, and ignores moves by rules. Services: all of
  them together write only what the specification allows and keep what people enter; every event they publish reaches the stream
  of its kind. Starts: each migration is applied once, in order, over any number of interrupted starts, and the API serves only on
  a schema that is up to date. Access: tokens only
  for valid credentials, a limit on guessing, revocation, requests only in their own tenant. API: which endpoints
  are open and which need an administrator; every request, over all 74 routes, keeps the invariant of the
  database, and a request for the data of a tenant leaves all others alone; no answer shows credentials; accounts
  are connected only for who asked; a dry run predicts the execution, which is logged action by
  action; old secrets stay readable over a change of the master key. Several
  theorems show what the code does where it deviates from its documentation or intent, among them the
  public enrollment of passkeys, the lost type of deferred actions, the clear password after a failed
  encryption, the unreachable list of suggested rules, and the forms that wipe credentials and disable rules.

  \<^bold>\<open>Not modelled\<close>: logging, signals and the shutdown of the programs; what belongs to libraries (delivery by NATS, the web
  framework, the connection pool), which are parameters; the texts of the AI prompts, which are parameters too; the
  copies that \<^verbatim>\<open>imap/worker.go\<close> and \<^verbatim>\<open>api/handlers/rules.go\<close> have of the listener's helpers for
  headers, attachments and folders; the TypeScript clients, deployment files and sample rules.
\<close>

end
